(* ===== verification/Epk_Prelude.thy ===== *)
theory Epk_Prelude
  imports Main
begin

text \<open>
  What every component of the development shares: the errors the Python code raises, the
  actions (state passing with exceptions) its functions are translated to, and the few
  text operations of the Python library the sources use on ASCII text.

  An action is a function from the component's state to a result and the next state.  A
  raise keeps the state changes made before it, as in Python: \<open>Inl e\<close> is the exception
  \<open>e\<close>, \<open>Inr x\<close> the value returned.  Bytes and ASCII texts are \<open>string\<close> (a list of 8-bit
  characters).
\<close>

named_theorems act_simps "unfolding rules of the action combinators"
named_theorems text_simps "evaluation rules of the text operations"

section \<open>Errors and results\<close>

text \<open>
  The exception classes that the modelled functions raise or catch (\<open>BadStruct\<close> is \<open>struct.error\<close>).  Classes carry the
  message given at the raise.
\<close>

datatype exn =
    OsUpdateError string
  | TrustError string
  | StorageError string
  | MaintenanceError string
  | CompatibilityError string
  | UpdateError string
  | ConnectionError string
  | ValueError string
  | OSError string
  | KeyError string
  | AttributeError string
  | TypeError string
  | IndexError string
  | BadStruct string
  | TimeoutExpired string
  | SshError string
  | WifiError string
  | PairingError string
  | PortError string
  | ResetError string
  | SystemError string
  | PasswordError string
  | PayloadError string
  | DBusError string
  | Cancelled
  | PowerCut

text \<open>\<open>str(exc)\<close>.  \<open>PowerCut\<close> is no exception of the code: it ends a run between two effects, and no handler answers it.\<close>

fun message :: "exn \<Rightarrow> string" where
  "message (OsUpdateError m) = m"
| "message (TrustError m) = m"
| "message (StorageError m) = m"
| "message (MaintenanceError m) = m"
| "message (CompatibilityError m) = m"
| "message (UpdateError m) = m"
| "message (ConnectionError m) = m"
| "message (ValueError m) = m"
| "message (OSError m) = m"
| "message (KeyError m) = m"
| "message (AttributeError m) = m"
| "message (TypeError m) = m"
| "message (IndexError m) = m"
| "message (BadStruct m) = m"
| "message (TimeoutExpired m) = m"
| "message (SshError m) = m"
| "message (WifiError m) = m"
| "message (PairingError m) = m"
| "message (PortError m) = m"
| "message (ResetError m) = m"
| "message (SystemError m) = m"
| "message (PasswordError m) = m"
| "message (PayloadError m) = m"
| "message (DBusError m) = m"
| "message Cancelled = []"
| "message PowerCut = []"

type_synonym 'a result = "exn + 'a"

definition rbind :: "'a result \<Rightarrow> ('a \<Rightarrow> 'b result) \<Rightarrow> 'b result" where
  "rbind r k = (case r of Inl e \<Rightarrow> Inl e | Inr x \<Rightarrow> k x)"

section \<open>Actions\<close>

type_synonym ('w, 'a) act = "'w \<Rightarrow> 'a result \<times> 'w"

definition ret :: "'a \<Rightarrow> ('w, 'a) act" where
  "ret x = (\<lambda>w. (Inr x, w))"

definition raise :: "exn \<Rightarrow> ('w, 'a) act" where
  "raise e = (\<lambda>w. (Inl e, w))"

definition lift :: "'a result \<Rightarrow> ('w, 'a) act" where
  "lift r = (\<lambda>w. (r, w))"

definition bind :: "('w, 'a) act \<Rightarrow> ('a \<Rightarrow> ('w, 'b) act) \<Rightarrow> ('w, 'b) act" where
  "bind m k = (\<lambda>w. case m w of (Inl e, w') \<Rightarrow> (Inl e, w') | (Inr x, w') \<Rightarrow> k x w')"

text \<open>\<open>andthen m n\<close>: \<open>m\<close> for its effect, then \<open>n\<close>.\<close>

definition andthen :: "('w, 'a) act \<Rightarrow> ('w, 'b) act \<Rightarrow> ('w, 'b) act" where
  "andthen m n = bind m (\<lambda>_. n)"

text \<open>\<open>try_catch m h\<close>: \<open>h\<close> answers the exceptions it knows with an action, the others pass.\<close>

definition try_catch :: "('w, 'a) act \<Rightarrow> (exn \<Rightarrow> ('w, 'a) act option) \<Rightarrow> ('w, 'a) act" where
  "try_catch m h = (\<lambda>w. case m w of
       (Inl e, w') \<Rightarrow> (case h e of None \<Rightarrow> (Inl e, w') | Some a \<Rightarrow> a w')
     | (Inr x, w') \<Rightarrow> (Inr x, w'))"

text \<open>\<open>try_finally m f\<close>: \<open>f\<close> runs whatever \<open>m\<close> does; an exception of \<open>f\<close> replaces the outcome.\<close>

definition try_finally :: "('w, 'a) act \<Rightarrow> ('w, unit) act \<Rightarrow> ('w, 'a) act" where
  "try_finally m f = (\<lambda>w. case m w of (r, w') \<Rightarrow>
     (case f w' of (Inl e, w'') \<Rightarrow> (Inl e, w'') | (Inr _, w'') \<Rightarrow> (r, w'')))"

definition get_state :: "('w, 'w) act" where
  "get_state = (\<lambda>w. (Inr w, w))"

definition modify :: "('w \<Rightarrow> 'w) \<Rightarrow> ('w, unit) act" where
  "modify f = (\<lambda>w. (Inr (), f w))"

lemmas act_defs [act_simps] =
  ret_def raise_def lift_def bind_def andthen_def try_catch_def try_finally_def
  get_state_def modify_def

lemma rbind_simps [simp]:
  "rbind (Inl e) k = Inl e"
  "rbind (Inr x) k = k x"
  by (simp_all add: rbind_def)

lemma rbind_Inr_iff: "rbind r k = Inr y \<longleftrightarrow> (\<exists>x. r = Inr x \<and> k x = Inr y)"
  by (cases r) simp_all

lemma rbind_InrE:
  assumes "rbind r k = Inr y"
  obtains x where "r = Inr x" and "k x = Inr y"
  using assms by (auto simp: rbind_Inr_iff)

lemma bind_InrE:
  assumes "bind m k w = (Inr y, w'')"
  obtains x w' where "m w = (Inr x, w')" and "k x w' = (Inr y, w'')"
  using assms by (auto simp: bind_def split: prod.splits sum.splits)

lemma bind_Inr: "m w = (Inr x, w') \<Longrightarrow> bind m k w = k x w'"
  by (simp add: bind_def)

lemma bind_Inl: "m w = (Inl e, w') \<Longrightarrow> bind m k w = (Inl e, w')"
  by (simp add: bind_def)

lemma andthen_Inr: "m w = (Inr x, w') \<Longrightarrow> andthen m n w = n w'"
  by (simp add: andthen_def bind_def)

text \<open>
  Running an action from a concrete state: \<open>run_simps\<close> with the congruences \<open>run_cong\<close>, which keep \<open>simp\<close> out of what has not
  been reached.
\<close>

lemma run_prims: "ret y w = (Inr y, w)" "raise e w = (Inl e, w)" "get_state v = (Inr v, v)" "modify f w = (Inr (), f w)" "lift r w = (r, w)"
  by (simp_all add: act_defs)

lemma andthen_Inl: "m w = (Inl e, w') \<Longrightarrow> andthen m n w = (Inl e, w')"
  by (simp add: andthen_def bind_def)

lemma run_catch: "m w = (Inr x, w') \<Longrightarrow> try_catch m h w = (Inr x, w')"
  "m w = (Inl e, w') \<Longrightarrow> try_catch m h w = (case h e of None \<Rightarrow> (Inl e, w') | Some a \<Rightarrow> a w')"
  by (simp_all add: act_defs)

lemma bind_cong: "m = m' \<Longrightarrow> bind m k = bind m' k" by simp
lemma andthen_cong: "m = m' \<Longrightarrow> andthen m n = andthen m' n" by simp
lemma catch_cong: "m = m' \<Longrightarrow> try_catch m h = try_catch m' h" by simp

lemmas run_simps = bind_Inr bind_Inl andthen_Inr andthen_Inl run_catch run_prims
lemmas run_cong = bind_cong andthen_cong catch_cong

lemma fst_eq: "fst p = a \<Longrightarrow> p = (a, snd p)"
  by (cases p) simp

lemma bind_assoc_act: "bind (bind m k) l = bind m (\<lambda>x. bind (k x) l)"
  by (rule ext) (simp add: bind_def split: prod.splits sum.splits)

lemma if_Inl_eq_Inr [simp]:
  "(if b then Inl e else r) = Inr x \<longleftrightarrow> \<not> b \<and> r = Inr x"
  by simp

section \<open>Weakest preconditions\<close>

text \<open>
  \<open>wp m Q E w\<close>: run from \<open>w\<close>, the action ends in \<open>Q\<close> with its value or in \<open>E\<close> with its exception.  The
  rules \<open>wp_simps\<close> compute it; an operation with a lemma of its own is used through \<open>wp_use\<close>.
\<close>

definition wp :: "('w, 'a) act \<Rightarrow> ('a \<Rightarrow> 'w \<Rightarrow> bool) \<Rightarrow> (exn \<Rightarrow> 'w \<Rightarrow> bool) \<Rightarrow> 'w \<Rightarrow> bool" where
  "wp m Q E w \<longleftrightarrow> (case m w of (Inl e, w') \<Rightarrow> E e w' | (Inr x, w') \<Rightarrow> Q x w')"

named_theorems wp_simps "computation of weakest preconditions"

lemma wp_ret [wp_simps]: "wp (ret x) Q E = Q x"
  by (simp add: fun_eq_iff wp_def act_defs)

lemma wp_raise [wp_simps]: "wp (raise e) Q E = E e"
  by (simp add: fun_eq_iff wp_def act_defs)

lemma wp_bind [wp_simps]: "wp (bind m k) Q E w = wp m (\<lambda>x. wp (k x) Q E) E w"
  by (simp add: wp_def act_defs split: prod.split sum.split option.split)

lemma wp_andthen [wp_simps]: "wp (andthen m n) Q E w = wp m (\<lambda>_. wp n Q E) E w"
  by (simp add: wp_def act_defs split: prod.split sum.split option.split)

lemma wp_get_state [wp_simps]: "wp get_state Q E w = Q w w"
  by (simp add: wp_def act_defs split: prod.split sum.split option.split)

lemma wp_modify [wp_simps]: "wp (modify f) Q E w = Q () (f w)"
  by (simp add: wp_def act_defs split: prod.split sum.split option.split)

lemma wp_try_catch [wp_simps]: "wp (try_catch m h) Q E w =
   wp m Q (\<lambda>e w'. case h e of None \<Rightarrow> E e w' | Some a \<Rightarrow> wp a Q E w') w"
  by (simp add: wp_def act_defs split: prod.split sum.split option.split)

lemma wp_try_finally [wp_simps]: "wp (try_finally m f) Q E w =
   wp m (\<lambda>x. wp f (\<lambda>_. Q x) E) (\<lambda>e. wp f (\<lambda>_. E e) E) w"
  by (simp add: wp_def act_defs split: prod.split sum.split option.split)

lemma wp_lift [wp_simps]: "wp (lift r) Q E w = (case r of Inl e \<Rightarrow> E e w | Inr x \<Rightarrow> Q x w)"
  by (simp add: wp_def lift_def split: sum.split)

lemma wp_if [wp_simps]: "wp (if c then m else n) Q E w = (if c then wp m Q E w else wp n Q E w)"
  by simp

lemma wp_option [wp_simps]:
  "wp (case v of None \<Rightarrow> m | Some y \<Rightarrow> f y) Q E w = (case v of None \<Rightarrow> wp m Q E w | Some y \<Rightarrow> wp (f y) Q E w)"
  by (simp split: option.split)

lemma wp_prod [wp_simps]: "wp (case p of (a, b) \<Rightarrow> g a b) Q E w = (case p of (a, b) \<Rightarrow> wp (g a b) Q E w)"
  by (simp split: prod.split)

lemma wp_use:
  assumes "wp m Q E w" and "\<And>x w'. Q x w' \<Longrightarrow> Q' x w'" and "\<And>e w'. E e w' \<Longrightarrow> E' e w'"
  shows "wp m Q' E' w"
  using assms by (auto simp: wp_def split: prod.splits sum.splits)

lemma wp_state: "wp m (\<lambda>_. I) (\<lambda>_. I) w \<longleftrightarrow> I (snd (m w))"
  by (auto simp: wp_def split: prod.split sum.split)

lemma wp_conj: "wp m Q E w \<Longrightarrow> wp m Q' E' w \<Longrightarrow> wp m (\<lambda>x w. Q x w \<and> Q' x w) (\<lambda>e w. E e w \<and> E' e w) w"
  by (auto simp: wp_def split: prod.splits sum.splits)

lemma wp_true [simp]: "wp m (\<lambda>_ _. True) (\<lambda>_ _. True) w"
  by (auto simp: wp_def split: prod.split sum.split)

lemma wp_result: "m w = (r, w') \<Longrightarrow> wp m Q E w \<Longrightarrow> (case r of Inl e \<Rightarrow> E e w' | Inr x \<Rightarrow> Q x w')"
  by (auto simp: wp_def split: sum.split)

section \<open>Text\<close>

definition startswith :: "string \<Rightarrow> string \<Rightarrow> bool" where
  "startswith s p \<longleftrightarrow> take (length p) s = p"

definition endswith :: "string \<Rightarrow> string \<Rightarrow> bool" where
  "endswith s p \<longleftrightarrow> startswith (rev s) (rev p)"

definition between :: "char \<Rightarrow> char \<Rightarrow> char \<Rightarrow> bool" where
  "between lo hi c \<longleftrightarrow> (of_char lo :: nat) \<le> of_char c \<and> (of_char c :: nat) \<le> of_char hi"

definition is_digit :: "char \<Rightarrow> bool" where
  "is_digit c \<longleftrightarrow> between CHR ''0'' CHR ''9'' c"

definition is_lower_hex :: "char \<Rightarrow> bool" where
  "is_lower_hex c \<longleftrightarrow> is_digit c \<or> between CHR ''a'' CHR ''f'' c"

definition is_alpha :: "char \<Rightarrow> bool" where
  "is_alpha c \<longleftrightarrow> between CHR ''a'' CHR ''z'' c \<or> between CHR ''A'' CHR ''Z'' c"

definition is_alnum :: "char \<Rightarrow> bool" where
  "is_alnum c \<longleftrightarrow> is_alpha c \<or> is_digit c"

definition printable :: "char \<Rightarrow> bool" where
  "printable c \<longleftrightarrow> (32::nat) \<le> of_char c \<and> (of_char c :: nat) \<le> 126"

text \<open>\<open>re.fullmatch('[0-9a-f]{64}', s)\<close> and the like: a class of characters, an exact length.\<close>

definition hex_of_length :: "nat \<Rightarrow> string \<Rightarrow> bool" where
  "hex_of_length n s \<longleftrightarrow> length s = n \<and> list_all is_lower_hex s"

text \<open>The white space of \<open>str.strip\<close> and \<open>str.split\<close>, and the line boundaries of \<open>str.splitlines\<close>.\<close>

definition is_space :: "char \<Rightarrow> bool" where
  "is_space c \<longleftrightarrow> (of_char c :: nat) \<in> {9, 10, 11, 12, 13, 28, 29, 30, 31, 32, 133, 160}"

definition is_linebreak :: "char \<Rightarrow> bool" where
  "is_linebreak c \<longleftrightarrow> (of_char c :: nat) \<in> {10, 11, 12, 13, 28, 29, 30, 133}"

definition strip :: "string \<Rightarrow> string" where
  "strip s = rev (dropWhile is_space (rev (dropWhile is_space s)))"

text \<open>\<open>str.split()\<close>: the words between runs of white space.\<close>

fun split_ws_acc :: "string \<Rightarrow> string \<Rightarrow> string list" where
  "split_ws_acc acc [] = (if acc = [] then [] else [rev acc])"
| "split_ws_acc acc (c # cs) =
     (if is_space c then (if acc = [] then split_ws_acc [] cs else rev acc # split_ws_acc [] cs)
      else split_ws_acc (c # acc) cs)"

definition split_ws :: "string \<Rightarrow> string list" where
  "split_ws s = split_ws_acc [] s"

text \<open>\<open>str.splitlines()\<close>: no empty line after a final line break; CR LF is one break.\<close>

fun splitlines_acc :: "string \<Rightarrow> string \<Rightarrow> string list" where
  "splitlines_acc acc [] = (if acc = [] then [] else [rev acc])"
| "splitlines_acc acc (c # cs) =
     (if c = CHR 0x0D then
        (case cs of
           d # ds \<Rightarrow> if d = CHR 0x0A then rev acc # splitlines_acc [] ds
                    else rev acc # splitlines_acc [] cs
         | [] \<Rightarrow> [rev acc])
      else if is_linebreak c then rev acc # splitlines_acc [] cs
      else splitlines_acc (c # acc) cs)"

definition splitlines :: "string \<Rightarrow> string list" where
  "splitlines s = splitlines_acc [] s"

text \<open>\<open>str.partition(sep)\<close> for a one-character separator: None when it does not occur.\<close>

fun partition_at :: "char \<Rightarrow> string \<Rightarrow> (string \<times> string) option" where
  "partition_at sep [] = None"
| "partition_at sep (c # cs) =
     (if c = sep then Some ([], cs)
      else map_option (\<lambda>(a, b). (c # a, b)) (partition_at sep cs))"

lemma partition_at_append:
  "sep \<notin> set a \<Longrightarrow> partition_at sep (a @ sep # b) = Some (a, b)"
  by (induction a) auto

lemma partition_at_None: "sep \<notin> set a \<Longrightarrow> partition_at sep a = None"
  by (induction a) auto

lemma partition_at_Some:
  "partition_at sep s = Some (a, b) \<Longrightarrow> s = a @ sep # b \<and> sep \<notin> set a"
  by (induction s arbitrary: a b) (auto split: if_splits)

lemma splitlines_acc_line:
  assumes "\<forall>c\<in>set l. \<not> is_linebreak c"
  shows "splitlines_acc acc (l @ CHR 0x0A # rest) = (rev acc @ l) # splitlines_acc [] rest"
  using assms
proof (induction l arbitrary: acc)
  case Nil
  then show ?case by (simp add: is_linebreak_def)
next
  case (Cons c l)
  then have "\<not> is_linebreak c" by simp
  moreover from this have "c \<noteq> CHR 0x0D" by (auto simp: is_linebreak_def)
  ultimately show ?case using Cons by simp
qed

lemma splitlines_unlines:
  assumes "\<forall>l\<in>set ls. \<forall>c\<in>set l. \<not> is_linebreak c"
  shows "splitlines (concat (map (\<lambda>l. l @ [CHR 0x0A]) ls)) = ls"
  using assms
proof (induction ls)
  case Nil
  then show ?case by (simp add: splitlines_def)
next
  case (Cons l ls)
  then show ?case by (simp add: splitlines_def splitlines_acc_line)
qed

lemma printable_not_linebreak [simp]: "printable c \<Longrightarrow> \<not> is_linebreak c"
  by (auto simp: printable_def is_linebreak_def)

section \<open>Decimal numbers\<close>

text \<open>\<open>str(n)\<close> of a natural number, and \<open>int(s)\<close> of a text of ASCII digits.\<close>

fun dec :: "nat \<Rightarrow> string" where
  "dec n = (if n < 10 then [char_of (48 + n)] else dec (n div 10) @ [char_of (48 + n mod 10)])"

declare dec.simps [simp del]

definition digit_value :: "char \<Rightarrow> nat" where
  "digit_value c = of_char c - 48"

definition undec :: "string \<Rightarrow> nat option" where
  "undec s = (if s \<noteq> [] \<and> list_all is_digit s
     then Some (foldl (\<lambda>n c. n * 10 + digit_value c) 0 s) else None)"

lemma of_char_digit [simp]: "(n::nat) < 10 \<Longrightarrow> (of_char (char_of (48 + n) :: char) :: nat) = 48 + n"
  by simp

lemma is_digit_char_of [simp]: "(n::nat) < 10 \<Longrightarrow> is_digit (char_of (48 + n))"
  by (simp add: is_digit_def between_def)

lemma digit_value_le: "is_digit c \<Longrightarrow> digit_value c \<le> 9"
  by (auto simp: is_digit_def between_def digit_value_def)

lemma dec_digits: "dec n \<noteq> [] \<and> list_all is_digit (dec n)"
proof (induction n rule: dec.induct)
  case (1 n)
  then show ?case by (subst (1 2) dec.simps) auto
qed

lemma foldl_dec: "foldl (\<lambda>n c. n * 10 + digit_value c) 0 (dec n) = n"
proof (induction n rule: dec.induct)
  case (1 n)
  show ?case
  proof (cases "n < 10")
    case True
    then show ?thesis by (subst dec.simps) (simp add: digit_value_def)
  next
    case False
    with 1 show ?thesis by (subst dec.simps) (simp add: digit_value_def)
  qed
qed

lemma undec_dec [simp]: "undec (dec n) = Some n"
  using dec_digits [of n] by (simp add: undec_def foldl_dec)

lemma dec_inject [simp]: "dec m = dec n \<longleftrightarrow> m = n"
  by (metis option.inject undec_dec)

lemma dec_0 [simp]: "dec 0 = ''0''"
  by code_simp

lemma dec_printable: "c \<in> set (dec n) \<Longrightarrow> printable c"
  using dec_digits [of n]
  by (auto simp: list_all_iff is_digit_def between_def printable_def)

lemma dec_neq_Nil [simp]: "dec n \<noteq> []" "[] \<noteq> dec n"
  using dec_digits [of n] by auto

lemma dec_hd_0: "hd (dec n) = CHR ''0'' \<Longrightarrow> n = 0"
proof (induction n rule: dec.induct)
  case (1 n)
  show ?case
  proof (cases "n < 10")
    case True
    with "1.prems" have "(of_char (char_of (48 + n) :: char) :: nat) = of_char CHR ''0''"
      by (subst (asm) dec.simps) simp
    with True show ?thesis by simp
  next
    case False
    with 1 show ?thesis by (subst (asm) (2) dec.simps) (simp add: hd_append)
  qed
qed

lemma startswith_Nil [simp]: "startswith [] (c # p) = False"
  by (simp add: startswith_def)

lemma startswith_Cons [simp]: "startswith (c # s) (d # p) \<longleftrightarrow> c = d \<and> startswith s p"
  by (simp add: startswith_def)

lemma startswith_empty [simp]: "startswith s []"
  by (simp add: startswith_def)

end
