(* ===== verification/Epk_Text.thy ===== *)
theory Epk_Text
  imports Epk_Prelude
begin

text \<open>
  The text operations of Python that the settings parsers use, and the regular expressions of \<open>re\<close>.
  A text is a list of 8-bit characters (Latin-1), and \<open>utf8\<close> is its encoding.  A regular expression
  is matched as \<open>re\<close> does it: the ways to match are tried in order, a greedy repetition
  longest first, a lazy one shortest first, and the first that completes is the match.
\<close>

section \<open>Texts\<close>

definition lstrip :: "string \<Rightarrow> string" where
  "lstrip s = dropWhile is_space s"

definition lower_char :: "char \<Rightarrow> char" where
  "lower_char c = (if between CHR ''A'' CHR ''Z'' c then char_of (of_char c + 32 :: nat) else c)"

definition upper_char :: "char \<Rightarrow> char" where
  "upper_char c = (if between CHR ''a'' CHR ''z'' c then char_of (of_char c - 32 :: nat) else c)"

abbreviation lower :: "string \<Rightarrow> string" where
  "lower \<equiv> map lower_char"

abbreviation upper :: "string \<Rightarrow> string" where
  "upper \<equiv> map upper_char"

text \<open>\<open>s.split(c)\<close>, \<open>s.split(None, n)\<close>, \<open>c.join(parts)\<close> and the replacement of one character.\<close>

fun split_on :: "char \<Rightarrow> string \<Rightarrow> string list" where
  "split_on d [] = [[]]"
| "split_on d (c # cs) = (if c = d then [] # split_on d cs else (case split_on d cs of
     [] \<Rightarrow> [[c]] | p # ps \<Rightarrow> (c # p) # ps))"

fun split_words :: "nat \<Rightarrow> string \<Rightarrow> string list" where
  "split_words 0 s = (case lstrip s of [] \<Rightarrow> [] | t \<Rightarrow> [t])"
| "split_words (Suc n) s = (case lstrip s of [] \<Rightarrow> []
     | t \<Rightarrow> takeWhile (\<lambda>c. \<not> is_space c) t # split_words n (dropWhile (\<lambda>c. \<not> is_space c) t))"

fun join_with :: "char \<Rightarrow> string list \<Rightarrow> string" where
  "join_with d [] = []"
| "join_with d [x] = x"
| "join_with d (x # y # zs) = x @ d # join_with d (y # zs)"

definition replace_char :: "char \<Rightarrow> string \<Rightarrow> string \<Rightarrow> string" where
  "replace_char d t s = concat (map (\<lambda>c. if c = d then t else [c]) s)"

text \<open>The lines of a text file opened for reading: universal newlines, without their ends.\<close>

fun file_lines_acc :: "string \<Rightarrow> string \<Rightarrow> string list" where
  "file_lines_acc acc [] = (if acc = [] then [] else [rev acc])"
| "file_lines_acc acc (c # cs) =
     (if c = CHR 0x0A then rev acc # file_lines_acc [] cs
      else if c = CHR 0x0D then
        (case cs of
           d # ds \<Rightarrow> if d = CHR 0x0A then rev acc # file_lines_acc [] ds else rev acc # file_lines_acc [] cs
         | [] \<Rightarrow> [rev acc])
      else file_lines_acc (c # acc) cs)"

definition file_lines :: "string \<Rightarrow> string list" where
  "file_lines s = file_lines_acc [] s"

definition unlines :: "string list \<Rightarrow> string" where
  "unlines ls = concat (map (\<lambda>l. l @ [CHR 0x0A]) ls)"

definition line_free :: "string \<Rightarrow> bool" where
  "line_free l \<longleftrightarrow> CHR 0x0A \<notin> set l \<and> CHR 0x0D \<notin> set l"

lemma file_lines_acc_line:
  "line_free l \<Longrightarrow> file_lines_acc acc (l @ CHR 0x0A # rest) = (rev acc @ l) # file_lines_acc [] rest"
  by (induction l arbitrary: acc) (auto simp: line_free_def)

lemma file_lines_unlines: "list_all line_free ls \<Longrightarrow> file_lines (unlines ls) = ls"
  by (induction ls) (simp_all add: file_lines_def unlines_def file_lines_acc_line)

lemma file_lines_free_acc: "line_free (rev acc) \<Longrightarrow> list_all line_free (file_lines_acc acc s)"
  by (induction acc s rule: file_lines_acc.induct) (auto simp: line_free_def split: list.splits)

lemma file_lines_free: "list_all line_free (file_lines s)"
  by (simp add: file_lines_def file_lines_free_acc line_free_def)

text \<open>\<open>str.strip\<close>: a stripped text begins and ends with no space.\<close>

definition trimmed :: "string \<Rightarrow> bool" where
  "trimmed s \<longleftrightarrow> s = [] \<or> \<not> is_space (hd s) \<and> \<not> is_space (last s)"

lemma dropWhile_hd: "dropWhile P s = s \<longleftrightarrow> s = [] \<or> \<not> P (hd s)"
  using length_dropWhile_le [of P "tl s"] by (cases s) auto

lemma strip_trimmed: "trimmed s \<Longrightarrow> strip s = s"
proof (cases s)
  case (Cons c t)
  assume "trimmed s"
  with Cons have "dropWhile is_space s = s" "dropWhile is_space (rev s) = rev s"
    unfolding dropWhile_hd by (auto simp: trimmed_def hd_append hd_rev)
  then show ?thesis by (simp add: strip_def)
qed (simp add: strip_def)

lemma hd_dropWhile_rev: "s \<noteq> [] \<Longrightarrow> \<not> P (hd s) \<Longrightarrow> rev (dropWhile P (rev s)) \<noteq> [] \<and> hd (rev (dropWhile P (rev s))) = hd s"
  by (cases s) (auto simp: dropWhile_append3)

lemma trimmed_strip [simp]: "trimmed (strip s)"
proof (cases "dropWhile is_space s = []")
  case True
  then show ?thesis unfolding strip_def trimmed_def by (metis dropWhile.simps(1) rev.simps(1))
next
  case False
  let ?d = "dropWhile is_space s"
  have h: "\<not> is_space (hd ?d)" using False by (rule hd_dropWhile)
  note r = hd_dropWhile_rev [where P = is_space, OF False h]
  then have "dropWhile is_space (rev ?d) \<noteq> []" by auto
  then have "\<not> is_space (hd (dropWhile is_space (rev ?d)))" by (rule hd_dropWhile)
  with r h show ?thesis by (simp add: strip_def trimmed_def last_rev)
qed

lemma set_strip: "set (strip s) \<subseteq> set s"
  unfolding strip_def by (metis set_dropWhileD set_rev subsetI)

lemma line_free_strip: "line_free l \<Longrightarrow> line_free (strip l)"
  using set_strip [of l] by (auto simp: line_free_def)

text \<open>The order of texts, by code points.\<close>

fun text_le :: "string \<Rightarrow> string \<Rightarrow> bool" where
  "text_le [] t = True"
| "text_le (c # s) [] = False"
| "text_le (c # s) (d # t) = ((of_char c :: nat) < of_char d \<or> c = d \<and> text_le s t)"

definition utf8 :: "string \<Rightarrow> string" where
  "utf8 s = concat (map (\<lambda>c. let n = of_char c :: nat in
     if n < 128 then [c] else [char_of (192 + n div 64), char_of (128 + n mod 64)]) s)"

section \<open>Regular expressions\<close>

datatype re =
    Eps
  | Ch "char \<Rightarrow> bool"
  | Cat re re
  | Alt re re
  | Star re
  | Lazy re
  | Grp nat re
  | Ref nat
  | NotBehind "char \<Rightarrow> bool"
  | NotAhead "char \<Rightarrow> bool"
  | LineStart
  | LineEnd
  | TextEnd

text \<open>A place in a text: what was read (reversed), what is left, and the groups read so far.\<close>

record place =
  p_read :: string
  p_left :: string
  p_groups :: "(nat \<times> string) list"

definition eat :: "nat \<Rightarrow> place \<Rightarrow> place" where
  "eat n p = p\<lparr>p_read := rev (take n (p_left p)) @ p_read p, p_left := drop n (p_left p)\<rparr>"

text \<open>The repetitions stop at a round that reads nothing; a text of \<open>n\<close> characters has at most \<open>n\<close> others.\<close>

definition reads_on :: "place \<Rightarrow> place \<Rightarrow> bool" where
  "reads_on p q \<longleftrightarrow> length (p_left q) < length (p_left p)"

primrec greedy :: "(place \<Rightarrow> place list) \<Rightarrow> nat \<Rightarrow> place \<Rightarrow> place list" where
  "greedy m 0 p = [p]"
| "greedy m (Suc n) p = concat (map (greedy m n) (filter (reads_on p) (m p))) @ [p]"

primrec reluctant :: "(place \<Rightarrow> place list) \<Rightarrow> nat \<Rightarrow> place \<Rightarrow> place list" where
  "reluctant m 0 p = [p]"
| "reluctant m (Suc n) p = p # concat (map (reluctant m n) (filter (reads_on p) (m p)))"

definition group_of :: "place \<Rightarrow> nat \<Rightarrow> string" where
  "group_of p i = (case map_of (p_groups p) i of None \<Rightarrow> [] | Some s \<Rightarrow> s)"

primrec matches :: "re \<Rightarrow> place \<Rightarrow> place list" where
  "matches Eps p = [p]"
| "matches (Ch P) p = (case p_left p of [] \<Rightarrow> [] | c # cs \<Rightarrow> if P c then [eat 1 p] else [])"
| "matches (Cat r s) p = concat (map (matches s) (matches r p))"
| "matches (Alt r s) p = matches r p @ matches s p"
| "matches (Star r) p = greedy (matches r) (length (p_left p)) p"
| "matches (Lazy r) p = reluctant (matches r) (length (p_left p)) p"
| "matches (Grp i r) p = map (\<lambda>q. q\<lparr>p_groups := (i, take (length (p_left p) - length (p_left q)) (p_left p)) # p_groups q\<rparr>)
     (matches r p)"
| "matches (Ref i) p = (case map_of (p_groups p) i of None \<Rightarrow> []
     | Some s \<Rightarrow> if startswith (p_left p) s then [eat (length s) p] else [])"
| "matches (NotBehind P) p = (case p_read p of [] \<Rightarrow> [p] | c # cs \<Rightarrow> if P c then [] else [p])"
| "matches (NotAhead P) p = (case p_left p of [] \<Rightarrow> [p] | c # cs \<Rightarrow> if P c then [] else [p])"
| "matches LineStart p = (case p_read p of [] \<Rightarrow> [p] | c # cs \<Rightarrow> if c = CHR 0x0A then [p] else [])"
| "matches LineEnd p = (case p_left p of [] \<Rightarrow> [p] | c # cs \<Rightarrow> if c = CHR 0x0A then [p] else [])"
| "matches TextEnd p = (if p_left p = [] \<or> p_left p = [CHR 0x0A] then [p] else [])"

text \<open>\<open>re.match\<close>, \<open>re.search\<close> and \<open>re.finditer\<close>.\<close>

definition first_match :: "re \<Rightarrow> place \<Rightarrow> place option" where
  "first_match r p = (case matches r p of [] \<Rightarrow> None | q # _ \<Rightarrow> Some q)"

definition at_start :: "string \<Rightarrow> place" where
  "at_start s = \<lparr>p_read = [], p_left = s, p_groups = []\<rparr>"

definition re_match :: "re \<Rightarrow> string \<Rightarrow> place option" where
  "re_match r s = first_match r (at_start s)"

primrec search_within :: "nat \<Rightarrow> re \<Rightarrow> place \<Rightarrow> place option" where
  "search_within 0 r p = first_match r p"
| "search_within (Suc n) r p = (case first_match r p of Some q \<Rightarrow> Some q | None \<Rightarrow> search_within n r (eat 1 p))"

definition re_search :: "re \<Rightarrow> string \<Rightarrow> place option" where
  "re_search r s = search_within (length s) r (at_start s)"

primrec find_within :: "nat \<Rightarrow> re \<Rightarrow> place \<Rightarrow> place list" where
  "find_within 0 r p = (case first_match r p of None \<Rightarrow> [] | Some q \<Rightarrow> [q])"
| "find_within (Suc n) r p = (case first_match r p of
     None \<Rightarrow> if p_left p = [] then [] else find_within n r (eat 1 p)
   | Some q \<Rightarrow> q # find_within n r ((if reads_on p q then q else eat 1 q)\<lparr>p_groups := []\<rparr>))"

definition re_finditer :: "re \<Rightarrow> string \<Rightarrow> place list" where
  "re_finditer r s = find_within (length s) r (at_start s)"

text \<open>Shorthands: a literal, one or more, an optional part, exact and bounded counts, and the end of a word (\<open>\b\<close> after a word character).\<close>

primrec lit :: "string \<Rightarrow> re" where
  "lit [] = Eps"
| "lit (c # cs) = Cat (Ch ((=) c)) (lit cs)"

primrec re_seq :: "re list \<Rightarrow> re" where
  "re_seq [] = Eps"
| "re_seq (r # rs) = Cat r (re_seq rs)"

primrec re_choice :: "re list \<Rightarrow> re" where
  "re_choice [] = Ch (\<lambda>_. False)"
| "re_choice (r # rs) = Alt r (re_choice rs)"

definition re_plus :: "re \<Rightarrow> re" where
  "re_plus r = Cat r (Star r)"

definition re_optional :: "re \<Rightarrow> re" where
  "re_optional r = Alt r Eps"

primrec upto_times :: "nat \<Rightarrow> re \<Rightarrow> re" where
  "upto_times 0 r = Eps"
| "upto_times (Suc n) r = Alt (Cat r (upto_times n r)) Eps"

primrec re_times :: "nat \<Rightarrow> re \<Rightarrow> re" where
  "re_times 0 r = Eps"
| "re_times (Suc n) r = Cat r (re_times n r)"

abbreviation spaces :: re where
  "spaces \<equiv> Star (Ch is_space)"

definition word_char :: "char \<Rightarrow> bool" where
  "word_char c \<longleftrightarrow> is_alnum c \<or> c = CHR ''_'' \<or> (of_char c :: nat) \<in> {170, 178, 179, 181, 185, 186, 188, 189, 190}
     \<or> 192 \<le> (of_char c :: nat) \<and> (of_char c :: nat) \<notin> {215, 247}"

abbreviation word_end :: re where
  "word_end \<equiv> NotAhead word_char"

text \<open>A match only moves forward over the text it was given.\<close>

definition along :: "place \<Rightarrow> place \<Rightarrow> bool" where
  "along p q \<longleftrightarrow> rev (p_read p) @ p_left p = rev (p_read q) @ p_left q \<and> length (p_left q) \<le> length (p_left p)"

lemma along_refl [simp]: "along p p"
  by (simp add: along_def)

lemma along_trans: "along p q \<Longrightarrow> along q r \<Longrightarrow> along p r"
  by (simp add: along_def)

lemma along_eat [simp]: "along p (eat n p)"
  by (simp add: along_def eat_def)

lemma along_greedy: "(\<And>p q. q \<in> set (m p) \<Longrightarrow> along p q) \<Longrightarrow> q \<in> set (greedy m n p) \<Longrightarrow> along p q"
  by (induction n arbitrary: p) (auto intro: along_trans)

lemma along_reluctant: "(\<And>p q. q \<in> set (m p) \<Longrightarrow> along p q) \<Longrightarrow> q \<in> set (reluctant m n p) \<Longrightarrow> along p q"
  by (induction n arbitrary: p) (auto intro: along_trans)

lemma matches_along: "q \<in> set (matches r p) \<Longrightarrow> along p q"
proof (induction r arbitrary: p q)
  case (Cat r s)
  then show ?case by simp (metis along_trans)
next
  case (Star r)
  then show ?case by (auto intro: along_greedy [of "matches r"])
next
  case (Lazy r)
  then show ?case by (auto intro: along_reluctant [of "matches r"])
next
  case (Grp i r)
  then show ?case by (force simp: along_def)
qed (auto split: list.splits if_splits option.splits)

lemma re_match_along: "re_match r s = Some q \<Longrightarrow> rev (p_read q) @ p_left q = s"
  using matches_along [of q r "at_start s"]
  by (auto simp: re_match_def first_match_def along_def at_start_def split: list.splits)

end
