(* ===== verification/Epk_Env.thy ===== *)
theory Epk_Env
  imports Epk_Prelude "HOL-Library.Word"
begin

text \<open>
  The guard over the redundant U-Boot environment, \<open>platform-env/epk_env.c\<close>: the common
  core of the loader's \<open>saveenv\<close> and of \<open>fw_setenv\<close>.  The environment is kept in two copies.
  A copy here is either torn (its CRC does not match: \<open>crc_valid\<close> is false) or a flag byte
  with the list of entries its bytes hold, in their order; \<open>Epk_Seed\<close> has the bytes (CRC, NUL
  separators) and shows that they and the entries determine each other.

  The theory models parsing, selection between the copies, the build of the next record and
  the two writes of a commit, each of which can fail or be cut and leave its copy torn, old
  or new.  It proves the contract of the interface \<open>env_store\<close>, which the trust state and the
  activation of an update rely on: an acknowledged batch reads back, a cut batch leaves the old or the
  new environment whole, and the confirmed floor never goes down.
\<close>

section \<open>Entries\<close>

datatype env_error = EnvInvalid | EnvConflict | EnvIo | EnvCapacity | EnvOverflow

type_synonym entries = "(string \<times> string) list"

datatype copy = Torn | Copy (flag: "8 word") (content: entries)

definition data_size :: nat where "data_size = 16384 - 5"
definition env_headroom :: nat where "env_headroom = 2048"
definition max_entries :: nat where "max_entries = 256"
definition max_updates :: nat where "max_updates = 64"
definition uint64_max :: nat where "uint64_max = 2 ^ 64 - 1"

text \<open>A parsed record with its scalars (\<open>struct view\<close>).\<close>

record view =
  v_entries :: entries
  v_used :: nat
  v_generation :: nat
  v_floor :: nat
  v_epoch :: nat

definition is_name_char :: "char \<Rightarrow> bool" where
  "is_name_char c \<longleftrightarrow> is_alnum c \<or> c \<in> {CHR ''_'', CHR ''.'', CHR ''-'', CHR ''#''}"

definition critical :: "string \<Rightarrow> bool" where
  "critical name \<longleftrightarrow> startswith name ''epk_''"

definition same_critical :: "entries \<Rightarrow> entries \<Rightarrow> bool" where
  "same_critical a b \<longleftrightarrow>
     (\<forall>(n, v)\<in>set a. critical n \<longrightarrow> map_of b n = Some v) \<and>
     (\<forall>(n, v)\<in>set b. critical n \<longrightarrow> map_of a n \<noteq> None)"

text \<open>\<open>decimal\<close>: canonical decimal text of an unsigned 64-bit number, with the overflow test of the loop.\<close>

fun decimal_from :: "nat \<Rightarrow> string \<Rightarrow> nat option" where
  "decimal_from n [] = Some n"
| "decimal_from n (c # cs) =
     (if \<not> is_digit c \<or> (uint64_max - digit_value c) div 10 < n then None
      else decimal_from (n * 10 + digit_value c) cs)"

definition decimal :: "string option \<Rightarrow> nat option" where
  "decimal t = (case t of
       None \<Rightarrow> None
     | Some s \<Rightarrow> if s = [] \<or> (hd s = CHR ''0'' \<and> length s > 1) then None else decimal_from 0 s)"

definition b64_digit :: "char \<Rightarrow> nat option" where
  "b64_digit c =
     (if between CHR ''A'' CHR ''Z'' c then Some (of_char c - 65)
      else if between CHR ''a'' CHR ''z'' c then Some (of_char c - 97 + 26)
      else if is_digit c then Some (of_char c - 48 + 52)
      else if c = CHR ''+'' then Some 62
      else if c = CHR ''/'' then Some 63
      else None)"

definition b64_low :: "nat \<Rightarrow> char \<Rightarrow> bool" where
  "b64_low m c \<longleftrightarrow> (case b64_digit c of None \<Rightarrow> True | Some d \<Rightarrow> d mod m \<noteq> 0)"

text \<open>\<open>b64_size\<close>: the number of bytes a canonical padded base64 text stands for, 0 when it is none.\<close>

definition b64_size :: "string option \<Rightarrow> nat" where
  "b64_size t = (case t of
       None \<Rightarrow> 0
     | Some s \<Rightarrow>
       (let len = length s;
            padding = (if len > 0 \<and> s ! (len - 1) = CHR ''='' then 1 else 0) +
                      (if len > 1 \<and> s ! (len - 2) = CHR ''='' then 1 else 0)
        in if len = 0 \<or> len mod 4 \<noteq> 0 then 0
           else if list_ex (\<lambda>c. b64_digit c = None) (take (len - padding) s) then 0
           else if padding = 2 \<and> b64_low 16 (s ! (len - 3)) \<or> padding = 1 \<and> b64_low 4 (s ! (len - 2)) then 0
           else len div 4 * 3 - padding))"

definition entry_bytes :: "entries \<Rightarrow> nat" where
  "entry_bytes es = sum_list (map (\<lambda>(n, v). length n + length v + 2) es)"

definition entry_ok :: "string \<times> string \<Rightarrow> bool" where
  "entry_ok e \<longleftrightarrow> fst e \<noteq> [] \<and> list_all is_name_char (fst e) \<and> list_all printable (snd e)"

text \<open>
  \<open>parse\<close>.  The scan refuses a malformed, duplicate or surplus entry and a record without
  room for the final NUL, all with \<open>EPK_ENV_INVALID\<close>; the headroom comes after the scan.
\<close>

definition parse :: "entries \<Rightarrow> env_error + view" where
  "parse es =
     (if es = [] \<or> length es > max_entries \<or> \<not> list_all entry_ok es \<or> \<not> distinct (map fst es)
         \<or> entry_bytes es \<ge> data_size then Inl EnvInvalid
      else if data_size - (entry_bytes es + 1) < env_headroom then Inl EnvCapacity
      else if map_of es ''epk_state_schema'' \<noteq> Some ''1'' then Inl EnvInvalid
      else case (decimal (map_of es ''epk_state_generation''), decimal (map_of es ''epk_os_floor''),
                 decimal (map_of es ''epk_trust_epoch'')) of
        (Some g, Some f, Some e) \<Rightarrow>
          (let policy = b64_size (map_of es ''epk_trust_policy'')
           in if policy = 0 \<or> policy > 6144 \<or> b64_size (map_of es ''epk_trust_policy_sig'') \<noteq> 64
              then Inl EnvInvalid
              else Inr \<lparr>v_entries = es, v_used = entry_bytes es + 1, v_generation = g, v_floor = f, v_epoch = e\<rparr>)
      | _ \<Rightarrow> Inl EnvInvalid)"

definition not_older :: "view \<Rightarrow> view \<Rightarrow> bool" where
  "not_older newer older \<longleftrightarrow>
     v_floor older \<le> v_floor newer \<and> v_epoch older \<le> v_epoch newer \<and>
     (v_epoch newer = v_epoch older \<longrightarrow>
        map_of (v_entries newer) ''epk_trust_policy'' = map_of (v_entries older) ''epk_trust_policy'' \<and>
        map_of (v_entries newer) ''epk_trust_policy_sig'' = map_of (v_entries older) ''epk_trust_policy_sig'')"

section \<open>Selection between the two copies\<close>

datatype which = First | Second

record store =
  copy_a :: copy
  copy_b :: copy

fun copy_at :: "which \<Rightarrow> store \<Rightarrow> copy" where
  "copy_at First s = copy_a s"
| "copy_at Second s = copy_b s"

fun put_copy :: "which \<Rightarrow> copy \<Rightarrow> store \<Rightarrow> store" where
  "put_copy First c s = s\<lparr>copy_a := c\<rparr>"
| "put_copy Second c s = s\<lparr>copy_b := c\<rparr>"

fun other_copy :: "which \<Rightarrow> which" where
  "other_copy First = Second"
| "other_copy Second = First"

fun parse_valid :: "copy \<Rightarrow> env_error + view option" where
  "parse_valid Torn = Inr None"
| "parse_valid (Copy f es) = (case parse es of Inl e \<Rightarrow> Inl e | Inr v \<Rightarrow> Inr (Some v))"

text \<open>The incremental active flag of two copies of one generation, including 255 to 0.\<close>

definition newer_flag :: "8 word \<Rightarrow> 8 word \<Rightarrow> which" where
  "newer_flag a b =
     (if a = 255 \<and> b = 0 then Second else if a = 0 \<and> b = 255 then First
      else if a < b then Second else First)"

definition choose_copy :: "copy \<Rightarrow> copy \<Rightarrow> view \<Rightarrow> view \<Rightarrow> env_error + (which \<times> view)" where
  "choose_copy a b x y =
     (if v_generation x \<noteq> v_generation y then
        (if v_generation x < v_generation y
         then (if not_older y x then Inr (Second, y) else Inl EnvConflict)
         else (if not_older x y then Inr (First, x) else Inl EnvConflict))
      else if \<not> same_critical (v_entries x) (v_entries y) then Inl EnvConflict
      else (case newer_flag (flag a) (flag b) of First \<Rightarrow> Inr (First, x) | Second \<Rightarrow> Inr (Second, y)))"

definition select :: "store \<Rightarrow> env_error + (which \<times> view)" where
  "select s = (case parse_valid (copy_a s) of
       Inl e \<Rightarrow> Inl e
     | Inr va \<Rightarrow> (case parse_valid (copy_b s) of
         Inl e \<Rightarrow> Inl e
       | Inr vb \<Rightarrow> (case (va, vb) of
           (None, None) \<Rightarrow> Inl EnvInvalid
         | (Some x, None) \<Rightarrow> Inr (First, x)
         | (None, Some y) \<Rightarrow> Inr (Second, y)
         | (Some x, Some y) \<Rightarrow> choose_copy (copy_a s) (copy_b s) x y)))"

section \<open>Building the next record\<close>

type_synonym updates = "(string \<times> string option) list"

definition changed_critical :: "entries \<Rightarrow> updates \<Rightarrow> bool" where
  "changed_critical es us \<longleftrightarrow> (\<exists>(n, v)\<in>set us. critical n \<and> map_of es n \<noteq> v)"

definition updates_ok :: "updates \<Rightarrow> bool" where
  "updates_ok us \<longleftrightarrow> (\<forall>(n, v)\<in>set us. n \<noteq> [] \<and> n \<noteq> ''epk_state_generation'') \<and> distinct (map fst us)"

text \<open>The value an old entry gets: the generation is always the computed one.\<close>

definition new_value :: "string \<Rightarrow> updates \<Rightarrow> string \<times> string \<Rightarrow> string option" where
  "new_value generation us e =
     (if fst e = ''epk_state_generation'' then Some generation
      else case map_of us (fst e) of None \<Rightarrow> Some (snd e) | Some v \<Rightarrow> v)"

definition kept_entries :: "string \<Rightarrow> updates \<Rightarrow> entries \<Rightarrow> entries" where
  "kept_entries generation us es =
     List.map_filter (\<lambda>e. map_option (\<lambda>v. (fst e, v)) (new_value generation us e)) es"

definition added_entries :: "updates \<Rightarrow> entries \<Rightarrow> entries" where
  "added_entries us es =
     List.map_filter (\<lambda>u. if map_of es (fst u) = None then map_option (\<lambda>v. (fst u, v)) (snd u) else None) us"

text \<open>\<open>append\<close>, entry by entry, from the bytes already used.\<close>

fun append_entries :: "nat \<Rightarrow> entries \<Rightarrow> env_error + nat" where
  "append_entries used [] = Inr used"
| "append_entries used ((n, v) # es) =
     (if length n + length v + 3 > data_size - used then Inl EnvCapacity
      else append_entries (used + length n + length v + 2) es)"

definition build :: "entries \<Rightarrow> updates \<Rightarrow> env_error + view" where
  "build source us = (case parse source of
       Inl e \<Rightarrow> Inl e
     | Inr old \<Rightarrow>
       if \<not> updates_ok us then Inl EnvInvalid
       else if changed_critical source us \<and> v_generation old = uint64_max then Inl EnvOverflow
       else let generation = dec (v_generation old + of_bool (changed_critical source us));
                out = kept_entries generation us source @ added_entries us source
            in case append_entries 0 out of
                 Inl e \<Rightarrow> Inl e
               | Inr _ \<Rightarrow> (case parse out of
                   Inl e \<Rightarrow> Inl e
                 | Inr new \<Rightarrow> if not_older new old then Inr new else Inl EnvConflict))"

section \<open>The commit\<close>

text \<open>
  One record transfer: it succeeds and reads back, or it fails.  A failed transfer (an
  error, a power cut, a read-back that differs) leaves that copy as it was, torn, or holding
  the new record without its acknowledgement.
\<close>

datatype write_outcome = Written | Untouched | TornWrite | Unacknowledged

fun landed :: "write_outcome \<Rightarrow> copy \<Rightarrow> copy \<Rightarrow> copy" where
  "landed Written before after = after"
| "landed Untouched before after = before"
| "landed TornWrite before after = Torn"
| "landed Unacknowledged before after = after"

definition write_copy :: "write_outcome \<Rightarrow> which \<Rightarrow> copy \<Rightarrow> store \<Rightarrow> store" where
  "write_copy w i c s = put_copy i (landed w (copy_at i s) c) s"

text \<open>
  \<open>epk_env_commit\<close>: the copy that was not selected is written first, and the selected one
  only when that succeeded; both are always written.
\<close>

definition commit :: "write_outcome \<Rightarrow> write_outcome \<Rightarrow> updates \<Rightarrow> store \<Rightarrow> (env_error + view) \<times> store" where
  "commit w1 w2 us s =
     (if length us > max_updates then (Inl EnvInvalid, s)
      else case select s of
        Inl e \<Rightarrow> (Inl e, s)
      | Inr (i, old) \<Rightarrow>
        (case build (content (copy_at i s)) us of
           Inl e \<Rightarrow> (Inl e, s)
         | Inr new \<Rightarrow>
           (let f = flag (copy_at i s);
                s1 = write_copy w1 (other_copy i) (Copy (f + 1) (v_entries new)) s
            in if w1 \<noteq> Written then (Inl EnvIo, s1)
               else let s2 = write_copy w2 i (Copy (f + 2) (v_entries new)) s1
                    in if w2 \<noteq> Written then (Inl EnvIo, s2)
                       else (case select s2 of Inl e \<Rightarrow> (Inl e, s2) | Inr (_, v) \<Rightarrow> (Inr v, s2)))))"

text \<open>What a batch does to the environment, but for the generation, which the guard computes.\<close>

definition apply_updates :: "updates \<Rightarrow> (string \<rightharpoonup> string) \<Rightarrow> (string \<rightharpoonup> string)" where
  "apply_updates us m = (\<lambda>n. case map_of us n of None \<Rightarrow> m n | Some v \<Rightarrow> v)"

section \<open>The commit of a snapshot\<close>

text \<open>
  \<open>epk_env_commit_snapshot\<close> takes a whole environment and commits what it changes: the batch is the
  difference, an entry that is gone is deleted, and the generation must still be the one it was made from.  The
  names of the batch are copied to a buffer of one record.
\<close>

definition snapshot_diff :: "entries \<Rightarrow> entries \<Rightarrow> updates" where
  "snapshot_diff old desired =
     map (\<lambda>(n, v). (n, map_of desired n)) (filter (\<lambda>(n, v). map_of desired n \<noteq> Some v) old) @
     map (\<lambda>(n, v). (n, Some v)) (filter (\<lambda>(n, v). map_of old n = None) desired)"

definition diff_fits :: "updates \<Rightarrow> bool" where
  "diff_fits us \<longleftrightarrow> length us \<le> max_updates \<and> sum_list (map (\<lambda>u. length (fst u) + 1) us) \<le> 16384"

definition commit_snapshot :: "write_outcome \<Rightarrow> write_outcome \<Rightarrow> copy \<Rightarrow> store \<Rightarrow> (env_error + view) \<times> store" where
  "commit_snapshot w1 w2 desired s = (case desired of
       Torn \<Rightarrow> (Inl EnvInvalid, s)
     | Copy _ es \<Rightarrow> (case parse es of
         Inl e \<Rightarrow> (Inl e, s)
       | Inr new \<Rightarrow> (case select s of
           Inl e \<Rightarrow> (Inl e, s)
         | Inr (i, old) \<Rightarrow>
           if v_generation new \<noteq> v_generation old then (Inl EnvConflict, s)
           else let us = snapshot_diff (v_entries old) es
                in if \<not> diff_fits us then (Inl EnvCapacity, s) else commit w1 w2 us s)))"

section \<open>Lemmas on parsing and building\<close>

declare map_of_eq_Some_iff [simp del] Some_eq_map_of_iff [simp del]

lemma decimal_from_dec:
  "n < 2 ^ 64 \<Longrightarrow> decimal_from 0 (dec n) = Some n"
proof -
  have step: "decimal_from m (ds @ [c]) = (case decimal_from m ds of None \<Rightarrow> None | Some k \<Rightarrow> decimal_from k [c])"
    for m ds c by (induction ds arbitrary: m) auto
  show "n < 2 ^ 64 \<Longrightarrow> decimal_from 0 (dec n) = Some n"
  proof (induction n rule: dec.induct)
    case (1 n)
    show ?case
    proof (cases "n < 10")
      case True
      then show ?thesis by (subst dec.simps) (simp add: digit_value_def)
    next
      case False
      have "n - n mod 10 \<le> uint64_max - n mod 10"
        using "1.prems" by (simp add: uint64_max_def)
      then have "(n - n mod 10) div 10 \<le> (uint64_max - n mod 10) div 10"
        by (rule div_le_mono)
      then have "n div 10 \<le> (uint64_max - n mod 10) div 10"
        by (simp add: minus_mod_eq_mult_div)
      with False 1 show ?thesis
        by (subst dec.simps) (simp add: step digit_value_def)
    qed
  qed
qed

lemma decimal_dec: "n \<le> uint64_max \<Longrightarrow> decimal (Some (dec n)) = Some n"
proof -
  assume n: "n \<le> uint64_max"
  have "hd (dec n) = CHR ''0'' \<longrightarrow> length (dec n) = 1"
  proof (induction n rule: dec.induct)
    case (1 n)
    show ?case
    proof (cases "n < 10")
      case False
      have "hd (dec (n div 10)) = CHR ''0'' \<Longrightarrow> n div 10 = 0"
        using 1 False foldl_dec [of "n div 10"]
        by (cases "dec (n div 10)") (auto simp: digit_value_def)
      with False show ?thesis by (subst (1 2) dec.simps) (auto simp: hd_append)
    qed (subst (1 2) dec.simps, simp)
  qed
  moreover have "decimal_from 0 (dec n) = Some n"
    using n by (intro decimal_from_dec) (simp add: uint64_max_def)
  ultimately show ?thesis by (auto simp: decimal_def)
qed

lemma parse_Inr:
  assumes "parse es = Inr v"
  shows "v_entries v = es" and "list_all entry_ok es" and "distinct (map fst es)"
    and "decimal (map_of es ''epk_state_generation'') = Some (v_generation v)"
    and "decimal (map_of es ''epk_os_floor'') = Some (v_floor v)"
    and "decimal (map_of es ''epk_trust_epoch'') = Some (v_epoch v)"
  using assms by (auto simp: parse_def Let_def split: if_splits option.splits)

lemma not_older_refl [simp]: "not_older v v"
  by (simp add: not_older_def)

lemma map_of_kept:
  "distinct (map fst es) \<Longrightarrow>
   map_of (kept_entries g us es) n =
     (case map_of es n of None \<Rightarrow> None | Some v \<Rightarrow> new_value g us (n, v))"
proof (induction es)
  case Nil
  then show ?case by (simp add: kept_entries_def map_filter_def)
next
  case (Cons e es)
  have fresh: "map_of es (fst e) = None"
    using Cons.prems by (simp add: map_of_eq_None_iff)
  have rec: "map_of (kept_entries g us es) n =
      (case map_of es n of None \<Rightarrow> None | Some v \<Rightarrow> new_value g us (n, v))"
    using Cons by simp
  have unfold: "kept_entries g us (e # es) =
      (case new_value g us e of None \<Rightarrow> kept_entries g us es | Some v \<Rightarrow> (fst e, v) # kept_entries g us es)"
    by (simp add: kept_entries_def map_filter_def split: option.split)
  obtain a b where e: "e = (a, b)" by (cases e)
  show ?case
    unfolding unfold using fresh rec by (auto simp: e split: option.splits)
qed

lemma map_of_added:
  "distinct (map fst us) \<Longrightarrow>
   map_of (added_entries us es) n =
     (if map_of es n = None then (case map_of us n of None \<Rightarrow> None | Some v \<Rightarrow> v) else None)"
proof (induction us)
  case Nil
  then show ?case by (simp add: added_entries_def map_filter_def)
next
  case (Cons u us)
  have fresh: "map_of us (fst u) = None"
    using Cons.prems by (simp add: map_of_eq_None_iff)
  have rec: "map_of (added_entries us es) n =
      (if map_of es n = None then (case map_of us n of None \<Rightarrow> None | Some v \<Rightarrow> v) else None)"
    using Cons by simp
  have unfold: "added_entries (u # us) es =
      (if map_of es (fst u) = None \<and> snd u \<noteq> None then (fst u, the (snd u)) # added_entries us es
       else added_entries us es)"
    by (auto simp: added_entries_def map_filter_def)
  obtain a b where u: "u = (a, b)" by (cases u)
  show ?case
    unfolding unfold using fresh rec by (auto simp: u split: option.splits)
qed

lemma build_InrE:
  assumes "build es us = Inr new"
  obtains old where "parse es = Inr old" and "parse (v_entries new) = Inr new"
    and "not_older new old" and "updates_ok us"
    and "v_entries new = kept_entries (dec (v_generation old + of_bool (changed_critical es us))) us es
           @ added_entries us es"
    and "changed_critical es us \<longrightarrow> v_generation old \<noteq> uint64_max"
proof -
  from assms obtain old where old: "parse es = Inr old"
    by (auto simp: build_def split: sum.splits)
  define out where "out = kept_entries (dec (v_generation old + of_bool (changed_critical es us))) us es
           @ added_entries us es"
  from assms old have ok: "updates_ok us" "changed_critical es us \<longrightarrow> v_generation old \<noteq> uint64_max"
    by (auto simp: build_def split: if_splits)
  from assms old ok have new: "parse out = Inr new" "not_older new old"
    unfolding build_def out_def [symmetric] Let_def
    by (auto simp: out_def [symmetric] split: sum.splits if_splits)
  from new(1) have "v_entries new = out" by (rule parse_Inr)
  with that [OF old] new ok show ?thesis by (simp add: out_def)
qed

lemma build_lookup:
  assumes "build es us = Inr new" and "n \<noteq> ''epk_state_generation''"
  shows "map_of (v_entries new) n = apply_updates us (map_of es) n"
  using assms(1)
proof (rule build_InrE)
  fix old
  assume old: "parse es = Inr old" and ok: "updates_ok us"
    and new: "v_entries new = kept_entries (dec (v_generation old + of_bool (changed_critical es us))) us es
           @ added_entries us es"
  have "distinct (map fst es)" using old by (rule parse_Inr)
  moreover have "distinct (map fst us)" using ok by (simp add: updates_ok_def)
  ultimately show ?thesis
    using assms(2)
    by (cases "map_of es n"; cases "map_of us n")
      (simp_all add: new map_add_def map_of_kept map_of_added new_value_def
        apply_updates_def split: option.split)
qed

lemma build_generation:
  assumes "build es us = Inr new" and "parse es = Inr old"
  shows "v_generation new = v_generation old + of_bool (changed_critical es us)"
  using assms(1)
proof (rule build_InrE)
  fix old'
  let ?g = "v_generation old + of_bool (changed_critical es us)"
  assume "parse es = Inr old'" and ok: "updates_ok us" and pnew: "parse (v_entries new) = Inr new"
    and new: "v_entries new = kept_entries (dec (v_generation old' + of_bool (changed_critical es us))) us es
           @ added_entries us es"
    and lim: "changed_critical es us \<longrightarrow> v_generation old' \<noteq> uint64_max"
  with assms(2) have [simp]: "old' = old" by simp
  have dist: "distinct (map fst es)" using assms(2) by (rule parse_Inr)
  have old_g: "decimal (map_of es ''epk_state_generation'') = Some (v_generation old)"
    using assms(2) by (rule parse_Inr)
  then obtain t where t: "map_of es ''epk_state_generation'' = Some t"
    by (cases "map_of es ''epk_state_generation''") (auto simp: decimal_def)
  have "map_of (v_entries new) ''epk_state_generation'' = Some (dec ?g)"
    using t dist by (simp add: new map_of_append map_add_def map_of_kept new_value_def)
  moreover have "?g \<le> uint64_max"
  proof -
    have bound: "decimal_from m s = Some k \<Longrightarrow> m \<le> uint64_max \<Longrightarrow> k \<le> uint64_max" for m s k
    proof (induction s arbitrary: m)
      case (Cons c s)
      from Cons.prems have "m \<le> (uint64_max - digit_value c) div 10"
        and rest: "decimal_from (m * 10 + digit_value c) s = Some k" and "is_digit c"
        by (auto split: if_splits)
      moreover from this have "digit_value c \<le> 9"
        by (simp add: digit_value_le)
      ultimately have "m * 10 + digit_value c \<le> uint64_max"
        by (simp add: uint64_max_def)
      with rest show ?case by (rule Cons.IH)
    qed simp
    have "v_generation old \<le> uint64_max"
      using old_g t bound [of 0 t] by (auto simp: decimal_def split: if_splits)
    with lim show ?thesis by auto
  qed
  ultimately have "decimal (map_of (v_entries new) ''epk_state_generation'') = Some ?g"
    by (simp add: decimal_dec)
  with parse_Inr(4) [OF pnew] show ?thesis by simp
qed

section \<open>Lemmas on selection and commit\<close>

lemma decimal_unique: "decimal (Some t) = Some n \<Longrightarrow> t = dec n"
proof (induction t arbitrary: n rule: rev_induct)
  case Nil
  then show ?case by (simp add: decimal_def)
next
  case (snoc c t)
  have step: "decimal_from m (ds @ [d]) = (case decimal_from m ds of None \<Rightarrow> None | Some k \<Rightarrow> decimal_from k [d])"
    for m ds d by (induction ds arbitrary: m) auto
  from snoc.prems obtain m where m: "decimal_from 0 t = Some m"
    and c: "is_digit c" and n: "n = m * 10 + digit_value c"
    by (auto simp: decimal_def step split: if_splits option.splits)
  have dc: "digit_value c < 10" using digit_value_le [OF c] by simp
  have chr: "char_of (48 + digit_value c) = c"
    using c by (simp add: digit_value_def is_digit_def between_def)
  show ?case
  proof (cases "t = []")
    case True
    with m have "m = 0" by simp
    with True n dc chr show ?thesis by (subst dec.simps) simp
  next
    case False
    with snoc.prems have hd: "hd t \<noteq> CHR ''0''"
      by (auto simp: decimal_def split: if_splits)
    with False m have "decimal (Some t) = Some m" by (simp add: decimal_def)
    then have t: "t = dec m" by (rule snoc.IH)
    have "m \<noteq> 0" using t hd by (cases "m = 0") auto
    with n dc chr t show ?thesis by (subst dec.simps) simp
  qed
qed

lemma select_chosen:
  assumes "select s = Inr (i, old)"
  obtains f es where "copy_at i s = Copy f es" and "parse es = Inr old"
proof (cases "copy_at i s")
  case Torn
  with assms show ?thesis
    by (cases i; cases "copy_b s"; cases "copy_a s")
      (auto simp: select_def choose_copy_def split: sum.splits if_splits which.splits)
next
  case (Copy f es)
  with assms have "parse es = Inr old"
    by (cases i; cases "copy_b s"; cases "copy_a s")
      (auto simp: select_def choose_copy_def split: sum.splits if_splits which.splits)
  with Copy that show ?thesis by blast
qed

lemma newer_flag_succ [simp]:
  "newer_flag f (f + 1) = Second" "newer_flag (f + 1) f = First"
proof -
  have "f < f + 1" if "f \<noteq> 255" for f :: "8 word"
  proof -
    have "unat f < 256" using unsigned_less [of f] by simp
    moreover have "unat f \<noteq> 255"
    proof
      assume "unat f = 255"
      then have "of_nat (unat f) = (255 :: 8 word)" by simp
      with that show False by simp
    qed
    ultimately show ?thesis by (simp add: word_less_nat_alt unat_word_ariths)
  qed
  moreover have "f = 255 \<Longrightarrow> f + 1 = 0" for f :: "8 word" by simp
  ultimately show "newer_flag f (f + 1) = Second" "newer_flag (f + 1) f = First"
    by (cases "f = 255"; force simp: newer_flag_def)+
qed

lemma same_critical_build:
  assumes b: "build es us = Inr new" and p: "parse es = Inr old"
    and g: "v_generation new = v_generation old"
  shows "same_critical es (v_entries new)" and "same_critical (v_entries new) es"
proof -
  have pnew: "parse (v_entries new) = Inr new" using b by (rule build_InrE)
  have unchanged: "\<not> changed_critical es us"
    using build_generation [OF b p] g by auto
  have dist: "distinct (map fst es)" "distinct (map fst (v_entries new))"
    using p pnew by (auto dest: parse_Inr)
  have gen: "map_of es ''epk_state_generation'' = map_of (v_entries new) ''epk_state_generation''"
  proof -
    from parse_Inr(4) [OF p] obtain t where t: "map_of es ''epk_state_generation'' = Some t"
      by (cases "map_of es ''epk_state_generation''") (auto simp: decimal_def)
    from parse_Inr(4) [OF pnew] obtain t' where t': "map_of (v_entries new) ''epk_state_generation'' = Some t'"
      by (cases "map_of (v_entries new) ''epk_state_generation''") (auto simp: decimal_def)
    from t t' parse_Inr(4) [OF p] parse_Inr(4) [OF pnew] g show ?thesis
      by (metis decimal_unique)
  qed
  have look: "map_of (v_entries new) n = map_of es n" if "critical n" for n
  proof (cases "n = ''epk_state_generation''")
    case False
    with that unchanged show ?thesis
      by (auto simp: build_lookup [OF b] apply_updates_def changed_critical_def
          dest: map_of_SomeD split: option.split)
  qed (simp add: gen)
  have entry: "map_of xs n = Some v" if "distinct (map fst xs)" "(n, v) \<in> set xs" for xs :: entries and n v
    using that by (rule map_of_is_SomeI)
  show "same_critical es (v_entries new)"
    using entry [OF dist(1)] entry [OF dist(2)] look by (fastforce simp: same_critical_def)
  show "same_critical (v_entries new) es"
    using entry [OF dist(1)] entry [OF dist(2)] look by (fastforce simp: same_critical_def)
qed

lemma same_critical_refl: "distinct (map fst es) \<Longrightarrow> same_critical es es"
  by (auto simp: same_critical_def)

text \<open>The states a commit passes through: the first copy written, then the second.\<close>

lemma select_after_first:
  assumes sel: "select s = Inr (i, old)" and c: "copy_at i s = Copy f es"
    and b: "build es us = Inr new"
  shows "select (write_copy w (other_copy i) (Copy (f + 1) (v_entries new)) s) =
    (if w = Written \<or> w = Unacknowledged then Inr (other_copy i, new) else Inr (i, old))"
proof -
  have p: "parse es = Inr old" using select_chosen [OF sel] c by auto
  have pnew: "parse (v_entries new) = Inr new" and older: "not_older new old"
    using b p by (auto elim: build_InrE)
  have ve: "v_entries old = es" using p by (rule parse_Inr)
  have gen: "v_generation old = v_generation new \<or> v_generation old < v_generation new"
    using build_generation [OF b p] by auto
  have same: "v_generation old = v_generation new \<Longrightarrow> same_critical es (v_entries new)"
    "v_generation old = v_generation new \<Longrightarrow> same_critical (v_entries new) es"
    using same_critical_build [OF b p] by auto
  show ?thesis
  proof (cases i)
    case First
    then show ?thesis
      using sel c p pnew older gen same ve
      by (cases w) (auto simp: select_def write_copy_def choose_copy_def)
  next
    case Second
    then show ?thesis
      using sel c p pnew older gen same ve
      by (cases w) (auto simp: select_def write_copy_def choose_copy_def)
  qed
qed

lemma select_after_second:
  assumes sel: "select s = Inr (i, old)" and c: "copy_at i s = Copy f es"
    and b: "build es us = Inr new"
    and s1: "s1 = write_copy Written (other_copy i) (Copy (f + 1) (v_entries new)) s"
  shows "\<exists>j. select (write_copy w i (Copy (f + 2) (v_entries new)) s1) = Inr (j, new)"
proof -
  have pnew: "parse (v_entries new) = Inr new" using b by (rule build_InrE)
  have first: "select s1 = Inr (other_copy i, new)"
    using select_after_first [OF sel c b, of Written] by (simp add: s1)
  have dist: "distinct (map fst (v_entries new))" using pnew by (rule parse_Inr)
  have same: "same_critical (v_entries new) (v_entries new)" by (rule same_critical_refl [OF dist])
  have flags: "newer_flag (f + 1) (f + 2) = Second" "newer_flag (f + 2) (f + 1) = First"
    using newer_flag_succ [of "f + 1"] by (simp_all add: add.assoc)
  have untouched: "write_copy Untouched i (Copy (f + 2) (v_entries new)) s1 = s1"
    by (cases i) (simp_all add: write_copy_def)
  show ?thesis
  proof (cases w)
    case Untouched
    with first untouched show ?thesis by auto
  qed (cases i; use pnew same flags in \<open>auto simp: s1 select_def write_copy_def choose_copy_def\<close>)+
qed

lemma commit_cases:
  assumes "select s = Inr (i, old)"
  obtains (refused) e where "commit w1 w2 us s = (Inl e, s)"
  | (built) new s' where "build (content (copy_at i s)) us = Inr new"
      and "snd (commit w1 w2 us s) = s'"
      and "\<exists>j. select s' = Inr (j, new) \<or> select s' = Inr (j, old)"
      and "\<And>v. fst (commit w1 w2 us s) = Inr v \<Longrightarrow> v = new \<and> (\<exists>j. select s' = Inr (j, new))"
proof -
  obtain f es where c: "copy_at i s = Copy f es" using assms by (rule select_chosen)
  show ?thesis
  proof (cases "length us > max_updates \<or> (\<exists>e. build es us = Inl e)")
    case True
    with assms c have "\<exists>e. commit w1 w2 us s = (Inl e, s)"
      by (auto simp: commit_def)
    with refused show ?thesis by blast
  next
    case False
    then obtain new where b: "build es us = Inr new" and len: "\<not> length us > max_updates"
      by (cases "build es us") auto
    define s1 where "s1 = write_copy w1 (other_copy i) (Copy (f + 1) (v_entries new)) s"
    define s2 where "s2 = write_copy w2 i (Copy (f + 2) (v_entries new)) s1"
    have first: "select s1 = (if w1 = Written \<or> w1 = Unacknowledged then Inr (other_copy i, new) else Inr (i, old))"
      unfolding s1_def by (rule select_after_first [OF assms c b])
    have second: "\<exists>j. select s2 = Inr (j, new)" if "w1 = Written"
      using select_after_second [OF assms c b] that by (simp add: s1_def s2_def)
    have eq: "commit w1 w2 us s =
        (if w1 \<noteq> Written then (Inl EnvIo, s1) else if w2 \<noteq> Written then (Inl EnvIo, s2)
         else (case select s2 of Inl e \<Rightarrow> (Inl e, s2) | Inr (_, v) \<Rightarrow> (Inr v, s2)))"
      using assms c b len
      by (cases "w1 = Written"; cases "w2 = Written")
        (simp_all add: commit_def s1_def s2_def Let_def split: sum.split)
    show ?thesis
    proof (rule built)
      show "build (content (copy_at i s)) us = Inr new" using b c by simp
      show "snd (commit w1 w2 us s) = (if w1 = Written then s2 else s1)"
        using second by (auto simp: eq)
      show "\<exists>j. select (if w1 = Written then s2 else s1) = Inr (j, new) \<or>
          select (if w1 = Written then s2 else s1) = Inr (j, old)"
        using first second by auto
      show "v = new \<and> (\<exists>j. select (if w1 = Written then s2 else s1) = Inr (j, new))"
        if "fst (commit w1 w2 us s) = Inr v" for v
        using that second by (auto simp: eq split: if_splits)
    qed
  qed
qed

lemma commit_succeeds:
  assumes "select s = Inr (i, old)" and "copy_at i s = Copy f es" and "build es us = Inr new"
    and "length us \<le> max_updates"
  shows "\<exists>s'. commit Written Written us s = (Inr new, s')"
  using select_after_second [OF assms(1-3) refl, of Written] assms
  by (auto simp: commit_def Let_def)

section \<open>The interface and its provider\<close>

abbreviation generation_name :: string where
  "generation_name \<equiv> ''epk_state_generation''"

definition agree :: "(string \<rightharpoonup> string) \<Rightarrow> (string \<rightharpoonup> string) \<Rightarrow> bool" where
  "agree m m' \<longleftrightarrow> (\<forall>n. n \<noteq> generation_name \<longrightarrow> m n = m' n)"

definition floor_of :: "(string \<rightharpoonup> string) \<Rightarrow> nat option" where
  "floor_of m = decimal (m ''epk_os_floor'')"

definition epoch_of :: "(string \<rightharpoonup> string) \<Rightarrow> nat option" where
  "epoch_of m = decimal (m ''epk_trust_epoch'')"

text \<open>A run of batches, acknowledged or not.\<close>

fun wr_all :: "(updates \<Rightarrow> 'x \<Rightarrow> bool \<times> 'x) \<Rightarrow> updates list \<Rightarrow> 'x \<Rightarrow> 'x" where
  "wr_all wr [] x = x"
| "wr_all wr (us # uss) x = wr_all wr uss (snd (wr us x))"

text \<open>
  The guarded environment as its users see it: \<open>rd\<close> is \<open>fw_printenv\<close> or the loader's
  import, \<open>wr\<close> one \<open>fw_setenv\<close> batch or \<open>saveenv\<close>, true when it was acknowledged.
\<close>

locale env_store =
  fixes rd :: "'x \<Rightarrow> (string \<rightharpoonup> string) option"
    and wr :: "updates \<Rightarrow> 'x \<Rightarrow> bool \<times> 'x"
  assumes wr_acknowledged: "wr us x = (True, x') \<Longrightarrow> rd x = Some m \<Longrightarrow>
      \<exists>m'. rd x' = Some m' \<and> agree m' (apply_updates us m)"
    and wr_whole: "wr us x = (ok, x') \<Longrightarrow> rd x = Some m \<Longrightarrow>
      \<exists>m'. rd x' = Some m' \<and> (agree m' m \<or> agree m' (apply_updates us m))"
    and wr_monotone: "wr us x = (ok, x') \<Longrightarrow> rd x = Some m \<Longrightarrow> rd x' = Some m' \<Longrightarrow>
      \<exists>f f' e e'. floor_of m = Some f \<and> floor_of m' = Some f' \<and> f \<le> f' \<and>
        epoch_of m = Some e \<and> epoch_of m' = Some e' \<and> e \<le> e'"
begin

lemma wr_all_readable: "rd x = Some m \<Longrightarrow> \<exists>m'. rd (wr_all wr uss x) = Some m'"
proof (induction uss arbitrary: x m)
  case (Cons us uss)
  obtain ok x' where w: "wr us x = (ok, x')" by fastforce
  from wr_whole [OF w Cons.prems] obtain m' where "rd x' = Some m'" by blast
  with Cons.IH w show ?case by simp
qed simp

lemma wr_all_floor:
  "rd x = Some m \<Longrightarrow> floor_of m = Some f \<Longrightarrow>
   \<exists>m' f'. rd (wr_all wr uss x) = Some m' \<and> floor_of m' = Some f' \<and> f \<le> f'"
proof (induction uss arbitrary: x m f)
  case (Cons us uss)
  obtain ok x' where w: "wr us x = (ok, x')" by fastforce
  from wr_whole [OF w Cons.prems(1)] obtain m1 where m1: "rd x' = Some m1" by blast
  from wr_monotone [OF w Cons.prems(1) m1] Cons.prems(2)
  obtain f1 where f1: "floor_of m1 = Some f1" "f \<le> f1" by auto
  from Cons.IH [OF m1 f1(1)] f1(2) w show ?case by fastforce
qed simp

lemma wr_frame:
  assumes "wr us x = (ok, x')" and "rd x = Some m" and "rd x' = Some m'"
    and "n \<notin> fst ` set us" and "n \<noteq> generation_name"
  shows "m' n = m n"
proof -
  have "map_of us n = None" using assms(4) by (simp add: map_of_eq_None_iff)
  with wr_whole [OF assms(1,2)] assms(3,5) show ?thesis
    by (auto simp: agree_def apply_updates_def)
qed

end

text \<open>
  The provider: the two copies and the outcomes the coming record writes will have (two per
  commit; \<open>Written\<close> when none is foreseen).
\<close>

type_synonym guarded = "store \<times> (write_outcome \<times> write_outcome) list"

definition guard_read :: "guarded \<Rightarrow> (string \<rightharpoonup> string) option" where
  "guard_read g = (case select (fst g) of Inl _ \<Rightarrow> None | Inr (_, v) \<Rightarrow> Some (map_of (v_entries v)))"

definition guard_write :: "updates \<Rightarrow> guarded \<Rightarrow> bool \<times> guarded" where
  "guard_write us g =
     (let (w, ws) = (case snd g of [] \<Rightarrow> ((Written, Written), []) | w # ws \<Rightarrow> (w, ws));
          (r, s) = commit (fst w) (snd w) us (fst g)
      in (case r of Inl _ \<Rightarrow> False | Inr _ \<Rightarrow> True, (s, ws)))"

lemma guard_writeE:
  assumes "guard_write us g = (ok, g')"
  obtains w1 w2 where "fst g' = snd (commit w1 w2 us (fst g))"
    and "ok \<longleftrightarrow> (\<exists>v. fst (commit w1 w2 us (fst g)) = Inr v)"
proof -
  define w where "w = (case snd g of [] \<Rightarrow> (Written, Written) | w # ws \<Rightarrow> w)"
  have "fst g' = snd (commit (fst w) (snd w) us (fst g)) \<and>
      (ok \<longleftrightarrow> (\<exists>v. fst (commit (fst w) (snd w) us (fst g)) = Inr v))"
    using assms by (auto simp: guard_write_def w_def Let_def split: prod.splits list.splits sum.splits)
  with that show ?thesis by blast
qed

lemma guard_readE:
  assumes "guard_read g = Some m"
  obtains i old where "select (fst g) = Inr (i, old)" and "m = map_of (v_entries old)"
  using assms by (auto simp: guard_read_def split: sum.splits prod.splits)

text \<open>The step shared by the three laws: a write leaves the old or the built environment.\<close>

lemma guard_write_step:
  assumes "guard_write us g = (ok, g')" and "guard_read g = Some m"
  shows "\<exists>m'. guard_read g' = Some m' \<and>
      (m' = m \<and> \<not> ok \<or> agree m' (apply_updates us m)) \<and>
      (\<exists>f f' e e'. floor_of m = Some f \<and> floor_of m' = Some f' \<and> f \<le> f' \<and>
        epoch_of m = Some e \<and> epoch_of m' = Some e' \<and> e \<le> e')"
proof -
  obtain i old where sel: "select (fst g) = Inr (i, old)" and m: "m = map_of (v_entries old)"
    using assms(2) by (rule guard_readE)
  obtain f es where c: "copy_at i (fst g) = Copy f es" and p: "parse es = Inr old"
    using sel by (rule select_chosen)
  have ve: "v_entries old = es" using p by (rule parse_Inr)
  have scal: "floor_of m = Some (v_floor old)" "epoch_of m = Some (v_epoch old)"
    using parse_Inr [OF p] by (simp_all add: floor_of_def epoch_of_def m)
  obtain w1 w2 where g': "fst g' = snd (commit w1 w2 us (fst g))"
    and ok: "ok \<longleftrightarrow> (\<exists>v. fst (commit w1 w2 us (fst g)) = Inr v)"
    using assms(1) by (rule guard_writeE)
  from sel show ?thesis
  proof (cases rule: commit_cases [of _ _ _ w1 w2 us])
    case (refused e)
    with sel g' ok m scal show ?thesis by (auto simp: guard_read_def)
  next
    case (built new s')
    from built(1) c have b: "build es us = Inr new" by simp
    have pn: "parse (v_entries new) = Inr new" and older: "not_older new old"
      using b p by (auto elim: build_InrE)
    have look: "agree (map_of (v_entries new)) (apply_updates us m)"
      using build_lookup [OF b] by (simp add: agree_def m ve)
    have scal': "floor_of (map_of (v_entries new)) = Some (v_floor new)"
      "epoch_of (map_of (v_entries new)) = Some (v_epoch new)"
      using parse_Inr [OF pn] by (simp_all add: floor_of_def epoch_of_def)
    have le: "v_floor old \<le> v_floor new" "v_epoch old \<le> v_epoch new"
      using older by (auto simp: not_older_def)
    from built(3) g' built(2) consider (n) j where "select (fst g') = Inr (j, new)"
      | (o) j where "select (fst g') = Inr (j, old)" by auto
    then show ?thesis
    proof cases
      case n
      then show ?thesis using look scal scal' le by (auto simp: guard_read_def)
    next
      case o
      show ?thesis
      proof (cases ok)
        case True
        with ok built(2,4) g' obtain k where "select (fst g') = Inr (k, new)" by auto
        then show ?thesis using look scal scal' le by (auto simp: guard_read_def)
      next
        case False
        with o scal m show ?thesis by (auto simp: guard_read_def)
      qed
    qed
  qed
qed

interpretation guarded: env_store guard_read guard_write
proof unfold_locales
  fix us g g' m
  assume "guard_write us g = (True, g')" and "guard_read g = Some m"
  from guard_write_step [OF this]
  show "\<exists>m'. guard_read g' = Some m' \<and> agree m' (apply_updates us m)" by auto
next
  fix us g ok g' m
  assume "guard_write us g = (ok, g')" and "guard_read g = Some m"
  from guard_write_step [OF this]
  show "\<exists>m'. guard_read g' = Some m' \<and> (agree m' m \<or> agree m' (apply_updates us m))"
    by (auto simp: agree_def)
next
  fix us g ok g' m m'
  assume "guard_write us g = (ok, g')" and "guard_read g = Some m" and "guard_read g' = Some m'"
  from guard_write_step [OF this(1,2)] this(3)
  show "\<exists>f f' e e'. floor_of m = Some f \<and> floor_of m' = Some f' \<and> f \<le> f' \<and>
      epoch_of m = Some e \<and> epoch_of m' = Some e' \<and> e \<le> e'" by auto
qed

lemma append_entries_fits:
  "used + entry_bytes es < data_size \<Longrightarrow> append_entries used es = Inr (used + entry_bytes es)"
  by (induction used es rule: append_entries.induct) (auto simp: entry_bytes_def)

lemma commit_Inr:
  assumes "select s = Inr (i, old)" and "commit w1 w2 us s = (Inr v, s')"
  shows "build (v_entries old) us = Inr v \<and> (\<exists>j. select s' = Inr (j, v))"
proof -
  obtain f es where c: "copy_at i s = Copy f es" and p: "parse es = Inr old"
    using assms(1) by (rule select_chosen)
  have ve: "v_entries old = es" using p by (rule parse_Inr)
  from assms(1) show ?thesis
  proof (cases rule: commit_cases [of _ _ _ w1 w2 us])
    case (refused e)
    with assms show ?thesis by auto
  next
    case (built new s'')
    with assms(2) c ve show ?thesis by auto
  qed
qed

lemma map_of_snapshot_diff:
  assumes "distinct (map fst old)" and "distinct (map fst desired)"
  shows "apply_updates (snapshot_diff old desired) (map_of old) = map_of desired"
proof
  fix n
  let ?gone = "map (\<lambda>(n, v). (n, map_of desired n)) (filter (\<lambda>(n, v). map_of desired n \<noteq> Some v) old)"
  let ?new = "map (\<lambda>(n, v). (n, Some v)) (filter (\<lambda>(n, v). map_of old n = None) desired)"
  have gone: "map_of ?gone n = (case map_of old n of None \<Rightarrow> None | Some v \<Rightarrow> if map_of desired n \<noteq> Some v then Some (map_of desired n) else None)"
    using assms(1)
  proof (induction old)
    case (Cons e old)
    then have "fst e = n \<Longrightarrow> map_of old n = None" by (auto simp: map_of_eq_None_iff)
    with Cons show ?case by (cases e) (auto split: option.split)
  qed simp
  have new: "map_of ?new n = (if map_of old n = None then map_option Some (map_of desired n) else None)"
    using assms(2) by (induction desired) (auto split: option.split)
  show "apply_updates (snapshot_diff old desired) (map_of old) n = map_of desired n"
    by (simp add: apply_updates_def snapshot_diff_def map_add_def gone new map_option_case split: option.split)
qed

text \<open>An acknowledged snapshot is the environment, but for the generation.\<close>

lemma snapshot_lands:
  assumes "commit_snapshot w1 w2 (Copy f es) s = (Inr v, s')"
  shows "(\<exists>j. select s' = Inr (j, v)) \<and> (\<forall>n. n \<noteq> generation_name \<longrightarrow> map_of (v_entries v) n = map_of es n)"
proof -
  from assms obtain new i old where p: "parse es = Inr new" and sel: "select s = Inr (i, old)"
    and c: "commit w1 w2 (snapshot_diff (v_entries old) es) s = (Inr v, s')"
    by (auto simp: commit_snapshot_def Let_def split: sum.split_asm if_split_asm)
  obtain f' es' where "parse es' = Inr old" using select_chosen [OF sel] by blast
  then have d: "distinct (map fst (v_entries old))" using parse_Inr(1,3) by metis
  have "distinct (map fst es)" using p by (rule parse_Inr)
  with map_of_snapshot_diff [OF d] commit_Inr [OF sel c] build_lookup [of "v_entries old" "snapshot_diff (v_entries old) es" v]
  show ?thesis by simp
qed

section \<open>What the guard promises\<close>

definition sample_entries :: entries where
  "sample_entries =
     [(''epk_state_schema'', ''1''), (''epk_state_generation'', ''0''), (''epk_os_floor'', ''3''),
      (''epk_trust_epoch'', ''1''), (''epk_trust_policy'', ''QUFB''),
      (''epk_trust_policy_sig'', replicate 86 CHR ''A'' @ ''==''),
      (''BOOT_ORDER'', ''A B''), (''BOOT_A_LEFT'', ''3''), (''BOOT_B_LEFT'', ''3'')]"

definition sample_store :: store where
  "sample_store = \<lparr>copy_a = Copy 7 sample_entries, copy_b = Torn\<rparr>"

lemmas scan_defs = entry_ok_def entry_bytes_def is_name_char_def is_alnum_def is_alpha_def is_digit_def
  between_def printable_def max_entries_def data_size_def env_headroom_def list_all_iff

lemma sample_b64 [simp]:
  "b64_size (Some ''QUFB'') = 3" "b64_size (Some (replicate 86 CHR ''A'' @ ''=='')) = 64"
  by (simp_all add: b64_size_def b64_low_def b64_digit_def is_digit_def between_def list_ex_iff nth_append)

lemma sample_decimal [simp]:
  "decimal (Some ''0'') = Some 0" "decimal (Some ''1'') = Some 1" "decimal (Some ''3'') = Some 3"
  "decimal (Some ''4'') = Some 4"
  by (simp_all add: decimal_def uint64_max_def is_digit_def between_def digit_value_def)

lemma sample_parse:
  "parse sample_entries = Inr \<lparr>v_entries = sample_entries, v_used = entry_bytes sample_entries + 1,
     v_generation = 0, v_floor = 3, v_epoch = 1\<rparr>"
  by (simp add: parse_def sample_entries_def scan_defs)

lemma sample_selected:
  obtains old where "select sample_store = Inr (First, old)" and "v_entries old = sample_entries"
    and "v_floor old = 3"
  using sample_parse by (auto simp: select_def sample_store_def)

text \<open>
  C1. A commit is atomic whatever happens to its two record writes: the environment that is
  selected afterwards is whole and is either the old one or the one the batch builds, its
  floor and its trust epoch are not lower, and the answer is success only for the new one.
\<close>

theorem commit_atomic:
  assumes "select s = Inr (i, old)" and "commit w1 w2 us s = (r, s')"
  shows "\<exists>j v. select s' = Inr (j, v) \<and> (v = old \<or> build (v_entries old) us = Inr v) \<and>
    v_floor old \<le> v_floor v \<and> v_epoch old \<le> v_epoch v \<and>
    (\<forall>v'. r = Inr v' \<longrightarrow> v' = v \<and> build (v_entries old) us = Inr v)"
proof -
  obtain f es where c: "copy_at i s = Copy f es" and p: "parse es = Inr old"
    using assms(1) by (rule select_chosen)
  have ve: "v_entries old = es" using p by (rule parse_Inr)
  from assms(1) show ?thesis
  proof (cases rule: commit_cases [of _ _ _ w1 w2 us])
    case (refused e)
    with assms show ?thesis by auto
  next
    case (built new s'')
    from built(1) c have b: "build es us = Inr new" by simp
    have "not_older new old" using b p by (auto elim: build_InrE)
    then have "v_floor old \<le> v_floor new" "v_epoch old \<le> v_epoch new"
      by (auto simp: not_older_def)
    with built assms(2) b ve show ?thesis by fastforce
  qed
qed

theorem commit_atomic_witness:
  "\<exists>j v. select (snd (commit Written TornWrite [(''epk_os_floor'', Some ''4'')] sample_store)) = Inr (j, v) \<and> 3 \<le> v_floor v"
proof -
  obtain old where "select sample_store = Inr (First, old)" "v_floor old = 3"
    by (rule sample_selected)
  from commit_atomic [OF this(1) surjective_pairing, of Written TornWrite "[(''epk_os_floor'', Some ''4'')]"] this(2)
  show ?thesis by auto
qed

text \<open>
  C2. An acknowledged commit reads back: every name but the generation has the value the
  batch gives it or its old one, and the generation is one more exactly when a critical
  entry changed.
\<close>

theorem commit_reads_back:
  assumes "select s = Inr (i, old)" and "commit w1 w2 us s = (Inr v, s')"
  shows "(\<exists>j. select s' = Inr (j, v)) \<and>
    (\<forall>n. n \<noteq> generation_name \<longrightarrow>
      map_of (v_entries v) n = apply_updates us (map_of (v_entries old)) n) \<and>
    v_generation v = v_generation old + of_bool (changed_critical (v_entries old) us)"
proof -
  obtain es where p: "parse es = Inr old"
    using select_chosen [OF assms(1)] by blast
  have ve: "v_entries old = es" using p by (rule parse_Inr)
  have *: "build es us = Inr v \<and> (\<exists>j. select s' = Inr (j, v))"
    using commit_Inr [OF assms] by (simp add: ve)
  then have "\<forall>n. n \<noteq> generation_name \<longrightarrow> map_of (v_entries v) n = apply_updates us (map_of es) n"
    using build_lookup [of es us v] by auto
  with * show ?thesis using build_generation [OF _ p, of us v] by (simp add: ve)
qed

definition sample_batch :: updates where
  "sample_batch = [(''epk_os_floor'', Some ''4''), (''BOOT_B_LEFT'', Some ''2'')]"

definition sample_updated :: entries where
  "sample_updated =
     [(''epk_state_schema'', ''1''), (''epk_state_generation'', ''1''), (''epk_os_floor'', ''4''),
      (''epk_trust_epoch'', ''1''), (''epk_trust_policy'', ''QUFB''),
      (''epk_trust_policy_sig'', replicate 86 CHR ''A'' @ ''==''),
      (''BOOT_ORDER'', ''A B''), (''BOOT_A_LEFT'', ''3''), (''BOOT_B_LEFT'', ''2'')]"

lemma sample_next:
  "kept_entries (dec (Suc 0)) sample_batch sample_entries @ added_entries sample_batch sample_entries = sample_updated"
proof -
  have "dec (Suc 0) = ''1''" by code_simp
  then show ?thesis
    by (simp add: sample_entries_def sample_batch_def sample_updated_def kept_entries_def added_entries_def
        new_value_def map_filter_def)
qed

lemma sample_build: "\<exists>v. build sample_entries sample_batch = Inr v"
proof -
  have p: "parse sample_updated = Inr \<lparr>v_entries = sample_updated, v_used = entry_bytes sample_updated + 1,
      v_generation = 1, v_floor = 4, v_epoch = 1\<rparr>"
    by (simp add: sample_updated_def parse_def scan_defs)
  have a: "append_entries 0 sample_updated = Inr (entry_bytes sample_updated)"
    by (simp add: sample_updated_def data_size_def entry_bytes_def)
  have "map_of sample_updated ''epk_trust_policy'' = map_of sample_entries ''epk_trust_policy''"
    "map_of sample_updated ''epk_trust_policy_sig'' = map_of sample_entries ''epk_trust_policy_sig''"
    by (simp_all add: sample_updated_def sample_entries_def)
  moreover have "changed_critical sample_entries sample_batch"
    by (simp add: changed_critical_def sample_batch_def sample_entries_def critical_def startswith_def)
  moreover have "updates_ok sample_batch" by (simp add: updates_ok_def sample_batch_def)
  ultimately show ?thesis
    using p a by (simp add: build_def sample_parse uint64_max_def sample_next not_older_def)
qed

lemma sample_commit: "\<exists>v s'. commit Written Written sample_batch sample_store = (Inr v, s')"
proof -
  obtain old where old: "select sample_store = Inr (First, old)" by (rule sample_selected)
  obtain v where "build sample_entries sample_batch = Inr v" using sample_build by blast
  then have "\<exists>s'. commit Written Written sample_batch sample_store = (Inr v, s')"
    using commit_succeeds [OF old, of 7 sample_entries sample_batch v]
    by (simp add: sample_store_def) (simp add: sample_batch_def max_updates_def)
  then show ?thesis by blast
qed

theorem commit_reads_back_witness:
  "\<exists>j v. select (snd (commit Written Written sample_batch sample_store)) = Inr (j, v) \<and>
     map_of (v_entries v) ''epk_os_floor'' = Some ''4'' \<and> map_of (v_entries v) ''BOOT_B_LEFT'' = Some ''2''"
proof -
  obtain old where old: "select sample_store = Inr (First, old)" by (rule sample_selected)
  obtain v s' where c: "commit Written Written sample_batch sample_store = (Inr v, s')"
    using sample_commit by blast
  from commit_reads_back [OF old c] c show ?thesis
    by (auto simp: apply_updates_def sample_batch_def)
qed

text \<open>
  No sequence of batches lowers the confirmed floor, whichever of their record writes
  fail or are cut, and the environment stays readable throughout.
\<close>

theorem floor_never_lowered:
  assumes "guard_read g = Some m" and "floor_of m = Some f"
  shows "\<exists>m' f'. guard_read (wr_all guard_write uss g) = Some m' \<and> floor_of m' = Some f' \<and> f \<le> f'"
  using assms by (rule guarded.wr_all_floor)

theorem floor_never_lowered_witness:
  "\<exists>m' f'. guard_read (wr_all guard_write [[(''epk_os_floor'', Some ''2'')], sample_batch]
      (sample_store, [(Written, Written), (Written, TornWrite)])) = Some m' \<and> floor_of m' = Some f' \<and> 3 \<le> f'"
proof -
  let ?g = "(sample_store, [(Written, Written), (Written, TornWrite)])"
  obtain old where old: "select sample_store = Inr (First, old)" "v_floor old = 3" by (rule sample_selected)
  obtain f es where p: "parse es = Inr old" using old(1) by (rule select_chosen)
  have "guard_read ?g = Some (map_of (v_entries old))" using old by (simp add: guard_read_def)
  moreover have "floor_of (map_of (v_entries old)) = Some 3"
    using parse_Inr [OF p] old(2) by (simp add: floor_of_def)
  ultimately show ?thesis by (rule floor_never_lowered)
qed

end
