(* ===== verification/Epk_Loader.thy ===== *)
theory Epk_Loader
  imports Epk_Env
begin

text \<open>
  The slot loader of protocol 2, the U-Boot script \<open>boot-slot.cmd\<close>.  It checks the boot state, picks
  the first eligible slot of \<open>BOOT_ORDER\<close>, spends one of its attempts, marks the start of a
  trial and launches the slot only when that was saved.  A slot whose kernel does not load
  resets the board, which runs the script again.

  The script reads and saves the environment through the interface \<open>env_store\<close> (its \<open>rd\<close> and
  \<open>wr\<close>); the lemmas on a boot are proved once in that locale and hold for the guard.
\<close>

section \<open>The script\<close>

type_synonym env = "string \<rightharpoonup> string"

text \<open>\<open>"${name}"\<close>: an unset variable is the empty text.\<close>

definition var :: "env \<Rightarrow> string \<Rightarrow> string" where
  "var m n = (case m n of None \<Rightarrow> [] | Some v \<Rightarrow> v)"

datatype halt =
    StateUnavailable | InvalidBootOrder | InvalidACounter | InvalidBCounter
  | InvalidPendingSlots | IncompleteIdentity | UnknownPhase | ConflictingTrial
  | TrialOnUnactivated | OrphanedPending | NoEligibleSlot | SaveFailed

definition counter_ok :: "string \<Rightarrow> bool" where
  "counter_ok t \<longleftrightarrow> t \<in> {''0'', ''1'', ''2'', ''3''}"

definition pending_names :: "string list" where
  "pending_names = [''epk_os_phase'', ''epk_os_trial_started'', ''epk_os_target'', ''epk_os_from'',
     ''epk_os_target_sequence'', ''epk_os_target_sha256'']"

definition known_phases :: "string list" where
  "known_phases = [''ready'', ''activation_intent'', ''activated'', ''trying'', ''confirming'', ''promoting'']"

text \<open>The checks before a slot is chosen, in the script's order; None when all pass.\<close>

definition check_state :: "env \<Rightarrow> halt option" where
  "check_state m =
     (if var m ''BOOT_ORDER'' \<notin> {''A B'', ''B A'', ''A'', ''B''} then Some InvalidBootOrder
      else if \<not> counter_ok (var m ''BOOT_A_LEFT'') then Some InvalidACounter
      else if \<not> counter_ok (var m ''BOOT_B_LEFT'') then Some InvalidBCounter
      else if var m ''epk_os_pending'' \<noteq> [] then
        (if \<not> (var m ''epk_os_target'' = ''A'' \<and> var m ''epk_os_from'' = ''B'' \<or>
                var m ''epk_os_target'' = ''B'' \<and> var m ''epk_os_from'' = ''A'') then Some InvalidPendingSlots
         else if var m ''epk_os_target_sequence'' = [] \<or> var m ''epk_os_target_sha256'' = [] then Some IncompleteIdentity
         else if var m ''epk_os_phase'' \<notin> set known_phases then Some UnknownPhase
         else if var m ''epk_os_trial_started'' \<noteq> [] \<and> var m ''epk_os_trial_started'' \<noteq> var m ''epk_os_pending''
         then Some ConflictingTrial
         else if var m ''epk_os_phase'' = ''ready'' \<and> var m ''epk_os_trial_started'' \<noteq> [] then Some TrialOnUnactivated
         else None)
      else if list_ex (\<lambda>n. var m n \<noteq> []) pending_names then Some OrphanedPending
      else None)"

definition left_name :: "string \<Rightarrow> string" where
  "left_name slot = ''BOOT_'' @ slot @ ''_LEFT''"

definition eligible :: "env \<Rightarrow> string \<Rightarrow> bool" where
  "eligible m slot \<longleftrightarrow>
     \<not> (var m ''epk_os_pending'' \<noteq> [] \<and> var m ''epk_os_phase'' = ''ready'' \<and> slot = var m ''epk_os_target'') \<and>
     (slot = ''A'' \<and> var m ''BOOT_A_LEFT'' \<noteq> ''0'' \<or> slot = ''B'' \<and> var m ''BOOT_B_LEFT'' \<noteq> ''0'')"

text \<open>The loop over \<open>BOOT_ORDER\<close> keeps the first eligible slot.\<close>

definition pick_slot :: "env \<Rightarrow> string option" where
  "pick_slot m = List.find (eligible m) (split_ws (var m ''BOOT_ORDER''))"

definition spent :: "string \<Rightarrow> string" where
  "spent t = (case undec t of None \<Rightarrow> t | Some n \<Rightarrow> dec (n - 1))"

definition partition_of :: "string \<Rightarrow> string" where
  "partition_of slot = (if slot = ''A'' then ''2'' else ''3'')"

text \<open>What \<open>saveenv\<close> writes: the script's own variables, the spent attempt and the trial marker.\<close>

definition boot_updates :: "env \<Rightarrow> string \<Rightarrow> updates" where
  "boot_updates m slot =
     [(''epb_halt'', Some ''epk_boot_halt; while true; do sleep 1; done''),
      (''epb_reset'', Some ''reset; run epb_halt''),
      (''epb_slot'', Some slot), (''epb_part'', Some (partition_of slot)),
      (left_name slot, Some (spent (var m (left_name slot))))] @
     (if var m ''epk_os_pending'' \<noteq> [] \<and> slot = var m ''epk_os_target'' \<and>
         var m ''epk_os_trial_started'' \<noteq> var m ''epk_os_pending''
      then [(''epk_os_trial_started'', Some (var m ''epk_os_pending''))] else [])"

text \<open>One run of the script: the halt it ends in, or the slot it launches.\<close>

definition loader :: "('x \<Rightarrow> env option) \<Rightarrow> (updates \<Rightarrow> 'x \<Rightarrow> bool \<times> 'x) \<Rightarrow> 'x \<Rightarrow> (halt + string) \<times> 'x" where
  "loader rd wr x = (case rd x of
       None \<Rightarrow> (Inl StateUnavailable, x)
     | Some m \<Rightarrow> (case check_state m of
         Some h \<Rightarrow> (Inl h, x)
       | None \<Rightarrow> (case pick_slot m of
           None \<Rightarrow> (Inl NoEligibleSlot, x)
         | Some slot \<Rightarrow> (case wr (boot_updates m slot) x of
             (ok, x') \<Rightarrow> if ok then (Inr slot, x') else (Inl SaveFailed, x')))))"

text \<open>
  The resets: \<open>starts slot\<close> tells whether the kernel and device tree of a slot load and
  start.  None: the fuel ran out.
\<close>

fun boot_loop :: "('x \<Rightarrow> env option) \<Rightarrow> (updates \<Rightarrow> 'x \<Rightarrow> bool \<times> 'x) \<Rightarrow> (string \<Rightarrow> bool) \<Rightarrow> nat \<Rightarrow> 'x
    \<Rightarrow> ((halt + string) \<times> 'x) option" where
  "boot_loop rd wr starts 0 x = None"
| "boot_loop rd wr starts (Suc fuel) x = (case loader rd wr x of
       (Inl h, x') \<Rightarrow> Some (Inl h, x')
     | (Inr slot, x') \<Rightarrow> if starts slot then Some (Inr slot, x') else boot_loop rd wr starts fuel x')"

text \<open>The attempts a slot has left.\<close>

definition attempts :: "env \<Rightarrow> string \<Rightarrow> nat" where
  "attempts m slot = (case undec (var m (left_name slot)) of None \<Rightarrow> 0 | Some n \<Rightarrow> n)"

section \<open>One boot\<close>

lemma undec_counters [simp]:
  "undec ''0'' = Some 0" "undec ''1'' = Some 1" "undec ''2'' = Some 2" "undec ''3'' = Some 3"
  by code_simp+

lemma spent_counters [simp]:
  "spent ''1'' = ''0''" "spent ''2'' = ''1''" "spent ''3'' = ''2''"
  by code_simp+

lemma left_names [simp]: "left_name ''A'' = ''BOOT_A_LEFT''" "left_name ''B'' = ''BOOT_B_LEFT''"
  by (simp_all add: left_name_def)

lemma pick_slotD:
  assumes "pick_slot m = Some slot"
  shows "eligible m slot" and "slot \<in> set (split_ws (var m ''BOOT_ORDER''))" and "slot = ''A'' \<or> slot = ''B''"
proof -
  from assms obtain i where "i < length (split_ws (var m ''BOOT_ORDER''))"
    "eligible m (split_ws (var m ''BOOT_ORDER'') ! i)" "slot = split_ws (var m ''BOOT_ORDER'') ! i"
    unfolding pick_slot_def find_Some_iff by blast
  then show "eligible m slot" and "slot \<in> set (split_ws (var m ''BOOT_ORDER''))" by simp_all
  then show "slot = ''A'' \<or> slot = ''B''" by (auto simp: eligible_def)
qed

lemma check_state_counters:
  "check_state m = None \<Longrightarrow> counter_ok (var m ''BOOT_A_LEFT'') \<and> counter_ok (var m ''BOOT_B_LEFT'')"
  by (auto simp: check_state_def split: if_splits)

lemma attempts_le_3:
  "check_state m = None \<Longrightarrow> slot = ''A'' \<or> slot = ''B'' \<Longrightarrow> attempts m slot \<le> 3"
  using check_state_counters [of m] by (auto simp: attempts_def counter_ok_def)

lemma attempts_spent:
  assumes "check_state m = None" and "pick_slot m = Some slot"
  shows "0 < attempts m slot" and "undec (spent (var m (left_name slot))) = Some (attempts m slot - 1)"
  using check_state_counters [OF assms(1)] pick_slotD [OF assms(2)]
  by (auto simp: attempts_def counter_ok_def eligible_def)

text \<open>The variables a boot may change.\<close>

definition boot_names :: "string \<Rightarrow> string set" where
  "boot_names slot = {''epb_halt'', ''epb_reset'', ''epb_slot'', ''epb_part'', left_name slot,
     ''epk_os_trial_started'', generation_name}"

lemma boot_updates_frame:
  "n \<notin> boot_names slot \<Longrightarrow> map_of (boot_updates m slot) n = None"
  by (auto simp: boot_names_def boot_updates_def)

lemma boot_updates_left:
  "slot = ''A'' \<or> slot = ''B'' \<Longrightarrow>
   map_of (boot_updates m slot) (left_name slot) = Some (Some (spent (var m (left_name slot))))"
  by (auto simp: boot_updates_def)

lemma boot_updates_trial:
  assumes "slot = ''A'' \<or> slot = ''B''"
  shows "map_of (boot_updates m slot) ''epk_os_trial_started'' =
    (if var m ''epk_os_pending'' \<noteq> [] \<and> slot = var m ''epk_os_target'' \<and>
        var m ''epk_os_trial_started'' \<noteq> var m ''epk_os_pending''
     then Some (Some (var m ''epk_os_pending'')) else None)"
  using assms by (elim disjE) (simp_all add: boot_updates_def)

lemma var_agree: "m' n = Some v \<Longrightarrow> var m' n = v"
  by (simp add: var_def)

context env_store
begin

lemma loader_launchE:
  assumes "loader rd wr x = (Inr slot, x')"
  obtains m m' where "rd x = Some m" and "check_state m = None" and "pick_slot m = Some slot"
    and "rd x' = Some m'" and "agree m' (apply_updates (boot_updates m slot) m)"
proof -
  from assms obtain m where m: "rd x = Some m" "check_state m = None" "pick_slot m = Some slot"
    and w: "wr (boot_updates m slot) x = (True, x')"
    by (auto simp: loader_def split: option.splits prod.splits if_splits)
  from wr_acknowledged [OF w m(1)] m that show ?thesis by blast
qed

text \<open>A launch spends exactly one attempt of the launched slot and changes nothing else of the boot state.\<close>

lemma launch_spends:
  assumes "loader rd wr x = (Inr slot, x')"
  shows "\<exists>m m'. rd x = Some m \<and> rd x' = Some m' \<and> check_state m = None \<and>
    attempts m slot = Suc (attempts m' slot) \<and> attempts m slot \<le> 3 \<and>
    (\<forall>n. n \<notin> boot_names slot \<longrightarrow> m' n = m n)"
proof -
  from assms obtain m m' where m: "rd x = Some m" "check_state m = None" "pick_slot m = Some slot"
    and m': "rd x' = Some m'" "agree m' (apply_updates (boot_updates m slot) m)"
    by (rule loader_launchE)
  have slot: "slot = ''A'' \<or> slot = ''B''" using m(3) by (rule pick_slotD)
  have frame: "m' n = m n" if "n \<notin> boot_names slot" for n
    using m'(2) that boot_updates_frame [OF that, of m]
    by (auto simp: agree_def apply_updates_def boot_names_def)
  have "m' (left_name slot) = Some (spent (var m (left_name slot)))"
    using m'(2) slot boot_updates_left [OF slot, of m]
    by (auto simp: agree_def apply_updates_def)
  then have "attempts m' slot = attempts m slot - 1"
    using attempts_spent [OF m(2,3)] by (simp add: attempts_def var_def)
  with attempts_spent(1) [OF m(2,3)] attempts_le_3 [OF m(2) slot] frame m m' show ?thesis
    by auto
qed

text \<open>The trial marker: set exactly when the pending job's target is launched, never changed otherwise.\<close>

lemma launch_marks_trial:
  assumes "loader rd wr x = (Inr slot, x')"
  shows "\<exists>m m'. rd x = Some m \<and> rd x' = Some m' \<and>
    (if var m ''epk_os_pending'' \<noteq> [] \<and> slot = var m ''epk_os_target''
     then var m' ''epk_os_trial_started'' = var m ''epk_os_pending'' \<and> var m ''epk_os_phase'' \<noteq> ''ready''
     else m' ''epk_os_trial_started'' = m ''epk_os_trial_started'')"
proof -
  from assms obtain m m' where m: "rd x = Some m" "check_state m = None" "pick_slot m = Some slot"
    and m': "rd x' = Some m'" "agree m' (apply_updates (boot_updates m slot) m)"
    by (rule loader_launchE)
  have slot: "slot = ''A'' \<or> slot = ''B''" using m(3) by (rule pick_slotD)
  have t: "m' ''epk_os_trial_started'' = (if var m ''epk_os_pending'' \<noteq> [] \<and> slot = var m ''epk_os_target'' \<and>
      var m ''epk_os_trial_started'' \<noteq> var m ''epk_os_pending''
     then Some (var m ''epk_os_pending'') else m ''epk_os_trial_started'')"
    using m'(2) by (simp add: agree_def apply_updates_def boot_updates_trial [OF slot])
  have e: "\<not> (var m ''epk_os_pending'' \<noteq> [] \<and> var m ''epk_os_phase'' = ''ready'' \<and> slot = var m ''epk_os_target'')"
    using pick_slotD(1) [OF m(3)] unfolding eligible_def by (rule conjunct1)
  have "var m' ''epk_os_trial_started'' = var m ''epk_os_pending''"
    if "var m ''epk_os_pending'' \<noteq> []" "slot = var m ''epk_os_target''"
    using t that by (simp add: var_def split: if_splits)
  moreover have "m' ''epk_os_trial_started'' = m ''epk_os_trial_started''"
    if "\<not> (var m ''epk_os_pending'' \<noteq> [] \<and> slot = var m ''epk_os_target'')"
    using t that by (simp only: if_False conj_assoc [symmetric] simp_thms)
  ultimately show ?thesis
    using e m(1) m'(1)
    by (cases "var m ''epk_os_pending'' \<noteq> [] \<and> slot = var m ''epk_os_target''") (auto simp del: not_Cons_self)
qed

text \<open>Nothing is written when the script halts before the save.\<close>

lemma halt_keeps:
  "loader rd wr x = (Inl h, x') \<Longrightarrow> h \<noteq> SaveFailed \<Longrightarrow> x' = x"
  by (auto simp: loader_def split: option.splits prod.splits if_splits)

text \<open>Each reset costs an attempt, so seven runs of the script always end in a halt or a started slot.\<close>

lemma total_attempts_decrease:
  assumes "loader rd wr x = (Inr slot, x')" and "rd x = Some m" and "rd x' = Some m'"
  shows "attempts m ''A'' + attempts m ''B'' = Suc (attempts m' ''A'' + attempts m' ''B'')"
proof -
  from launch_spends [OF assms(1)] assms(2,3)
  have one: "attempts m slot = Suc (attempts m' slot)"
    and frame: "\<And>n. n \<notin> boot_names slot \<Longrightarrow> m' n = m n" by auto
  from assms(1) have "slot = ''A'' \<or> slot = ''B''"
    by (metis loader_launchE pick_slotD(3))
  then show ?thesis
  proof
    assume slot: "slot = ''A''"
    with frame have "m' ''BOOT_B_LEFT'' = m ''BOOT_B_LEFT''" by (simp add: boot_names_def)
    with one slot show ?thesis by (simp add: attempts_def var_def)
  next
    assume slot: "slot = ''B''"
    with frame have "m' ''BOOT_A_LEFT'' = m ''BOOT_A_LEFT''" by (simp add: boot_names_def)
    with one slot show ?thesis by (simp add: attempts_def var_def)
  qed
qed

lemma boot_loop_ends:
  assumes "rd x = Some m" and "attempts m ''A'' + attempts m ''B'' < fuel"
  shows "\<exists>r. boot_loop rd wr starts fuel x = Some r"
  using assms
proof (induction fuel arbitrary: x m)
  case (Suc fuel)
  obtain r x' where l: "loader rd wr x = (r, x')" by fastforce
  show ?case
  proof (cases r)
    case (Inr slot)
    from launch_spends [of x slot x'] l Inr obtain m' where m': "rd x' = Some m'" by auto
    with total_attempts_decrease [of x slot x' m m'] l Inr Suc.prems
    have "attempts m' ''A'' + attempts m' ''B'' < fuel" by auto
    from Suc.IH [OF m' this] l Inr show ?thesis by auto
  qed (use l in auto)
qed simp

lemma boot_loop_seven: "\<exists>r. boot_loop rd wr starts 7 x = Some r"
proof -
  obtain r x' where l: "loader rd wr x = (r, x')" by fastforce
  show ?thesis
  proof (cases r)
    case (Inl h)
    with l show ?thesis by (simp add: numeral_eq_Suc)
  next
    case (Inr slot)
    from l Inr obtain m where m: "rd x = Some m" "check_state m = None"
      by (auto elim: loader_launchE)
    have "attempts m ''A'' + attempts m ''B'' < 7"
      using attempts_le_3 [OF m(2), of "''A''"] attempts_le_3 [OF m(2), of "''B''"] by simp
    with m(1) show ?thesis by (rule boot_loop_ends)
  qed
qed

end

section \<open>A concrete boot: the first trial of job J1 on slot A\<close>

definition trial_entries :: entries where
  "trial_entries = sample_entries @
     [(''epk_os_pending'', ''J1''), (''epk_os_phase'', ''activated''), (''epk_os_target'', ''A''),
      (''epk_os_from'', ''B''), (''epk_os_target_sequence'', ''4''), (''epk_os_target_sha256'', ''ab'')]"



abbreviation trial_env :: env where
  "trial_env \<equiv> map_of trial_entries"

lemma trial_var [simp]:
  "var trial_env ''BOOT_ORDER'' = ''A B''" "var trial_env ''BOOT_A_LEFT'' = ''3''"
  "var trial_env ''BOOT_B_LEFT'' = ''3''" "var trial_env ''epk_os_pending'' = ''J1''"
  "var trial_env ''epk_os_phase'' = ''activated''" "var trial_env ''epk_os_target'' = ''A''"
  "var trial_env ''epk_os_from'' = ''B''" "var trial_env ''epk_os_target_sequence'' = ''4''"
  "var trial_env ''epk_os_target_sha256'' = ''ab''" "var trial_env ''epk_os_trial_started'' = []"
  by (simp_all add: var_def trial_entries_def sample_entries_def)








section \<open>What the loader promises over the guard\<close>




text \<open>
  C5. A board whose kernels never start does not reset for ever: after at most seven runs the
  script has halted or a slot has started, whatever the record writes do.
\<close>

theorem boot_loop_bounded: "\<exists>r. boot_loop guard_read guard_write starts 7 g = Some r"
  by (rule guarded.boot_loop_seven)

end
