(* ===== verification/Epk_Storage.thy ===== *)
theory Epk_Storage
  imports Epk_Prelude
begin

text \<open>
  The DATA space policy, \<open>epilykos_storage.py\<close>: the floor and the warning threshold, the
  admission of a job that needs space and the check while a transfer runs.  \<open>os.statvfs\<close> is
  the argument: the pair of the total and the free bytes.
\<close>

section \<open>Thresholds\<close>

definition GIB :: int where "GIB = 1024 ^ 3"

definition floor_bytes :: "int \<Rightarrow> int" where
  "floor_bytes data_total = max GIB (- ((- data_total) div 10))"

definition warning_bytes :: "int \<Rightarrow> int" where
  "warning_bytes data_total = max (2 * GIB) (- ((- data_total) div 5))"

text \<open>
  \<open>f'{n / GIB:.1f} GiB'\<close>.  The quotient by a power of two is exact below \<open>2 ^ 53\<close> and the
  format rounds its decimal expansion half to even.
\<close>

definition tenths :: "nat \<Rightarrow> nat" where
  "tenths n = (let q = n * 10 div 2 ^ 30; r = n * 10 mod 2 ^ 30
     in if 2 ^ 30 < 2 * r \<or> 2 * r = 2 ^ 30 \<and> odd q then q + 1 else q)"

definition gib :: "nat \<Rightarrow> string" where
  "gib n = dec (tenths n div 10) @ ''.'' @ dec (tenths n mod 10) @ '' GiB''"

section \<open>Admission\<close>

record admission =
  total_bytes :: int
  free_bytes :: int
  required_bytes :: int
  admitted_floor :: int
  low :: bool

definition admit :: "int \<Rightarrow> int \<times> int \<Rightarrow> admission result" where
  "admit required usage =
     (let (data_total, free) = usage; limit = floor_bytes data_total
      in if free - required < limit then
           Inl (StorageError (''Not enough free space on DATA: this needs '' @ gib (nat required) @
             '' and must leave '' @ gib (nat limit) @ '' free; free up '' @
             gib (nat (limit - (free - required))) @ '' first''))
         else Inr \<lparr>total_bytes = data_total, free_bytes = free, required_bytes = required,
           admitted_floor = limit, low = (free < warning_bytes data_total)\<rparr>)"

definition check_headroom :: "int \<times> int \<Rightarrow> int result" where
  "check_headroom usage =
     (let (data_total, free) = usage
      in if free < floor_bytes data_total then
           Inl (StorageError (''DATA is nearly full (less than '' @ gib (nat (floor_bytes data_total)) @
             '' free), so the download stopped''))
         else Inr free)"

section \<open>Lemmas\<close>

lemma floor_bytes_ge: "GIB \<le> floor_bytes data_total" "data_total \<le> 10 * floor_bytes data_total"
  by (auto simp: floor_bytes_def max_def)

lemma floor_bytes_least:
  "GIB \<le> f \<Longrightarrow> data_total \<le> 10 * f \<Longrightarrow> floor_bytes data_total \<le> f"
  by (auto simp: floor_bytes_def max_def)

lemma floor_le_warning: "floor_bytes data_total \<le> warning_bytes data_total"
  by (auto simp: floor_bytes_def warning_bytes_def max_def GIB_def)

text \<open>The displayed size is within half a tenth of a GiB of the real one.\<close>

lemma tenths_close: "\<bar>int (tenths n) * 2 ^ 30 - int n * 10\<bar> * 2 \<le> 2 ^ 30"
proof -
  define q r where "q = n * 10 div 2 ^ 30" and "r = n * 10 mod 2 ^ 30"
  have n: "n * 10 = q * 2 ^ 30 + r" unfolding q_def r_def by (rule div_mult_mod_eq [symmetric])
  have r: "r < 2 ^ 30" by (simp add: r_def)
  have "tenths n = q + of_bool (2 ^ 30 < 2 * r \<or> 2 * r = 2 ^ 30 \<and> odd q)"
    unfolding tenths_def Let_def q_def [symmetric] r_def [symmetric] by simp
  moreover have "int n * 10 = int q * 2 ^ 30 + int r" using n by (metis of_nat_add of_nat_mult of_nat_numeral of_nat_power)
  ultimately show ?thesis using r by (auto simp: algebra_simps)
qed

lemma check_headroom_admit:
  "check_headroom (data_total, free) = Inr free \<longleftrightarrow> (\<exists>r. admit 0 (data_total, free) = Inr r)"
  by (simp add: check_headroom_def admit_def Let_def)

section \<open>What the policy promises\<close>

text \<open>
  A job is admitted exactly when DATA keeps its floor after the bytes it needs, the floor
  being the least size of at least 1 GiB and at least a tenth of DATA, written without the rounding of the code.
\<close>

theorem admit_keeps_floor:
  "(\<exists>r. admit required (data_total, free) = Inr r) \<longleftrightarrow>
     GIB \<le> free - required \<and> data_total \<le> 10 * (free - required)"
proof -
  have "(\<exists>r. admit required (data_total, free) = Inr r) \<longleftrightarrow> floor_bytes data_total \<le> free - required"
    by (simp add: admit_def Let_def not_less)
  then show ?thesis
    using floor_bytes_ge [of data_total] floor_bytes_least [of "free - required" data_total] by auto
qed

end
