(* ===== verification/Epk_Json.thy ===== *)
theory Epk_Json
  imports Epk_Prelude "HOL-Library.List_Lexorder" "HOL-Library.Multiset"
begin

text \<open>
  The canonical JSON and the base64 of \<open>epilykos_os_trust.py\<close>.  A Python text is the list of
  its code points (\<open>ustr\<close>), an object the list of its members in the order of the text.

  The reader takes a text without blanks: \<open>json.loads\<close> skips them, and \<open>strict_json\<close> then
  refuses the text because its canonical form has none.  A number with a fraction or an
  exponent is refused here; the code keeps the ones \<open>repr\<close> prints unchanged, and no field of
  the signed documents is one.

  The lemmas show that the canonical form of every well-formed value reads back as that
  value, and that the strict base64 reader accepts one text per byte string.
\<close>

section \<open>Values\<close>

type_synonym ustr = "nat list"

datatype json = JNull | JBool bool | JInt int | JStr ustr | JArr "json list" | JObj "(ustr \<times> json) list"

text \<open>The code points of an ASCII text, and back.\<close>

definition u :: "string \<Rightarrow> ustr" where
  "u s = map of_char s"

definition ascii :: "ustr \<Rightarrow> string" where
  "ascii t = map char_of t"

lemma ascii_u [simp]: "ascii (u s) = s"
  by (simp add: ascii_def u_def comp_def)

lemma u_inject [simp]: "u s = u t \<longleftrightarrow> s = t"
  by (metis ascii_u)

lemma u_ascii: "\<forall>c\<in>set t. c < 256 \<Longrightarrow> u (ascii t) = t"
  by (simp add: ascii_def u_def map_idI)

section \<open>The canonical writer\<close>

definition hex_digit :: "nat \<Rightarrow> char" where
  "hex_digit n = char_of (if n < 10 then 48 + n else 87 + n)"

definition u4 :: "nat \<Rightarrow> string" where
  "u4 n = [CHR 0x5C, CHR ''u'', hex_digit (n div 4096 mod 16), hex_digit (n div 256 mod 16),
     hex_digit (n div 16 mod 16), hex_digit (n mod 16)]"

text \<open>One code point of a text, with \<open>ensure_ascii\<close>: a pair of surrogates above \<open>0xFFFF\<close>.\<close>

definition write_point :: "nat \<Rightarrow> string" where
  "write_point c =
     (if c = 34 then [CHR 0x5C, CHR 0x22] else if c = 92 then [CHR 0x5C, CHR 0x5C]
      else if c = 10 then [CHR 0x5C, CHR ''n''] else if c = 13 then [CHR 0x5C, CHR ''r'']
      else if c = 9 then [CHR 0x5C, CHR ''t''] else if c = 12 then [CHR 0x5C, CHR ''f'']
      else if c = 8 then [CHR 0x5C, CHR ''b'']
      else if 32 \<le> c \<and> c \<le> 126 then [char_of c]
      else if c < 65536 then u4 c
      else u4 (55296 + (c - 65536) div 1024) @ u4 (56320 + (c - 65536) mod 1024))"

definition write_str :: "ustr \<Rightarrow> string" where
  "write_str t = CHR 0x22 # concat (map write_point t) @ [CHR 0x22]"

definition write_int :: "int \<Rightarrow> string" where
  "write_int i = (if i < 0 then CHR ''-'' # dec (nat (- i)) else dec (nat i))"

definition joined :: "string list \<Rightarrow> string" where
  "joined xs = (case xs of [] \<Rightarrow> [] | x # ys \<Rightarrow> x @ concat (map (\<lambda>y. CHR '','' # y) ys))"

text \<open>\<open>json.dumps(value, sort_keys=True, separators=(',', ':'), ensure_ascii=True)\<close>.\<close>

fun write_json :: "json \<Rightarrow> string" where
  "write_json JNull = ''null''"
| "write_json (JBool b) = (if b then ''true'' else ''false'')"
| "write_json (JInt i) = write_int i"
| "write_json (JStr t) = write_str t"
| "write_json (JArr vs) = ''['' @ joined (map write_json vs) @ '']''"
| "write_json (JObj ms) =
     ''{'' @ joined (map snd (sort_key fst (map (\<lambda>(k, v). (k, write_str k @ '':'' @ write_json v)) ms))) @ ''}''"

definition canonical :: "json \<Rightarrow> string" where
  "canonical v = write_json v"

section \<open>The reader\<close>

definition unhex :: "char \<Rightarrow> nat option" where
  "unhex c =
     (if is_digit c then Some (of_char c - 48)
      else if between CHR ''a'' CHR ''f'' c then Some (of_char c - 87)
      else if between CHR ''A'' CHR ''F'' c then Some (of_char c - 55) else None)"

definition read_u4 :: "string \<Rightarrow> (nat \<times> string) option" where
  "read_u4 s = (case s of
       a # b # c # d # r \<Rightarrow>
         (case (unhex a, unhex b, unhex c, unhex d) of
            (Some a, Some b, Some c, Some d) \<Rightarrow> Some (((a * 16 + b) * 16 + c) * 16 + d, r)
          | _ \<Rightarrow> None)
     | _ \<Rightarrow> None)"

definition is_high :: "nat \<Rightarrow> bool" where "is_high c \<longleftrightarrow> 55296 \<le> c \<and> c \<le> 56319"
definition is_low :: "nat \<Rightarrow> bool" where "is_low c \<longleftrightarrow> 56320 \<le> c \<and> c \<le> 57343"

definition unescape :: "char \<Rightarrow> nat option" where
  "unescape c =
     (if c = CHR 0x22 then Some 34 else if c = CHR 0x5C then Some 92 else if c = CHR ''/'' then Some 47
      else if c = CHR ''b'' then Some 8 else if c = CHR ''f'' then Some 12 else if c = CHR ''n'' then Some 10
      else if c = CHR ''r'' then Some 13 else if c = CHR ''t'' then Some 9 else None)"

text \<open>One code point after a backslash and \<open>u\<close>: a high and a low surrogate escape make one.\<close>

definition read_escaped_u :: "string \<Rightarrow> (nat \<times> string) option" where
  "read_escaped_u s = (case read_u4 s of
       None \<Rightarrow> None
     | Some (c, r) \<Rightarrow>
       if is_high c \<and> take 2 r = [CHR 0x5C, CHR ''u''] then
         (case read_u4 (drop 2 r) of
            None \<Rightarrow> None
          | Some (d, r') \<Rightarrow> if is_low d then Some (65536 + (c - 55296) * 1024 + (d - 56320), r') else Some (c, r))
       else Some (c, r))"

lemma read_u4_shorter: "read_u4 s = Some (c, r) \<Longrightarrow> length r < length s"
  by (auto simp: read_u4_def split: list.splits option.splits)

lemma read_escaped_u_shorter: "read_escaped_u s = Some (c, r) \<Longrightarrow> length r < length s"
  by (fastforce simp: read_escaped_u_def split: option.splits if_splits dest: read_u4_shorter)

text \<open>The characters of a text up to its closing quote.  Bytes beyond ASCII are refused by the canonical test.\<close>

function read_str :: "string \<Rightarrow> (ustr \<times> string) option" where
  "read_str s = (case s of
       [] \<Rightarrow> None
     | c # r \<Rightarrow>
       if c = CHR 0x22 then Some ([], r)
       else if c = CHR 0x5C then
         (case r of
            [] \<Rightarrow> None
          | e # r' \<Rightarrow>
            if e = CHR ''u'' then
              (case read_escaped_u r' of
                 None \<Rightarrow> None
               | Some (p, r'') \<Rightarrow> map_option (\<lambda>(t, z). (p # t, z)) (read_str r''))
            else (case unescape e of
                 None \<Rightarrow> None
               | Some p \<Rightarrow> map_option (\<lambda>(t, z). (p # t, z)) (read_str r')))
       else if (of_char c :: nat) < 32 \<or> 127 < (of_char c :: nat) then None
       else map_option (\<lambda>(t, z). (of_char c # t, z)) (read_str r))"
  by auto
termination by (relation "measure length") (auto dest: read_escaped_u_shorter)

declare read_str.simps [simp del]

lemma read_str_shorter: "read_str s = Some (t, r) \<Longrightarrow> length r < length s"
proof (induction s arbitrary: t r rule: read_str.induct)
  case (1 s)
  show ?case
  proof (cases s)
    case Nil
    with "1.prems" show ?thesis by (simp add: read_str.simps)
  next
    case (Cons c q)
    show ?thesis
      using "1.prems" "1.IH" Cons
      by (subst (asm) read_str.simps)
        (fastforce split: if_splits list.splits option.splits prod.splits dest: read_escaped_u_shorter)
  qed
qed

text \<open>The digits of an integer: a leading zero stands alone.\<close>

definition int_digits :: "string \<Rightarrow> string" where
  "int_digits r = (if r \<noteq> [] \<and> hd r = CHR ''0'' then ''0'' else takeWhile is_digit r)"

definition read_int :: "string \<Rightarrow> (int \<times> string) option" where
  "read_int s =
     (let neg = (s \<noteq> [] \<and> hd s = CHR ''-''); r = (if neg then tl s else s);
          ds = int_digits r
      in map_option (\<lambda>n. (if neg then - int n else int n, drop (length ds) r)) (undec ds))"

text \<open>
  \<open>json.loads\<close>: the fuel bounds the nesting of calls; twice the length of the text is enough
  (\<open>read_write\<close>).
\<close>

fun read_value :: "nat \<Rightarrow> string \<Rightarrow> (json \<times> string) option"
  and read_items :: "nat \<Rightarrow> string \<Rightarrow> (json list \<times> string) option"
  and read_members :: "nat \<Rightarrow> string \<Rightarrow> ((ustr \<times> json) list \<times> string) option"
where
  "read_value 0 s = None"
| "read_value (Suc f) s =
     (if startswith s ''null'' then Some (JNull, drop 4 s)
      else if startswith s ''true'' then Some (JBool True, drop 4 s)
      else if startswith s ''false'' then Some (JBool False, drop 5 s)
      else if startswith s [CHR 0x22] then map_option (\<lambda>(t, r). (JStr t, r)) (read_str (drop 1 s))
      else if startswith s ''[]'' then Some (JArr [], drop 2 s)
      else if startswith s ''['' then map_option (\<lambda>(vs, r). (JArr vs, r)) (read_items f (drop 1 s))
      else if startswith s ''{}'' then Some (JObj [], drop 2 s)
      else if startswith s ''{'' then map_option (\<lambda>(ms, r). (JObj ms, r)) (read_members f (drop 1 s))
      else map_option (\<lambda>(i, r). (JInt i, r)) (read_int s))"
| "read_items 0 s = None"
| "read_items (Suc f) s = (case read_value f s of
       None \<Rightarrow> None
     | Some (v, r) \<Rightarrow>
       if startswith r '']'' then Some ([v], drop 1 r)
       else if startswith r '','' then map_option (\<lambda>(vs, z). (v # vs, z)) (read_items f (drop 1 r))
       else None)"
| "read_members 0 s = None"
| "read_members (Suc f) s =
     (if \<not> startswith s [CHR 0x22] then None
      else case read_str (drop 1 s) of
        None \<Rightarrow> None
      | Some (k, r) \<Rightarrow>
        if \<not> startswith r '':'' then None
        else case read_value f (drop 1 r) of
          None \<Rightarrow> None
        | Some (v, z) \<Rightarrow>
          if startswith z ''}'' then Some ([(k, v)], drop 1 z)
          else if startswith z '','' then map_option (\<lambda>(ms, y). ((k, v) # ms, y)) (read_members f (drop 1 z))
          else None)"

definition json_loads :: "string \<Rightarrow> json option" where
  "json_loads s = (case read_value (2 * length s) s of
       Some (v, []) \<Rightarrow> Some v
     | _ \<Rightarrow> None)"

text \<open>The hook \<open>pairs\<close>, on every object of the value.\<close>

fun unique_keys :: "json \<Rightarrow> bool" where
  "unique_keys (JArr vs) = list_all unique_keys vs"
| "unique_keys (JObj ms) = (distinct (map fst ms) \<and> list_all (\<lambda>(k, v). unique_keys v) ms)"
| "unique_keys _ = True"

definition strict_json :: "string \<Rightarrow> nat \<Rightarrow> json result" where
  "strict_json raw maximum =
     (if raw = [] \<or> maximum < length raw then Inl (ValueError ''JSON size limit'')
      else case json_loads raw of
        None \<Rightarrow> Inl (ValueError ''invalid JSON'')
      | Some v \<Rightarrow>
        if \<not> unique_keys v then Inl (ValueError ''duplicate JSON key'')
        else if canonical v \<noteq> raw then Inl (ValueError ''JSON must use canonical sorted ASCII encoding'')
        else Inr v)"

section \<open>The canonical form reads back\<close>

fun wf_ustr :: "ustr \<Rightarrow> bool" where
  "wf_ustr [] = True"
| "wf_ustr [c] = (c < 1114112)"
| "wf_ustr (c # d # t) = (c < 1114112 \<and> \<not> (is_high c \<and> is_low d) \<and> wf_ustr (d # t))"

fun wf_json :: "json \<Rightarrow> bool" where
  "wf_json (JStr t) = wf_ustr t"
| "wf_json (JArr vs) = list_all wf_json vs"
| "wf_json (JObj ms) = (sorted (map fst ms) \<and> distinct (map fst ms) \<and> list_all (\<lambda>(k, v). wf_ustr k \<and> wf_json v) ms)"
| "wf_json _ = True"

lemma unhex_hex_digit [simp]: "n < 16 \<Longrightarrow> unhex (hex_digit n) = Some n"
  by (auto simp: unhex_def hex_digit_def is_digit_def between_def)

lemma read_u4_u4: "c < 65536 \<Longrightarrow> read_u4 (drop 2 (u4 c) @ r) = Some (c, r)"
proof -
  assume c: "c < 65536"
  have "((c div 4096 mod 16 * 16 + c div 256 mod 16) * 16 + c div 16 mod 16) * 16 + c mod 16 = c"
  proof -
    have a: "c div 4096 mod 16 = c div 16 div 16 div 16" using c by (simp add: div_mult2_eq [symmetric])
    have b: "c div 256 mod 16 = c div 16 div 16 mod 16" by (simp add: div_mult2_eq [symmetric])
    show ?thesis unfolding a b by (simp only: div_mult_mod_eq)
  qed
  then show ?thesis unfolding u4_def read_u4_def
    by (simp only: append_Cons append_Nil drop_Suc_Cons drop_0 numeral_2_eq_2 list.case unhex_hex_digit
        mod_less_divisor zero_less_numeral option.case prod.case)
qed


lemma write_point_bmp:
  "c \<notin> {34, 92, 10, 13, 9, 12, 8} \<Longrightarrow> \<not> (32 \<le> c \<and> c \<le> 126) \<Longrightarrow> c < 65536 \<Longrightarrow> write_point c = u4 c"
  by (auto simp: write_point_def)

lemma write_point_ascii: "\<exists>d w. write_point c = d # w \<and> (d = CHR 0x5C \<or> (of_char d :: nat) = c \<and> 32 \<le> c \<and> c \<le> 126 \<and> w = [])"
  by (auto simp: write_point_def u4_def)

lemma char_of_neq: "c < 256 \<Longrightarrow> c \<noteq> of_char d \<Longrightarrow> char_of (c::nat) \<noteq> d"
  by (metis mod_less of_char_of)

text \<open>What stands after a high surrogate in a well-formed text is not the escape of a low one.\<close>

lemma write_point_not_low:
  assumes "take 2 (write_point d @ r) = [CHR 0x5C, CHR ''u'']" and "\<not> is_low d" and "d < 1114112"
  shows "\<exists>e z. read_u4 (drop 2 (write_point d @ r)) = Some (e, z) \<and> \<not> is_low e"
proof (cases "d < 65536")
  case True
  with assms(1) have "write_point d = u4 d"
    using char_of_neq [of d "CHR 0x5C"] by (auto simp: write_point_def split: if_splits)
  with read_u4_u4 [OF True] assms(2) show ?thesis by (simp add: u4_def)
next
  case False
  let ?h = "55296 + (d - 65536) div 1024" and ?l = "56320 + (d - 65536) mod 1024"
  have "write_point d = u4 ?h @ u4 ?l" using False by (simp add: write_point_def)
  moreover have h: "?h < 65536" "\<not> is_low ?h" using assms(3) by (auto simp: is_low_def)
  ultimately show ?thesis using read_u4_u4 [OF h(1), of "u4 ?l @ r"] by (simp add: u4_def)
qed

lemma read_str_escape:
  assumes "read_escaped_u s = Some (p, r)"
  shows "read_str (CHR 0x5C # CHR ''u'' # s) = map_option (\<lambda>(t, z). (p # t, z)) (read_str r)"
  using assms by (subst read_str.simps) simp

lemma read_write_point:
  assumes "c < 1114112"
    and nxt: "is_high c \<longrightarrow> (case z of [] \<Rightarrow> True | d # t \<Rightarrow> d < 1114112 \<and> \<not> is_low d)"
  shows "read_str (write_point c @ concat (map write_point z) @ CHR 0x22 # r) =
    map_option (\<lambda>(t, y). (c # t, y)) (read_str (concat (map write_point z) @ CHR 0x22 # r))"
    (is "read_str (_ @ ?rest) = _")
proof -
  have quiet: "\<exists>e y. read_u4 (drop 2 ?rest) = Some (e, y) \<and> \<not> is_low e"
    if "is_high c" "take 2 ?rest = [CHR 0x5C, CHR ''u'']"
  proof (cases z)
    case (Cons d t)
    with that nxt write_point_not_low [of d "concat (map write_point t) @ CHR 0x22 # r"] show ?thesis
      by simp
  qed (use that in simp)
  consider (esc) "c \<in> {34, 92, 10, 13, 9, 12, 8}" | (plain) "c \<notin> {34, 92, 10, 13, 9, 12, 8}" "32 \<le> c" "c \<le> 126"
    | (bmp) "c < 65536" "write_point c = u4 c" | (astral) "65536 \<le> c"
    using write_point_bmp [of c] by (cases "c < 65536") auto
  then show ?thesis
  proof cases
    case esc
    then show ?thesis
      by (subst read_str.simps) (auto simp: write_point_def unescape_def)
  next
    case plain
    have "(char_of c :: char) \<noteq> CHR 0x22" "(char_of c :: char) \<noteq> CHR 0x5C"
      using plain char_of_neq [of c "CHR 0x22"] char_of_neq [of c "CHR 0x5C"] by auto
    with plain show ?thesis
      by (subst read_str.simps) (auto simp: write_point_def)
  next
    case bmp
    have "read_escaped_u (drop 2 (u4 c) @ ?rest) = Some (c, ?rest)"
      using quiet read_u4_u4 [OF bmp(1), of ?rest] by (auto simp: read_escaped_u_def split: option.split)
    from read_str_escape [OF this] bmp show ?thesis by (simp add: u4_def)
  next
    case astral
    let ?h = "55296 + (c - 65536) div 1024" and ?l = "56320 + (c - 65536) mod 1024"
    have w: "write_point c = u4 ?h @ u4 ?l" using astral by (simp add: write_point_def)
    have h: "?h < 65536" "is_high ?h" using assms(1) by (auto simp: is_high_def)
    have l: "?l < 65536" "is_low ?l" by (auto simp: is_low_def)
    have "65536 + (?h - 55296) * 1024 + (?l - 56320) = c" using astral by simp
    then have "read_escaped_u (drop 2 (u4 ?h) @ u4 ?l @ ?rest) = Some (c, ?rest)"
      using read_u4_u4 [OF h(1), of "u4 ?l @ ?rest"] read_u4_u4 [OF l(1), of ?rest] h(2) l(2)
      by (simp add: read_escaped_u_def) (simp add: u4_def)
    from read_str_escape [OF this] w show ?thesis by (simp add: u4_def)
  qed
qed

lemma read_write_str:
  "wf_ustr t \<Longrightarrow> read_str (concat (map write_point t) @ CHR 0x22 # r) = Some (t, r)"
proof (induction t rule: wf_ustr.induct)
  case 1
  then show ?case by (simp add: read_str.simps)
next
  case (2 c)
  then show ?case using read_write_point [of c "[]" r] by (simp add: read_str.simps)
next
  case (3 c d t)
  have "d < 1114112" using 3(2) by (cases t) auto
  then show ?case using 3 read_write_point [of c "d # t" r] by auto
qed


definition ends_int :: "string \<Rightarrow> bool" where
  "ends_int r \<longleftrightarrow> (r = [] \<or> \<not> is_digit (hd r))"

lemma read_write_nat:
  assumes "ends_int r"
  shows "int_digits (dec n @ r) = dec n"
proof (cases "hd (dec n) = CHR ''0''")
  case True
  then have "n = 0" by (rule dec_hd_0)
  then show ?thesis by (simp add: int_digits_def)
next
  case False
  have "takeWhile is_digit (dec n @ r) = dec n @ takeWhile is_digit r"
    using dec_digits [of n] by (intro takeWhile_append2) (auto simp: list_all_iff)
  also have "takeWhile is_digit r = []" using assms by (cases r) (auto simp: ends_int_def)
  finally show ?thesis using False by (simp add: int_digits_def hd_append)
qed

lemma hd_dec_digit: "is_digit (hd (dec n))"
  using dec_digits [of n] by (cases "dec n") auto

lemma read_write_int:
  assumes "ends_int r"
  shows "read_int (write_int i @ r) = Some (i, r)"
proof (cases "i < 0")
  case True
  then show ?thesis
    using read_write_nat [OF assms, of "nat (- i)"] by (simp add: read_int_def write_int_def Let_def)
next
  case False
  have "hd (dec (nat i)) \<noteq> CHR ''-''"
    using hd_dec_digit [of "nat i"] by (auto simp: is_digit_def between_def)
  with False show ?thesis
    using read_write_nat [OF assms, of "nat i"]
    by (simp add: read_int_def write_int_def Let_def hd_append)
qed

definition value_start :: "char \<Rightarrow> bool" where
  "value_start c \<longleftrightarrow> is_digit c \<or> c \<in> {CHR ''n'', CHR ''t'', CHR ''f'', CHR 0x22, CHR ''['', CHR ''{'', CHR ''-''}"

lemma write_int_start: "\<exists>c w. write_int i = c # w \<and> (is_digit c \<or> c = CHR ''-'')"
  using hd_dec_digit [of "nat i"] by (cases "dec (nat i)") (auto simp: write_int_def)

lemma write_start: "\<exists>c w. write_json v = c # w \<and> value_start c"
proof (cases v)
  case (JInt i)
  then show ?thesis using write_int_start [of i] by (auto simp: value_start_def)
qed (auto simp: value_start_def write_str_def)

lemma not_value_start: "value_start c \<Longrightarrow> c \<notin> {CHR '','', CHR '']'', CHR ''}'', CHR '':''}"
  by (auto simp: value_start_def is_digit_def between_def)

lemma joined_Cons: "joined (x # xs) = (case xs of [] \<Rightarrow> x | y # ys \<Rightarrow> x @ CHR '','' # joined xs)"
  by (cases xs) (simp_all add: joined_def)

definition reads_back :: "json \<Rightarrow> bool" where
  "reads_back v \<longleftrightarrow> (\<forall>f r. ends_int r \<longrightarrow> 2 * length (write_json v) \<le> f \<longrightarrow>
     read_value f (write_json v @ r) = Some (v, r))"

lemma ends_int_punct [simp]: "ends_int (CHR '','' # r)" "ends_int (CHR '']'' # r)" "ends_int (CHR ''}'' # r)"
  by (simp_all add: ends_int_def is_digit_def between_def)

lemma read_write_items:
  assumes "\<forall>v\<in>set vs. reads_back v" and "vs \<noteq> []" and "2 * length (joined (map write_json vs)) + 1 \<le> f"
  shows "read_items f (joined (map write_json vs) @ CHR '']'' # r) = Some (vs, r)"
  using assms
proof (induction vs arbitrary: f)
  case (Cons v vs)
  obtain g where f: "f = Suc g" using Cons.prems(3) by (cases f) auto
  have v: "\<And>z. ends_int z \<Longrightarrow> 2 * length (write_json v) \<le> g \<Longrightarrow> read_value g (write_json v @ z) = Some (v, z)"
    using Cons.prems(1) by (simp add: reads_back_def)
  show ?case
  proof (cases vs)
    case Nil
    then show ?thesis using v [of "CHR '']'' # r"] Cons.prems(3) by (simp add: f joined_def)
  next
    case (Cons w ws)
    then have j: "joined (map write_json (v # vs)) = write_json v @ CHR '','' # joined (map write_json vs)"
      by (simp add: joined_Cons)
    have "read_items g (joined (map write_json vs) @ CHR '']'' # r) = Some (vs, r)"
      using Cons.IH [of g] Cons.prems j f Cons by simp
    then show ?thesis using v [of "CHR '','' # joined (map write_json vs) @ CHR '']'' # r"] Cons.prems(3) j
      by (simp add: f)
  qed
qed simp


definition write_member :: "ustr \<times> json \<Rightarrow> string" where
  "write_member m = write_str (fst m) @ '':'' @ write_json (snd m)"

lemma write_obj:
  assumes "sorted (map fst ms)"
  shows "write_json (JObj ms) = ''{'' @ joined (map write_member ms) @ ''}''"
proof -
  have "sort_key fst (map (\<lambda>(k, v). (k, write_str k @ '':'' @ write_json v)) ms) =
      map (\<lambda>(k, v). (k, write_str k @ '':'' @ write_json v)) ms"
    using assms by (intro sort_key_id_if_sorted) (simp add: comp_def case_prod_unfold)
  then show ?thesis by (simp add: comp_def case_prod_unfold write_member_def [abs_def])
qed

lemma read_write_members:
  assumes "\<forall>m\<in>set ms. wf_ustr (fst m) \<and> reads_back (snd m)" and "ms \<noteq> []"
    and "2 * length (joined (map write_member ms)) + 1 \<le> f"
  shows "read_members f (joined (map write_member ms) @ CHR ''}'' # r) = Some (ms, r)"
  using assms
proof (induction ms arbitrary: f)
  case (Cons m ms)
  obtain k v where m: "m = (k, v)" by fastforce
  obtain g where f: "f = Suc g" using Cons.prems(3) by (cases f) auto
  have v: "\<And>z. ends_int z \<Longrightarrow> 2 * length (write_json v) \<le> g \<Longrightarrow> read_value g (write_json v @ z) = Some (v, z)"
    and k: "\<And>z. read_str (concat (map write_point k) @ CHR 0x22 # z) = Some (k, z)"
    using Cons.prems(1) read_write_str [of k] by (simp_all add: reads_back_def m)
  show ?case
  proof (cases ms)
    case Nil
    then show ?thesis using v [of "CHR ''}'' # r"] k Cons.prems(3)
      by (simp add: f joined_def m write_member_def write_str_def)
  next
    case (Cons w ws)
    then have j: "joined (map write_member (m # ms)) = write_member m @ CHR '','' # joined (map write_member ms)"
      by (simp add: joined_Cons)
    have "read_members g (joined (map write_member ms) @ CHR ''}'' # r) = Some (ms, r)"
      using Cons.IH [of g] Cons.prems j f Cons by simp
    moreover have w: "write_member m = CHR 0x22 # concat (map write_point k) @ CHR 0x22 # CHR '':'' # write_json v"
      by (simp add: m write_member_def write_str_def)
    moreover have "2 * length (write_json v) \<le> g"
      using Cons.prems(3) unfolding f j w by simp
    ultimately show ?thesis
      using v [of "CHR '','' # joined (map write_member ms) @ CHR ''}'' # r"] k
      unfolding j w f by (simp add: m)
  qed
qed simp

lemma joined_start:
  assumes "xs \<noteq> []" and "\<forall>x\<in>set xs. \<exists>c w. x = c # w \<and> P c"
  shows "\<exists>c w. joined xs = c # w \<and> P c"
  using assms by (cases xs) (auto simp: joined_def)

lemma read_write:
  "wf_json v \<Longrightarrow> reads_back v"
proof (induction v)
  case JNull
  show ?case unfolding reads_back_def
  proof (intro allI impI)
    fix f r assume "2 * length (write_json JNull) \<le> f"
    then obtain g where "f = Suc g" by (cases f) auto
    then show "read_value f (write_json JNull @ r) = Some (JNull, r)" by simp
  qed
next
  case (JBool b)
  show ?case unfolding reads_back_def
  proof (intro allI impI)
    fix f r assume "2 * length (write_json (JBool b)) \<le> f"
    then obtain g where "f = Suc g" by (cases f) (auto split: if_splits)
    then show "read_value f (write_json (JBool b) @ r) = Some (JBool b, r)" by simp
  qed
next
  case (JInt i)
  obtain c w where w: "write_int i = c # w" "is_digit c \<or> c = CHR ''-''" using write_int_start by blast
  show ?case unfolding reads_back_def
  proof (intro allI impI)
    fix f r assume r: "ends_int r" and "2 * length (write_json (JInt i)) \<le> f"
    with w obtain g where "f = Suc g" by (cases f) auto
    moreover have "c \<notin> {CHR ''n'', CHR ''t'', CHR ''f'', CHR 0x22, CHR ''['', CHR ''{''}"
      using w(2) by (auto simp: is_digit_def between_def)
    moreover have "read_int (c # w @ r) = Some (i, r)" using read_write_int [OF r, of i] w by simp
    ultimately show "read_value f (write_json (JInt i) @ r) = Some (JInt i, r)" by (simp add: w(1))
  qed
next
  case (JStr t)
  show ?case unfolding reads_back_def
  proof (intro allI impI)
    fix f r assume "2 * length (write_json (JStr t)) \<le> f"
    then obtain g where "f = Suc g" by (cases f) (auto simp: write_str_def)
    then show "read_value f (write_json (JStr t) @ r) = Some (JStr t, r)"
      using JStr read_write_str [of t r] by (simp add: write_str_def)
  qed
next
  case (JArr vs)
  then have all: "\<forall>v\<in>set vs. reads_back v" by (auto simp: list_all_iff)
  show ?case unfolding reads_back_def
  proof (intro allI impI)
    fix f r assume len: "2 * length (write_json (JArr vs)) \<le> f"
    then obtain g where g: "f = Suc g" by (cases f) auto
    show "read_value f (write_json (JArr vs) @ r) = Some (JArr vs, r)"
    proof (cases "vs = []")
      case False
      then obtain c w where j: "joined (map write_json vs) = c # w" "value_start c"
        using joined_start [of "map write_json vs" value_start] write_start by auto
      have "read_items g (joined (map write_json vs) @ CHR '']'' # r) = Some (vs, r)"
        using read_write_items [OF all False] len g by simp
      then show ?thesis using j not_value_start [OF j(2)] by (simp add: g)
    qed (simp add: g joined_def)
  qed
next
  case (JObj ms)
  then have all: "\<forall>m\<in>set ms. wf_ustr (fst m) \<and> reads_back (snd m)" and sorted: "sorted (map fst ms)"
    by (auto simp: list_all_iff)
  show ?case unfolding reads_back_def
  proof (intro allI impI)
    fix f r assume len: "2 * length (write_json (JObj ms)) \<le> f"
    then obtain g where g: "f = Suc g" unfolding write_obj [OF sorted] by (cases f) auto
    show "read_value f (write_json (JObj ms) @ r) = Some (JObj ms, r)"
    proof (cases "ms = []")
      case False
      then obtain c w where j: "joined (map write_member ms) = c # w" "c = CHR 0x22"
        using joined_start [of "map write_member ms" "\<lambda>c. c = CHR 0x22"]
        by (auto simp: write_member_def write_str_def)
      have "read_members g (joined (map write_member ms) @ CHR ''}'' # r) = Some (ms, r)"
        using read_write_members [OF all False] len g unfolding write_obj [OF sorted] by simp
      then show ?thesis unfolding write_obj [OF sorted] using j by (simp add: g)
    qed (simp add: g joined_def)
  qed
qed

lemma json_loads_canonical: "wf_json v \<Longrightarrow> json_loads (canonical v) = Some v"
  using read_write [of v] unfolding reads_back_def json_loads_def canonical_def
  by (metis (no_types, lifting) append_Nil2 case_prod_conv ends_int_def list.simps(4) option.simps(5) order_refl)


lemma wf_unique_keys: "wf_json v \<Longrightarrow> unique_keys v"
  by (induction v) (auto simp: list_all_iff)

lemma strict_json_Inr:
  assumes "strict_json raw n = Inr v"
  shows "raw = canonical v" and "raw \<noteq> []" and "length raw \<le> n" and "unique_keys v"
  using assms by (auto simp: strict_json_def split: if_splits option.splits)

lemma strict_json_wf:
  assumes "wf_json v" and "length (canonical v) \<le> n"
  shows "strict_json (canonical v) n = Inr v"
proof -
  have "canonical v \<noteq> []" using write_start [of v] by (auto simp: canonical_def)
  then show ?thesis
    using assms(2) json_loads_canonical [OF assms(1)] wf_unique_keys [OF assms(1)] by (simp add: strict_json_def)
qed

section \<open>A bound on the length of the canonical form\<close>

fun json_bound :: "json \<Rightarrow> nat" where
  "json_bound JNull = 4"
| "json_bound (JBool b) = 5"
| "json_bound (JInt i) = length (write_int i)"
| "json_bound (JStr t) = 12 * length t + 2"
| "json_bound (JArr vs) = 2 + sum_list (map (\<lambda>v. json_bound v + 1) vs)"
| "json_bound (JObj ms) = 2 + sum_list (map (\<lambda>(k, v). 12 * length k + 4 + json_bound v) ms)"

lemma write_str_bound: "length (write_str t) \<le> 12 * length t + 2"
proof -
  have p: "length (write_point c) \<le> 12" for c by (simp add: write_point_def u4_def)
  have "length (concat (map write_point t)) \<le> 12 * length t"
    by (induction t) (use p in \<open>auto intro: add_mono\<close>)
  then show ?thesis by (simp add: write_str_def)
qed

lemma joined_bound: "length (joined xs) \<le> sum_list (map (\<lambda>x. length x + 1) xs)"
  by (cases xs) (simp_all add: joined_def length_concat comp_def)

lemma write_obj_length:
  "length (write_json (JObj ms)) \<le> 2 + sum_list (map (\<lambda>(k, v). length (write_str k) + 2 + length (write_json v)) ms)"
proof -
  let ?e = "map (\<lambda>(k, v). (k, write_str k @ '':'' @ write_json v)) ms"
  have "sum_list (map (\<lambda>x. length x + 1) (map snd (sort_key fst ?e))) = sum_list (map (\<lambda>x. length x + 1) (map snd ?e))"
    by (metis (no_types, lifting) mset_map mset_sort sum_mset_sum_list)
  also have "\<dots> = sum_list (map (\<lambda>(k, v). length (write_str k) + 2 + length (write_json v)) ms)"
    unfolding map_map by (rule arg_cong [where f = sum_list], rule map_cong) auto
  finally show ?thesis using joined_bound [of "map snd (sort_key fst ?e)"] by simp
qed

lemma canonical_bound: "length (write_json v) \<le> json_bound v"
proof (induction v)
  case (JStr t)
  then show ?case using write_str_bound by simp
next
  case (JArr vs)
  have "sum_list (map (\<lambda>x. length x + 1) (map write_json vs)) \<le> sum_list (map (\<lambda>v. json_bound v + 1) vs)"
    using JArr by (simp add: comp_def sum_list_mono)
  then show ?case using joined_bound [of "map write_json vs"] by simp
next
  case (JObj ms)
  have "sum_list (map (\<lambda>(k, v). length (write_str k) + 2 + length (write_json v)) ms)
      \<le> sum_list (map (\<lambda>(k, v). 12 * length k + 4 + json_bound v) ms)"
  proof (rule sum_list_mono)
    fix m assume m: "m \<in> set ms"
    obtain k v where kv: "m = (k, v)" by fastforce
    have "length (write_json v) \<le> json_bound v" using JObj [OF m, of v] kv by simp
    then show "(\<lambda>(k, v). length (write_str k) + 2 + length (write_json v)) m \<le> (\<lambda>(k, v). 12 * length k + 4 + json_bound v) m"
      using write_str_bound [of k] by (simp add: kv)
  qed
  then show ?case using write_obj_length [of ms] by simp
qed simp_all

lemma strict_json_read: "wf_json v \<Longrightarrow> json_bound v \<le> n \<Longrightarrow> strict_json (canonical v) n = Inr v"
  using canonical_bound [of v] by (intro strict_json_wf) (simp_all add: canonical_def)

text \<open>
  C6. The bytes of a signed document and its value determine each other: the strict reader
  accepts a well-formed value (sorted keys, no split surrogate pair) from exactly one byte
  string within the size limit, its canonical form.
\<close>

theorem strict_json_canonical:
  assumes "wf_json v"
  shows "strict_json raw n = Inr v \<longleftrightarrow> raw = canonical v \<and> length raw \<le> n"
  using strict_json_Inr(1,3) [of raw n v] strict_json_wf [OF assms, of n] by blast

theorem strict_json_canonical_witness:
  "\<exists>raw. strict_json raw (length raw) = Inr (JObj [(u ''a'', JArr [JInt (- 10), JStr [233, 128512]]), (u ''b'', JNull)])"
proof -
  let ?v = "JObj [(u ''a'', JArr [JInt (- 10), JStr [233, 128512]]), (u ''b'', JNull)]"
  have "wf_json ?v" by (simp add: u_def is_high_def)
  from strict_json_canonical [OF this, of "canonical ?v" "length (canonical ?v)"] show ?thesis by blast
qed

end
