(* ===== verification/Epk_Manifest.thy ===== *)
theory Epk_Manifest
  imports Epk_Json
begin

text \<open>
  The signed entry of an OS package and the agreement of a bundle's manifest with it
  (\<open>check_manifest\<close> of \<open>epilykos_os_trust.py\<close>).  The manifest is read by \<open>configparser\<close> in strict mode
  without interpolation; the reader of that library is modelled line by line, its errors (all
  of the class the code catches) as None.
\<close>

section \<open>The entry\<close>

record os_entry =
  e_board :: string
  e_channel :: string
  e_sequence :: int
  e_trust_epoch :: int
  e_index_key :: string
  e_version :: string
  e_boot_protocol :: int
  e_min_host_api :: int
  e_url :: string
  e_size :: int
  e_sha256 :: string
  e_notes :: string

section \<open>The reader of the manifest\<close>

type_synonym options = "(string \<times> string list) list"

record ini =
  i_sections :: "(string \<times> options) list"
  i_defaults :: options
  i_current :: "string option"
  i_option :: "string option"
  i_indent :: nat

definition empty_ini :: ini where
  "empty_ini = \<lparr>i_sections = [], i_defaults = [], i_current = None, i_option = None, i_indent = 0\<rparr>"

fun split_nl_acc :: "string \<Rightarrow> string \<Rightarrow> string list" where
  "split_nl_acc acc [] = (if acc = [] then [] else [rev acc])"
| "split_nl_acc acc (c # cs) =
     (if c = CHR 0x0A then rev acc # split_nl_acc [] cs else split_nl_acc (c # acc) cs)"

definition rstrip :: "string \<Rightarrow> string" where
  "rstrip s = rev (dropWhile is_space (rev s))"

text \<open>The section pattern \<open>\[(.+)\]\<close>, greedy, and the option pattern up to the first delimiter.\<close>

definition section_header :: "string \<Rightarrow> string option" where
  "section_header v =
     (if \<not> startswith v ''['' then None
      else let r = dropWhile (\<lambda>c. c \<noteq> CHR '']'') (rev (tl v))
           in if length r < 2 then None else Some (rev (tl r)))"

definition option_line :: "string \<Rightarrow> (string \<times> string) option" where
  "option_line v =
     (let is_delim = (\<lambda>c. c = CHR ''='' \<or> c = CHR '':'');
          name = takeWhile (\<lambda>c. \<not> is_delim c) v; rest = dropWhile (\<lambda>c. \<not> is_delim c) v
      in if rest = [] \<or> rstrip name = [] then None else Some (rstrip name, strip (tl rest)))"

definition in_options :: "string \<Rightarrow> options \<Rightarrow> bool" where
  "in_options k os \<longleftrightarrow> k \<in> fst ` set os"

text \<open>A change of the options the parser is in; the section \<open>DEFAULT\<close> has its own.\<close>

definition in_current :: "(options \<Rightarrow> options) \<Rightarrow> ini \<Rightarrow> ini" where
  "in_current f i = (case i_current i of
       None \<Rightarrow> i
     | Some s \<Rightarrow>
       if s = ''DEFAULT'' then i\<lparr>i_defaults := f (i_defaults i)\<rparr>
       else i\<lparr>i_sections := map (\<lambda>(n, os). (n, if n = s then f os else os)) (i_sections i)\<rparr>)"

definition current_options :: "ini \<Rightarrow> options" where
  "current_options i = (case i_current i of
       None \<Rightarrow> []
     | Some s \<Rightarrow> if s = ''DEFAULT'' then i_defaults i
                 else (case map_of (i_sections i) s of None \<Rightarrow> [] | Some os \<Rightarrow> os))"

definition append_value :: "string \<Rightarrow> ini \<Rightarrow> ini" where
  "append_value v i = (case i_option i of
       None \<Rightarrow> i
     | Some k \<Rightarrow> in_current (map (\<lambda>(n, vs). (n, if n = k then vs @ [v] else vs))) i)"

definition is_comment :: "string \<Rightarrow> bool" where
  "is_comment line \<longleftrightarrow> startswith (strip line) ''#'' \<or> startswith (strip line) '';''"

text \<open>One line: a comment, a blank, a continuation, a section or an option.\<close>

definition ini_line :: "string \<Rightarrow> ini \<Rightarrow> ini option" where
  "ini_line line i =
     (let v = (if is_comment line then [] else strip line); ind = length (takeWhile is_space line)
      in if v = [] then Some (if is_comment line then i else append_value [] i)
         else if i_current i \<noteq> None \<and> i_option i \<noteq> None \<and> i_indent i < ind then Some (append_value v i)
         else case section_header v of
           Some s \<Rightarrow>
             if s = ''DEFAULT'' then Some (i\<lparr>i_current := Some s, i_option := None, i_indent := ind\<rparr>)
             else if s \<in> fst ` set (i_sections i) then None
             else Some (i\<lparr>i_sections := i_sections i @ [(s, [])], i_current := Some s, i_option := None, i_indent := ind\<rparr>)
         | None \<Rightarrow>
             if i_current i = None then None
             else (case option_line v of
                 None \<Rightarrow> None
               | Some (k, w) \<Rightarrow>
                 if in_options k (current_options i) then None
                 else Some (in_current (\<lambda>os. os @ [(k, [w])]) (i\<lparr>i_option := Some k, i_indent := ind\<rparr>))))"

fun ini_lines :: "string list \<Rightarrow> ini \<Rightarrow> ini option" where
  "ini_lines [] i = Some i"
| "ini_lines (l # ls) i = (case ini_line l i of None \<Rightarrow> None | Some j \<Rightarrow> ini_lines ls j)"

definition read_ini :: "string \<Rightarrow> ini option" where
  "read_ini s = ini_lines (split_nl_acc [] s) empty_ini"

fun join_nl :: "string list \<Rightarrow> string" where
  "join_nl [] = []"
| "join_nl [x] = x"
| "join_nl (x # y # zs) = x @ CHR 0x0A # join_nl (y # zs)"

definition has_section :: "ini \<Rightarrow> string \<Rightarrow> bool" where
  "has_section i s \<longleftrightarrow> s = ''DEFAULT'' \<or> s \<in> fst ` set (i_sections i)"

text \<open>\<open>parser.get(section, key, fallback='')\<close>: the section's own value, then the default one.\<close>

definition ini_get :: "ini \<Rightarrow> string \<Rightarrow> string \<Rightarrow> string" where
  "ini_get i s k = (case map_of (i_sections i) s of
       None \<Rightarrow> []
     | Some os \<Rightarrow> (case map_of os k of
         Some vs \<Rightarrow> rstrip (join_nl vs)
       | None \<Rightarrow> (case map_of (i_defaults i) k of Some vs \<Rightarrow> rstrip (join_nl vs) | None \<Rightarrow> [])))"

definition has_option :: "ini \<Rightarrow> string \<Rightarrow> string \<Rightarrow> bool" where
  "has_option i s k \<longleftrightarrow> (case map_of (i_sections i) s of
       None \<Rightarrow> False
     | Some os \<Rightarrow> in_options k os \<or> in_options k (i_defaults i))"

section \<open>The agreement\<close>

definition COMPATIBLE :: string where
  "COMPATIBLE = ''epilykos-raspberrypi3''"

text \<open>The fields of the section \<open>meta.epilykos\<close> in their order, with the entry's text of each.\<close>

definition meta_fields :: "os_entry \<Rightarrow> (string \<times> string) list" where
  "meta_fields e =
     [(''board'', e_board e), (''channel'', e_channel e), (''sequence'', write_int (e_sequence e)),
      (''boot_protocol'', write_int (e_boot_protocol e)), (''min_host_api'', write_int (e_min_host_api e)),
      (''trust_epoch'', write_int (e_trust_epoch e))]"

definition image_sections :: "ini \<Rightarrow> string list" where
  "image_sections i = filter (\<lambda>s. startswith s ''image.'') (map fst (i_sections i))"

definition check_manifest :: "string \<Rightarrow> os_entry \<Rightarrow> ini result" where
  "check_manifest manifest entry = (case read_ini manifest of
       None \<Rightarrow> Inl (TrustError ''bundle manifest is malformed'')
     | Some i \<Rightarrow>
       if ini_get i ''update'' ''compatible'' \<noteq> COMPATIBLE then Inl (TrustError ''bundle is for another system'')
       else if ini_get i ''bundle'' ''format'' \<noteq> ''verity'' then Inl (TrustError ''only verity bundles are accepted'')
       else if image_sections i \<noteq> [''image.rootfs''] \<or> has_section i ''hooks'' \<or>
         has_option i ''image.rootfs'' ''hooks'' \<or> has_option i ''image.rootfs'' ''adaptive''
       then Inl (TrustError ''bundle must carry exactly one rootfs image and no hooks'')
       else if has_section i ''handler'' then Inl (TrustError ''bundle must not carry a custom handler'')
       else case find (\<lambda>(k, v). ini_get i ''meta.epilykos'' k \<noteq> v) (meta_fields entry) of
         Some (k, _) \<Rightarrow> Inl (TrustError (''bundle and its authorization disagree on '' @ k))
       | None \<Rightarrow> Inr i)"

section \<open>Lemmas\<close>

lemma write_int_inject [simp]: "write_int a = write_int b \<longleftrightarrow> a = b"
proof
  assume eq: "write_int a = write_int b"
  have e: "ends_int []" by (simp add: ends_int_def)
  from read_write_int [OF e, of a] read_write_int [OF e, of b] eq show "a = b" by simp
qed simp

lemma check_manifest_Inr:
  assumes "check_manifest manifest e = Inr i"
  shows "read_ini manifest = Some i" and "ini_get i ''update'' ''compatible'' = COMPATIBLE"
    and "ini_get i ''bundle'' ''format'' = ''verity''"
    and "image_sections i = [''image.rootfs'']"
    and "\<not> has_section i ''hooks''" and "\<not> has_section i ''handler''"
    and "(k, v) \<in> set (meta_fields e) \<Longrightarrow> ini_get i ''meta.epilykos'' k = v"
proof -
  have i: "read_ini manifest = Some i"
    using assms unfolding check_manifest_def
    by (cases "read_ini manifest") (simp_all split: if_split_asm option.split_asm prod.split_asm)
  note c = assms [unfolded check_manifest_def i option.case]
  show "read_ini manifest = Some i" by (rule i)
  show "ini_get i ''update'' ''compatible'' = COMPATIBLE" using c by (metis sum.distinct(1))
  show "ini_get i ''bundle'' ''format'' = ''verity''" using c by (metis sum.distinct(1))
  show "image_sections i = [''image.rootfs'']" using c by (metis sum.distinct(1))
  show "\<not> has_section i ''hooks''" using c by (metis sum.distinct(1))
  show "\<not> has_section i ''handler''" using c by (metis sum.distinct(1))
  have "find (\<lambda>(k, v). ini_get i ''meta.epilykos'' k \<noteq> v) (meta_fields e) = None"
    using c by (cases "find (\<lambda>(k, v). ini_get i ''meta.epilykos'' k \<noteq> v) (meta_fields e)")
      (simp_all split: if_split_asm prod.split_asm)
  then show "ini_get i ''meta.epilykos'' k = v" if "(k, v) \<in> set (meta_fields e)"
    using that by (auto simp: find_None_iff)
qed

text \<open>One manifest agrees with entries of one identity only.\<close>

lemma check_manifest_unique:
  assumes "check_manifest manifest e = Inr i" and "check_manifest manifest e' = Inr i'"
  shows "e_board e = e_board e'" and "e_channel e = e_channel e'" and "e_sequence e = e_sequence e'"
    and "e_boot_protocol e = e_boot_protocol e'" and "e_min_host_api e = e_min_host_api e'"
    and "e_trust_epoch e = e_trust_epoch e'"
proof -
  have [simp]: "i' = i" using check_manifest_Inr(1) [OF assms(1)] check_manifest_Inr(1) [OF assms(2)] by simp
  have *: "(k, v) \<in> set (meta_fields e) \<Longrightarrow> (k, v') \<in> set (meta_fields e') \<Longrightarrow> v = v'" for k v v'
    using check_manifest_Inr(7) [OF assms(1)] check_manifest_Inr(7) [OF assms(2)] by fastforce
  show "e_board e = e_board e'" by (rule * [of "''board''"]) (simp_all add: meta_fields_def)
  show "e_channel e = e_channel e'" by (rule * [of "''channel''"]) (simp_all add: meta_fields_def)
  have "write_int (e_sequence e) = write_int (e_sequence e')"
    by (rule * [of "''sequence''"]) (simp_all add: meta_fields_def)
  then show "e_sequence e = e_sequence e'" by simp
  have "write_int (e_boot_protocol e) = write_int (e_boot_protocol e')"
    by (rule * [of "''boot_protocol''"]) (simp_all add: meta_fields_def)
  then show "e_boot_protocol e = e_boot_protocol e'" by simp
  have "write_int (e_min_host_api e) = write_int (e_min_host_api e')"
    by (rule * [of "''min_host_api''"]) (simp_all add: meta_fields_def)
  then show "e_min_host_api e = e_min_host_api e'" by simp
  have "write_int (e_trust_epoch e) = write_int (e_trust_epoch e')"
    by (rule * [of "''trust_epoch''"]) (simp_all add: meta_fields_def)
  then show "e_trust_epoch e = e_trust_epoch e'" by simp
qed

end
