(* ===== verification/Epk_Base64.thy ===== *)
theory Epk_Base64
  imports Epk_Env
begin

text \<open>
  Standard base64 as Python's \<open>base64\<close> has it: the encoder and the decoder with
  \<open>validate=True\<close> (\<open>binascii.a2b_base64\<close> in strict mode), whose unused bits are free, and the
  canonical reader \<open>b64\<close> of \<open>epilykos_os_trust.py\<close>.  The digits are those of the guard, and the sizes
  the guard computes are the ones of the encoder.
\<close>

definition b64_char :: "nat \<Rightarrow> char" where
  "b64_char n = char_of (if n < 26 then 65 + n else if n < 52 then 71 + n else if n < 62 then n - 4
     else if n = 62 then 43 else 47)"

definition byte :: "nat \<Rightarrow> char" where
  "byte n = char_of (n mod 256)"

fun b64encode :: "string \<Rightarrow> string" where
  "b64encode [] = []"
| "b64encode [a] = (let n = of_char a * 16 in [b64_char (n div 64), b64_char (n mod 64), CHR ''='', CHR ''=''])"
| "b64encode [a, b] = (let n = (of_char a * 256 + of_char b) * 4
     in [b64_char (n div 4096), b64_char (n div 64 mod 64), b64_char (n mod 64), CHR ''=''])"
| "b64encode (a # b # c # r) = (let n = (of_char a * 256 + of_char b) * 256 + of_char c
     in b64_char (n div 262144) # b64_char (n div 4096 mod 64) # b64_char (n div 64 mod 64) # b64_char (n mod 64)
        # b64encode r)"

fun b64decode :: "string \<Rightarrow> string option" where
  "b64decode [] = Some []"
| "b64decode (a # b # c # d # r) =
     (case (b64_digit a, b64_digit b, b64_digit c, b64_digit d) of
        (Some x, Some y, Some z, Some w) \<Rightarrow>
          (let n = ((x * 64 + y) * 64 + z) * 64 + w
           in map_option (\<lambda>t. byte (n div 65536) # byte (n div 256) # byte n # t) (b64decode r))
      | (Some x, Some y, Some z, None) \<Rightarrow>
          (let n = (x * 64 + y) * 64 + z
           in if d = CHR ''='' \<and> r = [] then Some [byte (n div 1024), byte (n div 4)] else None)
      | (Some x, Some y, None, None) \<Rightarrow>
          (let n = x * 64 + y
           in if c = CHR ''='' \<and> d = CHR ''='' \<and> r = [] then Some [byte (n div 16)] else None)
      | _ \<Rightarrow> None)"
| "b64decode _ = None"

text \<open>\<open>b64(value, size)\<close>: the value decodes to that many bytes and is their own encoding.\<close>

definition b64 :: "string \<Rightarrow> nat \<Rightarrow> string result" where
  "b64 value n = (case b64decode value of
       None \<Rightarrow> Inl (ValueError ''invalid base64'')
     | Some raw \<Rightarrow> if length raw \<noteq> n \<or> b64encode raw \<noteq> value
                    then Inl (ValueError ''invalid canonical base64 length'') else Inr raw)"

lemma b64_digit_char [simp]: "n < 64 \<Longrightarrow> b64_digit (b64_char n) = Some n"
  by (auto simp: b64_digit_def b64_char_def is_digit_def between_def char_of_eq_iff)

lemma b64_digit_pad [simp]: "b64_digit CHR ''='' = None"
  by (simp add: b64_digit_def is_digit_def between_def)

lemma of_char_less [simp]: "(of_char c :: nat) < 256"
  by (metis of_char_mod_256 mod_less_divisor zero_less_numeral)


lemma byte_of [simp]: "byte n = c \<longleftrightarrow> n mod 256 = of_char c"
  by (metis byte_def char_of_char char_of_mod_256 of_char_of)

lemma pack2:
  fixes x y :: nat
  assumes "x < 256" and "y < 256"
  shows "(x * 256 + y) * 4 < 262144" and "(x * 256 + y) * 4 div 1024 mod 256 = x" and "(x * 256 + y) * 4 div 4 mod 256 = y"
proof -
  have "(x * 256 + y) * 4 div 1024 = (x * 256 + y) div 256"
    using div_mult_mult2 [of 4 "x * 256 + y" 256] by simp
  with assms show "(x * 256 + y) * 4 div 1024 mod 256 = x" by simp
qed (use assms in simp_all)

lemma pack3:
  fixes x y z :: nat
  assumes "x < 256" and "y < 256" and "z < 256"
  shows "(x * 256 + y) * 256 + z < 16777216" and "((x * 256 + y) * 256 + z) div 65536 mod 256 = x"
    and "((x * 256 + y) * 256 + z) div 256 mod 256 = y" and "((x * 256 + y) * 256 + z) mod 256 = z"
proof -
  have d: "((x * 256 + y) * 256 + z) div 256 = x * 256 + y" using assms(3) by simp
  have "((x * 256 + y) * 256 + z) div 65536 = ((x * 256 + y) * 256 + z) div 256 div 256"
    by (simp add: div_mult2_eq [symmetric])
  with d assms show "((x * 256 + y) * 256 + z) div 65536 mod 256 = x" by simp
  show "((x * 256 + y) * 256 + z) div 256 mod 256 = y" unfolding d using assms by simp
  show "((x * 256 + y) * 256 + z) mod 256 = z" unfolding mod_mult_self3 using assms(3) by simp
  define m where "m = x * 256 + y"
  have "m < 65536" using assms unfolding m_def by linarith
  then show "(x * 256 + y) * 256 + z < 16777216" using assms(3) unfolding m_def [symmetric] by linarith
qed

lemma digits2:
  fixes n :: nat
  assumes "n < 4096"
  shows "n div 64 < 64" and "n div 64 * 64 + n mod 64 = n"
  using assms by auto

lemma digits3:
  fixes n :: nat
  assumes "n < 262144"
  shows "n div 4096 < 64" and "(n div 4096 * 64 + n div 64 mod 64) * 64 + n mod 64 = n"
proof -
  have "n div 4096 = n div 64 div 64" by (simp add: div_mult2_eq [symmetric])
  then show "(n div 4096 * 64 + n div 64 mod 64) * 64 + n mod 64 = n" by simp
qed (use assms in simp)

lemma digits4:
  fixes n :: nat
  assumes "n < 16777216"
  shows "n div 262144 < 64"
    and "((n div 262144 * 64 + n div 4096 mod 64) * 64 + n div 64 mod 64) * 64 + n mod 64 = n"
proof -
  have "n div 262144 = n div 64 div 64 div 64" "n div 4096 = n div 64 div 64"
    by (simp_all add: div_mult2_eq [symmetric])
  then show "((n div 262144 * 64 + n div 4096 mod 64) * 64 + n div 64 mod 64) * 64 + n mod 64 = n" by simp
qed (use assms in simp)

lemma b64decode_encode [simp]: "b64decode (b64encode raw) = Some raw"
proof (induction raw rule: b64encode.induct)
  case (2 a)
  let ?n = "of_char a * 16 :: nat"
  have n: "?n < 4096" using of_char_less [of a] by linarith
  have "((?n div 64 * 64 + ?n mod 64) div 16) mod 256 = of_char a" unfolding digits2(2) [OF n] by simp
  with digits2(1) [OF n] show ?case by (simp add: Let_def del: div_mult_mod_eq)
next
  case (3 a b)
  let ?n = "(of_char a * 256 + of_char b) * 4 :: nat"
  have n: "?n < 262144" "?n div 1024 mod 256 = of_char a" "?n div 4 mod 256 = of_char b"
    by (intro pack2 of_char_less)+
  with digits3 [OF n(1)] show ?case by (simp add: Let_def)
next
  case (4 a b c r)
  let ?n = "(of_char a * 256 + of_char b) * 256 + of_char c :: nat"
  have n: "?n < 16777216" "?n div 65536 mod 256 = of_char a" "?n div 256 mod 256 = of_char b" "?n mod 256 = of_char c"
    by (intro pack3 of_char_less)+
  with digits4 [OF n(1)] 4 show ?case by (simp add: Let_def)
qed simp


lemma b64_Inr: "b64 value n = Inr raw \<longleftrightarrow> value = b64encode raw \<and> length raw = n"
  by (auto simp: b64_def split: option.splits if_splits)

lemma b64_char_neq_pad [simp]: "n < 64 \<Longrightarrow> b64_char n \<noteq> CHR ''=''"
  by (metis b64_digit_char b64_digit_pad option.distinct(1))

definition b64_text :: "char \<Rightarrow> bool" where
  "b64_text c \<longleftrightarrow> b64_digit c \<noteq> None \<or> c = CHR ''=''"

lemma b64_text_b64_char [simp]: "b64_text (b64_char n)"
proof (cases "n < 64")
  case False
  moreover have "char_of (47::nat) = CHR ''/''" by code_simp
  ultimately have "b64_char n = CHR ''/''" by (simp add: b64_char_def)
  then show ?thesis by (simp add: b64_text_def b64_digit_def is_digit_def between_def)
qed (simp add: b64_text_def)

lemma b64_text_pad [simp]: "b64_text CHR ''=''"
  by (simp add: b64_text_def)

lemma b64_text_printable: "b64_text c \<Longrightarrow> printable c \<and> (of_char c :: nat) < 128"
  by (auto simp: b64_text_def b64_digit_def printable_def is_digit_def between_def split: if_split_asm)

lemma b64encode_text: "list_all b64_text (b64encode raw)"
  by (induction raw rule: b64encode.induct) (simp_all add: Let_def)

lemma b64encode_length: "length (b64encode raw) = (length raw + 2) div 3 * 4"
proof (induction raw rule: b64encode.induct)
  case (4 a b c r)
  have "(length (a # b # c # r) + 2) div 3 = Suc ((length r + 2) div 3)" by simp
  with 4 show ?case by (simp add: Let_def)
qed (simp_all add: Let_def)

lemma b64_size_step:
  assumes "b64_size (Some s) = n" and "n \<noteq> 0" and d: "b64_digit a \<noteq> None" "b64_digit b \<noteq> None" "b64_digit c \<noteq> None" "b64_digit d \<noteq> None"
  shows "b64_size (Some (a # b # c # d # s)) = n + 3"
proof -
  let ?t = "a # b # c # d # s"
  have len: "s \<noteq> []" "length s mod 4 = 0" using assms(1,2) by (auto simp: b64_size_def Let_def split: if_split_asm)
  then have l4: "4 \<le> length s" by (metis length_0_conv mod_less not_le)
  define pad where "pad = (if s ! (length s - 1) = CHR ''='' then 1 else 0) + (if s ! (length s - 2) = CHR ''='' then 1 else (0::nat))"
  have pad: "pad \<le> 2" by (simp add: pad_def)
  have nth: "?t ! (length ?t - 1) = s ! (length s - 1)" "?t ! (length ?t - 2) = s ! (length s - 2)"
    "?t ! (length ?t - 3) = s ! (length s - 3)"
    using l4 len(1) by (simp_all add: nth_Cons' numeral_eq_Suc)
  have take: "take (length ?t - pad) ?t = a # b # c # d # take (length s - pad) s"
    using l4 pad by (simp add: take_Cons' Suc_diff_le)
  have s: "b64_size (Some s) =
     (if list_ex (\<lambda>c. b64_digit c = None) (take (length s - pad) s) then 0
      else if pad = 2 \<and> b64_low 16 (s ! (length s - 3)) \<or> pad = 1 \<and> b64_low 4 (s ! (length s - 2)) then 0
      else length s div 4 * 3 - pad)"
    using len l4 by (simp add: b64_size_def Let_def pad_def)
  have t: "b64_size (Some ?t) =
     (if list_ex (\<lambda>c. b64_digit c = None) (take (length ?t - pad) ?t) then 0
      else if pad = 2 \<and> b64_low 16 (?t ! (length ?t - 3)) \<or> pad = 1 \<and> b64_low 4 (?t ! (length ?t - 2)) then 0
      else length ?t div 4 * 3 - pad)"
    unfolding b64_size_def Let_def pad_def nth [symmetric] using len by simp
  have "length ?t div 4 * 3 - pad = (length s div 4 * 3 - pad) + 3"
    using l4 pad len(2) by auto
  moreover have "list_ex (\<lambda>c. b64_digit c = None) (take (length ?t - pad) ?t) \<longleftrightarrow>
      list_ex (\<lambda>c. b64_digit c = None) (take (length s - pad) s)"
    unfolding take using d by auto
  ultimately show ?thesis using s t assms(1,2) unfolding nth by (simp split: if_split_asm)
qed

lemma b64_size_tails:
  assumes "b64_digit x \<noteq> None" and "b64_digit y \<noteq> None"
  shows "b64_digit y = Some d \<Longrightarrow> d mod 16 = 0 \<Longrightarrow> b64_size (Some [x, y, CHR ''='', CHR ''='']) = 1"
    and "b64_digit z = Some d \<Longrightarrow> d mod 4 = 0 \<Longrightarrow> b64_size (Some [x, y, z, CHR ''='']) = 2"
    and "b64_digit z \<noteq> None \<Longrightarrow> b64_digit w \<noteq> None \<Longrightarrow> b64_size (Some [x, y, z, w]) = 3"
proof -
  have pad: "c \<noteq> CHR ''=''" if "b64_digit c \<noteq> None" for c using that by auto
  show "b64_digit y = Some d \<Longrightarrow> d mod 16 = 0 \<Longrightarrow> b64_size (Some [x, y, CHR ''='', CHR ''='']) = 1"
    using assms by (auto simp: b64_size_def b64_low_def nth_Cons' take_Cons')
  show "b64_digit z = Some d \<Longrightarrow> d mod 4 = 0 \<Longrightarrow> b64_size (Some [x, y, z, CHR ''='']) = 2"
    using assms pad [of z] by (auto simp: b64_size_def b64_low_def nth_Cons' take_Cons')
  show "b64_digit z \<noteq> None \<Longrightarrow> b64_digit w \<noteq> None \<Longrightarrow> b64_size (Some [x, y, z, w]) = 3"
    using assms pad [of z] pad [of w] by (auto simp: b64_size_def b64_low_def nth_Cons' take_Cons')
qed

text \<open>The size the guard computes is the number of bytes the encoder was given.\<close>

lemma b64_size_encode: "raw \<noteq> [] \<Longrightarrow> b64_size (Some (b64encode raw)) = length raw"
proof (induction raw rule: b64encode.induct)
  case (2 a)
  let ?n = "of_char a * 16 :: nat"
  have n: "?n div 64 < 64" by (rule digits2) (use of_char_less [of a] in linarith)
  have "?n mod 64 mod 16 = 0" by (simp add: mod_mod_cancel)
  then show ?case unfolding b64encode.simps Let_def
    by (subst b64_size_tails(1) [where d = "?n mod 64"]) (use n in simp_all)
next
  case (3 a b)
  let ?n = "(of_char a * 256 + of_char b) * 4 :: nat"
  have n: "?n div 4096 < 64" by (intro digits3 pack2 of_char_less)
  have "?n mod 64 mod 4 = 0" by (simp add: mod_mod_cancel)
  then show ?case unfolding b64encode.simps Let_def
    by (subst b64_size_tails(2) [where d = "?n mod 64"]) (use n in simp_all)
next
  case (4 a b c r)
  let ?n = "(of_char a * 256 + of_char b) * 256 + of_char c :: nat"
  have n: "?n div 262144 < 64" by (intro digits4 pack3 of_char_less)
  show ?case
  proof (cases "r = []")
    case True
    show ?thesis unfolding b64encode.simps Let_def True
      by (subst b64_size_tails(3)) (use n in simp_all)
  next
    case False
    then have r: "b64_size (Some (b64encode r)) = length r" using "4.IH" by simp
    show ?thesis unfolding b64encode.simps Let_def
      by (subst b64_size_step [OF r]) (use False n in simp_all)
  qed
qed simp
text \<open>
  A base64 value is accepted with the bytes \<open>raw\<close> exactly when it is their canonical encoding
  and has the demanded length, and the size that the guard computes for that encoding is
  the number of its bytes.
\<close>

theorem b64_canonical:
  "(b64 value n = Inr raw \<longleftrightarrow> value = b64encode raw \<and> length raw = n) \<and>
   b64_size (Some (b64encode (c # bytes))) = length (c # bytes)"
  using b64_size_encode [of "c # bytes"] by (simp add: b64_Inr)

end
