(* ===== verification/Epk_Trust.thy ===== *)
theory Epk_Trust
  imports Epk_Manifest Epk_Base64
begin

text \<open>
  The shared trust of \<open>epilykos_os_trust.py\<close>: the root-signed policy, the signed entry of a
  package, the checks of a downloaded bundle, the trust state in the guarded environment,
  the admission of a newer policy and the keyring that RAUC is given.

  OpenSSL and the hash are the parameter \<open>crypto\<close>; nothing is assumed of them.  The
  environment is used through the interface \<open>env_store\<close>, and the laws of admission are proved
  inside it.
\<close>

section \<open>Parameters and documents\<close>

text \<open>
  What OpenSSL answers: the DER form of a public key, an Ed25519 verification (key, data,
  signature), the basic constraints of a certificate, a CMS verification (signature, keyring)
  with the manifest and the signer's certificate, the key of a certificate.  None or False:
  a non-zero exit.
\<close>

record crypto =
  pkey_der :: "string \<Rightarrow> string option"
  pkeyutl_verify :: "string \<Rightarrow> string \<Rightarrow> string \<Rightarrow> bool"
  x509_constraints :: "string \<Rightarrow> string option"
  cms_verify :: "string \<Rightarrow> string \<Rightarrow> (string \<times> string) option"
  x509_pubkey :: "string \<Rightarrow> string option"
  sha256 :: "string \<Rightarrow> string"

record policy =
  p_board :: string
  p_channel :: string
  p_epoch :: int
  p_keys :: "(string \<times> string) list"
  p_cas :: "string list"
  p_leaves :: "string list"

record platform =
  f_channel :: string
  f_os_version :: string
  f_os_sequence :: int
  f_source :: string
  f_kernel :: string
  f_host_api :: int
  f_app_release :: string

text \<open>The constant fields of a platform: \<open>validate_platform\<close> accepts no other value.\<close>

definition f_board :: string where
  "f_board = ''raspberrypi3''"

definition POLICY_MAX :: nat where "POLICY_MAX = 6144"
definition ENTRY_MAX :: nat where "ENTRY_MAX = 8192"
definition UINT64_MAX :: int where "UINT64_MAX = 2 ^ 64 - 1"
definition BUNDLE_MAX :: int where "BUNDLE_MAX = 3 * 1024 ^ 3"

definition ED25519_SPKI :: string where
  "ED25519_SPKI = map char_of [0x30::nat, 0x2a, 0x30, 0x05, 0x06, 0x03, 0x2b, 0x65, 0x70, 0x03, 0x21, 0x00]"

section \<open>Bounded scalars\<close>

definition integer :: "json \<Rightarrow> int \<Rightarrow> int result" where
  "integer value minimum = (case value of
       JInt i \<Rightarrow> if minimum \<le> i \<and> i \<le> UINT64_MAX then Inr i else Inl (ValueError ''invalid unsigned integer'')
     | _ \<Rightarrow> Inl (ValueError ''invalid unsigned integer''))"

definition text_value :: "json \<Rightarrow> nat \<Rightarrow> string result" where
  "text_value value maximum = (case value of
       JStr t \<Rightarrow> if 0 < length t \<and> length t \<le> maximum \<and> list_all (\<lambda>c. 32 \<le> c \<and> c \<le> 126) t
                 then Inr (ascii t) else Inl (ValueError ''invalid bounded printable string'')
     | _ \<Rightarrow> Inl (ValueError ''invalid bounded printable string''))"

text \<open>A value that must be a string of 7-bit characters with a given property (\<open>re.fullmatch\<close>).\<close>

definition matching :: "(string \<Rightarrow> bool) \<Rightarrow> string \<Rightarrow> json \<Rightarrow> string result" where
  "matching p msg value = (case value of
       JStr t \<Rightarrow> if list_all (\<lambda>c. c < 128) t \<and> p (ascii t) then Inr (ascii t) else Inl (ValueError msg)
     | _ \<Rightarrow> Inl (ValueError msg))"

definition json_b64 :: "json \<Rightarrow> nat \<Rightarrow> string result" where
  "json_b64 value n = rbind (matching (\<lambda>_. True) ''invalid base64'' value) (\<lambda>s. b64 s n)"

definition field :: "(ustr \<times> json) list \<Rightarrow> string \<Rightarrow> json" where
  "field ms k = (case map_of ms (u k) of None \<Rightarrow> JNull | Some v \<Rightarrow> v)"

text \<open>\<open>type(v) is dict and set(v) == fields\<close>.\<close>

definition object_with :: "string list \<Rightarrow> json \<Rightarrow> (ustr \<times> json) list option" where
  "object_with names v = (case v of
       JObj ms \<Rightarrow> if set (map fst ms) = set (map u names) then Some ms else None
     | _ \<Rightarrow> None)"

fun all_results :: "('a \<Rightarrow> 'b result) \<Rightarrow> 'a list \<Rightarrow> 'b list result" where
  "all_results f [] = Inr []"
| "all_results f (x # xs) = rbind (f x) (\<lambda>y. rbind (all_results f xs) (\<lambda>ys. Inr (y # ys)))"

section \<open>Signatures\<close>

text \<open>\<open>re.fullmatch\<close> of a PEM: header, a body of base64 and newlines, footer.\<close>

definition is_pem_char :: "char \<Rightarrow> bool" where
  "is_pem_char c \<longleftrightarrow> is_alnum c \<or> c \<in> {CHR ''+'', CHR ''/'', CHR ''='', CHR 0x0A}"

definition pem_of :: "string \<Rightarrow> string \<Rightarrow> bool" where
  "pem_of label s \<longleftrightarrow>
     (let h = ''-----BEGIN '' @ label @ ''-----'' @ [CHR 0x0A];
          t = CHR 0x0A # ''-----END '' @ label @ ''-----'' @ [CHR 0x0A];
          body = take (length s - length h - length t) (drop (length h) s)
      in startswith s h \<and> endswith s t \<and> length h + length t < length s \<and> list_all is_pem_char body)"

definition raw_public_pem :: "string \<Rightarrow> string" where
  "raw_public_pem raw32 = ''-----BEGIN PUBLIC KEY-----'' @ [CHR 0x0A] @ b64encode (ED25519_SPKI @ raw32) @
     CHR 0x0A # ''-----END PUBLIC KEY-----'' @ [CHR 0x0A]"

definition openssl_verify :: "crypto \<Rightarrow> string \<Rightarrow> string \<Rightarrow> string \<Rightarrow> string \<Rightarrow> unit result" where
  "openssl_verify c not_ed25519 pem data signature = (case pkey_der c pem of
       None \<Rightarrow> Inl (ValueError ''OpenSSL rejected public material or signature'')
     | Some der \<Rightarrow>
       if length der \<noteq> 44 \<or> \<not> startswith der ED25519_SPKI then Inl (ValueError not_ed25519)
       else if pkeyutl_verify c pem data signature then Inr ()
       else Inl (ValueError ''OpenSSL rejected public material or signature''))"

definition ed25519_verify :: "crypto \<Rightarrow> string \<Rightarrow> string \<Rightarrow> string \<Rightarrow> unit result" where
  "ed25519_verify c public_pem data signature =
     (if length signature \<noteq> 64 then Inl (ValueError ''Ed25519 signature must contain exactly 64 bytes'')
      else openssl_verify c ''key must be Ed25519'' public_pem data signature)"

section \<open>The policy\<close>

definition policy_fields :: "string list" where
  "policy_fields = [''schema'', ''board'', ''channel'', ''trust_epoch'', ''index_keys'', ''rauc_cas'',
     ''rauc_leaf_spki_sha256'']"

definition is_key_char :: "char \<Rightarrow> bool" where
  "is_key_char c \<longleftrightarrow> is_alnum c \<or> c \<in> {CHR ''.'', CHR ''_'', CHR ''-''}"

definition key_id_ok :: "string \<Rightarrow> bool" where
  "key_id_ok s \<longleftrightarrow> s \<noteq> [] \<and> is_alnum (hd s) \<and> length s \<le> 64 \<and> list_all is_key_char (tl s)"

text \<open>The delegated keys: identifiers and raw keys must be fresh.\<close>

fun read_keys :: "(string \<times> string) list \<Rightarrow> json list \<Rightarrow> (string \<times> string) list result" where
  "read_keys seen [] = Inr []"
| "read_keys seen (k # ks) = (case object_with [''key_id'', ''public_key''] k of
       None \<Rightarrow> Inl (ValueError ''index key schema'')
     | Some ms \<Rightarrow>
       rbind (matching key_id_ok ''index key identifier'' (field ms ''key_id'')) (\<lambda>i.
       rbind (json_b64 (field ms ''public_key'') 32) (\<lambda>raw.
         if i \<in> fst ` set seen \<or> raw \<in> snd ` set seen then Inl (ValueError ''duplicate delegated key'')
         else rbind (read_keys ((i, raw) # seen) ks) (\<lambda>rest. Inr ((i, b64encode raw) # rest)))))"

definition read_index_keys :: "json \<Rightarrow> (string \<times> string) list result" where
  "read_index_keys v = (case v of
       JArr ks \<Rightarrow> if 1 \<le> length ks \<and> length ks \<le> 8 then read_keys [] ks else Inl (ValueError ''index key count'')
     | _ \<Rightarrow> Inl (ValueError ''index key count''))"

fun contains :: "string \<Rightarrow> string \<Rightarrow> bool" where
  "contains s p = (startswith s p \<or> (case s of [] \<Rightarrow> False | _ # r \<Rightarrow> contains r p))"

definition check_ca :: "crypto \<Rightarrow> string \<Rightarrow> string result" where
  "check_ca c certificate =
     (if \<not> pem_of ''CERTIFICATE'' certificate then Inl (ValueError ''invalid certificate PEM'')
      else case x509_constraints c certificate of
        None \<Rightarrow> Inl (ValueError ''OpenSSL rejected public material or signature'')
      | Some constraints \<Rightarrow>
        if contains constraints ''CA:TRUE'' then Inr certificate
        else Inl (ValueError ''RAUC trust anchor is not a CA''))"

definition read_cas :: "crypto \<Rightarrow> json \<Rightarrow> string list result" where
  "read_cas c v = (case v of
       JArr vs \<Rightarrow>
         if \<not> (1 \<le> length vs \<and> length vs \<le> 4) \<or> \<not> distinct vs then Inl (ValueError ''RAUC CA count/duplicates'')
         else rbind (all_results (matching (\<lambda>_. True) ''invalid certificate PEM'') vs) (all_results (check_ca c))
     | _ \<Rightarrow> Inl (ValueError ''RAUC CA count/duplicates''))"

definition read_leaves :: "json \<Rightarrow> string list result" where
  "read_leaves v = (case v of
       JArr vs \<Rightarrow>
         if \<not> (1 \<le> length vs \<and> length vs \<le> 16) \<or> \<not> distinct vs then Inl (ValueError ''RAUC leaf SPKI allowlist'')
         else all_results (matching (hex_of_length 64) ''RAUC leaf SPKI allowlist'') vs
     | _ \<Rightarrow> Inl (ValueError ''RAUC leaf SPKI allowlist''))"

text \<open>No rollback, and no other bytes under the same epoch.\<close>

definition check_current :: "(string \<times> int) option \<Rightarrow> string \<Rightarrow> policy \<Rightarrow> policy result" where
  "check_current current raw pol = (case current of
       None \<Rightarrow> Inr pol
     | Some (current_raw, current_epoch) \<Rightarrow>
       if \<not> (1 \<le> current_epoch \<and> current_epoch \<le> UINT64_MAX) then Inl (ValueError ''invalid unsigned integer'')
       else if p_epoch pol < current_epoch \<or> p_epoch pol = current_epoch \<and> raw \<noteq> current_raw
       then Inl (ValueError ''policy rollback or same-epoch mutation'') else Inr pol)"

text \<open>\<open>verify_policy\<close>; the current policy is its exact bytes and its epoch.\<close>

definition verify_policy ::
    "crypto \<Rightarrow> string \<Rightarrow> string \<Rightarrow> string \<Rightarrow> string \<Rightarrow> string \<Rightarrow> (string \<times> int) option \<Rightarrow> policy result" where
  "verify_policy c raw signature root_pubkey board channel current =
     rbind (strict_json raw POLICY_MAX) (\<lambda>v.
     case object_with policy_fields v of
       None \<Rightarrow> Inl (ValueError ''unsupported policy schema'')
     | Some ms \<Rightarrow>
       if field ms ''schema'' \<noteq> JInt 1 then Inl (ValueError ''unsupported policy schema'')
       else if board \<noteq> ''raspberrypi3'' \<or> channel \<notin> {''dev'', ''stable''} \<or>
         field ms ''board'' \<noteq> JStr (u board) \<or> field ms ''channel'' \<noteq> JStr (u channel)
       then Inl (ValueError ''policy board/channel mismatch'')
       else rbind (integer (field ms ''trust_epoch'') 1) (\<lambda>epoch.
         if length signature \<noteq> 64 then Inl (ValueError ''Ed25519 signature must contain exactly 64 bytes'')
         else if \<not> (1 \<le> length root_pubkey \<and> length root_pubkey \<le> 256) \<or> \<not> pem_of ''PUBLIC KEY'' root_pubkey
         then Inl (ValueError ''expected pinned public PEM key'')
         else rbind (openssl_verify c ''offline root must be Ed25519'' root_pubkey raw signature) (\<lambda>_.
         rbind (read_index_keys (field ms ''index_keys'')) (\<lambda>keys.
         rbind (read_cas c (field ms ''rauc_cas'')) (\<lambda>cas.
         rbind (read_leaves (field ms ''rauc_leaf_spki_sha256'')) (\<lambda>leaves.
           check_current current raw
             \<lparr>p_board = board, p_channel = channel, p_epoch = epoch, p_keys = keys, p_cas = cas, p_leaves = leaves\<rparr>))))))"

section \<open>The platform\<close>

definition platform_fields :: "string list" where
  "platform_fields = [''schema'', ''board'', ''arch'', ''slot_layout'', ''boot_protocol'', ''channel'', ''os_version'',
     ''os_sequence'', ''source'', ''kernel'', ''host_api'', ''app_release'']"

definition validate_platform :: "json \<Rightarrow> platform result" where
  "validate_platform v = (case object_with platform_fields v of
       None \<Rightarrow> Inl (ValueError ''platform schema fields'')
     | Some ms \<Rightarrow>
       (case find (\<lambda>(k, e). field ms k \<noteq> e)
           [(''schema'', JInt 1), (''board'', JStr (u ''raspberrypi3'')), (''arch'', JStr (u ''arm64'')),
            (''slot_layout'', JStr (u ''pi3-mbr-v1'')), (''boot_protocol'', JInt 2)] of
          Some (k, _) \<Rightarrow> Inl (ValueError (''unsupported platform '' @ k))
        | None \<Rightarrow>
          if field ms ''channel'' \<notin> {JStr (u ''dev''), JStr (u ''stable'')} then Inl (ValueError ''invalid channel'')
          else rbind (integer (field ms ''os_sequence'') 1) (\<lambda>os_sequence.
            rbind (integer (field ms ''host_api'') 2) (\<lambda>host_api.
            rbind (text_value (field ms ''os_version'') 64) (\<lambda>os_version.
            rbind (text_value (field ms ''kernel'') 128) (\<lambda>kernel.
            rbind (text_value (field ms ''app_release'') 64) (\<lambda>app_release.
            rbind (matching (hex_of_length 40) ''source must be a full Git commit'' (field ms ''source'')) (\<lambda>source.
              Inr \<lparr>f_channel = (if field ms ''channel'' = JStr (u ''dev'') then ''dev'' else ''stable''),
                   f_os_version = os_version, f_os_sequence = os_sequence, f_source = source, f_kernel = kernel,
                   f_host_api = host_api, f_app_release = app_release\<rparr>))))))))"

definition load_platform :: "string \<Rightarrow> platform result" where
  "load_platform bytes = rbind (strict_json (take 4097 bytes) 4096) validate_platform"


section \<open>The entry of a package\<close>

definition entry_fields :: "string list" where
  "entry_fields = [''schema'', ''board'', ''channel'', ''sequence'', ''trust_epoch'', ''index_key_id'', ''version'',
     ''boot_protocol'', ''min_host_api'', ''bundle'', ''notes_url'']"

definition is_https :: "string \<Rightarrow> bool" where
  "is_https s \<longleftrightarrow> startswith s ''https://''"

text \<open>\<open>_verify_os_release\<close>; a refusal is a \<open>TrustError\<close> with its sentence or a \<open>ValueError\<close>.\<close>

definition verify_entry :: "crypto \<Rightarrow> string \<Rightarrow> string \<Rightarrow> platform \<Rightarrow> policy \<Rightarrow> os_entry result" where
  "verify_entry c doc signature platform pol =
     rbind (strict_json doc ENTRY_MAX) (\<lambda>v.
     case object_with entry_fields v of
       None \<Rightarrow> Inl (TrustError ''unsupported OS release entry'')
     | Some ms \<Rightarrow>
       if field ms ''schema'' \<noteq> JInt 1 then Inl (TrustError ''unsupported OS release entry'')
       else if field ms ''board'' \<noteq> JStr (u f_board) \<or> field ms ''channel'' \<noteq> JStr (u (f_channel platform))
       then Inl (TrustError ''OS release is for another board or channel'')
       else if field ms ''board'' \<noteq> JStr (u (p_board pol)) \<or> field ms ''channel'' \<noteq> JStr (u (p_channel pol))
       then Inl (TrustError ''OS release does not match the trust policy'')
       else rbind (integer (field ms ''sequence'') 1) (\<lambda>seq.
       if field ms ''boot_protocol'' \<noteq> JInt 2 then Inl (TrustError ''OS release needs a different boot protocol'')
       else rbind (integer (field ms ''min_host_api'') 1) (\<lambda>host_api.
       if f_host_api platform < host_api then Inl (TrustError ''OS release needs a newer host'')
       else rbind (integer (field ms ''trust_epoch'') 1) (\<lambda>epoch.
       if epoch \<noteq> p_epoch pol then Inl (TrustError ''OS release was authorized under a different trust epoch'')
       else rbind (text_value (field ms ''version'') 64) (\<lambda>version.
       rbind (text_value (field ms ''notes_url'') 512) (\<lambda>notes.
       case object_with [''url'', ''size'', ''sha256''] (field ms ''bundle'') of
         None \<Rightarrow> Inl (TrustError ''OS release bundle schema'')
       | Some bundle \<Rightarrow>
         rbind (text_value (field bundle ''url'') 512) (\<lambda>url.
         if \<not> is_https url \<or> \<not> is_https notes then Inl (TrustError ''OS release links must use HTTPS'')
         else rbind (integer (field bundle ''size'') 1) (\<lambda>size.
         if BUNDLE_MAX < size then Inl (TrustError ''OS release bundle size'')
         else (case matching (hex_of_length 64) [] (field bundle ''sha256'') of
           Inl _ \<Rightarrow> Inl (TrustError ''OS release bundle hash'')
         | Inr sha \<Rightarrow>
           (case matching (\<lambda>k. k \<in> fst ` set (p_keys pol)) [] (field ms ''index_key_id'') of
              Inl _ \<Rightarrow> Inl (TrustError ''OS release signed by a key the trust policy does not list'')
            | Inr key_id \<Rightarrow>
              (case rbind (b64 (the (map_of (p_keys pol) key_id)) 32)
                  (\<lambda>raw. ed25519_verify c (raw_public_pem raw) doc signature) of
                 Inl _ \<Rightarrow> Inl (TrustError ''OS release signature does not verify'')
               | Inr _ \<Rightarrow>
                 Inr \<lparr>e_board = f_board, e_channel = f_channel platform, e_sequence = seq, e_trust_epoch = epoch,
                      e_index_key = key_id, e_version = version, e_boot_protocol = 2, e_min_host_api = host_api,
                      e_url = url, e_size = size, e_sha256 = sha, e_notes = notes\<rparr>)))))))))))"

definition verify_os_release :: "crypto \<Rightarrow> string \<Rightarrow> string \<Rightarrow> platform \<Rightarrow> policy \<Rightarrow> os_entry result" where
  "verify_os_release c doc signature platform pol =
     (case verify_entry c doc signature platform pol of
        Inl (ValueError _) \<Rightarrow> Inl (TrustError ''OS release authorization is malformed'')
      | r \<Rightarrow> r)"

definition admissible :: "os_entry \<Rightarrow> platform \<Rightarrow> int \<Rightarrow> os_entry result" where
  "admissible entry platform floor =
     (if e_sequence entry \<le> floor \<or> e_sequence entry \<le> f_os_sequence platform
      then Inl (TrustError ''OS release is not newer than this box's system'') else Inr entry)"

section \<open>Bundles\<close>

text \<open>A big-endian number.\<close>

definition big_endian :: "string \<Rightarrow> nat" where
  "big_endian s = foldl (\<lambda>n c. n * 256 + of_char c) 0 s"

text \<open>The CMS signature at the end of a bundle: payload, signature, its length in 8 bytes.\<close>

definition bundle_signature :: "string \<Rightarrow> string result" where
  "bundle_signature bundle =
     (let size = length bundle; sig_len = big_endian (drop (size - 8) bundle)
      in if size < 64 then Inl (TrustError ''bundle signature is missing or malformed'')
         else if \<not> (0 < sig_len \<and> sig_len \<le> 64 * 1024) \<or> size \<le> sig_len + 8
         then Inl (TrustError ''bundle signature is missing or malformed'')
         else Inr (take sig_len (drop (size - 8 - sig_len) bundle)))"

definition bundle_signer :: "crypto \<Rightarrow> string \<Rightarrow> string \<Rightarrow> (string \<times> string) result" where
  "bundle_signer c bundle keyring =
     rbind (bundle_signature bundle) (\<lambda>sig.
     case cms_verify c sig keyring of
       None \<Rightarrow> Inl (TrustError ''bundle signature does not verify against the trust policy's CAs'')
     | Some (manifest, signer) \<Rightarrow>
       (case x509_pubkey c signer of
          None \<Rightarrow> Inl (ValueError ''OpenSSL rejected public material or signature'')
        | Some public \<Rightarrow>
          (case pkey_der c public of
             None \<Rightarrow> Inl (ValueError ''OpenSSL rejected public material or signature'')
           | Some spki \<Rightarrow>
             if 64 * 1024 < length manifest then Inl (TrustError ''bundle manifest too large'')
             else if \<not> list_all (\<lambda>ch. (of_char ch :: nat) < 128) manifest then Inl (ValueError ''ascii codec'')
             else Inr (manifest, sha256 c spki))))"

text \<open>\<open>file_identity\<close> reads the file in chunks; the size and the digest are of the whole.\<close>

definition file_identity :: "crypto \<Rightarrow> string \<Rightarrow> int \<times> string" where
  "file_identity c bytes = (int (length bytes), sha256 c bytes)"

definition check_bundle :: "crypto \<Rightarrow> string \<Rightarrow> os_entry \<Rightarrow> policy \<Rightarrow> string \<Rightarrow> string result" where
  "check_bundle c bundle entry pol keyring =
     (if file_identity c bundle \<noteq> (e_size entry, e_sha256 entry)
      then Inl (TrustError ''downloaded package differs from its authorization'')
      else rbind (bundle_signer c bundle keyring) (\<lambda>(manifest, spki).
        if spki \<notin> set (p_leaves pol)
        then Inl (TrustError ''bundle signed by a signer the trust policy does not list'')
        else rbind (check_manifest manifest entry) (\<lambda>_. Inr spki)))"

definition keyring_pem :: "policy \<Rightarrow> string" where
  "keyring_pem pol = concat (p_cas pol)"

section \<open>The trust state\<close>

record trust_state =
  t_policy :: policy
  t_raw :: string
  t_signature :: string
  t_epoch :: int
  t_floor :: int

text \<open>What \<open>fw_printenv\<close> prints: the values by name, or a failure.\<close>

definition read_env :: "('x \<Rightarrow> (string \<rightharpoonup> string) option) \<Rightarrow> 'x \<Rightarrow> (string \<rightharpoonup> string) result" where
  "read_env rd x = (case rd x of
       None \<Rightarrow> Inl (TrustError ''system state is unreadable; OS updates are off'')
     | Some m \<Rightarrow> Inr m)"

text \<open>The body of the \<open>try\<close>: any failure in it is the same refusal.  The root is None when it cannot be read.\<close>

definition state_of_env :: "crypto \<Rightarrow> string option \<Rightarrow> platform \<Rightarrow> (string \<rightharpoonup> string) \<Rightarrow> trust_state option" where
  "state_of_env c root_pem platform env =
     (case (root_pem, env ''epk_trust_policy'', env ''epk_trust_policy_sig'', env ''epk_trust_epoch'', env ''epk_os_floor'') of
        (Some root, Some policy64, Some sig64, Some epoch, Some fl) \<Rightarrow>
          (case (b64decode policy64, b64decode sig64, undec epoch, undec fl) of
             (Some raw, Some signature, Some _, Some n) \<Rightarrow>
               if env ''epk_state_schema'' \<noteq> Some ''1'' then None
               else (case verify_policy c raw signature root f_board (f_channel platform) None of
                   Inl _ \<Rightarrow> None
                 | Inr pol \<Rightarrow>
                   if write_int (p_epoch pol) \<noteq> epoch then None
                   else Some \<lparr>t_policy = pol, t_raw = raw, t_signature = signature, t_epoch = p_epoch pol, t_floor = int n\<rparr>)
           | _ \<Rightarrow> None)
      | _ \<Rightarrow> None)"

definition current_state :: "crypto \<Rightarrow> string option \<Rightarrow> platform \<Rightarrow> (string \<rightharpoonup> string) \<Rightarrow> trust_state result" where
  "current_state c root_pem platform env = (case state_of_env c root_pem platform env of
       None \<Rightarrow> Inl (TrustError ''system trust state is missing or invalid; OS updates are off'')
     | Some s \<Rightarrow> Inr s)"

text \<open>The batch of \<open>admit_policy\<close>: the three values of the policy, written together.\<close>

definition policy_batch :: "string \<Rightarrow> string \<Rightarrow> policy \<Rightarrow> updates" where
  "policy_batch raw signature pol =
     [(''epk_trust_policy'', Some (b64encode raw)), (''epk_trust_policy_sig'', Some (b64encode signature)),
      (''epk_trust_epoch'', Some (write_int (p_epoch pol)))]"

definition admit_policy ::
    "('x \<Rightarrow> (string \<rightharpoonup> string) option) \<Rightarrow> (updates \<Rightarrow> 'x \<Rightarrow> bool \<times> 'x) \<Rightarrow> crypto \<Rightarrow> string option
     \<Rightarrow> string \<Rightarrow> string \<Rightarrow> platform \<Rightarrow> trust_state \<Rightarrow> ('x, trust_state) act" where
  "admit_policy rd wr c root_pem raw signature platform state = (\<lambda>x.
     case root_pem of
       None \<Rightarrow> (Inl (OSError ''the index root cannot be read''), x)
     | Some root \<Rightarrow>
       (case verify_policy c raw signature root f_board (f_channel platform) (Some (t_raw state, t_epoch state)) of
          Inl _ \<Rightarrow> (Inl (TrustError ''the new trust policy is not acceptable''), x)
        | Inr pol \<Rightarrow>
          (case wr (policy_batch raw signature pol) x of
             (False, x') \<Rightarrow> (Inl (TrustError ''could not save the new trust policy''), x')
           | (True, x') \<Rightarrow>
             (case rbind (read_env rd x') (current_state c (Some root) platform) of
                Inl e \<Rightarrow> (Inl e, x')
              | Inr after \<Rightarrow>
                if t_raw after \<noteq> raw \<or> t_epoch after \<noteq> p_epoch pol
                then (Inl (TrustError ''the saved trust policy did not read back''), x')
                else (Inr after, x')))))"

text \<open>
  \<open>keyring_main\<close>: the keyring file afterwards (None: removed) and the exit code.  \<open>written\<close>
  tells whether the file could be replaced.
\<close>

definition keyring_main :: "crypto \<Rightarrow> string option \<Rightarrow> string option \<Rightarrow> (string \<rightharpoonup> string) result \<Rightarrow> bool
    \<Rightarrow> string option \<times> nat" where
  "keyring_main c platform_bytes root_pem env written =
     (case rbind (case platform_bytes of None \<Rightarrow> Inl (OSError []) | Some b \<Rightarrow> load_platform b)
         (\<lambda>platform. rbind env (current_state c root_pem platform)) of
        Inl _ \<Rightarrow> (None, 1)
      | Inr s \<Rightarrow> if written then (Some (keyring_pem (t_policy s)), 0) else (None, 1))"

section \<open>Lemmas: what an accepted document says\<close>

lemma integer_Inr: "integer v m = Inr i \<longleftrightarrow> v = JInt i \<and> m \<le> i \<and> i \<le> UINT64_MAX"
  by (cases v) (auto simp: integer_def)

lemma matching_Inr: "matching p msg v = Inr s \<longleftrightarrow> v = JStr (u s) \<and> p s \<and> list_all (\<lambda>c. c < 128) (u s)"
proof -
  have "u (ascii t) = t" if "list_all (\<lambda>c. c < 128) t" for t
    using that by (intro u_ascii) (auto simp: list_all_iff)
  then show ?thesis by (cases v) (auto simp: matching_def)
qed

lemma text_value_Inr: "text_value v m = Inr s \<longleftrightarrow>
   v = JStr (u s) \<and> 0 < length s \<and> length s \<le> m \<and> list_all printable s"
proof -
  have a: "u (ascii t) = t" if "list_all (\<lambda>c. 32 \<le> c \<and> c \<le> 126) t" for t
    using that by (intro u_ascii) (auto simp: list_all_iff)
  have b: "list_all (\<lambda>c. 32 \<le> c \<and> c \<le> 126) (u s) \<longleftrightarrow> list_all printable s" for s
    by (auto simp: u_def list_all_iff printable_def)
  have "text_value v m = Inr s \<longleftrightarrow> v = JStr (u s) \<and> 0 < length (u s) \<and> length (u s) \<le> m \<and>
      list_all (\<lambda>c. 32 \<le> c \<and> c \<le> 126) (u s)"
    using a by (cases v) (auto simp: text_value_def)
  then show ?thesis unfolding b by (simp add: u_def)
qed

lemma object_with_Some: "object_with names v = Some ms \<longleftrightarrow> v = JObj ms \<and> set (map fst ms) = set (map u names)"
  by (cases v) (auto simp: object_with_def)

lemma openssl_verify_Inr:
  "openssl_verify c msg pem doc sig = Inr x \<longleftrightarrow> (\<exists>der. pkey_der c pem = Some der \<and> length der = 44 \<and>
     startswith der ED25519_SPKI) \<and> pkeyutl_verify c pem doc sig"
  by (auto simp: openssl_verify_def split: option.splits)

lemma ed25519_verify_Inr:
  "ed25519_verify c pem doc sig = Inr x \<longleftrightarrow> length sig = 64 \<and> (\<exists>der. pkey_der c pem = Some der \<and> length der = 44 \<and>
     startswith der ED25519_SPKI) \<and> pkeyutl_verify c pem doc sig"
  by (simp add: ed25519_verify_def openssl_verify_Inr)

lemmas result_inv = integer_Inr matching_Inr text_value_Inr object_with_Some ed25519_verify_Inr openssl_verify_Inr b64_Inr rbind_Inr_iff

lemma all_results_Inr:
  "all_results f xs = Inr ys \<longleftrightarrow> list_all2 (\<lambda>x y. f x = Inr y) xs ys"
  by (induction xs arbitrary: ys) (auto simp: rbind_Inr_iff list_all2_Cons1)

lemma read_keys_Inr:
  assumes "read_keys seen ks = Inr keys"
  shows "length keys = length ks" and "distinct (map fst keys)" and "distinct (map snd keys)"
    and "fst ` set keys \<inter> fst ` set seen = {}"
    and "\<forall>(i, p)\<in>set keys. \<exists>raw. p = b64encode raw \<and> length raw = 32 \<and> raw \<notin> snd ` set seen"
proof -
  have "length keys = length ks \<and> distinct (map fst keys) \<and> distinct (map snd keys) \<and>
    fst ` set keys \<inter> fst ` set seen = {} \<and>
    (\<forall>(i, p)\<in>set keys. \<exists>raw. p = b64encode raw \<and> length raw = 32 \<and> raw \<notin> snd ` set seen)"
    using assms
  proof (induction ks arbitrary: seen keys)
    case (Cons k ks)
    then obtain i raw rest where r: "read_keys ((i, raw) # seen) ks = Inr rest"
      and keys: "keys = (i, b64encode raw) # rest" and fresh: "i \<notin> fst ` set seen" "raw \<notin> snd ` set seen"
      and len: "length raw = 32"
      by (auto simp: result_inv json_b64_def split: option.splits if_splits)
    have inj: "b64encode raw = b64encode raw' \<Longrightarrow> raw = raw'" for raw'
      by (metis b64decode_encode option.inject)
    from Cons.IH [OF r] show ?case
      using fresh len by (auto simp: keys dest!: inj)
  qed simp
  then show "length keys = length ks" "distinct (map fst keys)" "distinct (map snd keys)"
    "fst ` set keys \<inter> fst ` set seen = {}"
    "\<forall>(i, p)\<in>set keys. \<exists>raw. p = b64encode raw \<and> length raw = 32 \<and> raw \<notin> snd ` set seen"
    by blast+
qed

lemma case_sum_Inr: "(case r of Inl e \<Rightarrow> Inl (h e) | Inr x \<Rightarrow> f x) = Inr y \<longleftrightarrow> (\<exists>x. r = Inr x \<and> f x = Inr y)"
  by (cases r) auto

lemma verify_entry_Inr:
  assumes "verify_entry c doc sig pf pol = Inr e"
  obtains ms raw where "strict_json doc ENTRY_MAX = Inr (JObj ms)" 
    and "field ms ''sequence'' = JInt (e_sequence e)" and "1 \<le> e_sequence e" and "e_sequence e \<le> UINT64_MAX"
    and "field ms ''trust_epoch'' = JInt (e_trust_epoch e)" and "e_trust_epoch e = p_epoch pol"
    and "f_channel pf = p_channel pol" and "f_board = p_board pol" and "e_channel e = f_channel pf" and "e_board e = f_board"
    and "1 \<le> e_min_host_api e" and "e_min_host_api e \<le> f_host_api pf" and "e_boot_protocol e = 2"
    and "1 \<le> e_size e" and "e_size e \<le> BUNDLE_MAX" and "hex_of_length 64 (e_sha256 e)"
    and "is_https (e_url e)" and "is_https (e_notes e)"
    and "map_of (p_keys pol) (e_index_key e) = Some (b64encode raw)" and "length raw = 32" and "length sig = 64"
    and "pkeyutl_verify c (raw_public_pem raw) doc sig"
proof -
  have some: "\<exists>b. (k, b) \<in> set xs \<Longrightarrow> map_of xs k = Some (the (map_of xs k))" for k and xs :: "(string \<times> string) list"
    by (cases "map_of xs k") (force simp: map_of_eq_None_iff)+
  from assms obtain ms raw where
    a: "strict_json doc ENTRY_MAX = Inr (JObj ms)" "field ms ''sequence'' = JInt (e_sequence e)"
      "1 \<le> e_sequence e" "e_sequence e \<le> UINT64_MAX"
      "field ms ''trust_epoch'' = JInt (e_trust_epoch e)" "e_trust_epoch e = p_epoch pol"
      "f_channel pf = p_channel pol" "f_board = p_board pol" "e_channel e = f_channel pf" "e_board e = f_board"
      "1 \<le> e_min_host_api e" "e_min_host_api e \<le> f_host_api pf" "e_boot_protocol e = 2"
      "1 \<le> e_size e" "e_size e \<le> BUNDLE_MAX" "hex_of_length 64 (e_sha256 e)"
      "is_https (e_url e)" "is_https (e_notes e)"
      "\<exists>b. (e_index_key e, b) \<in> set (p_keys pol)" "the (map_of (p_keys pol) (e_index_key e)) = b64encode raw"
      "length raw = 32" "length sig = 64" "pkeyutl_verify c (raw_public_pem raw) doc sig"
    by (auto simp: verify_entry_def result_inv case_sum_Inr split: option.split_asm if_split_asm) blast
  have "map_of (p_keys pol) (e_index_key e) = Some (b64encode raw)"
    using some [OF a(19)] unfolding a(20) .
  then show ?thesis using a by (intro that [of ms raw])
qed

definition fails_with :: "(exn \<Rightarrow> bool) \<Rightarrow> 'a result \<Rightarrow> bool" where
  "fails_with P r \<longleftrightarrow> (case r of Inl e \<Rightarrow> P e | Inr _ \<Rightarrow> True)"

fun is_value_error :: "exn \<Rightarrow> bool" where
  "is_value_error (ValueError _) = True"
| "is_value_error (TrustError _) = True"
| "is_value_error _ = False"

named_theorems fails

lemma fails_simps [simp]: "fails_with P (Inl e) = P e" "fails_with P (Inr x)"
  by (simp_all add: fails_with_def)

lemma fails_rbind [fails]: "fails_with P r \<Longrightarrow> (\<And>x. r = Inr x \<Longrightarrow> fails_with P (k x)) \<Longrightarrow> fails_with P (rbind r k)"
  by (cases r) simp_all

lemma fails_sources [fails]:
  "fails_with is_value_error (strict_json raw n)"
  "fails_with is_value_error (integer v m)"
  "fails_with is_value_error (matching p msg v)"
  "fails_with is_value_error (text_value v n)"
  by (auto simp: strict_json_def integer_def matching_def text_value_def split: option.split json.split)

lemma verify_entry_fails: "fails_with is_value_error (verify_entry c doc sig pf pol)"
  unfolding verify_entry_def
  by (intro fails) (auto intro!: fails split: option.split sum.split)


lemma verify_os_release_cases:
  obtains (ok) e where "verify_os_release c doc sig pf pol = Inr e" and "verify_entry c doc sig pf pol = Inr e"
  | (refused) m where "verify_os_release c doc sig pf pol = Inl (TrustError m)"
proof (cases "verify_entry c doc sig pf pol")
  case (Inl x)
  with verify_entry_fails [of c doc sig pf pol] refused show ?thesis
    by (cases x) (simp_all add: verify_os_release_def)
qed (use ok in \<open>simp add: verify_os_release_def\<close>)

definition policy_wf :: "policy \<Rightarrow> bool" where
  "policy_wf pol \<longleftrightarrow> 1 \<le> p_epoch pol \<and> p_epoch pol \<le> UINT64_MAX \<and>
     1 \<le> length (p_keys pol) \<and> length (p_keys pol) \<le> 8 \<and> distinct (map fst (p_keys pol)) \<and> distinct (map snd (p_keys pol)) \<and>
     1 \<le> length (p_cas pol) \<and> length (p_cas pol) \<le> 4 \<and> list_all (pem_of ''CERTIFICATE'') (p_cas pol) \<and>
     1 \<le> length (p_leaves pol) \<and> length (p_leaves pol) \<le> 16 \<and> list_all (hex_of_length 64) (p_leaves pol)"

lemma read_leaves_Inr:
  "read_leaves v = Inr ls \<Longrightarrow> 1 \<le> length ls \<and> length ls \<le> 16 \<and> list_all (hex_of_length 64) ls"
  by (cases v)
    (auto simp: read_leaves_def all_results_Inr matching_Inr list_all_iff list_all2_conv_all_nth in_set_conv_nth
      split: if_split_asm)

lemma check_ca_Inr: "check_ca c s = Inr t \<longleftrightarrow> t = s \<and> pem_of ''CERTIFICATE'' s \<and>
   (\<exists>k. x509_constraints c s = Some k \<and> contains k ''CA:TRUE'')"
  by (auto simp: check_ca_def split: option.split)

lemma read_cas_Inr:
  "read_cas c v = Inr cs \<Longrightarrow> 1 \<le> length cs \<and> length cs \<le> 4 \<and> list_all (pem_of ''CERTIFICATE'') cs"
  by (cases v)
    (auto simp: read_cas_def rbind_Inr_iff all_results_Inr check_ca_Inr list_all_iff list_all2_conv_all_nth in_set_conv_nth
      split: if_split_asm)

lemma check_current_Inr:
  assumes "check_current current raw pol = Inr pol'"
  shows "pol' = pol" and "\<forall>r e. current = Some (r, e) \<longrightarrow> e \<le> p_epoch pol' \<and> (p_epoch pol' = e \<longrightarrow> raw = r)"
  using assms by (auto simp: check_current_def split: option.split_asm if_split_asm)

lemma read_index_keys_Inr:
  "read_index_keys v = Inr keys \<Longrightarrow> 1 \<le> length keys \<and> length keys \<le> 8 \<and> distinct (map fst keys) \<and> distinct (map snd keys)"
  by (cases v) (auto simp: read_index_keys_def read_keys_Inr split: if_split_asm)

lemma verify_policy_Inr:
  assumes "verify_policy c raw sig root board chan current = Inr pol"
  obtains ms where "strict_json raw POLICY_MAX = Inr (JObj ms)" and "field ms ''trust_epoch'' = JInt (p_epoch pol)"
    and "p_board pol = board" and "p_channel pol = chan" and "policy_wf pol"
    and "length sig = 64" and "pkeyutl_verify c root raw sig"
    and "\<forall>r e. current = Some (r, e) \<longrightarrow> e \<le> p_epoch pol \<and> (p_epoch pol = e \<longrightarrow> raw = r)"
proof -
  from assms obtain ms epoch keys cas leaves where
    a: "strict_json raw POLICY_MAX = Inr (JObj ms)" "integer (field ms ''trust_epoch'') 1 = Inr epoch"
      "length sig = 64" "pkeyutl_verify c root raw sig" "read_index_keys (field ms ''index_keys'') = Inr keys"
      "read_cas c (field ms ''rauc_cas'') = Inr cas" "read_leaves (field ms ''rauc_leaf_spki_sha256'') = Inr leaves"
    and cc: "check_current current raw
        \<lparr>p_board = board, p_channel = chan, p_epoch = epoch, p_keys = keys, p_cas = cas, p_leaves = leaves\<rparr> = Inr pol"
    unfolding verify_policy_def
    by (auto simp: rbind_Inr_iff object_with_Some openssl_verify_Inr
        split: option.split_asm if_split_asm)
  note pol = check_current_Inr(1) [OF cc, symmetric]
  have "policy_wf pol"
    using a read_index_keys_Inr [OF a(5)] read_cas_Inr [OF a(6)] read_leaves_Inr [OF a(7)]
    by (auto simp: policy_wf_def pol [symmetric] integer_Inr)
  with a check_current_Inr(2) [OF cc] show ?thesis
    by (intro that [of ms]) (simp_all add: pol [symmetric] integer_Inr)
qed

lemma state_of_env_Some:
  assumes "state_of_env c root pf env = Some s"
  obtains r where "root = Some r" and "verify_policy c (t_raw s) (t_signature s) r f_board (f_channel pf) None = Inr (t_policy s)"
    and "t_epoch s = p_epoch (t_policy s)" and "env ''epk_trust_epoch'' = Some (write_int (t_epoch s))"
    and "\<exists>n. env ''epk_os_floor'' = Some n \<and> undec n = Some (nat (t_floor s)) \<and> 0 \<le> t_floor s"
    and "\<exists>p. env ''epk_trust_policy'' = Some p \<and> b64decode p = Some (t_raw s)"
  using assms
  by (auto simp: state_of_env_def split: option.split_asm if_split_asm sum.split_asm)

lemma case_option_Inr: "(case r of None \<Rightarrow> Inl e | Some x \<Rightarrow> f x) = Inr y \<longleftrightarrow> (\<exists>x. r = Some x \<and> f x = Inr y)"
  by (cases r) auto

section \<open>Admission of a policy over the guarded environment\<close>

context env_store
begin

lemma admit_policy_whole:
  assumes "admit_policy rd wr c root raw sig pf st x = (r, x')" and "rd x = Some m"
  shows "\<exists>m'. rd x' = Some m' \<and> (agree m' m \<or>
    (\<exists>rt pol. root = Some rt \<and> verify_policy c raw sig rt f_board (f_channel pf) (Some (t_raw st, t_epoch st)) = Inr pol \<and>
       agree m' (apply_updates (policy_batch raw sig pol) m)))"
proof (cases root)
  case None
  with assms show ?thesis by (auto simp: admit_policy_def agree_def)
next
  case (Some rt)
  show ?thesis
  proof (cases "verify_policy c raw sig rt f_board (f_channel pf) (Some (t_raw st, t_epoch st))")
    case (Inl e)
    with Some assms show ?thesis by (auto simp: admit_policy_def agree_def)
  next
    case (Inr pol)
    obtain ok y where w: "wr (policy_batch raw sig pol) x = (ok, y)" by fastforce
    have "x' = y" using assms(1) Some Inr w
      by (auto simp: admit_policy_def split: bool.split_asm sum.split_asm if_split_asm)
    with wr_whole [OF w assms(2)] Some Inr show ?thesis by auto
  qed
qed

lemma admit_policy_accepted:
  assumes "admit_policy rd wr c root raw sig pf st x = (Inr after, x')" and "rd x = Some m"
  shows "\<exists>m'. rd x' = Some m' \<and> current_state c root pf m' = Inr after \<and> t_raw after = raw \<and>
    m' ''epk_os_floor'' = m ''epk_os_floor'' \<and>
    (\<exists>rt pol. root = Some rt \<and> verify_policy c raw sig rt f_board (f_channel pf) (Some (t_raw st, t_epoch st)) = Inr pol \<and>
       t_epoch after = p_epoch pol)"
proof -
  from assms(1) obtain rt pol m' where root: "root = Some rt"
    and v: "verify_policy c raw sig rt f_board (f_channel pf) (Some (t_raw st, t_epoch st)) = Inr pol"
    and w: "wr (policy_batch raw sig pol) x = (True, x')"
    and m': "rd x' = Some m'" and cs: "current_state c (Some rt) pf m' = Inr after"
    and eq: "t_raw after = raw" "t_epoch after = p_epoch pol"
    by (auto simp: admit_policy_def read_env_def rbind_Inr_iff
        split: option.split_asm sum.split_asm prod.split_asm bool.split_asm if_split_asm)
  have "m' ''epk_os_floor'' = m ''epk_os_floor''"
    by (rule wr_frame [OF w assms(2) m']) (auto simp: policy_batch_def)
  with root v m' cs eq show ?thesis by blast
qed

end

section \<open>A concrete policy\<close>

definition sample_manifest :: string where
  "sample_manifest = concat (map (\<lambda>l. l @ [CHR 0x0A])
     [''[update]'', ''compatible=epilykos-raspberrypi3'', ''[bundle]'', ''format=verity'', ''[image.rootfs]'', ''sha256=00'',
      ''[meta.epilykos]'', ''board=raspberrypi3'', ''channel=dev'', ''sequence=7'', ''boot_protocol=2'', ''min_host_api=2'',
      ''trust_epoch=2''])"

definition sample_crypto :: crypto where
  "sample_crypto = \<lparr>pkey_der = (\<lambda>_. Some (ED25519_SPKI @ replicate 32 CHR 0x00)), pkeyutl_verify = (\<lambda>_ _ _. True),
     x509_constraints = (\<lambda>_. Some ''CA:TRUE''), cms_verify = (\<lambda>_ _. Some (sample_manifest, ''signer'')),
     x509_pubkey = (\<lambda>_. Some ''key''), sha256 = (\<lambda>_. replicate 64 CHR ''a'')\<rparr>"

definition sample_key :: string where
  "sample_key = replicate 32 CHR 0x01"

definition sample_ca :: string where
  "sample_ca = ''-----BEGIN CERTIFICATE-----'' @ [CHR 0x0A] @ ''AA=='' @ [CHR 0x0A] @ ''-----END CERTIFICATE-----'' @ [CHR 0x0A]"

definition sample_root :: string where
  "sample_root = ''-----BEGIN PUBLIC KEY-----'' @ [CHR 0x0A] @ ''AA=='' @ [CHR 0x0A] @ ''-----END PUBLIC KEY-----'' @ [CHR 0x0A]"

definition sample_policy_fields :: "(ustr \<times> json) list" where
  "sample_policy_fields =
     [(u ''board'', JStr (u ''raspberrypi3'')), (u ''channel'', JStr (u ''dev'')),
      (u ''index_keys'', JArr [JObj [(u ''key_id'', JStr (u ''k1'')), (u ''public_key'', JStr (u (b64encode sample_key)))]]),
      (u ''rauc_cas'', JArr [JStr (u sample_ca)]), (u ''rauc_leaf_spki_sha256'', JArr [JStr (u (replicate 64 CHR ''a''))]),
      (u ''schema'', JInt 1), (u ''trust_epoch'', JInt 2)]"

definition sample_policy_raw :: string where
  "sample_policy_raw = canonical (JObj sample_policy_fields)"

definition sample_policy :: policy where
  "sample_policy = \<lparr>p_board = ''raspberrypi3'', p_channel = ''dev'', p_epoch = 2, p_keys = [(''k1'', b64encode sample_key)],
     p_cas = [sample_ca], p_leaves = [replicate 64 CHR ''a'']\<rparr>"

lemma u_length [simp]: "length (u s) = length s"
  by (simp add: u_def)

lemma wf_ustr_ascii: "list_all (\<lambda>c. c < 55296) t \<Longrightarrow> wf_ustr t"
  by (induction t rule: wf_ustr.induct) (auto simp: is_high_def)

lemma wf_ustr_u [simp]: "wf_ustr (u s)"
  by (rule wf_ustr_ascii) (auto simp: u_def list_all_iff intro: less_trans [OF of_char_less])

lemma u_less: "u s < u t \<longleftrightarrow> map of_char s < (map of_char t :: nat list)"
  by (simp add: u_def)

lemma sample_key_facts: "length sample_key = 32" "length (b64encode sample_key) = 44"
  "list_all (\<lambda>c. c < 128) (u (b64encode sample_key))"
proof -
  show "length sample_key = 32" by (simp add: sample_key_def)
  then show "length (b64encode sample_key) = 44" by (simp add: b64encode_length)
  show "list_all (\<lambda>c. c < 128) (u (b64encode sample_key))"
    using b64encode_text [of sample_key] b64_text_printable by (auto simp: u_def list_all_iff)
qed

lemma sample_policy_json: "strict_json sample_policy_raw POLICY_MAX = Inr (JObj sample_policy_fields)"
  unfolding sample_policy_raw_def
proof (rule strict_json_read)
  show "wf_json (JObj sample_policy_fields)"
    by (simp add: sample_policy_fields_def) (simp add: u_def)
  show "json_bound (JObj sample_policy_fields) \<le> POLICY_MAX"
    by (simp add: sample_policy_fields_def POLICY_MAX_def sample_key_facts sample_ca_def write_int_def dec.simps)
qed

lemma sample_pems: "pem_of ''CERTIFICATE'' sample_ca" "pem_of ''PUBLIC KEY'' sample_root"
  by (simp_all add: pem_of_def sample_ca_def sample_root_def endswith_def Let_def is_pem_char_def is_alnum_def
      is_alpha_def is_digit_def between_def)

lemma field_simps_sample:
  "field sample_policy_fields ''schema'' = JInt 1"
  "field sample_policy_fields ''board'' = JStr (u ''raspberrypi3'')"
  "field sample_policy_fields ''channel'' = JStr (u ''dev'')"
  "field sample_policy_fields ''trust_epoch'' = JInt 2"
  "field sample_policy_fields ''index_keys'' =
     JArr [JObj [(u ''key_id'', JStr (u ''k1'')), (u ''public_key'', JStr (u (b64encode sample_key)))]]"
  "field sample_policy_fields ''rauc_cas'' = JArr [JStr (u sample_ca)]"
  "field sample_policy_fields ''rauc_leaf_spki_sha256'' = JArr [JStr (u (replicate 64 CHR ''a''))]"
  by (simp_all add: field_def sample_policy_fields_def)

lemma sample_policy_verifies:
  "verify_policy sample_crypto sample_policy_raw (replicate 64 CHR ''s'') sample_root f_board ''dev'' (Some (''old'', 1)) = Inr sample_policy"
proof -
  have b: "b64 (b64encode sample_key) 32 = Inr sample_key" by (simp add: b64_Inr sample_key_facts)
  have k1: "matching key_id_ok msg (JStr (u ''k1'')) = Inr ''k1''" for msg
    by (simp add: matching_def key_id_ok_def is_key_char_def is_alnum_def is_alpha_def is_digit_def between_def)
      (simp add: u_def)
  have kb: "json_b64 (JStr (u (b64encode sample_key))) 32 = Inr sample_key"
    by (simp add: json_b64_def matching_def sample_key_facts b)
  have k: "read_index_keys (field sample_policy_fields ''index_keys'') = Inr [(''k1'', b64encode sample_key)]"
    by (simp add: read_index_keys_def field_simps_sample object_with_def) (simp add: field_def k1 kb)
  have ca: "list_all (\<lambda>c. c < 128) (u sample_ca)" by (simp add: u_def sample_ca_def)
  have ct: "contains ''CA:TRUE'' ''CA:TRUE''" by simp
  have c: "read_cas sample_crypto (field sample_policy_fields ''rauc_cas'') = Inr [sample_ca]"
    using ca sample_pems ct
    by (simp add: read_cas_def field_simps_sample matching_def check_ca_def sample_crypto_def)
  have "list_all (\<lambda>c. c < 128) (u (replicate 64 CHR ''a''))" by (simp add: u_def list_all_iff)
  moreover have "hex_of_length 64 (replicate 64 CHR ''a'')"
    by (simp add: hex_of_length_def list_all_iff is_lower_hex_def between_def)
  ultimately have l: "read_leaves (field sample_policy_fields ''rauc_leaf_spki_sha256'') = Inr [replicate 64 CHR ''a'']"
    by (simp add: read_leaves_def field_simps_sample matching_def)
  have o: "object_with policy_fields (JObj sample_policy_fields) = Some sample_policy_fields"
    by (auto simp: object_with_def sample_policy_fields_def policy_fields_def)
  have v: "openssl_verify sample_crypto msg sample_root sample_policy_raw (replicate 64 CHR ''s'') = Inr ()" for msg
    by (simp add: openssl_verify_def sample_crypto_def startswith_def ED25519_SPKI_def)
  have r: "1 \<le> length sample_root" "length sample_root \<le> 256" by (simp_all add: sample_root_def)
  show ?thesis
    unfolding verify_policy_def sample_policy_json rbind_simps o option.case k c l v
    using r sample_pems
    by (simp add: field_simps_sample f_board_def integer_def UINT64_MAX_def check_current_def sample_policy_def k c l v)
qed
lemma verify_policy_any_current:
  "verify_policy c raw sig root board chan current = Inr pol \<Longrightarrow> verify_policy c raw sig root board chan None = Inr pol"
  by (auto simp: verify_policy_def rbind_Inr_iff case_option_Inr check_current_def split: if_split_asm option.split_asm)

definition sample_platform :: platform where
  "sample_platform = \<lparr>f_channel = ''dev'', f_os_version = ''1.0'', f_os_sequence = 3, f_source = replicate 40 CHR ''b'',
     f_kernel = ''6.6'', f_host_api = 2, f_app_release = ''1.0''\<rparr>"

definition sample_state :: trust_state where
  "sample_state = \<lparr>t_policy = sample_policy, t_raw = ''old'', t_signature = replicate 64 CHR ''r'', t_epoch = 1, t_floor = 3\<rparr>"

definition sample_admission :: updates where
  "sample_admission = policy_batch sample_policy_raw (replicate 64 CHR ''s'') sample_policy"

lemma b64encode_printable [simp]: "list_all printable (b64encode raw)"
  using b64encode_text [of raw] b64_text_printable by (auto simp: list_all_iff)

lemma sample_raw_length: "0 < length sample_policy_raw" "length sample_policy_raw \<le> 6144"
  using strict_json_Inr(2,3) [OF sample_policy_json] by (auto simp: POLICY_MAX_def)

definition admitted_entries :: entries where
  "admitted_entries =
     [(''epk_state_schema'', ''1''), (''epk_state_generation'', ''1''), (''epk_os_floor'', ''3''),
      (''epk_trust_epoch'', ''2''), (''epk_trust_policy'', b64encode sample_policy_raw),
      (''epk_trust_policy_sig'', b64encode (replicate 64 CHR ''s'')),
      (''BOOT_ORDER'', ''A B''), (''BOOT_A_LEFT'', ''3''), (''BOOT_B_LEFT'', ''3'')]"

lemma write_int_2: "write_int 2 = ''2''"
  by (simp add: write_int_def) code_simp

lemma sample_admission_eq:
  "sample_admission = [(''epk_trust_policy'', Some (b64encode sample_policy_raw)),
     (''epk_trust_policy_sig'', Some (b64encode (replicate 64 CHR ''s''))), (''epk_trust_epoch'', Some ''2'')]"
  by (simp add: sample_admission_def policy_batch_def sample_policy_def write_int_2)

lemma admitted_next:
  "kept_entries (dec (Suc 0)) sample_admission sample_entries @ added_entries sample_admission sample_entries = admitted_entries"
proof -
  have "dec (Suc 0) = ''1''" by code_simp
  then show ?thesis
    by (simp add: sample_entries_def sample_admission_eq admitted_entries_def kept_entries_def added_entries_def
        new_value_def map_filter_def)
qed

lemma printable_plain: "list_all printable ''1''" "list_all printable ''2''" "list_all printable ''3''" "list_all printable ''A B''"
  by (simp_all add: printable_def)

lemma admitted_bytes: "entry_bytes admitted_entries \<le> 8600"
proof -
  have "length (b64encode sample_policy_raw) \<le> 8192"
    using sample_raw_length by (simp add: b64encode_length)
  then show ?thesis by (simp add: admitted_entries_def entry_bytes_def b64encode_length)
qed

lemma admitted_parse:
  "parse admitted_entries = Inr \<lparr>v_entries = admitted_entries, v_used = entry_bytes admitted_entries + 1,
     v_generation = 1, v_floor = 3, v_epoch = 2\<rparr>"
proof -
  have two: "decimal (Some ''2'') = Some 2"
    by (simp add: decimal_def uint64_max_def is_digit_def between_def digit_value_def)
  have ok: "list_all entry_ok admitted_entries"
    by (simp add: admitted_entries_def entry_ok_def printable_plain)
      (simp add: printable_def is_name_char_def is_alnum_def is_alpha_def is_digit_def between_def)
  have bytes: "entry_bytes admitted_entries \<le> 8600" by (rule admitted_bytes)
  have sizes: "b64_size (Some (b64encode sample_policy_raw)) = length sample_policy_raw"
    "b64_size (Some (b64encode (replicate 64 CHR ''s''))) = 64"
    using sample_raw_length by (simp_all add: b64_size_encode)
  show ?thesis unfolding parse_def
    using ok bytes sample_raw_length sizes two
    by (simp add: max_entries_def data_size_def env_headroom_def) (simp add: admitted_entries_def)
qed

lemma admitted_build: "\<exists>v. build sample_entries sample_admission = Inr v \<and> v_entries v = admitted_entries"
proof -
  have a: "append_entries 0 admitted_entries = Inr (entry_bytes admitted_entries)"
    using append_entries_fits [of 0 admitted_entries] admitted_bytes by (simp add: data_size_def)
  have "changed_critical sample_entries sample_admission"
    by (simp add: changed_critical_def sample_admission_eq sample_entries_def critical_def startswith_def)
  moreover have "updates_ok sample_admission" by (simp add: updates_ok_def sample_admission_eq)
  ultimately show ?thesis
    using admitted_parse a by (simp add: build_def sample_parse uint64_max_def admitted_next not_older_def)
qed

lemma sample_current:
  assumes "m ''epk_trust_policy'' = Some (b64encode sample_policy_raw)"
    and "m ''epk_trust_policy_sig'' = Some (b64encode (replicate 64 CHR ''s''))"
    and "m ''epk_trust_epoch'' = Some ''2''" and "m ''epk_os_floor'' = Some ''3''" and "m ''epk_state_schema'' = Some ''1''"
  shows "current_state sample_crypto (Some sample_root) sample_platform m =
    Inr \<lparr>t_policy = sample_policy, t_raw = sample_policy_raw, t_signature = replicate 64 CHR ''s'', t_epoch = 2, t_floor = 3\<rparr>"
proof -
  have "undec ''2'' = Some 2" "undec ''3'' = Some 3" by code_simp+
  moreover have "verify_policy sample_crypto sample_policy_raw (replicate 64 CHR ''s'') sample_root f_board ''dev'' None = Inr sample_policy"
    using sample_policy_verifies by (rule verify_policy_any_current)
  moreover have "f_channel sample_platform = ''dev''" "p_epoch sample_policy = 2"
    by (simp_all add: sample_platform_def sample_policy_def)
  ultimately show ?thesis
    using assms by (simp add: current_state_def state_of_env_def write_int_2)
qed

lemma sample_admitted:
  obtains after g' where "admit_policy guard_read guard_write sample_crypto (Some sample_root) sample_policy_raw
     (replicate 64 CHR ''s'') sample_platform sample_state (sample_store, []) = (Inr after, g')"
proof -
  let ?g = "(sample_store, [])"
  obtain old where sel: "select sample_store = Inr (First, old)" and ve: "v_entries old = sample_entries"
    by (rule sample_selected)
  obtain v where b: "build sample_entries sample_admission = Inr v" using admitted_build by blast
  have "length sample_admission \<le> max_updates" by (simp add: sample_admission_eq max_updates_def)
  then obtain s' where "commit Written Written sample_admission sample_store = (Inr v, s')"
    using commit_succeeds [OF sel _ b, of 7] by (auto simp: sample_store_def)
  then have w: "guard_write sample_admission ?g = (True, (s', []))" by (simp add: guard_write_def)
  have m: "guard_read ?g = Some (map_of sample_entries)" using sel ve by (simp add: guard_read_def)
  from guarded.wr_acknowledged [OF w m] obtain m' where m': "guard_read (s', []) = Some m'"
    and ag: "agree m' (apply_updates sample_admission (map_of sample_entries))" by blast
  have look: "m' n = apply_updates sample_admission (map_of sample_entries) n" if "n \<noteq> generation_name" for n
    using ag that by (simp add: agree_def)
  have "current_state sample_crypto (Some sample_root) sample_platform m' =
    Inr \<lparr>t_policy = sample_policy, t_raw = sample_policy_raw, t_signature = replicate 64 CHR ''s'', t_epoch = 2, t_floor = 3\<rparr>"
    by (rule sample_current) (simp_all add: look apply_updates_def sample_admission_eq sample_entries_def)
  moreover have "verify_policy sample_crypto sample_policy_raw (replicate 64 CHR ''s'') sample_root f_board
      (f_channel sample_platform) (Some (t_raw sample_state, t_epoch sample_state)) = Inr sample_policy"
    using sample_policy_verifies by (simp add: sample_platform_def sample_state_def)
  moreover have "p_epoch sample_policy = 2" by (simp add: sample_policy_def)
  ultimately show ?thesis
    using w m' by (intro that) (simp add: admit_policy_def read_env_def sample_admission_def [symmetric])
qed

definition sample_bundle :: string where
  "sample_bundle = replicate 60 CHR ''x'' @ replicate 8 CHR ''c'' @ [CHR 0x00, CHR 0x00, CHR 0x00, CHR 0x00, CHR 0x00, CHR 0x00, CHR 0x00, CHR 0x08]"

definition sample_entry :: os_entry where
  "sample_entry = \<lparr>e_board = ''raspberrypi3'', e_channel = ''dev'', e_sequence = 7, e_trust_epoch = 2, e_index_key = ''k1'',
     e_version = ''1.1'', e_boot_protocol = 2, e_min_host_api = 2, e_url = ''https://x/b'', e_size = 76,
     e_sha256 = replicate 64 CHR ''a'', e_notes = ''https://x/n''\<rparr>"

lemma sample_manifest_ok:
  "case check_manifest sample_manifest sample_entry of Inl _ \<Rightarrow> False | Inr _ \<Rightarrow> True"
  by code_simp

lemma sample_signature: "bundle_signature sample_bundle = Inr (replicate 8 CHR ''c'')"
  by (simp add: bundle_signature_def sample_bundle_def big_endian_def)

lemma sample_manifest_ascii: "list_all (\<lambda>ch. (of_char ch :: nat) < 128) sample_manifest" "length sample_manifest \<le> 65536"
  by (simp_all add: sample_manifest_def)

section \<open>What the trust checks promise\<close>

text \<open>
  C7. An accepted package entry is authentic and within its bounds: its exact bytes verify
  under a key of 32 bytes the current policy lists, it is for this board, channel and trust
  epoch, its host requirement is met, its links are HTTPS and its size and hash are well formed; every refusal
  is a \<open>TrustError\<close>.
\<close>

theorem verify_os_release_sound:
  "case verify_os_release c doc sig pf pol of
     Inl e \<Rightarrow> \<exists>m. e = TrustError m
   | Inr e \<Rightarrow> (\<exists>raw. map_of (p_keys pol) (e_index_key e) = Some (b64encode raw) \<and> length raw = 32 \<and> length sig = 64 \<and>
         pkeyutl_verify c (raw_public_pem raw) doc sig) \<and>
       (\<exists>ms. doc = canonical (JObj ms) \<and> field ms ''sequence'' = JInt (e_sequence e)) \<and> length doc \<le> ENTRY_MAX \<and>
       e_board e = f_board \<and> p_board pol = f_board \<and> e_channel e = f_channel pf \<and> p_channel pol = f_channel pf \<and>
       e_trust_epoch e = p_epoch pol \<and> 1 \<le> e_sequence e \<and> e_sequence e \<le> UINT64_MAX \<and> e_boot_protocol e = 2 \<and>
       e_min_host_api e \<le> f_host_api pf \<and> 1 \<le> e_size e \<and> e_size e \<le> BUNDLE_MAX \<and>
       hex_of_length 64 (e_sha256 e) \<and> is_https (e_url e) \<and> is_https (e_notes e)"
proof (cases rule: verify_os_release_cases [of c doc sig pf pol])
  case (ok e)
  from ok(2) show ?thesis
  proof (rule verify_entry_Inr)
    fix ms raw
    assume s: "strict_json doc ENTRY_MAX = Inr (JObj ms)" and a: "field ms ''sequence'' = JInt (e_sequence e)"
      "1 \<le> e_sequence e" "e_sequence e \<le> UINT64_MAX" "e_trust_epoch e = p_epoch pol"
      "f_channel pf = p_channel pol" "f_board = p_board pol" "e_channel e = f_channel pf" "e_board e = f_board"
      "e_min_host_api e \<le> f_host_api pf" "e_boot_protocol e = 2" "1 \<le> e_size e" "e_size e \<le> BUNDLE_MAX"
      "hex_of_length 64 (e_sha256 e)" "is_https (e_url e)" "is_https (e_notes e)"
      "map_of (p_keys pol) (e_index_key e) = Some (b64encode raw)" "length raw = 32" "length sig = 64"
      "pkeyutl_verify c (raw_public_pem raw) doc sig"
    from strict_json_Inr(1,3) [OF s] a show ?thesis unfolding ok(1) by auto
  qed
qed simp

text \<open>
  C8. A policy is accepted over a current one only when the root signed its exact bytes, its
  epoch is not lower, the same epoch keeps the same bytes, and its lists are non-empty, bounded and free of
  duplicate keys.
\<close>

theorem verify_policy_monotone:
  assumes "verify_policy c raw sig root board chan (Some (old_raw, old_epoch)) = Inr pol"
  shows "pkeyutl_verify c root raw sig \<and> length sig = 64 \<and> old_epoch \<le> p_epoch pol \<and>
    (p_epoch pol = old_epoch \<longrightarrow> raw = old_raw) \<and> policy_wf pol \<and> p_board pol = board \<and> p_channel pol = chan \<and>
    (\<exists>ms. raw = canonical (JObj ms) \<and> field ms ''trust_epoch'' = JInt (p_epoch pol))"
  using assms
proof (rule verify_policy_Inr)
  fix ms
  assume "strict_json raw POLICY_MAX = Inr (JObj ms)"
  from strict_json_Inr(1) [OF this] 
  show "field ms ''trust_epoch'' = JInt (p_epoch pol) \<Longrightarrow> p_board pol = board \<Longrightarrow> p_channel pol = chan \<Longrightarrow> policy_wf pol \<Longrightarrow>
    length sig = 64 \<Longrightarrow> pkeyutl_verify c root raw sig \<Longrightarrow>
    \<forall>r e. Some (old_raw, old_epoch) = Some (r, e) \<longrightarrow> e \<le> p_epoch pol \<and> (p_epoch pol = e \<longrightarrow> raw = r) \<Longrightarrow> ?thesis"
    by auto
qed

theorem verify_policy_monotone_witness:
  "1 \<le> p_epoch sample_policy \<and> policy_wf sample_policy \<and> pkeyutl_verify sample_crypto sample_root sample_policy_raw (replicate 64 CHR ''s'')"
  using verify_policy_monotone [OF sample_policy_verifies] by blast

text \<open>
  C9. Admission of a policy over the guarded environment: whatever its writes do, the
  environment stays whole, with the old values or with the three values of a policy that verified
  against the current one, and the floor is kept; an acknowledged admission reads back as the
  verified current state with the new bytes.
\<close>

theorem admit_policy_safe:
  assumes "admit_policy guard_read guard_write c root raw sig pf st g = (r, g')" and "guard_read g = Some m"
  shows "\<exists>m'. guard_read g' = Some m' \<and> m' ''epk_os_floor'' = m ''epk_os_floor'' \<and>
    (agree m' m \<or> (\<exists>rt pol. root = Some rt \<and>
       verify_policy c raw sig rt f_board (f_channel pf) (Some (t_raw st, t_epoch st)) = Inr pol \<and>
       agree m' (apply_updates (policy_batch raw sig pol) m))) \<and>
    (\<forall>after. r = Inr after \<longrightarrow> current_state c root pf m' = Inr after \<and> t_raw after = raw \<and> t_epoch st \<le> t_epoch after)"
proof -
  obtain m' where m': "guard_read g' = Some m'" and w: "agree m' m \<or> (\<exists>rt pol. root = Some rt \<and>
       verify_policy c raw sig rt f_board (f_channel pf) (Some (t_raw st, t_epoch st)) = Inr pol \<and>
       agree m' (apply_updates (policy_batch raw sig pol) m))"
    using guarded.admit_policy_whole [OF assms] by blast
  from w have "m' ''epk_os_floor'' = m ''epk_os_floor''"
    by (auto simp: agree_def apply_updates_def policy_batch_def)
  moreover have "current_state c root pf m' = Inr after \<and> t_raw after = raw \<and> t_epoch st \<le> t_epoch after"
    if "r = Inr after" for after
  proof -
    from guarded.admit_policy_accepted [OF assms(1) [unfolded that] assms(2)] m'
    obtain rt pol where a: "current_state c root pf m' = Inr after" "t_raw after = raw" "t_epoch after = p_epoch pol"
      and v: "verify_policy c raw sig rt f_board (f_channel pf) (Some (t_raw st, t_epoch st)) = Inr pol" by auto
    from v have "t_epoch st \<le> p_epoch pol" by (rule verify_policy_Inr) simp
    with a show ?thesis by simp
  qed
  ultimately show ?thesis using m' w by blast
qed

theorem admit_policy_safe_witness:
  "\<exists>g' m'. guard_read g' = Some m' \<and> m' ''epk_os_floor'' = Some ''3'' \<and>
     (\<exists>s. current_state sample_crypto (Some sample_root) sample_platform m' = Inr s \<and> t_raw s = sample_policy_raw)"
proof -
  obtain after g' where a: "admit_policy guard_read guard_write sample_crypto (Some sample_root) sample_policy_raw
     (replicate 64 CHR ''s'') sample_platform sample_state (sample_store, []) = (Inr after, g')"
    by (rule sample_admitted)
  obtain old where "select sample_store = Inr (First, old)" "v_entries old = sample_entries" by (rule sample_selected)
  then have m: "guard_read (sample_store, []) = Some (map_of sample_entries)" by (simp add: guard_read_def)
  have "map_of sample_entries ''epk_os_floor'' = Some ''3''" by (simp add: sample_entries_def)
  with admit_policy_safe [OF a m] obtain m' where "guard_read g' = Some m'" "m' ''epk_os_floor'' = Some ''3''"
    "current_state sample_crypto (Some sample_root) sample_platform m' = Inr after" "t_raw after = sample_policy_raw"
    by auto
  then show ?thesis by blast
qed

text \<open>
  C10. A downloaded bundle passes only with the authorized size and hash, a CMS signature that
  verifies against the keyring, a signer the policy lists and a manifest of one rootfs image without hooks that
  agrees with the entry.
\<close>

theorem check_bundle_sound:
  assumes "check_bundle c bytes entry pol keyring = Inr spki"
  shows "int (length bytes) = e_size entry \<and> sha256 c bytes = e_sha256 entry \<and> spki \<in> set (p_leaves pol) \<and>
    (\<exists>cms manifest signer public key i. bundle_signature bytes = Inr cms \<and> cms_verify c cms keyring = Some (manifest, signer) \<and>
       x509_pubkey c signer = Some public \<and> pkey_der c public = Some key \<and> spki = sha256 c key \<and>
       read_ini manifest = Some i \<and> image_sections i = [''image.rootfs''] \<and> \<not> has_section i ''hooks'' \<and>
       (\<forall>(k, v)\<in>set (meta_fields entry). ini_get i ''meta.epilykos'' k = v))"
proof -
  from assms obtain manifest i where
    a: "int (length bytes) = e_size entry" "sha256 c bytes = e_sha256 entry" "spki \<in> set (p_leaves pol)"
    and s: "bundle_signer c bytes keyring = Inr (manifest, spki)" and m: "check_manifest manifest entry = Inr i"
    by (auto simp: check_bundle_def file_identity_def rbind_Inr_iff split: if_split_asm prod.split_asm)
  from s obtain cms signer public key where
    "bundle_signature bytes = Inr cms" "cms_verify c cms keyring = Some (manifest, signer)"
    "x509_pubkey c signer = Some public" "pkey_der c public = Some key" "spki = sha256 c key"
    by (auto simp: bundle_signer_def rbind_Inr_iff case_option_Inr split: prod.split_asm if_split_asm)
  with a check_manifest_Inr [OF m] show ?thesis by auto
qed

theorem check_bundle_sound_witness:
  "\<exists>spki. check_bundle sample_crypto sample_bundle sample_entry sample_policy ''keyring'' = Inr spki \<and>
     spki \<in> set (p_leaves sample_policy)"
proof -
  obtain i where "check_manifest sample_manifest sample_entry = Inr i"
    using sample_manifest_ok by (auto split: sum.split_asm)
  moreover have "file_identity sample_crypto sample_bundle = (e_size sample_entry, e_sha256 sample_entry)"
    by (simp add: file_identity_def sample_bundle_def sample_entry_def sample_crypto_def)
  moreover have "bundle_signer sample_crypto sample_bundle ''keyring'' = Inr (sample_manifest, replicate 64 CHR ''a'')"
    using sample_manifest_ascii by (simp add: bundle_signer_def sample_signature) (simp add: sample_crypto_def)
  moreover have "replicate 64 CHR ''a'' \<in> set (p_leaves sample_policy)" by (simp add: sample_policy_def)
  ultimately have c: "check_bundle sample_crypto sample_bundle sample_entry sample_policy ''keyring'' = Inr (replicate 64 CHR ''a'')"
    by (simp add: check_bundle_def)
  with check_bundle_sound [OF c] show ?thesis by blast
qed

text \<open>
  RAUC gets a keyring exactly when the unit succeeds, and then it is the CAs of the
  policy in the environment, verified against the pinned root.
\<close>

theorem keyring_only_verified:
  "case keyring_main c bytes root env written of
     (None, code) \<Rightarrow> code = 1
   | (Some k, code) \<Rightarrow> code = 0 \<and> (\<exists>b pf m s rt. bytes = Some b \<and> load_platform b = Inr pf \<and> env = Inr m \<and> root = Some rt \<and>
       current_state c root pf m = Inr s \<and> k = concat (p_cas (t_policy s)) \<and>
       pkeyutl_verify c rt (t_raw s) (t_signature s) \<and> policy_wf (t_policy s))"
proof (cases "rbind (case bytes of None \<Rightarrow> Inl (OSError []) | Some b \<Rightarrow> load_platform b)
         (\<lambda>platform. rbind env (current_state c root platform))")
  case (Inr s)
  then obtain b pf m where a: "bytes = Some b" "load_platform b = Inr pf" "env = Inr m" "current_state c root pf m = Inr s"
    by (auto simp: rbind_Inr_iff split: option.split_asm)
  from a(4) have "state_of_env c root pf m = Some s" by (simp add: current_state_def split: option.split_asm)
  then obtain rt where rt: "root = Some rt"
    and v: "verify_policy c (t_raw s) (t_signature s) rt f_board (f_channel pf) None = Inr (t_policy s)"
    by (rule state_of_env_Some)
  from v have "pkeyutl_verify c rt (t_raw s) (t_signature s) \<and> policy_wf (t_policy s)"
    by (rule verify_policy_Inr) simp
  with a rt Inr show ?thesis by (simp add: keyring_main_def keyring_pem_def)
qed (simp add: keyring_main_def)

end
