(* ===== verification/Epk_Compat.thy ===== *)
theory Epk_Compat
  imports Epk_Trust
begin

text \<open>
  The checks of the app's cooperation, \<open>epilykos_app_compat.py\<close>: the configuration of an image, the
  inspection of the running container and its part in OS updates.  The documents are the
  values \<open>json.loads\<close> makes of Podman's output (None: unreadable or too large), with the last of
  duplicate members kept.
\<close>

section \<open>Values of a document\<close>

definition get :: "json \<Rightarrow> string \<Rightarrow> json" where
  "get v k = (case v of JObj ms \<Rightarrow> field ms k | _ \<Rightarrow> JNull)"

definition is_dict :: "json \<Rightarrow> bool" where
  "is_dict v = (case v of JObj _ \<Rightarrow> True | _ \<Rightarrow> False)"

definition text_is :: "json \<Rightarrow> string \<Rightarrow> bool" where
  "text_is v s \<longleftrightarrow> v = JStr (u s)"

definition LABEL :: string where "LABEL = ''io.epilykos.maintenance-lock''"
definition PROTOCOL :: string where "PROTOCOL = ''flock-v1''"
definition LOCK_ENV :: string where "LOCK_ENV = ''EPILYKOS_MAINTENANCE_LOCK=/app/data/.maintenance.lock''"
definition GUARD_LABEL :: string where "GUARD_LABEL = ''io.epilykos.os-update-guard''"
definition GUARD_PROTOCOL :: string where "GUARD_PROTOCOL = ''guard-v1''"
definition GUARD_ENV :: string where "GUARD_ENV = ''EPILYKOS_OS_UPDATE_GUARD=/run/epilykos-os-updater/guard.json''"
definition GUARD_SOURCE :: string where "GUARD_SOURCE = ''/data/epilykos/os-updater/public''"
definition GUARD_DESTINATION :: string where "GUARD_DESTINATION = ''/run/epilykos-os-updater''"

section \<open>The checks\<close>

definition labels_ok :: "json \<Rightarrow> unit result" where
  "labels_ok config =
     (if \<not> is_dict config \<or> \<not> is_dict (get config ''Labels'') \<or> \<not> text_is (get (get config ''Labels'') LABEL) PROTOCOL
      then Inl (CompatibilityError ''The app does not support the required shared maintenance protocol (flock-v1)'')
      else Inr ())"

definition oci_config :: "json \<Rightarrow> unit result" where
  "oci_config config =
     (if \<not> is_dict config then Inl (CompatibilityError ''The app image configuration is not an object'')
      else if \<not> text_is (get config ''os'') ''linux'' \<or> \<not> text_is (get config ''architecture'') ''arm64''
      then Inl (CompatibilityError ''The app image platform must be linux/arm64'')
      else labels_ok (get config ''config''))"

definition inspection :: "json option \<Rightarrow> json result" where
  "inspection parsed = (case parsed of
       None \<Rightarrow> Inl (CompatibilityError ''The app inspection configuration is unreadable'')
     | Some (JArr [JObj ms]) \<Rightarrow> Inr (JObj ms)
     | Some _ \<Rightarrow> Inl (CompatibilityError ''The app inspection configuration must name exactly one object''))"

definition candidate_image :: "json \<Rightarrow> string result" where
  "candidate_image info =
     (if \<not> text_is (get info ''Os'') ''linux'' \<or> \<not> text_is (get info ''Architecture'') ''arm64''
      then Inl (CompatibilityError ''The app image platform must be linux/arm64'')
      else rbind (labels_ok (get info ''Config'')) (\<lambda>_.
        case matching (hex_of_length 64) [] (get info ''Id'') of
          Inl _ \<Rightarrow> Inl (CompatibilityError ''The app image configuration has an invalid image ID'')
        | Inr i \<Rightarrow> Inr i))"

definition elements :: "json \<Rightarrow> json list" where
  "elements v = (case v of JArr vs \<Rightarrow> vs | _ \<Rightarrow> [])"

text \<open>The environment entries that start with a prefix.\<close>

definition env_values :: "string \<Rightarrow> json \<Rightarrow> json list" where
  "env_values prefix env =
     filter (\<lambda>v. case v of JStr t \<Rightarrow> take (length prefix) t = u prefix | _ \<Rightarrow> False) (elements env)"

definition mounts_at :: "string \<Rightarrow> json \<Rightarrow> json list" where
  "mounts_at dest mounts = filter (\<lambda>m. is_dict m \<and> text_is (get m ''Destination'') dest) (elements mounts)"

definition is_bind :: "json \<Rightarrow> string \<Rightarrow> bool \<Rightarrow> bool" where
  "is_bind m source rw \<longleftrightarrow> text_is (get m ''Type'') ''bind'' \<and> text_is (get m ''Source'') source \<and> get m ''RW'' = JBool rw"

definition running_container :: "json \<Rightarrow> unit result" where
  "running_container info =
     (let config = get info ''Config''; mounts = get info ''Mounts'' in
      rbind (labels_ok config) (\<lambda>_.
      if env_values ''EPILYKOS_MAINTENANCE_LOCK='' (get config ''Env'') \<noteq> [JStr (u LOCK_ENV)] \<or>
        \<not> is_dict (get info ''State'') \<or> get (get info ''State'') ''Running'' \<noteq> JBool True
      then Inl (CompatibilityError ''The running app is not configured for shared maintenance; restart it on the paired OS'')
      else if (case mounts of JArr _ \<Rightarrow> False | _ \<Rightarrow> True)
      then Inl (CompatibilityError ''The app maintenance mount configuration is invalid'')
      else if (case mounts_at ''/app/data'' mounts of [m] \<Rightarrow> \<not> is_bind m ''/data/epilykos/app-data'' True | _ \<Rightarrow> True) \<or>
        mounts_at ''/app/data/.maintenance.lock'' mounts \<noteq> []
      then Inl (CompatibilityError ''The running app DATA mount cannot share the host maintenance lock'')
      else Inr ()))"

definition os_update_guard :: "json \<Rightarrow> unit result" where
  "os_update_guard info =
     rbind (running_container info) (\<lambda>_.
     let config = get info ''Config'' in
     if \<not> text_is (get (get config ''Labels'') GUARD_LABEL) GUARD_PROTOCOL
     then Inl (CompatibilityError ''This app version cannot take part in OS updates; update the app first'')
     else if env_values ''EPILYKOS_OS_UPDATE_GUARD='' (get config ''Env'') \<noteq> [JStr (u GUARD_ENV)]
     then Inl (CompatibilityError ''The running app is not configured for OS updates; restart it on this OS'')
     else (case mounts_at GUARD_DESTINATION (get info ''Mounts'') of
         [m] \<Rightarrow> if is_bind m GUARD_SOURCE False then Inr ()
                else Inl (CompatibilityError ''The running app cannot see the OS update state; restart it on this OS'')
       | _ \<Rightarrow> Inl (CompatibilityError ''The running app cannot see the OS update state; restart it on this OS'')))"

section \<open>What the checks promise\<close>

text \<open>
  A container passes for OS updates exactly when it runs with the maintenance label
  and one lock variable, its DATA directory is one writable bind mount of the host's own directory with the lock
  not mounted over, and it sees the guard through one read-only bind mount; then and only then
  the host and the app exclude each other.
\<close>

theorem os_update_guard_iff:
  "os_update_guard info = Inr () \<longleftrightarrow>
     text_is (get (get (get info ''Config'') ''Labels'') LABEL) PROTOCOL \<and>
     text_is (get (get (get info ''Config'') ''Labels'') GUARD_LABEL) GUARD_PROTOCOL \<and>
     get (get info ''State'') ''Running'' = JBool True \<and>
     env_values ''EPILYKOS_MAINTENANCE_LOCK='' (get (get info ''Config'') ''Env'') = [JStr (u LOCK_ENV)] \<and>
     env_values ''EPILYKOS_OS_UPDATE_GUARD='' (get (get info ''Config'') ''Env'') = [JStr (u GUARD_ENV)] \<and>
     (\<exists>m. mounts_at ''/app/data'' (get info ''Mounts'') = [m] \<and> is_bind m ''/data/epilykos/app-data'' True) \<and>
     mounts_at ''/app/data/.maintenance.lock'' (get info ''Mounts'') = [] \<and>
     (\<exists>m. mounts_at GUARD_DESTINATION (get info ''Mounts'') = [m] \<and> is_bind m GUARD_SOURCE False)"
proof -
  have dict: "get v k = x \<Longrightarrow> x \<noteq> JNull \<Longrightarrow> is_dict v" for v k x
    by (cases v) (auto simp: get_def is_dict_def)
  have lab: "labels_ok c = Inr () \<longleftrightarrow> text_is (get (get c ''Labels'') LABEL) PROTOCOL" for c
    using dict [of "get c ''Labels''" LABEL] dict [of c "''Labels''"]
    by (cases "get c ''Labels''") (auto simp: labels_ok_def text_is_def is_dict_def get_def)
  have arr: "(\<exists>vs. v = JArr vs)" if "mounts_at d v = [m]" for v d m
    using that by (cases v) (auto simp: mounts_at_def elements_def)
  have st: "get (get info ''State'') ''Running'' = JBool True \<Longrightarrow> is_dict (get info ''State'')"
    using dict [of "get info ''State''" "''Running''" "JBool True"] by simp
  have run: "running_container info = Inr () \<longleftrightarrow>
     text_is (get (get (get info ''Config'') ''Labels'') LABEL) PROTOCOL \<and>
     get (get info ''State'') ''Running'' = JBool True \<and>
     env_values ''EPILYKOS_MAINTENANCE_LOCK='' (get (get info ''Config'') ''Env'') = [JStr (u LOCK_ENV)] \<and>
     (\<exists>m. mounts_at ''/app/data'' (get info ''Mounts'') = [m] \<and> is_bind m ''/data/epilykos/app-data'' True) \<and>
     mounts_at ''/app/data/.maintenance.lock'' (get info ''Mounts'') = []"
    unfolding running_container_def Let_def rbind_Inr_iff
    using lab [of "get info ''Config''"] st arr [of "''/app/data''" "get info ''Mounts''"]
    by (auto split: list.splits json.splits)
  have guard: "(case ms of [m] \<Rightarrow> if is_bind m GUARD_SOURCE False then Inr () else Inl e | _ \<Rightarrow> Inl e) = Inr () \<longleftrightarrow>
      (\<exists>m. ms = [m] \<and> is_bind m GUARD_SOURCE False)" for ms e
    by (auto split: list.splits)
  show ?thesis
    unfolding os_update_guard_def rbind_Inr_iff Let_def if_Inl_eq_Inr guard using run by auto
qed

end
