(* ===== verification/Epk_World.thy ===== *)
theory Epk_World
  imports Epk_Compat Epk_Storage
begin

text \<open>
  The state of OS updates on DATA and its primitives (\<open>epilykos_os_update.py\<close>): the journal
  and its job, the public guard, the cancel request, the staged package, and the host around
  them.  Hostd, the worker and activation act on this state.

  Every change that survives a power cut takes one outcome of \<open>w_plan\<close>: it is done, it is refused
  with an \<open>OSError\<close>, or the power fails before it and nothing more happens (\<open>PowerCut\<close>, which
  no handler of the code answers).  A statement about every plan is a statement about every
  power cut.

  The host is a record of functions over its own state: OpenSSL, the guarded environment,
  systemd, RAUC, Podman, the network, \<open>statvfs\<close>.  Times, log lines and the creation of
  directories are left out; the times of a job are never read by the code.
\<close>

section \<open>The job\<close>

datatype jstate = Queued | Downloading | Verifying | Installing | Ready | Restarting | Trying | Reconciling
  | Confirmed | RolledBack | Failed | CancelledJob | Discarded

record progress =
  pr_phase :: string
  pr_bytes :: "int option"
  pr_total :: "int option"
  pr_percent :: "nat option"
  pr_message :: "string option"
  pr_activated :: bool

definition phase_only :: "string \<Rightarrow> progress" where
  "phase_only p = \<lparr>pr_phase = p, pr_bytes = None, pr_total = None, pr_percent = None, pr_message = None, pr_activated = False\<rparr>"

text \<open>The RAUC service that installs: transaction, bus owner and invocation.\<close>

record identity =
  id_transaction :: string
  id_owner :: string
  id_invocation :: string

record job =
  j_id :: string
  j_request :: "string option"
  j_state :: jstate
  j_sequence :: int
  j_sha256 :: "string option"
  j_size :: "int option"
  j_version :: "string option"
  j_url :: string
  j_notes :: string
  j_source :: string
  j_target :: string
  j_entry :: string
  j_entry_sig :: string
  j_policy :: string
  j_policy_sig :: string
  j_progress :: progress
  j_error :: "string option"
  j_validator :: "string option"
  j_image_size :: "int option"
  j_image_sha :: "string option"
  j_rauc :: "identity option"

fun state_name :: "jstate \<Rightarrow> string" where
  "state_name Queued = ''queued''"
| "state_name Downloading = ''downloading''"
| "state_name Verifying = ''verifying''"
| "state_name Installing = ''installing''"
| "state_name Ready = ''ready''"
| "state_name Restarting = ''restarting''"
| "state_name Trying = ''trying''"
| "state_name Reconciling = ''reconciling''"
| "state_name Confirmed = ''confirmed''"
| "state_name RolledBack = ''rolled_back''"
| "state_name Failed = ''failed''"
| "state_name CancelledJob = ''cancelled''"
| "state_name Discarded = ''discarded''"

definition WORKING :: "jstate set" where "WORKING = {Queued, Downloading, Verifying}"
definition TERMINAL :: "jstate set" where "TERMINAL = {Confirmed, RolledBack, Failed, CancelledJob, Discarded}"

datatype gstate = Idle | Active | Pending | NeedsCheck

text \<open>The files: the journal can be absent or unreadable, a malformed guard reads as no valid one.\<close>

datatype journal_file = NoJournal | BadJournal | Journal job
datatype guard_file = BadGuard | Guard gstate "string option"

record release_files =
  r_entry :: string
  r_entry_sig :: string
  r_policy :: string
  r_policy_sig :: string

text \<open>
  The files of app updates (\<open>/data/epilykos/updater\<close>): the promoted release and the one before
  it, the floor (None: absent or no number), what the app starts from, a job in progress, how the last one
  ended, the checked manifest and the last automatic attempt.  A JSON file is absent, unreadable or what the code wrote.
\<close>

record promoted =
  m_release :: string
  m_channel :: string
  m_sequence :: int
  m_digest :: string
  m_image :: string

record app_job =
  aj_starting :: bool
  aj_release :: string
  aj_sequence :: int
  aj_digest :: string

record app_result =
  ar_ok :: bool
  ar_error :: string
  ar_rolled_back :: bool
  ar_release :: string

record app_files =
  a_current :: "promoted option"
  a_previous :: "promoted option"
  a_floor :: "int option"
  a_active :: "(string \<times> int \<times> string) option"
  a_job :: "app_job option"
  a_result :: "app_result option"
  a_verified :: "(string \<times> string) option"
  a_attempt :: "(int \<times> string) option"

section \<open>The host\<close>

datatype 'a answer = Timeout | Exited bool 'a
datatype source_file = Missing | Unreadable | Bytes string

datatype response = NoAnswer | Response nat (content_range: "string option") (etag: "string option") (chunks: "chunk list") (broken: bool)
  and chunk = Chunk string "(int \<times> int) option" | CancelArrives string

record 'x host =
  h_crypto :: crypto
  h_root :: "string option"
  h_platform :: source_file
  h_cmdline :: string
  h_health :: "'x \<Rightarrow> string option \<times> string option"
  h_env :: "'x \<Rightarrow> (string \<rightharpoonup> string) option"
  h_set :: "updates \<Rightarrow> 'x \<Rightarrow> bool \<times> 'x"
  h_inspect :: "'x \<Rightarrow> json option answer"
  h_fetch :: "string \<Rightarrow> 'x \<Rightarrow> string + string"
  h_usage :: "'x \<Rightarrow> int \<times> int"
  h_uuid :: "'x \<Rightarrow> string"
  h_active :: "'x \<Rightarrow> unit answer"
  h_start :: "'x \<Rightarrow> unit answer \<times> 'x"
  h_mark :: "string \<Rightarrow> string \<Rightarrow> 'x \<Rightarrow> unit answer \<times> 'x"
  h_reboot :: "'x \<Rightarrow> unit answer \<times> 'x"
  h_slot :: "string \<Rightarrow> 'x \<Rightarrow> string option"
  h_get :: "string \<Rightarrow> (int \<times> string) option \<Rightarrow> 'x \<Rightarrow> response \<times> 'x"
  h_owner :: "'x \<Rightarrow> string answer"
  h_operation :: "'x \<Rightarrow> string answer"
  h_last_error :: "'x \<Rightarrow> string answer"
  h_invocation :: "'x \<Rightarrow> string answer"
  h_start_rauc :: "'x \<Rightarrow> unit answer \<times> 'x"
  h_restart_rauc :: "'x \<Rightarrow> unit answer \<times> 'x"
  h_install :: "string \<Rightarrow> string \<Rightarrow> 'x \<Rightarrow> ((string \<times> bool) list \<times> bool) \<times> 'x"
  h_wait :: "'x \<Rightarrow> 'x"
  h_good :: "'x \<Rightarrow> unit answer \<times> 'x"
  h_image_env :: "string option"
  h_app_key :: "string option"
  h_app_inspect :: "string \<Rightarrow> string \<Rightarrow> 'x \<Rightarrow> json option answer"
  h_pull :: "string \<Rightarrow> 'x \<Rightarrow> string answer \<times> 'x"
  h_restart_app :: "'x \<Rightarrow> unit answer \<times> 'x"
  h_remove_image :: "string \<Rightarrow> 'x \<Rightarrow> unit answer \<times> 'x"
  h_lease :: "'x \<Rightarrow> string option"

datatype outcome = Done | Refused | Cut

record 'x world =
  w_journal :: journal_file
  w_guard :: guard_file
  w_cancel :: "string option"
  w_checked :: "release_files option"
  w_staging :: "string \<rightharpoonup> string"
  w_app :: app_files
  w_job :: job
  w_plan :: "outcome list"
  w_ext :: 'x

type_synonym ('x, 'a) run = "('x world, 'a) act"

section \<open>Effects\<close>

text \<open>A change on DATA, made durable by \<open>fsync\<close> and \<open>rename\<close>.\<close>

definition durable :: "('x world \<Rightarrow> 'x world) \<Rightarrow> ('x, unit) run" where
  "durable f = (\<lambda>w. case w_plan w of
       [] \<Rightarrow> (Inr (), f w)
     | Done # p \<Rightarrow> (Inr (), f (w\<lparr>w_plan := p\<rparr>))
     | Refused # p \<Rightarrow> (Inl (OSError ''write failed''), w\<lparr>w_plan := p\<rparr>)
     | Cut # p \<Rightarrow> (Inl PowerCut, w))"

text \<open>A command to the host, and a question that changes nothing.\<close>

definition outside :: "('x \<Rightarrow> 'a \<times> 'x) \<Rightarrow> ('x, 'a) run" where
  "outside f = (\<lambda>w. case w_plan w of
       Cut # p \<Rightarrow> (Inl PowerCut, w)
     | p \<Rightarrow> (case f (w_ext w) of (a, x) \<Rightarrow> (Inr a, w\<lparr>w_plan := tl p, w_ext := x\<rparr>)))"

definition ask :: "('x \<Rightarrow> 'a) \<Rightarrow> ('x, 'a) run" where
  "ask f = (\<lambda>w. (Inr (f (w_ext w)), w))"

text \<open>\<open>_run\<close>: a command that does not answer in time raises.\<close>

definition answered :: "string \<Rightarrow> 'a answer \<Rightarrow> ('x, bool \<times> 'a) run" where
  "answered name a = (case a of
       Timeout \<Rightarrow> raise (OsUpdateError (name @ '' did not answer''))
     | Exited ok out \<Rightarrow> ret (ok, out))"

definition run_command :: "string \<Rightarrow> ('x \<Rightarrow> 'a answer \<times> 'x) \<Rightarrow> ('x, bool \<times> 'a) run" where
  "run_command name f = bind (outside f) (answered name)"

definition run_query :: "string \<Rightarrow> ('x \<Rightarrow> 'a answer) \<Rightarrow> ('x, bool \<times> 'a) run" where
  "run_query name f = bind (ask f) (answered name)"

section \<open>Numbers\<close>

text \<open>\<open>int(text)\<close>: a sign and digits.\<close>

definition py_int :: "string \<Rightarrow> int option" where
  "py_int t =
     (let s = strip t in
      if startswith s ''-'' then map_option (\<lambda>n. - int n) (undec (tl s))
      else if startswith s ''+'' then map_option int (undec (tl s)) else map_option int (undec s))"

section \<open>The files of OS updates\<close>

definition unreadable_record :: exn where
  "unreadable_record = OsUpdateError ''The OS update record is unreadable; OS updates are off until it is repaired''"

definition journal_of :: "'x world \<Rightarrow> job option result" where
  "journal_of w = (case w_journal w of
       NoJournal \<Rightarrow> Inr None | BadJournal \<Rightarrow> Inl unreadable_record | Journal j \<Rightarrow> Inr (Some j))"

definition journal :: "('x, job option) run" where
  "journal = bind get_state (\<lambda>w. lift (journal_of w))"

text \<open>\<open>save(job)\<close> writes the job the code has in memory.\<close>

definition save :: "('x, unit) run" where
  "save = durable (\<lambda>w. w\<lparr>w_journal := Journal (w_job w)\<rparr>)"

definition in_memory :: "(job \<Rightarrow> job) \<Rightarrow> ('x, unit) run" where
  "in_memory f = modify (\<lambda>w. w\<lparr>w_job := f (w_job w)\<rparr>)"

definition the_job :: "('x, job) run" where
  "the_job = bind get_state (\<lambda>w. ret (w_job w))"

definition guard_of :: "'x world \<Rightarrow> gstate" where
  "guard_of w = (case w_guard w of BadGuard \<Rightarrow> NeedsCheck | Guard s i \<Rightarrow> s)"

definition set_guard :: "gstate \<Rightarrow> string option \<Rightarrow> ('x, unit) run" where
  "set_guard s i = durable (\<lambda>w. w\<lparr>w_guard := Guard s i\<rparr>)"

definition step :: "jstate \<Rightarrow> progress \<Rightarrow> ('x, unit) run" where
  "step s p = andthen (in_memory (\<lambda>j. j\<lparr>j_state := s, j_progress := p\<rparr>)) save"

definition staged :: "string \<Rightarrow> string \<Rightarrow> bool" where
  "staged i name \<longleftrightarrow> startswith name (i @ ''.'')"

definition finish :: "jstate \<Rightarrow> string option \<Rightarrow> ('x, unit) run" where
  "finish s err =
     andthen (in_memory (\<lambda>j. j\<lparr>j_state := s, j_error := err, j_progress := phase_only (state_name s)\<rparr>))
    (andthen save
    (if s \<in> TERMINAL then
       bind the_job (\<lambda>j.
       andthen (durable (\<lambda>w. w\<lparr>w_staging := (\<lambda>n. if staged (j_id j) n then None else w_staging w n)\<rparr>))
         (set_guard Idle None))
     else ret ()))"

definition cancelled :: "('x, bool) run" where
  "cancelled = bind get_state (\<lambda>w. ret (w_cancel w = Some (j_id (w_job w))))"

section \<open>This box\<close>

definition platform_of :: "'x host \<Rightarrow> platform option result" where
  "platform_of h = (case h_platform h of
       Missing \<Rightarrow> Inr None
     | Unreadable \<Rightarrow> Inl (OsUpdateError ''This system's platform record is invalid; OS updates are off'')
     | Bytes b \<Rightarrow> (case load_platform b of
         Inl _ \<Rightarrow> Inl (OsUpdateError ''This system's platform record is invalid; OS updates are off'')
       | Inr p \<Rightarrow> Inr (Some p)))"

definition slot_word :: "string \<Rightarrow> bool" where
  "slot_word word \<longleftrightarrow> startswith word ''rauc.slot='' \<and> drop 10 word \<in> {''A'', ''B''}"

definition booted_slot :: "'x host \<Rightarrow> string result" where
  "booted_slot h = (case find slot_word (split_ws (h_cmdline h)) of
       None \<Rightarrow> Inl (OsUpdateError ''Could not tell which system slot is running'')
     | Some word \<Rightarrow> Inr (drop 10 word))"

definition other_slot :: "string \<Rightarrow> string" where
  "other_slot slot = (if slot = ''A'' then ''B'' else ''A'')"

definition slot_device :: "string \<Rightarrow> string" where
  "slot_device slot = (if slot = ''A'' then ''rootfs.0'' else ''rootfs.1'')"

definition slot_left :: "string \<Rightarrow> string" where
  "slot_left slot = ''BOOT_'' @ slot @ ''_LEFT''"

text \<open>\<open>(env.get('BOOT_ORDER') or '').split()[:1] == [slot]\<close>.\<close>

definition first_in_order :: "(string \<rightharpoonup> string) \<Rightarrow> string \<Rightarrow> bool" where
  "first_in_order env slot \<longleftrightarrow> take 1 (split_ws (case env ''BOOT_ORDER'' of None \<Rightarrow> [] | Some o' \<Rightarrow> o')) = [slot]"

definition not_bootable :: "(string \<rightharpoonup> string) \<Rightarrow> job \<Rightarrow> bool" where
  "not_bootable env j \<longleftrightarrow> env (slot_left (j_target j)) = Some ''0'' \<and> first_in_order env (j_source j)"

definition printenv :: "'x host \<Rightarrow> ('x, string \<rightharpoonup> string) run" where
  "printenv h = bind (ask (h_env h)) (\<lambda>m. lift (case m of
       None \<Rightarrow> Inl (TrustError ''system state is unreadable; OS updates are off'')
     | Some m \<Rightarrow> Inr m))"

definition truthy :: "string option \<Rightarrow> bool" where
  "truthy v \<longleftrightarrow> v \<noteq> None \<and> v \<noteq> Some []"

definition health_blockers :: "string option \<times> string option \<Rightarrow> string \<Rightarrow> (string \<rightharpoonup> string) \<Rightarrow> string list" where
  "health_blockers health slot env =
     (if fst health \<noteq> Some ''confirmed'' \<or> snd health \<noteq> Some slot
      then [''The running system has not been confirmed healthy since it started''] else []) @
     (if truthy (env ''epk_os_pending'') then [''An earlier OS update has not finished''] else []) @
     (if \<not> first_in_order env slot then [''The running system is not the one the box starts by default''] else [])"

definition app_blockers :: "'x host \<Rightarrow> 'x \<Rightarrow> string list" where
  "app_blockers h x = (case h_inspect h x of
       Timeout \<Rightarrow> [''podman did not answer'']
     | Exited ok out \<Rightarrow>
       if \<not> ok then [''The app is not running'']
       else (case rbind (inspection out) os_update_guard of Inl e \<Rightarrow> [message e] | Inr _ \<Rightarrow> []))"

definition OCI_ALLOWANCE :: int where
  "OCI_ALLOWANCE = 1536 * 1024 * 1024"

definition required_space :: "os_entry \<Rightarrow> int" where
  "required_space entry = e_size entry + OCI_ALLOWANCE"

section \<open>Rules\<close>

text \<open>An invariant that an action keeps wherever it stops.\<close>

lemma wp_durable [wp_simps]:
  "wp (durable f) Q E w = (case w_plan w of
       [] \<Rightarrow> Q () (f w) | Done # p \<Rightarrow> Q () (f (w\<lparr>w_plan := p\<rparr>))
     | Refused # p \<Rightarrow> E (OSError ''write failed'') (w\<lparr>w_plan := p\<rparr>) | Cut # p \<Rightarrow> E PowerCut w)"
  by (simp add: wp_def durable_def split: list.split outcome.split)

lemma wp_ask [wp_simps]: "wp (ask f) Q E w = Q (f (w_ext w)) w"
  by (simp add: wp_def ask_def)

lemma wp_outside [wp_simps]:
  "wp (outside f) Q E w = (case w_plan w of
       Cut # p \<Rightarrow> E PowerCut w
     | p \<Rightarrow> Q (fst (f (w_ext w))) (w\<lparr>w_plan := tl p, w_ext := snd (f (w_ext w))\<rparr>))"
  by (simp add: wp_def outside_def split: list.split outcome.split prod.split)

lemma wp_answered [wp_simps]:
  "wp (answered name a) Q E w = (case a of Timeout \<Rightarrow> E (OsUpdateError (name @ '' did not answer'')) w | Exited ok out \<Rightarrow> Q (ok, out) w)"
  by (simp add: answered_def wp_simps split: answer.split)

section \<open>Invariants of actions\<close>

definition keeps :: "('w \<Rightarrow> bool) \<Rightarrow> ('w, 'a) act \<Rightarrow> bool" where
  "keeps I m \<longleftrightarrow> (\<forall>w. I w \<longrightarrow> wp m (\<lambda>_. I) (\<lambda>_. I) w)"

named_theorems keeps_rules "composition of invariants"

lemma keepsI: "(\<And>w. I w \<Longrightarrow> wp m (\<lambda>_. I) (\<lambda>_. I) w) \<Longrightarrow> keeps I m"
  by (simp add: keeps_def)

lemma keepsD: "keeps I m \<Longrightarrow> I w \<Longrightarrow> wp m (\<lambda>_. I) (\<lambda>_. I) w"
  by (simp add: keeps_def)

lemma keeps_pure [keeps_rules]: "keeps I (ret x)" "keeps I (raise e)" "keeps I (lift r)"
  by (simp_all add: keeps_def wp_simps split: sum.split)

lemma keeps_get [keeps_rules]: "keeps I get_state"
  by (simp add: keeps_def wp_simps)

lemma keeps_bind [keeps_rules]:
  assumes "keeps I m" and "\<And>x. keeps I (k x)"
  shows "keeps I (bind m k)"
proof (rule keepsI, unfold wp_bind)
  fix w assume "I w"
  from keepsD [OF assms(1) this] show "wp m (\<lambda>x. wp (k x) (\<lambda>_. I) (\<lambda>_. I)) (\<lambda>_. I) w"
    by (rule wp_use) (use keepsD [OF assms(2)] in simp_all)
qed

lemma keeps_andthen [keeps_rules]: "keeps I m \<Longrightarrow> keeps I n \<Longrightarrow> keeps I (andthen m n)"
  unfolding andthen_def by (rule keeps_bind)

lemma keeps_catch [keeps_rules]:
  assumes "keeps I m" and "\<And>e a. h e = Some a \<Longrightarrow> keeps I a"
  shows "keeps I (try_catch m h)"
proof (rule keepsI, unfold wp_try_catch)
  fix w assume "I w"
  from keepsD [OF assms(1) this]
  show "wp m (\<lambda>_. I) (\<lambda>e w'. case h e of None \<Rightarrow> I w' | Some a \<Rightarrow> wp a (\<lambda>_. I) (\<lambda>_. I) w') w"
    by (rule wp_use) (use keepsD [OF assms(2)] in \<open>simp_all split: option.split\<close>)
qed

lemma keeps_modify: "(\<And>w. I w \<Longrightarrow> I (f w)) \<Longrightarrow> keeps I (modify f)"
  by (simp add: keeps_def wp_simps)

lemma keeps_if [keeps_rules]: "(c \<Longrightarrow> keeps I m) \<Longrightarrow> (\<not> c \<Longrightarrow> keeps I n) \<Longrightarrow> keeps I (if c then m else n)"
  by simp

lemma keeps_option [keeps_rules]: "(v = None \<Longrightarrow> keeps I m) \<Longrightarrow> (\<And>y. v = Some y \<Longrightarrow> keeps I (f y)) \<Longrightarrow> keeps I (case v of None \<Rightarrow> m | Some y \<Rightarrow> f y)"
  by (simp split: option.split)

lemma keeps_prod [keeps_rules]: "(\<And>a b. p = (a, b) \<Longrightarrow> keeps I (g a b)) \<Longrightarrow> keeps I (case p of (a, b) \<Rightarrow> g a b)"
  by (simp split: prod.split)

lemma keeps_Let [keeps_rules]: "(\<And>y. keeps I (f y)) \<Longrightarrow> keeps I (let y = v in f y)"
  by simp

lemma keeps_ask [keeps_rules]: "keeps I (ask f)"
  by (simp add: keeps_def wp_simps)

lemma keeps_answered [keeps_rules]: "keeps I (answered name a)"
  by (simp add: keeps_def wp_simps split: answer.split)

lemma keeps_query [keeps_rules]: "keeps I (run_query name f)"
  unfolding run_query_def by (intro keeps_rules)

lemma keeps_reads [keeps_rules]: "keeps I journal" "keeps I the_job" "keeps I cancelled" "keeps I (printenv h)"
  unfolding journal_def the_job_def cancelled_def printenv_def by (intro keeps_rules)+

lemma wp_then:
  assumes "keeps J m" and "J w" and "\<And>x w'. J w' \<Longrightarrow> wp (k x) Q E w'" and "\<And>e w'. J w' \<Longrightarrow> E e w'"
  shows "wp (bind m k) Q E w"
  unfolding wp_bind by (rule wp_use [OF keepsD [OF assms(1,2)]]) (use assms(3,4) in auto)

lemma wp_andthen_then:
  assumes "keeps J m" and "J w" and "\<And>w'. J w' \<Longrightarrow> wp n Q E w'" and "\<And>e w'. J w' \<Longrightarrow> E e w'"
  shows "wp (andthen m n) Q E w"
  unfolding wp_andthen by (rule wp_use [OF keepsD [OF assms(1,2)]]) (use assms(3,4) in auto)

lemma wp_ifI: "(c \<Longrightarrow> wp m Q E w) \<Longrightarrow> (\<not> c \<Longrightarrow> wp n Q E w) \<Longrightarrow> wp (if c then m else n) Q E w"
  by simp

lemma wp_prodI: "(\<And>a b. p = (a, b) \<Longrightarrow> wp (g a b) Q E w) \<Longrightarrow> wp (case p of (a, b) \<Rightarrow> g a b) Q E w"
  by (simp split: prod.split)

lemma wp_optionI: "(v = None \<Longrightarrow> wp m Q E w) \<Longrightarrow> (\<And>y. v = Some y \<Longrightarrow> wp (f y) Q E w) \<Longrightarrow>
   wp (case v of None \<Rightarrow> m | Some y \<Rightarrow> f y) Q E w"
  by (simp split: option.split)

lemmas wp_caseI = wp_ifI wp_prodI wp_optionI

end
