(* ===== verification/Epk_Update.thy ===== *)
theory Epk_Update
  imports Epk_World
begin

text \<open>
  The OS update service, \<open>epilykos_os_update.py\<close>: what hostd admits and answers, and the worker that
  downloads, verifies and installs a package into the other slot.  The state, the host and
  the effects are those of \<open>Epk_World\<close>.
\<close>

section \<open>What other maintenance must respect\<close>

definition blocking :: "'x host \<Rightarrow> 'x world \<Rightarrow> gstate" where
  "blocking h w = (case platform_of h of
       Inl _ \<Rightarrow> NeedsCheck
     | Inr None \<Rightarrow> Idle
     | Inr (Some _) \<Rightarrow>
       if guard_of w \<noteq> Idle then guard_of w
       else (case journal_of w of
           Inl _ \<Rightarrow> NeedsCheck
         | Inr None \<Rightarrow> Idle
         | Inr (Some j) \<Rightarrow> if j_state j \<in> insert Installing WORKING then Active else Idle))"

definition refuse_if :: "'x host \<Rightarrow> gstate set \<Rightarrow> string \<Rightarrow> 'x world \<Rightarrow> unit result" where
  "refuse_if h states action w =
     (let s = blocking h w in
      if s \<in> states then
        Inl (OsUpdateError (action @ '' is not possible while '' @
          (case s of Active \<Rightarrow> ''an OS update is being installed'' | Pending \<Rightarrow> ''an OS update is ready to finish''
           | _ \<Rightarrow> ''an OS update needs checking'') @ ''. Use Settings > Updates.''))
      else Inr ())"

definition refuse_reboot :: "'x host \<Rightarrow> 'x world \<Rightarrow> unit result" where
  "refuse_reboot h w =
     rbind (refuse_if h {Active, NeedsCheck} ''Restarting or shutting down'' w) (\<lambda>_.
     if blocking h w = Pending \<and>
        (case journal_of w of Inr (Some j) \<Rightarrow> j_state j \<in> {Ready, Restarting} | _ \<Rightarrow> True)
     then Inl (OsUpdateError ''An OS update is ready: use Restart to finish or Discard in Settings > Updates.'')
     else Inr ())"

section \<open>The release feed\<close>

definition fetch_text :: "'x host \<Rightarrow> string \<Rightarrow> nat \<Rightarrow> ('x, string) run" where
  "fetch_text h url maximum = bind (ask (h_fetch h url)) (\<lambda>r. lift (case r of
       Inl reason \<Rightarrow> Inl (OsUpdateError (''Could not reach the OS update server ('' @ reason @ '')''))
     | Inr data \<Rightarrow> if maximum < length data then Inl (OsUpdateError ''The OS update information is too large'') else Inr data))"

definition feed_base :: "platform \<Rightarrow> string" where
  "feed_base plat = ''https://github.com/ashipaek0/epilykos-os/releases/download/os-'' @ f_channel plat"

definition fetch_release :: "'x host \<Rightarrow> platform \<Rightarrow> ('x, release_files) run" where
  "fetch_release h plat =
     (let base = feed_base plat; name = ''os-index-'' @ f_channel plat @ ''.json'' in
      bind (fetch_text h (base @ ''/'' @ name) ENTRY_MAX) (\<lambda>entry.
      bind (fetch_text h (base @ ''/'' @ name @ ''.sig'') 64) (\<lambda>entry_sig.
      bind (fetch_text h (base @ ''/os-policy.json'') POLICY_MAX) (\<lambda>pol.
      bind (fetch_text h (base @ ''/os-policy.sig'') 64) (\<lambda>policy_sig.
        ret \<lparr>r_entry = entry, r_entry_sig = entry_sig, r_policy = pol, r_policy_sig = policy_sig\<rparr>)))))"

definition verify_release :: "'x host \<Rightarrow> release_files \<Rightarrow> platform \<Rightarrow> trust_state \<Rightarrow> (os_entry \<times> policy \<times> bool) result" where
  "verify_release h files plat st = (case h_root h of
       None \<Rightarrow> Inl (OsUpdateError ''The published trust policy does not verify'')
     | Some root \<Rightarrow>
       (case verify_policy (h_crypto h) (r_policy files) (r_policy_sig files) root f_board (f_channel plat)
           (Some (t_raw st, t_epoch st)) of
          Inl _ \<Rightarrow> Inl (OsUpdateError ''The published trust policy does not verify'')
        | Inr pol \<Rightarrow>
          rbind (verify_os_release (h_crypto h) (r_entry files) (r_entry_sig files) plat pol)
            (\<lambda>entry. Inr (entry, pol, t_epoch st < p_epoch pol))))"

definition trust_now :: "'x host \<Rightarrow> platform \<Rightarrow> ('x, trust_state) run" where
  "trust_now h plat = bind (printenv h) (\<lambda>env. lift (current_state (h_crypto h) (h_root h) plat env))"

section \<open>Looking\<close>

record shown =
  s_id :: string
  s_request :: "string option"
  s_state :: jstate
  s_sequence :: int
  s_version :: "string option"
  s_size :: "int option"
  s_notes :: string
  s_progress :: progress
  s_error :: "string option"
  s_source :: string
  s_target :: string

definition public :: "job \<Rightarrow> shown" where
  "public j = \<lparr>s_id = j_id j, s_request = j_request j, s_state = j_state j, s_sequence = j_sequence j, s_version = j_version j,
     s_size = j_size j, s_notes = j_notes j, s_progress = j_progress j, s_error = j_error j, s_source = j_source j,
     s_target = j_target j\<rparr>"

record os_view =
  o_version :: string
  o_sequence :: int
  o_channel :: string
  o_guard :: gstate
  o_job :: "shown option"
  o_error :: "string option"

datatype view_result = Unsupported string | Supported os_view

definition worker_active :: "'x host \<Rightarrow> ('x, bool) run" where
  "worker_active h = bind (run_query ''systemctl'' (h_active h)) (\<lambda>(ok, _). ret ok)"

definition start_worker :: "'x host \<Rightarrow> ('x, unit) run" where
  "start_worker h = bind (run_command ''systemctl'' (h_start h)) (\<lambda>(ok, _).
     if ok then ret () else raise (OsUpdateError ''Could not start the OS update''))"

definition ensure_worker :: "'x host \<Rightarrow> job option \<Rightarrow> ('x, unit) run" where
  "ensure_worker h jo = (case jo of
       None \<Rightarrow> ret ()
     | Some j \<Rightarrow>
       if j_state j \<in> {Installing, Restarting} \<union> WORKING
       then bind (worker_active h) (\<lambda>active. if active then ret () else start_worker h) else ret ())"

fun os_update_error :: "('a, 'b) act \<Rightarrow> exn \<Rightarrow> ('a, 'b) act option" where
  "os_update_error a (OsUpdateError m) = Some a"
| "os_update_error a _ = None"

definition no_support :: string where
  "no_support = ''This card was made before OS updates from Settings. Flash a current EpilykosOS image once to get them.''"

definition view :: "'x host \<Rightarrow> bool \<Rightarrow> ('x, view_result) run" where
  "view h resume = (case platform_of h of
       Inl e \<Rightarrow> ret (Unsupported (message e))
     | Inr None \<Rightarrow> ret (Unsupported no_support)
     | Inr (Some plat) \<Rightarrow>
       bind get_state (\<lambda>w.
       let base = \<lparr>o_version = f_os_version plat, o_sequence = f_os_sequence plat, o_channel = f_channel plat,
                   o_guard = guard_of w, o_job = None, o_error = None\<rparr> in
       try_catch
         (bind journal (\<lambda>j. andthen (if resume then ensure_worker h j else ret ())
           (ret (Supported (base\<lparr>o_job := map_option public j\<rparr>)))))
         (\<lambda>e. case e of OsUpdateError m \<Rightarrow> Some (ret (Supported (base\<lparr>o_error := Some m\<rparr>))) | _ \<Rightarrow> None)))"

record offer =
  f_available :: bool
  f_blockers :: "string list"
  f_space :: "admission option"
  f_trust_update :: bool
  f_entry :: os_entry

definition check :: "'x host \<Rightarrow> ('x, view_result \<times> offer option) run" where
  "check h = bind (lift (platform_of h)) (\<lambda>p. case p of
       None \<Rightarrow> bind (view h True) (\<lambda>v. ret (v, None))
     | Some plat \<Rightarrow>
       bind (trust_now h plat) (\<lambda>st.
       bind (fetch_release h plat) (\<lambda>files.
       bind (lift (verify_release h files plat st)) (\<lambda>(entry, pol, newer).
       bind (view h True) (\<lambda>v.
       case admissible entry plat (t_floor st) of
         Inl _ \<Rightarrow> ret (v, Some \<lparr>f_available = False, f_blockers = [], f_space = None, f_trust_update = newer, f_entry = entry\<rparr>)
       | Inr _ \<Rightarrow>
         bind (printenv h) (\<lambda>env.
         bind (lift (booted_slot h)) (\<lambda>slot.
         bind (ask (\<lambda>x. (health_blockers (h_health h x) slot env @ app_blockers h x, admit (required_space entry) (h_usage h x))))
           (\<lambda>(blockers, space).
         andthen (durable (\<lambda>w. w\<lparr>w_checked := Some files\<rparr>))
           (ret (v, Some \<lparr>f_available = True,
               f_blockers = blockers @ (case space of Inl e \<Rightarrow> [message e] | Inr _ \<Rightarrow> []),
               f_space = (case space of Inl _ \<Rightarrow> None | Inr s \<Rightarrow> Some s), f_trust_update = newer, f_entry = entry\<rparr>))))))))))"

section \<open>Admission, cancellation, dismissal\<close>

definition request_id_ok :: "string \<Rightarrow> bool" where
  "request_id_ok s \<longleftrightarrow> s \<noteq> [] \<and> is_alnum (hd s) \<and> 8 \<le> length s \<and> length s \<le> 64 \<and>
     list_all (\<lambda>c. is_alnum c \<or> c = CHR ''-'') (tl s)"

definition new_job :: "string \<Rightarrow> string \<Rightarrow> os_entry \<Rightarrow> release_files \<Rightarrow> string \<Rightarrow> job" where
  "new_job i request entry files slot =
     \<lparr>j_id = i, j_request = Some request, j_state = Queued, j_sequence = e_sequence entry, j_sha256 = Some (e_sha256 entry),
      j_size = Some (e_size entry), j_version = Some (e_version entry), j_url = e_url entry, j_notes = e_notes entry,
      j_source = slot, j_target = other_slot slot,
      j_entry = b64encode (r_entry files), j_entry_sig = b64encode (r_entry_sig files),
      j_policy = b64encode (r_policy files), j_policy_sig = b64encode (r_policy_sig files),
      j_progress = phase_only ''queued'', j_error = None, j_validator = None, j_image_size = None, j_image_sha = None,
      j_rauc = None\<rparr>"

definition install :: "'x host \<Rightarrow> int \<Rightarrow> string \<Rightarrow> string \<Rightarrow> ('x, view_result) run" where
  "install h seq sha request =
     (if \<not> hex_of_length 64 sha \<or> \<not> request_id_ok request
      then raise (OsUpdateError ''Check for OS updates again, then install'')
      else bind (lift (platform_of h)) (\<lambda>p. case p of
        None \<Rightarrow> raise (OsUpdateError no_support)
      | Some plat \<Rightarrow>
        bind journal (\<lambda>jo.
        if jo \<noteq> None \<and> j_request (the jo) = Some request then
          (if j_sequence (the jo) \<noteq> seq \<or> j_sha256 (the jo) \<noteq> Some sha
           then raise (OsUpdateError ''That request was for a different OS update'') else view h True)
        else if jo \<noteq> None \<and> j_state (the jo) \<notin> TERMINAL then raise (OsUpdateError ''An OS update is already in progress'')
        else bind get_state (\<lambda>w.
        if guard_of w \<noteq> Idle then raise (OsUpdateError ''An OS update needs checking before another can start'')
        else case w_checked w of
          None \<Rightarrow> raise (OsUpdateError ''Check for OS updates again, then install'')
        | Some files \<Rightarrow>
          bind (trust_now h plat) (\<lambda>st.
          bind (lift (verify_release h files plat st)) (\<lambda>(entry, pol, newer).
          if e_sequence entry \<noteq> seq \<or> e_sha256 entry \<noteq> sha
          then raise (OsUpdateError ''The verified OS update changed; check again'')
          else
          bind (lift (admissible entry plat (t_floor st))) (\<lambda>_.
          bind (lift (booted_slot h)) (\<lambda>slot.
          bind (printenv h) (\<lambda>env.
          bind (ask (\<lambda>x. health_blockers (h_health h x) slot env @ app_blockers h x)) (\<lambda>blockers.
          case blockers of
            b # _ \<Rightarrow> raise (OsUpdateError b)
          | [] \<Rightarrow>
            bind (ask (h_usage h)) (\<lambda>usage.
            bind (lift (admit (required_space entry) usage)) (\<lambda>_.
            bind (ask (h_uuid h)) (\<lambda>i.
            andthen (in_memory (\<lambda>_. new_job i request entry files slot))
           (andthen (durable (\<lambda>w. w\<lparr>w_cancel := None\<rparr>))
           (andthen save
           (andthen (start_worker h)
              (view h False)))))))))))))))))"

text \<open>The job of an action on an existing job, which the code then has in memory.\<close>

definition load_job :: "job \<Rightarrow> ('x, unit) run" where
  "load_job j = in_memory (\<lambda>_. j)"

definition cancel :: "'x host \<Rightarrow> string \<Rightarrow> ('x, view_result) run" where
  "cancel h i =
     bind journal (\<lambda>jo. case jo of
       None \<Rightarrow> raise (OsUpdateError ''That OS update is not running'')
     | Some j \<Rightarrow>
       if j_id j \<noteq> i then raise (OsUpdateError ''That OS update is not running'')
       else if j_state j \<notin> WORKING
       then raise (OsUpdateError ''The OS update can no longer be cancelled; it will finish installing first'')
       else andthen (load_job j)
           (andthen (durable (\<lambda>w. w\<lparr>w_cancel := Some i\<rparr>))
           (bind (worker_active h) (\<lambda>active.
              andthen (if active then ret () else finish CancelledJob None) (view h False)))))"

definition dismiss :: "'x host \<Rightarrow> string \<Rightarrow> ('x, view_result) run" where
  "dismiss h i =
     bind journal (\<lambda>jo.
       if jo = None \<or> j_id (the jo) \<noteq> i \<or> j_state (the jo) \<notin> TERMINAL
       then raise (OsUpdateError ''There is no finished OS update to dismiss'')
       else andthen (durable (\<lambda>w. w\<lparr>w_journal := NoJournal\<rparr>)) (view h True))"

text \<open>At hostd start: the guard reflects the journal, an interrupted job resumes.\<close>

definition reconcile :: "'x host \<Rightarrow> ('x, unit) run" where
  "reconcile h =
     bind (try_catch journal
         (\<lambda>e. case e of OsUpdateError m \<Rightarrow> Some (andthen (set_guard NeedsCheck None) (raise (OsUpdateError m))) | _ \<Rightarrow> None)) (\<lambda>jo.
     case jo of
       None \<Rightarrow> set_guard Idle None
     | Some j \<Rightarrow>
       if j_state j \<in> TERMINAL then set_guard Idle None
       else if j_state j = Ready then set_guard Pending (Some (j_id j))
       else if j_state j = Reconciling then set_guard NeedsCheck (Some (j_id j))
       else andthen (set_guard Active (Some (j_id j)))
         (bind (worker_active h) (\<lambda>active. if active then ret () else start_worker h)))"


section \<open>The installed slot\<close>

text \<open>The device is read in chunks up to the image size; a short read or another digest refuses.\<close>

definition verify_target :: "'x host \<Rightarrow> ('x, unit) run" where
  "verify_target h =
     bind (printenv h) (\<lambda>env.
     bind the_job (\<lambda>j.
     if \<not> not_bootable env j then raise (OsUpdateError ''The installed system is unexpectedly bootable'')
     else case (j_image_size j, j_image_sha j) of
       (Some sz, Some sha) \<Rightarrow>
         bind (ask (h_slot h (j_target j))) (\<lambda>device. case device of
           None \<Rightarrow> raise (OsUpdateError ''Could not read back the installed system'')
         | Some bytes \<Rightarrow>
           if length bytes < nat sz \<or> sha256 (h_crypto h) (take (nat sz) bytes) \<noteq> sha
           then raise (OsUpdateError ''The installed system does not match the signed image'') else ret ())
     | _ \<Rightarrow> raise (KeyError ''image'')))"

definition mark_unsure :: "job \<Rightarrow> string \<Rightarrow> ('x, nat) run" where
  "mark_unsure j msg =
     andthen (in_memory (\<lambda>j. j\<lparr>j_state := Reconciling, j_error := Some msg, j_progress := phase_only ''reconciling''\<rparr>))
    (andthen save
    (andthen (set_guard NeedsCheck (Some (j_id j))) (ret 1)))"

definition fail_install :: "'x host \<Rightarrow> string \<Rightarrow> ('x, nat) run" where
  "fail_install h msg =
     bind the_job (\<lambda>j.
     andthen (run_command ''rauc'' (h_mark h ''mark-bad'' (slot_device (j_target j))))
    (bind (try_catch (bind (printenv h) (\<lambda>env. ret (not_bootable env j)))
         (\<lambda>e. case e of TrustError m \<Rightarrow> Some (ret False) | _ \<Rightarrow> None)) (\<lambda>safe.
     if \<not> safe then mark_unsure j (msg @ ''; the other system slot needs checking'')
     else andthen (finish Failed (Some msg)) (ret 1))))"

definition mark_ready :: "('x, nat) run" where
  "mark_ready =
     andthen (in_memory (\<lambda>j. j\<lparr>j_state := Ready, j_progress := phase_only ''ready''\<rparr>))
    (andthen save
    (bind the_job (\<lambda>j. andthen (set_guard Pending (Some (j_id j))) (ret 0))))"

definition complete_install :: "'x host \<Rightarrow> ('x, nat) run" where
  "complete_install h =
     bind (try_catch (andthen (verify_target h) (ret None))
         (\<lambda>e. case e of OsUpdateError m \<Rightarrow> Some (ret (Some m)) | _ \<Rightarrow> None)) (\<lambda>failed.
     case failed of
       Some m \<Rightarrow> fail_install h m
     | None \<Rightarrow> mark_ready)"

section \<open>RAUC\<close>

text \<open>The fullmatch of \<open>_busctl_string\<close>: the letter s, blanks, a quoted text.\<close>

definition busctl_string :: "string \<Rightarrow> string option" where
  "busctl_string t =
     (let s = strip t; r = dropWhile is_space (tl s) in
      if s \<noteq> [] \<and> hd s = CHR ''s'' \<and> r \<noteq> tl s \<and> 2 \<le> length r \<and> hd r = CHR 0x22 \<and> last r = CHR 0x22 \<and>
         CHR 0x22 \<notin> set (butlast (tl r))
      then Some (butlast (tl r)) else None)"

definition rauc_operation :: "'x host \<Rightarrow> ('x, string option \<times> string option) run" where
  "rauc_operation h =
     bind (run_query ''busctl'' (h_owner h)) (\<lambda>(ok, owner).
     if \<not> ok then ret (None, None)
     else bind (run_query ''busctl'' (h_operation h)) (\<lambda>(ok', operation).
       ret (if ok' then busctl_string operation else None, busctl_string owner)))"

definition rauc_identity :: "'x host \<Rightarrow> ('x, identity) run" where
  "rauc_identity h =
     bind (run_command ''systemctl'' (h_start_rauc h)) (\<lambda>(ok, _).
     if \<not> ok then raise (OsUpdateError ''The system updater did not start'')
     else bind (rauc_operation h) (\<lambda>(operation, owner).
       bind (run_query ''systemctl'' (h_invocation h)) (\<lambda>(ok', invocation).
       if operation \<noteq> Some ''idle'' \<or> \<not> truthy owner \<or> \<not> ok' \<or> strip invocation = []
       then raise (OsUpdateError ''The system updater is busy or unavailable'')
       else ret \<lparr>id_transaction = [], id_owner = the owner, id_invocation = strip invocation\<rparr>)))"

definition restart_rauc :: "'x host \<Rightarrow> ('x, unit) run" where
  "restart_rauc h =
     bind (rauc_operation h) (\<lambda>(operation, owner).
     if operation \<noteq> Some ''idle'' \<and> operation \<noteq> None
     then raise (OsUpdateError ''The system updater is busy; try again shortly'')
     else bind (run_command ''systemctl'' (h_restart_rauc h)) (\<lambda>(ok, _).
       if ok then ret () else raise (OsUpdateError ''Could not restart the system updater with the new trust policy'')))"

text \<open>A progress line: one to three digits, a percent sign, blanks, a text.\<close>

definition percent_line :: "string \<Rightarrow> (nat \<times> string) option" where
  "percent_line l =
     (let ds = takeWhile is_digit l; r = dropWhile is_digit l; t = dropWhile is_space (tl r) in
      if 1 \<le> length ds \<and> length ds \<le> 3 \<and> r \<noteq> [] \<and> hd r = CHR ''%'' \<and> t \<noteq> tl r
      then map_option (\<lambda>n. (n, t)) (undec ds) else None)"

text \<open>RAUC's output, line by line, each with whether two seconds passed since the last save; the last line is the answer.\<close>

fun follow_install :: "(string \<times> bool) list \<Rightarrow> string \<Rightarrow> ('x, string) run" where
  "follow_install [] last_line = ret last_line"
| "follow_install ((l, due) # ls) last_line =
     (let line = strip l; last' = (if line \<noteq> [] then line else last_line) in
      case percent_line line of
        Some (n, msg) \<Rightarrow>
          if due then
            andthen (step Installing ((phase_only ''installing'')\<lparr>pr_percent := Some (min n 100), pr_message := Some (take 120 msg)\<rparr>))
              (follow_install ls last')
          else follow_install ls last'
      | None \<Rightarrow> follow_install ls last')"

definition install_bundle :: "'x host \<Rightarrow> string \<Rightarrow> ('x, nat) run" where
  "install_bundle h bytes =
     bind (rauc_identity h) (\<lambda>identity.
     andthen (in_memory (\<lambda>j. j\<lparr>j_rauc := Some (identity\<lparr>id_transaction := j_id j\<rparr>)\<rparr>))
    (andthen (step Installing ((phase_only ''installing'')\<lparr>pr_percent := Some 0\<rparr>))
    (bind the_job (\<lambda>j.
     bind (outside (h_install h (j_id j) bytes)) (\<lambda>(output, ok).
     bind (follow_install output []) (\<lambda>last_line.
     if \<not> ok then fail_install h (''The system updater refused or failed the OS update'' @
         (if last_line \<noteq> [] then '': '' @ drop (length last_line - 160) last_line else []))
     else complete_install h))))))"

text \<open>
  The wait for the recorded RAUC: \<open>n\<close> polls of five seconds fit before the deadline.  The
  result is whether it is still the recorded one, and its operation.
\<close>

fun await_rauc :: "'x host \<Rightarrow> nat \<Rightarrow> ('x, bool \<times> string option) run" where
  "await_rauc h n =
     bind (rauc_operation h) (\<lambda>(operation, owner).
     bind (run_query ''systemctl'' (h_invocation h)) (\<lambda>(_, invocation).
     bind the_job (\<lambda>j.
       let same = (owner \<noteq> None \<and> (case j_rauc j of None \<Rightarrow> False
             | Some r \<Rightarrow> owner = Some (id_owner r) \<and> strip invocation = id_invocation r))
       in if same \<and> operation = Some ''installing'' \<and> n \<noteq> 0
          then andthen (modify (\<lambda>w. w\<lparr>w_ext := h_wait h (w_ext w)\<rparr>)) (await_rauc h (n - 1))
          else ret (same, operation))))"

declare await_rauc.simps [simp del]

definition reconcile_install :: "'x host \<Rightarrow> nat \<Rightarrow> ('x, nat) run" where
  "reconcile_install h polls =
     bind (await_rauc h polls) (\<lambda>(same, operation).
     if same \<and> operation = Some ''idle'' then
       bind (run_query ''busctl'' (h_last_error h)) (\<lambda>(ok, err).
         if ok \<and> busctl_string err = Some [] then complete_install h
         else fail_install h ''The system updater failed the OS update'')
     else if same then fail_install h ''The system updater did not finish in time''
     else fail_install h ''The OS update was interrupted while installing'')"

section \<open>The download\<close>

definition part_name :: "job \<Rightarrow> string" where "part_name j = j_id j @ ''.part''"
definition final_name :: "job \<Rightarrow> string" where "final_name j = j_id j @ ''.raucb''"

definition staged_size :: "(string \<rightharpoonup> string) \<Rightarrow> string \<Rightarrow> int" where
  "staged_size st name = (case st name of None \<Rightarrow> 0 | Some b \<Rightarrow> int (length b))"

definition downloading :: "int \<Rightarrow> int \<Rightarrow> progress" where
  "downloading bytes all_bytes = (phase_only ''downloading'')\<lparr>pr_bytes := Some bytes, pr_total := Some all_bytes\<rparr>"

definition put_part :: "string \<Rightarrow> string \<Rightarrow> ('x, unit) run" where
  "put_part name bytes = modify (\<lambda>w. w\<lparr>w_staging := (w_staging w)(name \<mapsto> bytes)\<rparr>)"

text \<open>
  The loop over the body from the bytes already in the part.  A chunk carries the space of
  DATA when two seconds passed since the last look; a cancel request can arrive between
  two reads.
\<close>

fun stream :: "string \<Rightarrow> int \<Rightarrow> bool \<Rightarrow> chunk list \<Rightarrow> string \<Rightarrow> ('x, string) run" where
  "stream name sz brk [] written =
     bind cancelled (\<lambda>c. if c then raise Cancelled
       else if brk then raise (ConnectionError ''connection lost'') else ret written)"
| "stream name sz brk (CancelArrives i # cs) written =
     andthen (modify (\<lambda>w. w\<lparr>w_cancel := Some i\<rparr>)) (stream name sz brk cs written)"
| "stream name sz brk (Chunk data due # cs) written =
     bind cancelled (\<lambda>c.
     if c then raise Cancelled
     else if data = [] then ret written
     else if sz < int (length written + length data)
     then raise (OsUpdateError ''The download is larger than the signed size'')
     else andthen (put_part name (written @ data))
       (case due of
          None \<Rightarrow> stream name sz brk cs (written @ data)
        | Some usage \<Rightarrow>
          bind (lift (check_headroom usage)) (\<lambda>_.
          andthen (step Downloading (downloading (int (length (written @ data))) sz))
            (stream name sz brk cs (written @ data)))))"

definition content_range_of :: "int \<Rightarrow> int \<Rightarrow> string" where
  "content_range_of offset sz = ''bytes '' @ write_int offset @ ''-'' @ write_int (sz - 1) @ ''/'' @ write_int sz"

text \<open>
  One attempt: resume only with a validator and the matching range, otherwise start again.
  \<open>urlopen\<close> raises an \<open>HTTPError\<close>, one of the network failures, for a status that is not 2xx.
\<close>

definition transfer :: "'x host \<Rightarrow> os_entry \<Rightarrow> ('x, unit) run" where
  "transfer h entry =
     bind the_job (\<lambda>j.
     bind get_state (\<lambda>w.
     let sz = e_size entry; name = part_name j;
         part = (case w_staging w name of None \<Rightarrow> [] | Some b \<Rightarrow> b);
         offset = (if sz < int (length part) then 0 else int (length part));
         resume = (if offset \<noteq> 0 \<and> truthy (j_validator j) then Some (offset, the (j_validator j)) else None);
         offset' = (if resume = None then 0 else offset)
     in bind (outside (h_get h (e_url entry) resume)) (\<lambda>r. case r of
         NoAnswer \<Rightarrow> raise (ConnectionError ''no answer'')
       | Response code rng tag cs brk \<Rightarrow>
         bind (if code < 200 \<or> 300 \<le> code then raise (ConnectionError ''HTTPError'')
               else if offset' \<noteq> 0 \<and> code = 206 then
                 (if rng \<noteq> Some (content_range_of offset' sz)
                  then andthen (put_part name []) (raise (ConnectionError ''unexpected Content-Range''))
                  else ret offset')
               else if code = 200 then
                 andthen (in_memory (\<lambda>j. j\<lparr>j_validator := (if truthy tag \<and> \<not> startswith (the tag) ''W/'' then tag else None)\<rparr>))
                   (andthen save (ret 0))
               else raise (OsUpdateError (''The OS update server answered '' @ dec code))) (\<lambda>from.
         andthen (put_part name (take (nat from) part))
        (bind (stream name sz brk cs (take (nat from) part)) (\<lambda>written.
         if int (length written) \<noteq> sz then raise (ConnectionError ''download ended early'')
         else step Downloading (downloading (int (length written)) sz)))))))"

text \<open>The attempts of \<open>download\<close>: only a network failure is tried again.\<close>

fun attempt_download :: "'x host \<Rightarrow> os_entry \<Rightarrow> nat \<Rightarrow> ('x, unit) run" where
  "attempt_download h entry 0 = raise (OsUpdateError ''The download kept failing; check the network and try again'')"
| "attempt_download h entry (Suc n) =
     try_catch (transfer h entry)
       (\<lambda>e. case e of ConnectionError m \<Rightarrow> Some (attempt_download h entry n) | _ \<Rightarrow> None)"

definition DOWNLOAD_ATTEMPTS :: nat where "DOWNLOAD_ATTEMPTS = 5"

definition download :: "'x host \<Rightarrow> os_entry \<Rightarrow> ('x, string) run" where
  "download h entry =
     bind the_job (\<lambda>j.
     bind get_state (\<lambda>w.
     if (case w_staging w (final_name j) of None \<Rightarrow> False | Some b \<Rightarrow> int (length b) = e_size entry)
     then ret (the (w_staging w (final_name j)))
     else
       andthen (step Downloading (downloading (staged_size (w_staging w) (part_name j)) (e_size entry)))
      (andthen (attempt_download h entry DOWNLOAD_ATTEMPTS)
      (bind get_state (\<lambda>w'.
         let bytes = (case w_staging w' (part_name j) of None \<Rightarrow> [] | Some b \<Rightarrow> b) in
         andthen (durable (\<lambda>w. w\<lparr>w_staging := (w_staging w)(final_name j \<mapsto> bytes, part_name j := None)\<rparr>))
           (ret bytes))))))"

section \<open>The worker\<close>

definition verify_bundle :: "'x host \<Rightarrow> string \<Rightarrow> os_entry \<Rightarrow> policy \<Rightarrow> (int \<times> string) result" where
  "verify_bundle h bytes entry pol =
     (let keyring = keyring_pem pol; c = h_crypto h in
      rbind (check_bundle c bytes entry pol keyring) (\<lambda>_.
      rbind (bundle_signer c bytes keyring) (\<lambda>(manifest, _).
      rbind (check_manifest manifest entry) (\<lambda>i.
        let sz = (if has_option i ''image.rootfs'' ''size'' then py_int (ini_get i ''image.rootfs'' ''size'') else Some 0);
            sha = ini_get i ''image.rootfs'' ''sha256''
        in case sz of
             None \<Rightarrow> Inl (ValueError ''invalid literal for int()'')
           | Some n \<Rightarrow>
             if \<not> (0 < n \<and> n \<le> OCI_ALLOWANCE) \<or> \<not> hex_of_length 64 sha
             then Inl (OsUpdateError ''The OS update image does not fit a system slot'')
             else Inr (n, sha)))))"

definition unb64 :: "string \<Rightarrow> string result" where
  "unb64 t = (case b64decode t of None \<Rightarrow> Inl (ValueError ''invalid base64'') | Some b \<Rightarrow> Inr b)"

text \<open>The sentence of a failed job: the code's own errors speak, others are named by their class.\<close>

definition failure_text :: "exn \<Rightarrow> string option" where
  "failure_text e = (case e of
       OsUpdateError m \<Rightarrow> Some m | TrustError m \<Rightarrow> Some m | StorageError m \<Rightarrow> Some m
     | ValueError m \<Rightarrow> Some ''The OS update failed (ValueError)''
     | OSError m \<Rightarrow> Some ''The OS update failed (OSError)''
     | ConnectionError m \<Rightarrow> Some ''The OS update failed (ConnectionError)''
     | _ \<Rightarrow> None)"

definition work_body :: "'x host \<Rightarrow> platform \<Rightarrow> ('x, nat) run" where
  "work_body h plat =
     bind (trust_now h plat) (\<lambda>st.
     bind the_job (\<lambda>j.
     bind (lift (unb64 (j_policy j))) (\<lambda>policy_raw.
     bind (lift (unb64 (j_policy_sig j))) (\<lambda>policy_sig.
     bind (lift (unb64 (j_entry j))) (\<lambda>entry_raw.
     bind (lift (unb64 (j_entry_sig j))) (\<lambda>entry_sig.
     bind (lift (verify_release h \<lparr>r_entry = entry_raw, r_entry_sig = entry_sig, r_policy = policy_raw, r_policy_sig = policy_sig\<rparr> plat st))
       (\<lambda>(_, _, newer).
     bind (if newer then
             bind (bind (outside (\<lambda>x. admit_policy (h_env h) (h_set h) (h_crypto h) (h_root h) policy_raw policy_sig plat st x)) lift)
               (\<lambda>st'. andthen (restart_rauc h) (ret st'))
           else ret st) (\<lambda>st'.
     bind (lift (verify_os_release (h_crypto h) entry_raw entry_sig plat (t_policy st'))) (\<lambda>entry.
     bind (lift (admissible entry plat (t_floor st'))) (\<lambda>_.
     if e_sequence entry \<noteq> j_sequence j \<or> Some (e_sha256 entry) \<noteq> j_sha256 j
     then raise (OsUpdateError ''The OS update record does not match its authorization'')
     else
     bind (download h entry) (\<lambda>bytes.
     andthen (step Verifying (phase_only ''verifying''))
    (bind (lift (verify_bundle h bytes entry (t_policy st'))) (\<lambda>(sz, sha).
     andthen (in_memory (\<lambda>j. j\<lparr>j_image_size := Some sz, j_image_sha := Some sha\<rparr>))
    (bind cancelled (\<lambda>c.
     if c then raise Cancelled else install_bundle h bytes)))))))))))))))"

definition work :: "'x host \<Rightarrow> ('x, nat) run" where
  "work h = bind (lift (platform_of h)) (\<lambda>p. case p of
       None \<Rightarrow> raise (ValueError ''no platform'')
     | Some plat \<Rightarrow>
       try_catch (work_body h plat)
         (\<lambda>e. if e = Cancelled then Some (andthen (finish CancelledJob None) (ret 0))
              else case failure_text e of
                None \<Rightarrow> None
              | Some m \<Rightarrow> Some (bind the_job (\<lambda>j.
                  if j_state j = Installing then fail_install h m
                  else andthen (finish Failed (Some m)) (ret 1)))))"

text \<open>
  The maintenance lease, tried once per five seconds while a job installs; \<open>answers\<close> are the
  refusals (Some message) or the grant (None) of the attempts.
\<close>

datatype lease = Granted | GivenUp string | Waiting

fun take_lease :: "bool \<Rightarrow> string option list \<Rightarrow> lease" where
  "take_lease installing [] = Waiting"
| "take_lease installing (None # as) = Granted"
| "take_lease installing (Some m # as) = (if installing then take_lease installing as else GivenUp m)"

definition run_worker :: "'x host \<Rightarrow> string option list \<Rightarrow> nat \<Rightarrow> ('x, nat) run \<Rightarrow> ('x, nat) run" where
  "run_worker h answers polls activate =
     bind journal (\<lambda>jo. case jo of
       None \<Rightarrow> ret 0
     | Some j \<Rightarrow>
       if j_state j \<notin> {Installing, Restarting} \<union> WORKING then ret 0
       else andthen (load_job j)
         (bind cancelled (\<lambda>c.
          if j_state j \<in> WORKING \<and> c then andthen (finish CancelledJob None) (ret 0)
          else case take_lease (j_state j = Installing) answers of
            Waiting \<Rightarrow> ret 0
          | GivenUp m \<Rightarrow> andthen (finish Failed (Some m)) (ret 1)
          | Granted \<Rightarrow>
            andthen (set_guard Active (Some (j_id j)))
              (if j_state j = Installing then reconcile_install h polls
               else if j_state j = Restarting then activate
               else work h))))"

end
