(* ===== verification/Epk_Samples.thy ===== *)
theory Epk_Samples
  imports Epk_Update
begin

text \<open>
  A concrete box for the witnesses: a platform record, an authorized package entry, a
  guarded environment with a verified trust policy in which slot A runs and slot B holds an
  installed package, and a host whose environment is the guarded store.
\<close>

section \<open>The platform and the package\<close>

definition sample_platform_fields :: "(ustr \<times> json) list" where
  "sample_platform_fields =
     [(u ''app_release'', JStr (u ''1.0'')), (u ''arch'', JStr (u ''arm64'')), (u ''board'', JStr (u ''raspberrypi3'')),
      (u ''boot_protocol'', JInt 2), (u ''channel'', JStr (u ''dev'')), (u ''host_api'', JInt 2),
      (u ''kernel'', JStr (u ''6.6'')), (u ''os_sequence'', JInt 3), (u ''os_version'', JStr (u ''1.0'')),
      (u ''schema'', JInt 1), (u ''slot_layout'', JStr (u ''pi3-mbr-v1'')), (u ''source'', JStr (u (replicate 40 CHR ''b'')))]"

definition sample_platform_raw :: string where
  "sample_platform_raw = canonical (JObj sample_platform_fields)"

lemma sample_platform_json: "strict_json sample_platform_raw 4096 = Inr (JObj sample_platform_fields)"
  unfolding sample_platform_raw_def
proof (rule strict_json_read)
  show "wf_json (JObj sample_platform_fields)"
    by (simp add: sample_platform_fields_def) (simp add: u_def)
  show "json_bound (JObj sample_platform_fields) \<le> 4096"
    by (simp add: sample_platform_fields_def write_int_def dec.simps)
qed

lemma platform_field_simps:
  "field sample_platform_fields ''schema'' = JInt 1"
  "field sample_platform_fields ''board'' = JStr (u ''raspberrypi3'')"
  "field sample_platform_fields ''arch'' = JStr (u ''arm64'')"
  "field sample_platform_fields ''slot_layout'' = JStr (u ''pi3-mbr-v1'')"
  "field sample_platform_fields ''boot_protocol'' = JInt 2"
  "field sample_platform_fields ''channel'' = JStr (u ''dev'')"
  "field sample_platform_fields ''os_sequence'' = JInt 3"
  "field sample_platform_fields ''host_api'' = JInt 2"
  "field sample_platform_fields ''os_version'' = JStr (u ''1.0'')"
  "field sample_platform_fields ''kernel'' = JStr (u ''6.6'')"
  "field sample_platform_fields ''app_release'' = JStr (u ''1.0'')"
  "field sample_platform_fields ''source'' = JStr (u (replicate 40 CHR ''b''))"
  by (simp_all add: field_def sample_platform_fields_def)

lemma sample_platform_loads: "load_platform sample_platform_raw = Inr sample_platform"
proof -
  have len: "length sample_platform_raw \<le> 4096"
    using strict_json_Inr(3) [OF sample_platform_json] .
  have o: "object_with platform_fields (JObj sample_platform_fields) = Some sample_platform_fields"
    by (auto simp: object_with_def sample_platform_fields_def platform_fields_def)
  have t: "text_value (JStr (u ''1.0'')) 64 = Inr ''1.0''" "text_value (JStr (u ''6.6'')) 128 = Inr ''6.6''"
    by (simp_all add: text_value_Inr) (simp_all add: u_def printable_def)
  have h: "hex_of_length 40 (replicate 40 CHR ''b'')"
    by (simp add: hex_of_length_def list_all_iff is_lower_hex_def between_def)
  have "list_all (\<lambda>c. c < 128) (u (replicate 40 CHR ''b''))" by (simp add: u_def list_all_iff)
  with h have s: "matching (hex_of_length 40) msg (JStr (u (replicate 40 CHR ''b''))) = Inr (replicate 40 CHR ''b'')" for msg
    by (simp add: matching_def)
  show ?thesis
    using len
    by (simp add: load_platform_def sample_platform_json validate_platform_def o platform_field_simps t s integer_def
        UINT64_MAX_def sample_platform_def)
qed

definition sample_bundle_fields :: "(ustr \<times> json) list" where
  "sample_bundle_fields =
     [(u ''sha256'', JStr (u (replicate 64 CHR ''a''))), (u ''size'', JInt 76), (u ''url'', JStr (u ''https://x/b''))]"

definition sample_doc_fields :: "(ustr \<times> json) list" where
  "sample_doc_fields =
     [(u ''board'', JStr (u ''raspberrypi3'')), (u ''boot_protocol'', JInt 2), (u ''bundle'', JObj sample_bundle_fields),
      (u ''channel'', JStr (u ''dev'')), (u ''index_key_id'', JStr (u ''k1'')), (u ''min_host_api'', JInt 2),
      (u ''notes_url'', JStr (u ''https://x/n'')), (u ''schema'', JInt 1), (u ''sequence'', JInt 7),
      (u ''trust_epoch'', JInt 2), (u ''version'', JStr (u ''1.1''))]"

definition sample_doc :: string where
  "sample_doc = canonical (JObj sample_doc_fields)"

definition sample_doc_sig :: string where
  "sample_doc_sig = replicate 64 CHR ''s''"

lemma sample_doc_json: "strict_json sample_doc ENTRY_MAX = Inr (JObj sample_doc_fields)"
  unfolding sample_doc_def
proof (rule strict_json_read)
  show "wf_json (JObj sample_doc_fields)"
    by (simp add: sample_doc_fields_def sample_bundle_fields_def) (simp add: u_def)
  show "json_bound (JObj sample_doc_fields) \<le> ENTRY_MAX"
    by (simp add: sample_doc_fields_def sample_bundle_fields_def ENTRY_MAX_def write_int_def dec.simps)
qed

lemma doc_field_simps:
  "field sample_doc_fields ''board'' = JStr (u ''raspberrypi3'')"
  "field sample_doc_fields ''boot_protocol'' = JInt 2"
  "field sample_doc_fields ''bundle'' = JObj sample_bundle_fields"
  "field sample_doc_fields ''channel'' = JStr (u ''dev'')"
  "field sample_doc_fields ''index_key_id'' = JStr (u ''k1'')"
  "field sample_doc_fields ''min_host_api'' = JInt 2"
  "field sample_doc_fields ''notes_url'' = JStr (u ''https://x/n'')"
  "field sample_doc_fields ''schema'' = JInt 1"
  "field sample_doc_fields ''sequence'' = JInt 7"
  "field sample_doc_fields ''trust_epoch'' = JInt 2"
  "field sample_doc_fields ''version'' = JStr (u ''1.1'')"
  "field sample_bundle_fields ''url'' = JStr (u ''https://x/b'')"
  "field sample_bundle_fields ''size'' = JInt 76"
  "field sample_bundle_fields ''sha256'' = JStr (u (replicate 64 CHR ''a''))"
  by (simp_all add: field_def sample_doc_fields_def sample_bundle_fields_def)

lemma sample_doc_verifies: "verify_os_release sample_crypto sample_doc sample_doc_sig sample_platform sample_policy = Inr sample_entry"
proof -
  have o: "object_with entry_fields (JObj sample_doc_fields) = Some sample_doc_fields"
    "object_with [''url'', ''size'', ''sha256''] (JObj sample_bundle_fields) = Some sample_bundle_fields"
    by (auto simp: object_with_def sample_doc_fields_def sample_bundle_fields_def entry_fields_def)
  have t: "text_value (JStr (u ''1.1'')) 64 = Inr ''1.1''" "text_value (JStr (u ''https://x/n'')) 512 = Inr ''https://x/n''"
    "text_value (JStr (u ''https://x/b'')) 512 = Inr ''https://x/b''"
    by (simp_all add: text_value_Inr) (simp_all add: u_def printable_def)
  have h: "hex_of_length 64 (replicate 64 CHR ''a'')"
    by (simp add: hex_of_length_def list_all_iff is_lower_hex_def between_def)
  have "list_all (\<lambda>c. c < 128) (u (replicate 64 CHR ''a''))" by (simp add: u_def list_all_iff)
  with h have s: "matching (hex_of_length 64) [] (JStr (u (replicate 64 CHR ''a''))) = Inr (replicate 64 CHR ''a'')"
    by (simp add: matching_def)
  have k: "matching (\<lambda>k. k = ''k1'') [] (JStr (u ''k1'')) = Inr ''k1''"
    by (simp add: matching_def) (simp add: u_def)
  have b: "b64 (b64encode sample_key) 32 = Inr sample_key" by (simp add: b64_Inr sample_key_facts)
  have v: "ed25519_verify sample_crypto (raw_public_pem sample_key) sample_doc sample_doc_sig = Inr ()"
    by (simp add: ed25519_verify_Inr openssl_verify_Inr)
      (simp add: sample_doc_sig_def sample_crypto_def startswith_def ED25519_SPKI_def)
  have p: "f_channel sample_platform = ''dev''" "f_host_api sample_platform = 2" "p_board sample_policy = ''raspberrypi3''"
    "p_channel sample_policy = ''dev''" "p_epoch sample_policy = 2" "p_keys sample_policy = [(''k1'', b64encode sample_key)]"
    by (simp_all add: sample_platform_def sample_policy_def)
  show ?thesis
    unfolding verify_os_release_def verify_entry_def sample_doc_json rbind_simps o option.case
    by (simp add: doc_field_simps f_board_def p o t s k b v integer_def UINT64_MAX_def BUNDLE_MAX_def is_https_def
        sample_entry_def)
qed


section \<open>The environment\<close>

definition box_entries :: entries where
  "box_entries =
     [(''epk_state_schema'', ''1''), (''epk_state_generation'', ''1''), (''epk_os_floor'', ''3''),
      (''epk_trust_epoch'', ''2''), (''epk_trust_policy'', b64encode sample_policy_raw),
      (''epk_trust_policy_sig'', b64encode (replicate 64 CHR ''s'')),
      (''BOOT_ORDER'', ''A B''), (''BOOT_A_LEFT'', ''3''), (''BOOT_B_LEFT'', ''0'')]"

definition box_store :: store where
  "box_store = \<lparr>copy_a = Copy 7 box_entries, copy_b = Torn\<rparr>"

lemma box_parse:
  "parse box_entries = Inr \<lparr>v_entries = box_entries, v_used = entry_bytes box_entries + 1,
     v_generation = 1, v_floor = 3, v_epoch = 2\<rparr>"
proof -
  have two: "decimal (Some ''2'') = Some 2"
    by (simp add: decimal_def uint64_max_def is_digit_def between_def digit_value_def)
  have ok: "list_all entry_ok box_entries"
    by (simp add: box_entries_def entry_ok_def printable_plain)
      (simp add: printable_def is_name_char_def is_alnum_def is_alpha_def is_digit_def between_def)
  have "length (b64encode sample_policy_raw) \<le> 8192"
    using sample_raw_length by (simp add: b64encode_length)
  then have bytes: "entry_bytes box_entries \<le> 8600" by (simp add: box_entries_def entry_bytes_def b64encode_length)
  have sizes: "b64_size (Some (b64encode sample_policy_raw)) = length sample_policy_raw"
    "b64_size (Some (b64encode (replicate 64 CHR ''s''))) = 64"
    using sample_raw_length by (simp_all add: b64_size_encode)
  show ?thesis unfolding parse_def
    using ok bytes sample_raw_length sizes two
    by (simp add: max_entries_def data_size_def env_headroom_def) (simp add: box_entries_def)
qed

definition box :: guarded where
  "box = (box_store, [])"

lemma box_read: "guard_read box = Some (map_of box_entries)"
  using box_parse by (simp add: guard_read_def box_def select_def box_store_def)

lemma box_current: "current_state sample_crypto (Some sample_root) sample_platform (map_of box_entries) =
    Inr \<lparr>t_policy = sample_policy, t_raw = sample_policy_raw, t_signature = replicate 64 CHR ''s'', t_epoch = 2, t_floor = 3\<rparr>"
  by (rule sample_current) (simp_all add: box_entries_def)

section \<open>The host\<close>

text \<open>
  RAUC answers as the recorded one and idle; \<open>mark-bad\<close> takes the attempts of a slot and
  \<open>mark-active\<close> puts it first with three; the slot holds an image of four bytes.
\<close>

definition sample_host :: "guarded host" where
  "sample_host = \<lparr>h_crypto = sample_crypto, h_root = Some sample_root, h_platform = Bytes sample_platform_raw,
     h_cmdline = ''rauc.slot=A'', h_health = (\<lambda>_. (Some ''confirmed'', Some ''A'')), h_env = guard_read, h_set = guard_write,
     h_inspect = (\<lambda>_. Exited False None), h_fetch = (\<lambda>_ _. Inl ''offline''), h_usage = (\<lambda>_. (32 * GIB, 20 * GIB)),
     h_uuid = (\<lambda>_. ''0f0f''), h_active = (\<lambda>_. Exited False ()), h_start = (\<lambda>x. (Exited True (), x)),
     h_mark = (\<lambda>verb dev x. let slot = (if dev = ''rootfs.0'' then ''A'' else ''B'') in
        if verb = ''mark-bad'' then (Exited True (), snd (guard_write [(slot_left slot, Some ''0'')] x))
        else (Exited True (), snd (guard_write [(''BOOT_ORDER'', Some (slot @ '' '' @ other_slot slot)), (slot_left slot, Some ''3'')] x))),
     h_reboot = (\<lambda>x. (Exited True (), x)), h_slot = (\<lambda>_ _. Some ''root''), h_get = (\<lambda>_ _ x. (NoAnswer, x)),
     h_owner = (\<lambda>_. Exited True ''s \":1.5\"''), h_operation = (\<lambda>_. Exited True ''s \"idle\"''),
     h_last_error = (\<lambda>_. Exited True ''s \"\"''), h_invocation = (\<lambda>_. Exited True ''inv''),
     h_start_rauc = (\<lambda>x. (Exited True (), x)), h_restart_rauc = (\<lambda>x. (Exited True (), x)),
     h_install = (\<lambda>_ _ x. (([], True), x)), h_wait = (\<lambda>x. x), h_good = (\<lambda>x. (Exited True (), x)),
     h_image_env = None, h_app_key = None, h_app_inspect = (\<lambda>_ _ _. Exited False None),
     h_pull = (\<lambda>_ x. (Exited False [], x)), h_restart_app = (\<lambda>x. (Exited True (), x)),
     h_remove_image = (\<lambda>_ x. (Exited True (), x)), h_lease = (\<lambda>_. None)\<rparr>"

lemma sample_host_simps:
  "h_crypto sample_host = sample_crypto" "h_root sample_host = Some sample_root" "h_cmdline sample_host = ''rauc.slot=A''"
  "h_health sample_host x = (Some ''confirmed'', Some ''A'')" "h_env sample_host = guard_read" "h_set sample_host = guard_write"
  "h_active sample_host x = Exited False ()" "h_start sample_host x = (Exited True (), x)"
  "h_usage sample_host x = (32 * GIB, 20 * GIB)" "h_reboot sample_host x = (Exited True (), x)"
  "h_slot sample_host slot x = Some ''root''" "h_last_error sample_host x = Exited True ''s \"\"''"
  "h_mark sample_host ''mark-bad'' ''rootfs.1'' x = (Exited True (), snd (guard_write [(slot_left ''B'', Some ''0'')] x))"
  "h_mark sample_host ''mark-active'' ''rootfs.1'' x =
     (Exited True (), snd (guard_write [(''BOOT_ORDER'', Some (''B'' @ '' '' @ other_slot ''B'')), (slot_left ''B'', Some ''3'')] x))"
  by (simp_all add: sample_host_def Let_def)

definition sample_job :: job where
  "sample_job = \<lparr>j_id = ''0f0f'', j_request = Some ''request-1'', j_state = Installing, j_sequence = 7,
     j_sha256 = Some (replicate 64 CHR ''a''), j_size = Some 76, j_version = Some ''1.1'', j_url = ''https://x/b'',
     j_notes = ''https://x/n'', j_source = ''A'', j_target = ''B'', j_entry = b64encode sample_doc,
     j_entry_sig = b64encode sample_doc_sig, j_policy = b64encode sample_policy_raw, j_policy_sig = b64encode sample_doc_sig,
     j_progress = phase_only ''installing'', j_error = None, j_validator = None, j_image_size = Some 4,
     j_image_sha = Some (replicate 64 CHR ''a''),
     j_rauc = Some \<lparr>id_transaction = ''0f0f'', id_owner = '':1.5'', id_invocation = ''inv''\<rparr>\<rparr>"

definition sample_world :: "guarded world" where
  "sample_world = \<lparr>w_journal = Journal sample_job, w_guard = Guard Active (Some ''0f0f''), w_cancel = None, w_checked = None,
     w_staging = Map.empty,
     w_app = \<lparr>a_current = None, a_previous = None, a_floor = None, a_active = None, a_job = None, a_result = None,
        a_verified = None, a_attempt = None\<rparr>,
     w_job = sample_job, w_plan = [], w_ext = box\<rparr>"

lemma sample_platform_of: "platform_of sample_host = Inr (Some sample_platform)"
  by (simp add: platform_of_def sample_host_def sample_platform_loads)

lemma sample_not_bootable: "not_bootable (map_of box_entries) sample_job"
  by (simp add: not_bootable_def sample_job_def slot_left_def box_entries_def first_in_order_def split_ws_def is_space_def)

end
