(* ===== verification/Epk_Worker.thy ===== *)
theory Epk_Worker
  imports Epk_Samples
begin

text \<open>
  What the worker keeps whatever the host answers and wherever the power fails.  The locale
  \<open>worker_contract\<close> states what an invariant has to allow, and the lemmas of the worker are proved once inside it; its
  two interpretations give the guard (a card never reads as idle while a job may have touched the other slot) and the meaning
  of \<open>ready\<close> (the slot holds the signed image and cannot boot).
\<close>

section \<open>The contract of the worker\<close>

definition SAFE :: "jstate set" where
  "SAFE = insert Installing WORKING"

lemma SAFE_simps [simp]: "Queued \<in> SAFE" "Downloading \<in> SAFE" "Verifying \<in> SAFE" "Installing \<in> SAFE"
  by (simp_all add: SAFE_def WORKING_def)

text \<open>
  What an invariant of the worker has to allow: the changes before an outcome, and the saves
  of a job in one of its working states.
\<close>

locale worker_stable =
  fixes I :: "'x world \<Rightarrow> bool"
  assumes plan: "I w \<Longrightarrow> I (w\<lparr>w_plan := p\<rparr>)"
    and mem: "I w \<Longrightarrow> I (w\<lparr>w_job := j\<rparr>)"
    and staging: "I w \<Longrightarrow> I (w\<lparr>w_staging := st\<rparr>)"
    and request: "I w \<Longrightarrow> I (w\<lparr>w_cancel := c\<rparr>)"
    and ext: "I w \<Longrightarrow> I (w\<lparr>w_ext := x\<rparr>)"
    and saved: "I w \<Longrightarrow> j_state j \<in> SAFE \<Longrightarrow> I (w\<lparr>w_journal := Journal j\<rparr>)"
begin

definition K :: "'x world \<Rightarrow> bool" where
  "K w \<longleftrightarrow> I w \<and> j_state (w_job w) \<in> SAFE"

lemma durable_K: "(\<And>w. K w \<Longrightarrow> K (f w)) \<Longrightarrow> keeps K (durable f)"
  by (rule keepsI) (auto simp: wp_simps K_def plan split: list.split outcome.split)

lemma save_K [keeps_rules]: "keeps K save"
  unfolding save_def by (rule durable_K) (simp add: K_def saved)

lemma outside_K [keeps_rules]: "keeps K (outside f)"
  by (rule keepsI) (auto simp: wp_simps K_def plan ext split: list.split outcome.split)

lemma command_K [keeps_rules]: "keeps K (run_command name f)"
  unfolding run_command_def by (intro keeps_rules)

lemma memory_K [keeps_rules]: "(\<And>j. j_state j \<in> SAFE \<Longrightarrow> j_state (f j) \<in> SAFE) \<Longrightarrow> keeps K (in_memory f)"
  unfolding in_memory_def by (rule keeps_modify) (simp add: K_def mem)

lemma step_K [keeps_rules]: "s \<in> SAFE \<Longrightarrow> keeps K (step s p)"
  unfolding step_def by (intro keeps_rules) simp

lemma put_part_K [keeps_rules]: "keeps K (put_part name bytes)"
  unfolding put_part_def by (rule keeps_modify) (simp add: K_def staging)

lemma changes_K [keeps_rules]:
  "keeps K (modify (\<lambda>w. w\<lparr>w_cancel := c\<rparr>))"
  "keeps K (modify (\<lambda>w. w\<lparr>w_ext := g (w_ext w)\<rparr>))"
  "keeps K (durable (\<lambda>w. w\<lparr>w_staging := st w\<rparr>))"
proof -
  show "keeps K (durable (\<lambda>w. w\<lparr>w_staging := st w\<rparr>))" by (rule durable_K) (simp add: K_def staging)
qed (rule keeps_modify, simp add: K_def request ext)+

lemma stream_K [keeps_rules]: "keeps K (stream name n brk cs written)"
  by (induction name n brk cs written rule: stream.induct) (auto intro!: keeps_rules)

lemma keeps_response:
  "keeps J m \<Longrightarrow> (\<And>code rng tag cs brk. keeps J (f code rng tag cs brk)) \<Longrightarrow>
   keeps J (case r of NoAnswer \<Rightarrow> m | Response code rng tag cs brk \<Rightarrow> f code rng tag cs brk)"
  by (simp split: response.split)

lemma transfer_K [keeps_rules]: "keeps K (transfer h entry)"
  unfolding transfer_def by (intro keeps_rules keeps_response) simp_all

lemma attempt_K [keeps_rules]: "keeps K (attempt_download h entry n)"
  by (induction n) (auto intro!: keeps_rules split: exn.split_asm)

lemma download_K [keeps_rules]: "keeps K (download h entry)"
  unfolding download_def by (intro keeps_rules) simp_all

lemma rauc_K [keeps_rules]: "keeps K (rauc_operation h)" "keeps K (restart_rauc h)" "keeps K (rauc_identity h)"
  unfolding rauc_operation_def restart_rauc_def rauc_identity_def by (intro keeps_rules)+

lemma follow_K [keeps_rules]: "keeps K (follow_install ls l)"
  by (induction ls l rule: follow_install.induct)
    (auto intro!: keeps_rules simp: Let_def split: option.split)

lemma verify_target_K [keeps_rules]: "keeps K (verify_target h)"
  unfolding verify_target_def by (intro keeps_rules)

lemma await_K [keeps_rules]: "keeps K (await_rauc h n)"
proof (induction n)
  case 0
  show ?case by (subst await_rauc.simps) (auto intro!: keeps_rules simp: Let_def)
next
  case (Suc n)
  then show ?case by (subst await_rauc.simps) (auto intro!: keeps_rules simp: Let_def)
qed

end

definition verified :: "'x host \<Rightarrow> 'x \<Rightarrow> job \<Rightarrow> bool" where
  "verified h x j \<longleftrightarrow> (\<exists>env bytes sz sha. h_env h x = Some env \<and> not_bootable env j \<and>
     j_image_size j = Some sz \<and> j_image_sha j = Some sha \<and> h_slot h (j_target j) x = Some bytes \<and>
     nat sz \<le> length bytes \<and> sha256 (h_crypto h) (take (nat sz) bytes) = sha)"

lemma verify_target_ok:
  "wp (verify_target h) (\<lambda>_ w'. w' = w \<and> verified h (w_ext w) (w_job w)) (\<lambda>_ w'. w' = w) w"
  by (auto simp: verify_target_def printenv_def the_job_def verified_def wp_simps split: option.split)

text \<open>
  What holds at every point where a worker can stop: \<open>F\<close>, given the outcomes the code may
  record.  While the job in memory still installs, \<open>I\<close> holds.
\<close>

locale worker_contract = worker_stable I for I :: "'x world \<Rightarrow> bool" +
  fixes F :: "'x world \<Rightarrow> bool" and h :: "'x host"
  assumes I_F: "I w \<Longrightarrow> F w"
    and F_plan: "F w \<Longrightarrow> F (w\<lparr>w_plan := p\<rparr>)"
    and F_mem: "F w \<Longrightarrow> F (w\<lparr>w_job := j\<rparr>)"
    and F_staging: "F w \<Longrightarrow> F (w\<lparr>w_staging := st\<rparr>)"
    and F_terminal: "F w \<Longrightarrow> j_state j \<in> TERMINAL \<Longrightarrow> F (w\<lparr>w_journal := Journal j\<rparr>)"
    and F_idle: "F w \<Longrightarrow> w_journal w = Journal j \<Longrightarrow> j_state j \<in> TERMINAL \<Longrightarrow> F (w\<lparr>w_guard := Guard Idle None\<rparr>)"
    and F_busy: "F w \<Longrightarrow> g \<noteq> Idle \<Longrightarrow> F (w\<lparr>w_guard := Guard g i\<rparr>)"
    and I_reconciling: "I w \<Longrightarrow> j_state j = Reconciling \<Longrightarrow> F (w\<lparr>w_journal := Journal j\<rparr>)"
    and I_ready: "I w \<Longrightarrow> j_state j = Ready \<Longrightarrow> verified h (w_ext w) j \<Longrightarrow> F (w\<lparr>w_journal := Journal j\<rparr>)"
begin

definition stopped :: "exn \<Rightarrow> 'x world \<Rightarrow> bool" where
  "stopped e w \<longleftrightarrow> F w \<and> (j_state (w_job w) = Installing \<longrightarrow> I w)"

lemma K_stopped: "K w \<Longrightarrow> stopped e w"
  by (simp add: K_def stopped_def I_F)

lemma finish_F:
  assumes "F w" and "s \<in> TERMINAL"
  shows "wp (finish s err) (\<lambda>_. F) (\<lambda>e w. F w \<and> j_state (w_job w) = s) w"
  using assms
  by (auto simp: finish_def in_memory_def save_def the_job_def set_guard_def wp_simps F_plan F_mem F_staging F_terminal
      split: list.split outcome.split intro!: F_idle)

lemma finish_stopped:
  assumes "F w" and "s \<in> TERMINAL"
  shows "wp (finish s err) (\<lambda>_. F) stopped w"
  by (rule wp_use [OF finish_F [OF assms]]) (use assms(2) in \<open>auto simp: stopped_def TERMINAL_def\<close>)

lemma mark_unsure_F:
  assumes "I w"
  shows "wp (mark_unsure j msg) (\<lambda>_. F) stopped w"
  using assms by (auto simp: mark_unsure_def in_memory_def save_def set_guard_def wp_simps stopped_def I_F F_plan F_mem plan mem
      split: list.split outcome.split intro!: F_busy F_plan I_reconciling F_mem)

lemma mark_ready_F:
  assumes "I w" and "verified h (w_ext w) (w_job w)"
  shows "wp mark_ready (\<lambda>_. F) stopped w"
proof -
  have "verified h (w_ext w) (w_job w\<lparr>j_state := Ready, j_progress := phase_only ''ready''\<rparr>)"
    using assms(2) by (simp add: verified_def not_bootable_def)
  then show ?thesis
    using assms by (auto simp: mark_ready_def in_memory_def save_def set_guard_def the_job_def wp_simps stopped_def I_F plan mem
        split: list.split outcome.split intro!: F_busy F_plan I_ready F_mem)
qed

lemmas then_K = wp_then [where J = K] wp_andthen_then [where J = K]

lemma fail_install_F:
  assumes "K w"
  shows "wp (fail_install h msg) (\<lambda>_. F) stopped w"
  unfolding fail_install_def
proof (rule then_K, rule keeps_reads, rule assms, rule then_K, rule command_K, assumption, rule then_K)
  fix j w1 w2 w3 and safe :: bool
  show "keeps K (try_catch (bind (printenv h) (\<lambda>env. ret (not_bootable env j)))
      (\<lambda>e. case e of TrustError m \<Rightarrow> Some (ret False) | _ \<Rightarrow> None))"
    by (intro keeps_rules) (auto intro: keeps_rules split: exn.split_asm)
  assume "K w3"
  then have F: "F w3" and I: "I w3" by (simp_all add: K_def I_F)
  have "wp (finish Failed (Some msg)) (\<lambda>_. F) stopped w3" by (rule finish_stopped) (simp_all add: F TERMINAL_def)
  then show "wp (if \<not> safe then mark_unsure j (msg @ ''; the other system slot needs checking'')
     else andthen (finish Failed (Some msg)) (ret 1)) (\<lambda>_. F) stopped w3"
    using mark_unsure_F [OF I] by (simp add: wp_simps)
qed (auto simp: K_stopped)

lemma complete_install_F:
  assumes "K w"
  shows "wp (complete_install h) (\<lambda>_. F) stopped w"
  unfolding complete_install_def wp_simps
  by (rule wp_use [OF verify_target_ok])
    (use assms mark_ready_F fail_install_F in \<open>auto simp: wp_simps K_stopped K_def split: option.split exn.split\<close>)

lemma install_bundle_F:
  assumes "K w"
  shows "wp (install_bundle h bytes) (\<lambda>_. F) stopped w"
  unfolding install_bundle_def
proof (rule then_K, rule rauc_K, rule assms, rule then_K, rule memory_K, simp, assumption,
      rule then_K, rule step_K, simp, assumption, rule then_K, rule keeps_reads, assumption,
      rule then_K, rule outside_K, assumption)
  fix j w1 and out :: "(string \<times> bool) list \<times> bool"
  assume K: "K w1"
  obtain out_lines ok where out: "out = (out_lines, ok)" by fastforce
  have "wp (bind (follow_install out_lines []) (\<lambda>last_line.
     if \<not> ok then fail_install h (''The system updater refused or failed the OS update'' @
         (if last_line \<noteq> [] then '': '' @ drop (length last_line - 160) last_line else []))
     else complete_install h)) (\<lambda>_. F) stopped w1"
    by (rule then_K, rule follow_K, rule K)
      (simp_all add: K_stopped complete_install_F fail_install_F)
  then show "wp (case out of (out_lines, ok) \<Rightarrow> bind (follow_install out_lines []) (\<lambda>last_line.
     if \<not> ok then fail_install h (''The system updater refused or failed the OS update'' @
         (if last_line \<noteq> [] then '': '' @ drop (length last_line - 160) last_line else []))
     else complete_install h)) (\<lambda>_. F) stopped w1" by (simp add: out)
qed (auto simp: K_stopped)

lemma reconcile_install_F:
  assumes "K w"
  shows "wp (reconcile_install h polls) (\<lambda>_. F) stopped w"
  unfolding reconcile_install_def
  by (rule then_K, rule await_K, rule assms)
    (auto simp: wp_simps K_stopped complete_install_F fail_install_F run_query_def split: prod.split answer.split)


lemma work_body_F:
  assumes "K w"
  shows "wp (work_body h plat) (\<lambda>_. F) stopped w"
  unfolding work_body_def trust_now_def
  by (intro then_K keeps_rules wp_caseI)
    (auto simp: assms K_stopped install_bundle_F wp_simps)

lemma work_F:
  assumes "K w"
  shows "wp (work h) (\<lambda>_. F) stopped w"
proof -
  have body: "wp (try_catch (work_body h plat)
         (\<lambda>e. if e = Cancelled then Some (andthen (finish CancelledJob None) (ret 0))
              else case failure_text e of
                None \<Rightarrow> None
              | Some m \<Rightarrow> Some (bind the_job (\<lambda>j.
                  if j_state j = Installing then fail_install h m
                  else andthen (finish Failed (Some m)) (ret 1))))) (\<lambda>_. F) stopped w1" if "K w1" for plat w1
    unfolding wp_try_catch
  proof (rule wp_use [OF work_body_F [OF that]])
    fix e w' assume st: "stopped e w'"
    then have F: "F w'" by (simp add: stopped_def)
    have fin: "wp (finish s err) (\<lambda>_. F) stopped w'" if "s \<in> TERMINAL" for s err
      by (rule finish_stopped [OF F that])
    have fail: "wp (fail_install h m) (\<lambda>_. F) stopped w'" if "j_state (w_job w') = Installing" for m
      using st that by (intro fail_install_F) (simp add: stopped_def K_def)
    show "case if e = Cancelled then Some (andthen (finish CancelledJob None) (ret 0))
              else case failure_text e of
                None \<Rightarrow> None
              | Some m \<Rightarrow> Some (bind the_job (\<lambda>j.
                  if j_state j = Installing then fail_install h m
                  else andthen (finish Failed (Some m)) (ret 1))) of
        None \<Rightarrow> stopped e w' | Some a \<Rightarrow> wp a (\<lambda>_. F) stopped w'"
      using st fin [of CancelledJob None] fin [of Failed] fail
      by (auto simp: wp_simps TERMINAL_def the_job_def split: option.split)
  qed
  show ?thesis
    unfolding work_def
    by (intro then_K keeps_rules wp_caseI body) (auto simp: assms K_stopped wp_raise)
qed

text \<open>The worker from its start: \<open>F\<close> is kept whatever the journal and the plan.\<close>

lemma run_worker_F:
  assumes F: "F w" and start: "\<And>j w'. w_journal w' = Journal j \<Longrightarrow> F w' \<Longrightarrow> j_state j \<in> SAFE \<Longrightarrow> I (w'\<lparr>w_guard := Guard Active (Some (j_id j))\<rparr>)"
    and act: "\<And>w' j. w_journal w = Journal j \<Longrightarrow> w_journal w' = Journal j \<Longrightarrow> j_state j = Restarting \<Longrightarrow> w_job w' = j \<Longrightarrow>
       F w' \<Longrightarrow> guard_of w' = Active \<Longrightarrow> wp activate (\<lambda>_. F) (\<lambda>_. F) w'"
  shows "F (snd (run_worker h answers polls activate w))"
proof -
  have weak: "wp m (\<lambda>_. F) stopped w' \<Longrightarrow> wp m (\<lambda>_. F) (\<lambda>_. F) w'" for m :: "('x, nat) run" and w'
    by (erule wp_use) (auto simp: stopped_def)
  have fin: "F w' \<Longrightarrow> s \<in> TERMINAL \<Longrightarrow> wp (finish s err) (\<lambda>_. F) (\<lambda>_. F) w'" for s err w'
    by (rule wp_use [OF finish_F]) auto
  have run: "wp (run_worker h answers polls activate) (\<lambda>_. F) (\<lambda>_. F) w"
  proof (cases "w_journal w")
    case (Journal j)
    define w0 where "w0 = w\<lparr>w_job := j\<rparr>"
    have F0: "F w0" and jr: "w_journal w0 = Journal j" by (simp_all add: w0_def F F_mem Journal)
    have granted: "wp (andthen (set_guard Active (Some (j_id j)))
              (if j_state j = Installing then reconcile_install h polls
               else if j_state j = Restarting then activate
               else work h)) (\<lambda>_. F) (\<lambda>_. F) w0" if st: "j_state j \<in> {Installing, Restarting} \<union> WORKING"
    proof -
      have go: "wp (if j_state j = Installing then reconcile_install h polls
               else if j_state j = Restarting then activate
               else work h) (\<lambda>_. F) (\<lambda>_. F) (w1\<lparr>w_guard := Guard Active (Some (j_id j))\<rparr>)"
        if w1: "w1 = w0 \<or> (\<exists>p. w1 = w0\<lparr>w_plan := p\<rparr>)" for w1
      proof -
        have F1: "F w1" and j1: "w_journal w1 = Journal j" "w_job w1 = j"
          using w1 F0 F_plan jr by (auto simp: w0_def)
        show ?thesis
        proof (cases "j_state j = Restarting")
          case True
          then show ?thesis using act [of j "w1\<lparr>w_guard := Guard Active (Some (j_id j))\<rparr>"] j1 F1 Journal by (simp add: F_busy guard_of_def)
        next
          case False
          with st have s: "j_state j \<in> SAFE" by (auto simp: SAFE_def)
          then have "K (w1\<lparr>w_guard := Guard Active (Some (j_id j))\<rparr>)"
            using start [OF j1(1) F1] j1(2) by (simp add: K_def)
          then show ?thesis using False by (simp add: weak work_F reconcile_install_F)
        qed
      qed
      have g0: "wp (if j_state j = Installing then reconcile_install h polls else if j_state j = Restarting then activate
               else work h) (\<lambda>_. F) (\<lambda>_. F) (w0\<lparr>w_guard := Guard Active (Some (j_id j))\<rparr>)"
        by (rule go) simp
      have gp: "wp (if j_state j = Installing then reconcile_install h polls else if j_state j = Restarting then activate
               else work h) (\<lambda>_. F) (\<lambda>_. F) (w0\<lparr>w_plan := p, w_guard := Guard Active (Some (j_id j))\<rparr>)" for p
        using go [of "w0\<lparr>w_plan := p\<rparr>"] by blast
      show ?thesis
        unfolding wp_andthen set_guard_def wp_durable
        using g0 gp F0 F_plan by (simp split: list.split outcome.split split del: if_split)
    qed
    show ?thesis
      using Journal F granted fin [OF F0] unfolding run_worker_def
      by (auto simp: journal_def journal_of_def load_job_def in_memory_def cancelled_def wp_simps TERMINAL_def w0_def F_mem
          split: lease.split)
  qed (simp_all add: run_worker_def journal_def journal_of_def wp_simps F)
  then show ?thesis by (simp add: wp_state)
qed

end

section \<open>The guard\<close>

text \<open>A journal that allows an idle guard: none, an ended job or one that has not touched a slot.\<close>

definition quiet :: "'x world \<Rightarrow> bool" where
  "quiet w \<longleftrightarrow> (case w_journal w of Journal j \<Rightarrow> j_state j \<in> TERMINAL \<union> WORKING | _ \<Rightarrow> True)"

definition guard_kept :: "'x world \<Rightarrow> bool" where
  "guard_kept w \<longleftrightarrow> guard_of w \<noteq> Idle \<or> quiet w"

definition busy :: "'x world \<Rightarrow> bool" where
  "busy w \<longleftrightarrow> guard_of w \<noteq> Idle"

interpretation guard_worker: worker_contract busy guard_kept h for h :: "'x host"
  by unfold_locales
    (auto simp: busy_def guard_kept_def guard_of_def quiet_def split: journal_file.splits guard_file.splits)

section \<open>A ready job\<close>







section \<open>What hostd does with the guard\<close>

lemma guard_kept_changes:
  "guard_kept (w\<lparr>w_plan := p\<rparr>) = guard_kept w" "guard_kept (w\<lparr>w_job := j\<rparr>) = guard_kept w"
  "guard_kept (w\<lparr>w_cancel := c\<rparr>) = guard_kept w" "guard_kept (w\<lparr>w_ext := x\<rparr>) = guard_kept w"
  "guard_kept (w\<lparr>w_checked := f\<rparr>) = guard_kept w" "guard_kept (w\<lparr>w_staging := st\<rparr>) = guard_kept w"
  by (simp_all add: guard_kept_def guard_of_def quiet_def)

lemma keeps_durable:
  assumes "\<And>w. I w \<Longrightarrow> I (f w)" and "\<And>w p. I w \<Longrightarrow> I (w\<lparr>w_plan := p\<rparr>)"
  shows "keeps I (durable f)"
  using assms by (auto simp: keeps_def wp_simps split: list.split outcome.split)

lemma guard_kept_outside [keeps_rules]: "keeps guard_kept (outside f)"
  by (auto simp: keeps_def wp_simps guard_kept_changes split: list.split outcome.split)

lemma guard_kept_command [keeps_rules]: "keeps guard_kept (run_command name g)"
  unfolding run_command_def by (intro keeps_rules)

lemma guard_kept_memory [keeps_rules]: "keeps guard_kept (in_memory k)"
  unfolding in_memory_def by (rule keeps_modify) (simp add: guard_kept_changes)

lemma guard_kept_files [keeps_rules]:
  "keeps guard_kept (durable (\<lambda>w. w\<lparr>w_cancel := c\<rparr>))"
  "keeps guard_kept (durable (\<lambda>w. w\<lparr>w_checked := ch\<rparr>))"
  by (rule keeps_durable; simp add: guard_kept_changes)+

lemma guard_kept_worker [keeps_rules]:
  "keeps guard_kept (worker_active h)" "keeps guard_kept (start_worker h)"
  unfolding worker_active_def start_worker_def by (intro keeps_rules)+

lemma guard_kept_ensure [keeps_rules]: "keeps guard_kept (ensure_worker h j)"
  unfolding ensure_worker_def by (intro keeps_rules)

lemma keeps_sum [keeps_rules]: "(\<And>e. r = Inl e \<Longrightarrow> keeps I (m e)) \<Longrightarrow> (\<And>y. r = Inr y \<Longrightarrow> keeps I (f y)) \<Longrightarrow>
   keeps I (case r of Inl e \<Rightarrow> m e | Inr y \<Rightarrow> f y)"
  by (simp split: sum.split)

lemma keeps_list [keeps_rules]: "keeps I m \<Longrightarrow> (\<And>y ys. keeps I (f y ys)) \<Longrightarrow> keeps I (case v of [] \<Rightarrow> m | y # ys \<Rightarrow> f y ys)"
  by (simp split: list.split)

lemma guard_kept_view [keeps_rules]: "keeps guard_kept (view h r)"
  unfolding view_def by (intro keeps_rules) (auto intro: keeps_rules split: exn.split_asm)

lemma keeps_trust_now [keeps_rules]: "keeps I (trust_now h p)"
  unfolding trust_now_def by (intro keeps_rules)

lemma set_guard_kept [keeps_rules]: "g \<noteq> Idle \<Longrightarrow> keeps guard_kept (set_guard g i)"
  unfolding set_guard_def
  by (rule keeps_durable) (simp_all add: guard_kept_def guard_of_def quiet_def)

lemma admit_job_kept:
  fixes h :: "'x host"
  assumes j: "j_state j = Queued"
  shows "keeps guard_kept (andthen (in_memory (\<lambda>_. j)) (andthen (durable (\<lambda>w. w\<lparr>w_cancel := None\<rparr>))
     (andthen save (andthen (start_worker h) (view h False)))))"
proof (rule keepsI)
  fix w :: "'x world" assume w: "guard_kept w"
  have rest: "wp (andthen (start_worker h) (view h False)) (\<lambda>_. guard_kept) (\<lambda>_. guard_kept) w'" if "guard_kept w'" for w'
    by (rule keepsD [OF keeps_andthen [OF guard_kept_worker(2) guard_kept_view] that])
  have saved: "wp (andthen save (andthen (start_worker h) (view h False))) (\<lambda>_. guard_kept) (\<lambda>_. guard_kept) w'"
    if "guard_kept w'" "w_job w' = j" for w'
    unfolding wp_andthen [of save] using that j
    by (auto simp: save_def wp_durable guard_kept_changes split: list.split outcome.split intro!: rest)
      (simp_all add: guard_kept_def guard_of_def quiet_def WORKING_def)
  show "wp (andthen (in_memory (\<lambda>_. j)) (andthen (durable (\<lambda>w. w\<lparr>w_cancel := None\<rparr>))
     (andthen save (andthen (start_worker h) (view h False))))) (\<lambda>_. guard_kept) (\<lambda>_. guard_kept) w"
    unfolding in_memory_def wp_andthen [of "modify _"] wp_andthen [of "durable _"] wp_modify wp_durable
    using w by (auto simp: guard_kept_changes split: list.split outcome.split intro!: saved)
qed

lemma install_kept: "keeps guard_kept (install h seq sha request)"
  unfolding install_def
  by (intro keeps_rules admit_job_kept) (simp add: new_job_def)


lemma cancel_kept: "keeps guard_kept (cancel h i)"
proof (rule keepsI)
  fix w :: "'a world" assume w: "guard_kept w"
  have fin: "keeps guard_kept (finish CancelledJob None)"
    by (rule keepsI, rule wp_use [OF guard_worker.finish_F]) (auto simp: TERMINAL_def)
  have "keeps guard_kept (cancel h i)"
    unfolding cancel_def load_job_def by (intro keeps_rules fin)
  from keepsD [OF this w] show "wp (cancel h i) (\<lambda>_. guard_kept) (\<lambda>_. guard_kept) w" .
qed

lemma dismiss_kept: "keeps guard_kept (dismiss h i)"
  unfolding dismiss_def
  by (intro keeps_rules keeps_durable) (simp_all add: guard_kept_changes, simp add: guard_kept_def quiet_def)

text \<open>The guard that the journal asks for.\<close>

definition guard_for :: "journal_file \<Rightarrow> guard_file" where
  "guard_for f = (case f of
       NoJournal \<Rightarrow> Guard Idle None | BadJournal \<Rightarrow> Guard NeedsCheck None
     | Journal j \<Rightarrow>
       if j_state j \<in> TERMINAL then Guard Idle None
       else if j_state j = Ready then Guard Pending (Some (j_id j))
       else if j_state j = Reconciling then Guard NeedsCheck (Some (j_id j))
       else Guard Active (Some (j_id j)))"

lemma wp_worker_active: "wp (worker_active h) Q E w = (case h_active h (w_ext w) of
     Timeout \<Rightarrow> E (OsUpdateError ''systemctl did not answer'') w | Exited ok _ \<Rightarrow> Q ok w)"
  by (simp add: worker_active_def run_query_def wp_simps split: answer.split)

lemma reconcile_wp:
  "wp (reconcile h)
     (\<lambda>_ w'. w_journal w' = w_journal w \<and> w_guard w' = guard_for (w_journal w))
     (\<lambda>_ w'. w_journal w' = w_journal w \<and> w_guard w' \<in> {w_guard w, guard_for (w_journal w)}) w"
  by (cases "w_journal w")
    (auto simp: reconcile_def wp_worker_active start_worker_def run_command_def journal_def journal_of_def set_guard_def
      unreadable_record_def guard_for_def wp_simps split: list.split outcome.split answer.split)

lemma reconcile_kept: "keeps guard_kept (reconcile h)"
proof (rule keepsI)
  fix w :: "'a world" assume w: "guard_kept w"
  show "wp (reconcile h) (\<lambda>_. guard_kept) (\<lambda>_. guard_kept) w"
    by (rule wp_use [OF reconcile_wp])
      (use w in \<open>auto simp: guard_kept_def guard_of_def quiet_def guard_for_def split: journal_file.splits if_splits\<close>)
qed

text \<open>
  Hostd's own actions keep the guard: an admission, a cancellation, a dismissal and the
  reconciliation at start leave no state, wherever they stop, in which the guard reads
  idle while the journal holds a job that may have touched the other slot.
\<close>

theorem hostd_keeps_guard:
  assumes "guard_kept w"
  shows "guard_kept (snd (install h seq sha request w)) \<and> guard_kept (snd (cancel h i w)) \<and>
    guard_kept (snd (dismiss h i w)) \<and> guard_kept (snd (reconcile h w))"
  using keepsD [OF install_kept assms] keepsD [OF cancel_kept assms] keepsD [OF dismiss_kept assms]
    keepsD [OF reconcile_kept assms] by (simp add: wp_state)

theorem hostd_keeps_guard_witness:
  "guard_kept sample_world \<and> guard_kept (snd (cancel sample_host ''0f0f'' sample_world)) \<and>
   guard_kept (snd (reconcile sample_host sample_world))"
proof -
  have g: "guard_kept sample_world" by (simp add: guard_kept_def guard_of_def sample_world_def)
  from hostd_keeps_guard [OF g] g show ?thesis by blast
qed

text \<open>
  After a reconciliation that reports no error the guard is exactly the one the journal asks
  for, whatever it was before: an interrupted job is active, a ready one pending, one whose
  slot needs checking stays so; no other state of the box changes the answer.
\<close>

theorem reconcile_restores_guard:
  assumes "fst (reconcile h w) = Inr ()"
  shows "w_guard (snd (reconcile h w)) = guard_for (w_journal w) \<and> w_journal (snd (reconcile h w)) = w_journal w"
  using reconcile_wp [of h w] assms by (auto simp: wp_def split: prod.splits sum.splits)


lemma sample_reconciles: "fst (reconcile sample_host (sample_world\<lparr>w_guard := BadGuard\<rparr>)) = Inr ()"
proof -
  have "wp (reconcile sample_host) (\<lambda>_ _. True) (\<lambda>_ _. False) (sample_world\<lparr>w_guard := BadGuard\<rparr>)"
    by (simp add: reconcile_def wp_worker_active start_worker_def run_command_def journal_def journal_of_def set_guard_def
        wp_simps sample_world_def TERMINAL_def sample_job_def sample_host_simps)
  then show ?thesis by (auto simp: wp_def split: prod.splits sum.splits)
qed

theorem reconcile_restores_guard_witness:
  "w_guard (snd (reconcile sample_host (sample_world\<lparr>w_guard := BadGuard\<rparr>))) = Guard Active (Some ''0f0f'')"
  using reconcile_restores_guard [OF sample_reconciles]
  by (simp add: guard_for_def sample_world_def sample_job_def TERMINAL_def)

section \<open>Admission\<close>

text \<open>The files that only a job's own changes touch.\<close>

definition same_files :: "'x world \<Rightarrow> 'x world \<Rightarrow> bool" where
  "same_files w0 w \<longleftrightarrow> w_journal w = w_journal w0 \<and> w_guard w = w_guard w0 \<and> w_cancel w = w_cancel w0 \<and>
     w_checked w = w_checked w0 \<and> w_staging w = w_staging w0"

lemma same_files_refl [simp]: "same_files w w"
  by (simp add: same_files_def)

lemma same_files_start [keeps_rules]: "keeps (same_files w0) (start_worker h)"
  by (auto simp: keeps_def start_worker_def run_command_def same_files_def wp_simps split: list.split outcome.split answer.split)

lemma same_files_view: "keeps (same_files w0) (view h r)"
  unfolding view_def ensure_worker_def worker_active_def
  by (intro keeps_rules) (auto intro: keeps_rules split: exn.split_asm)

lemma wp_view_quiet: "wp (view h False) (\<lambda>_ w'. w' = w) (\<lambda>_ w'. w' = w) w"
  by (auto simp: view_def journal_def wp_simps split: sum.split option.split exn.split)

lemma wp_view_same: "wp (view h False) (\<lambda>_. P) (\<lambda>_. P) w = P w"
  using wp_view_quiet [of h w] by (simp add: wp_state)

text \<open>What an admitted job was admitted on.\<close>

definition admitted :: "'x host \<Rightarrow> int \<Rightarrow> string \<Rightarrow> string \<Rightarrow> 'x world \<Rightarrow> job \<Rightarrow> bool" where
  "admitted h seq sha request w j \<longleftrightarrow>
     (\<exists>plat files env st entry pol newer slot i.
        platform_of h = Inr (Some plat) \<and> guard_of w = Idle \<and>
        (w_journal w = NoJournal \<or> (\<exists>j0. w_journal w = Journal j0 \<and> j_state j0 \<in> TERMINAL \<and> j_request j0 \<noteq> Some request)) \<and>
        w_checked w = Some files \<and> h_env h (w_ext w) = Some env \<and>
        current_state (h_crypto h) (h_root h) plat env = Inr st \<and>
        verify_release h files plat st = Inr (entry, pol, newer) \<and> e_sequence entry = seq \<and> e_sha256 entry = sha \<and>
        t_floor st < seq \<and> f_os_sequence plat < seq \<and> booted_slot h = Inr slot \<and>
        h_health h (w_ext w) = (Some ''confirmed'', Some slot) \<and> \<not> truthy (env ''epk_os_pending'') \<and> first_in_order env slot \<and>
        app_blockers h (w_ext w) = [] \<and>
        (\<exists>space. admit (required_space entry) (h_usage h (w_ext w)) = Inr space) \<and>
        j = new_job i request entry files slot)"

lemma admissible_Inr: "admissible entry plat fl = Inr x \<longleftrightarrow> x = entry \<and> fl < e_sequence entry \<and> f_os_sequence plat < e_sequence entry"
  by (auto simp: admissible_def)

lemma health_blockers_Nil: "health_blockers health slot env = [] \<longleftrightarrow>
   health = (Some ''confirmed'', Some slot) \<and> \<not> truthy (env ''epk_os_pending'') \<and> first_in_order env slot"
  by (cases health) (auto simp: health_blockers_def)

definition admission_effect :: "'x host \<Rightarrow> int \<Rightarrow> string \<Rightarrow> string \<Rightarrow> 'x world \<Rightarrow> 'x world \<Rightarrow> bool" where
  "admission_effect h seq sha request w w' \<longleftrightarrow>
     w_guard w' = w_guard w \<and> w_checked w' = w_checked w \<and> w_staging w' = w_staging w \<and>
     (w_journal w' = w_journal w \<or> (\<exists>j. w_journal w' = Journal j \<and> w_cancel w' = None \<and> admitted h seq sha request w j))"

lemma admit_job_effect:
  assumes "admitted h seq sha request w j" and "same_files w w1"
  shows "wp (andthen (in_memory (\<lambda>_. j)) (andthen (durable (\<lambda>w. w\<lparr>w_cancel := None\<rparr>))
     (andthen save (andthen (start_worker h) (view h False)))))
     (\<lambda>_. admission_effect h seq sha request w) (\<lambda>_. admission_effect h seq sha request w) w1"
proof -
  let ?P = "\<lambda>_::unit. admission_effect h seq sha request w"
  have rest: "wp (andthen (start_worker h) (view h False)) (\<lambda>_. admission_effect h seq sha request w)
      (\<lambda>_. admission_effect h seq sha request w) w2"
    if "w_journal w2 = Journal j" "w_cancel w2 = None" "w_guard w2 = w_guard w" "w_checked w2 = w_checked w" "w_staging w2 = w_staging w"
    for w2
  proof -
    have "keeps (same_files w2) (andthen (start_worker h) (view h False))"
      by (intro keeps_rules same_files_view)
    from keepsD [OF this same_files_refl] show ?thesis
      by (rule wp_use) (use that assms(1) in \<open>auto simp: same_files_def admission_effect_def\<close>)
  qed
  show ?thesis
    unfolding in_memory_def save_def wp_andthen [of "modify _"] wp_andthen [of "durable _"] wp_modify wp_durable
    using assms(2) by (auto simp: same_files_def admission_effect_def split: list.split outcome.split intro!: rest)
qed

lemma admittedI:
  assumes "platform_of h = Inr (Some plat)" and "w_checked w = Some files" and "h_env h (w_ext w) = Some env"
    and "current_state (h_crypto h) (h_root h) plat env = Inr st"
    and "verify_release h files plat st = Inr (entry, pol, newer)" and "booted_slot h = Inr slot"
    and "admit (required_space entry) (h_usage h (w_ext w)) = Inr space"
    and "w_journal w = NoJournal \<or> (\<exists>j0. w_journal w = Journal j0 \<and> j_state j0 \<in> TERMINAL \<and> j_request j0 \<noteq> Some request)"
    and "guard_of w = Idle" and "e_sequence entry = seq" and "e_sha256 entry = sha"
    and "t_floor st < seq" and "f_os_sequence plat < seq" 
    and "h_health h (w_ext w) = (Some ''confirmed'', Some slot)" and "\<not> truthy (env ''epk_os_pending'')" and "first_in_order env slot"
    and "app_blockers h (w_ext w) = []"
  shows "admitted h seq sha request w (new_job i request entry files slot)"
  unfolding admitted_def using assms by blast

lemma install_effect:
  "wp (install h seq sha request) (\<lambda>_. admission_effect h seq sha request w) (\<lambda>_. admission_effect h seq sha request w) w"
proof -
  have same: "admission_effect h seq sha request w w'" if "same_files w w'" for w'
    using that by (simp add: admission_effect_def same_files_def)
  have shown: "wp (view h r) (\<lambda>_. admission_effect h seq sha request w) (\<lambda>_. admission_effect h seq sha request w) w" for r
    by (rule wp_use [OF keepsD [OF same_files_view same_files_refl]]) (auto intro: same)
  show ?thesis
    unfolding install_def trust_now_def printenv_def journal_def journal_of_def
    by (auto simp: wp_bind wp_if wp_option wp_prod wp_lift wp_raise wp_get_state wp_ask same shown wp_ret admissible_Inr health_blockers_Nil
        split: sum.split option.split list.split journal_file.split
        intro!: admit_job_effect)
    (rule admittedI; (assumption | simp))+
qed


text \<open>
  C12. An installation request changes nothing but the journal and the cancel request, and the journal
  only to a queued job for exactly the checked package: its entry verified under the current policy, its sequence is above the
  confirmed floor and this system's own, the running system is confirmed healthy and the default,
  the app cooperates, DATA has the space, no job was in progress and the guard was idle.  It holds wherever the request stops.
\<close>

theorem install_admits_only:
  "let w' = snd (install h seq sha request w) in
   w_guard w' = w_guard w \<and> w_staging w' = w_staging w \<and>
   (w_journal w' = w_journal w \<or>
    (\<exists>j. w_journal w' = Journal j \<and> j_state j = Queued \<and> j_request j = Some request \<and> j_sequence j = seq \<and>
       w_cancel w' = None \<and> admitted h seq sha request w j))"
proof -
  have "admission_effect h seq sha request w (snd (install h seq sha request w))"
    using install_effect [of h seq sha request w] by (simp add: wp_state)
  then show ?thesis by (auto simp: admission_effect_def admitted_def new_job_def Let_def)
qed

text \<open>
  An installation request is idempotent by its identity: asked again it changes no file, and it succeeds only
  for the package the recorded job is for.
\<close>

theorem install_idempotent:
  assumes "w_journal w = Journal j" and "j_request j = Some request"
  shows "same_files w (snd (install h seq sha request w)) \<and>
    (\<forall>v w'. install h seq sha request w = (Inr v, w') \<longrightarrow> j_sequence j = seq \<and> j_sha256 j = Some sha)"
proof -
  have shown: "wp (view h True) (\<lambda>_. same_files w) (\<lambda>_. same_files w) w"
    by (rule keepsD [OF same_files_view same_files_refl])
  have "wp (install h seq sha request) (\<lambda>_ w'. same_files w w' \<and> j_sequence j = seq \<and> j_sha256 j = Some sha)
     (\<lambda>_. same_files w) w"
    using assms shown unfolding install_def journal_def journal_of_def
    by (auto simp: wp_bind wp_if wp_option wp_lift wp_raise wp_get_state split: sum.split option.split
        intro!: wp_use [OF shown])
  then show ?thesis by (auto simp: wp_def split: prod.splits sum.splits)
qed

theorem install_idempotent_witness:
  "same_files sample_world (snd (install sample_host 8 (replicate 64 CHR ''a'') ''request-1'' sample_world))"
proof -
  have "w_journal sample_world = Journal sample_job" "j_request sample_job = Some ''request-1''"
    by (simp_all add: sample_world_def sample_job_def)
  from install_idempotent [OF this] show ?thesis by blast
qed

text \<open>
  A cancellation ends only a job that has not begun to install: the named job in one of its working
  states, recorded as cancelled when no worker runs and left to the worker otherwise; every other
  request changes no file.
\<close>

theorem cancel_only_working:
  "let w' = snd (cancel h i w) in
   same_files w w' \<or>
   (\<exists>j. w_journal w = Journal j \<and> j_id j = i \<and> j_state j \<in> WORKING \<and> w_cancel w' = Some i \<and>
      (w_journal w' = w_journal w \<or>
       (\<exists>j'. w_journal w' = Journal j' \<and> j_id j' = i \<and> j_state j' = CancelledJob \<and> h_active h (w_ext w) = Exited False ())))"
proof -
  let ?C = "\<lambda>w'. same_files w w' \<or>
   (\<exists>j. w_journal w = Journal j \<and> j_id j = i \<and> j_state j \<in> WORKING \<and> w_cancel w' = Some i \<and>
      (w_journal w' = w_journal w \<or>
       (\<exists>j'. w_journal w' = Journal j' \<and> j_id j' = i \<and> j_state j' = CancelledJob \<and> h_active h (w_ext w) = Exited False ())))"
  have "wp (cancel h i) (\<lambda>_. ?C) (\<lambda>_. ?C) w"
    unfolding cancel_def journal_def journal_of_def load_job_def in_memory_def finish_def save_def set_guard_def the_job_def
    by (auto simp: wp_bind wp_andthen wp_if wp_option wp_lift wp_raise wp_get_state wp_modify wp_durable wp_worker_active wp_ret
        wp_view_same same_files_def split: option.split journal_file.split list.split outcome.split answer.split)
  then show ?thesis by (simp add: wp_state Let_def)
qed

text \<open>
  Other maintenance never runs beside an OS update: with the guard kept, an action that every
  busy state refuses passes on a card with OS updates only when no job is recorded or the recorded one has ended.
\<close>

theorem maintenance_excluded:
  assumes "guard_kept w" and "refuse_if h {Active, Pending, NeedsCheck} act w = Inr ()"
  shows "platform_of h = Inr None \<or> w_journal w = NoJournal \<or> (\<exists>j. w_journal w = Journal j \<and> j_state j \<in> TERMINAL)"
proof -
  have "blocking h w = Idle"
    using assms(2) by (cases "blocking h w") (simp_all add: refuse_if_def Let_def)
  then show ?thesis
    using assms(1) by (auto simp: blocking_def guard_kept_def quiet_def journal_of_def SAFE_def
        split: sum.split_asm option.split_asm if_split_asm journal_file.split_asm)
qed

theorem maintenance_excluded_witness:
  "let w = sample_world\<lparr>w_journal := Journal (sample_job\<lparr>j_state := Failed\<rparr>), w_guard := Guard Idle None\<rparr> in
   \<exists>j. w_journal w = Journal j \<and> j_state j \<in> TERMINAL"
proof -
  let ?w = "sample_world\<lparr>w_journal := Journal (sample_job\<lparr>j_state := Failed\<rparr>), w_guard := Guard Idle None\<rparr>"
  have "guard_kept ?w" by (simp add: guard_kept_def quiet_def TERMINAL_def)
  moreover have "refuse_if sample_host {Active, Pending, NeedsCheck} ''Restore'' ?w = Inr ()"
    by (simp add: refuse_if_def blocking_def sample_platform_of guard_of_def journal_of_def WORKING_def)
  ultimately have "platform_of sample_host = Inr None \<or> w_journal ?w = NoJournal \<or> (\<exists>j. w_journal ?w = Journal j \<and> j_state j \<in> TERMINAL)"
    by (rule maintenance_excluded)
  then show ?thesis by (simp add: sample_platform_of)
qed

end
