(* ===== verification/Epk_AppFiles.thy ===== *)
theory Epk_AppFiles
  imports Epk_Worker Epk_Text
begin

text \<open>
  The files of app updates (\<open>epilykos_update.py\<close>): the release the OS image ships, the promoted
  one, the floor and what the app starts from.  App updates and the promotion after an OS
  confirmation share them.
\<close>

section \<open>The release of the image\<close>

record base_release =
  b_release :: string
  b_channel :: string
  b_sequence :: int
  b_digest :: string
  b_image :: string
  b_os_version :: string

text \<open>The assignments of \<open>image.env\<close>; the last one of a name wins.\<close>

definition assignments :: "string \<Rightarrow> (string \<times> string) list" where
  "assignments s = concat (map (\<lambda>line.
     if CHR ''='' \<in> set line \<and> \<not> startswith line ''#''
     then (case partition_at CHR ''='' (strip line) of None \<Rightarrow> [] | Some kv \<Rightarrow> [kv]) else []) (file_lines s))"

definition image_value :: "string option \<Rightarrow> string \<Rightarrow> string option" where
  "image_value file name = (case file of None \<Rightarrow> None | Some s \<Rightarrow> map_of (rev (assignments s)) name)"

definition or_empty :: "string option \<Rightarrow> string" where
  "or_empty v = (case v of None \<Rightarrow> [] | Some s \<Rightarrow> s)"

definition baseline :: "string option \<Rightarrow> base_release" where
  "baseline file =
     (let ref = or_empty (image_value file ''EPILYKOS_IMAGE_REF'');
          seq = py_int (case image_value file ''EPILYKOS_SEQUENCE'' of None \<Rightarrow> ''0'' | Some s \<Rightarrow> s)
      in \<lparr>b_release = or_empty (image_value file ''EPILYKOS_RELEASE''),
          b_channel = or_empty (image_value file ''EPILYKOS_CHANNEL''),
          b_sequence = (case seq of None \<Rightarrow> 0 | Some n \<Rightarrow> n),
          b_digest = (case partition_at CHR ''@'' ref of None \<Rightarrow> [] | Some (_, d) \<Rightarrow> d),
          b_image = or_empty (image_value file ''EPILYKOS_IMAGE_ID''),
          b_os_version = or_empty (image_value file ''EPILYKOS_OS_VERSION'')\<rparr>)"

section \<open>What runs\<close>

datatype release = Baseline base_release | Promoted promoted

fun release_digest :: "release \<Rightarrow> string" where
  "release_digest (Baseline b) = b_digest b" | "release_digest (Promoted m) = m_digest m"

fun release_version :: "release \<Rightarrow> string" where
  "release_version (Baseline b) = b_release b" | "release_version (Promoted m) = m_release m"

fun release_image :: "release \<Rightarrow> string" where
  "release_image (Baseline b) = b_image b" | "release_image (Promoted m) = m_image m"

fun release_sequence :: "release \<Rightarrow> int" where
  "release_sequence (Baseline b) = b_sequence b" | "release_sequence (Promoted m) = m_sequence m"

definition base_of :: "'x host \<Rightarrow> base_release" where
  "base_of h = baseline (h_image_env h)"

definition current :: "'x host \<Rightarrow> app_files \<Rightarrow> release" where
  "current h a = (case a_current a of
       Some m \<Rightarrow> if b_sequence (base_of h) \<le> m_sequence m then Promoted m else Baseline (base_of h)
     | None \<Rightarrow> Baseline (base_of h))"

definition stored_floor :: "app_files \<Rightarrow> int" where
  "stored_floor a = (case a_floor a of None \<Rightarrow> 0 | Some n \<Rightarrow> n)"

definition app_floor :: "'x host \<Rightarrow> app_files \<Rightarrow> int" where
  "app_floor h a = max (stored_floor a) (b_sequence (base_of h))"

section \<open>Changes\<close>

definition write_app :: "(app_files \<Rightarrow> app_files) \<Rightarrow> ('x, unit) run" where
  "write_app f = durable (\<lambda>w. w\<lparr>w_app := f (w_app w)\<rparr>)"

definition get_app :: "('x, app_files) run" where
  "get_app = bind get_state (\<lambda>w. ret (w_app w))"

text \<open>The release name of \<open>active.env\<close> keeps only the characters the shell reads literally.\<close>

definition release_char :: "char \<Rightarrow> bool" where
  "release_char c \<longleftrightarrow> is_alnum c \<or> c \<in> {CHR ''.'', CHR ''+'', CHR ''_'', CHR ''-''}"

definition active_of :: "release \<Rightarrow> (string \<times> int \<times> string) option" where
  "active_of r = (case r of
       Baseline _ \<Rightarrow> None
     | Promoted m \<Rightarrow> Some (m_image m, m_sequence m, filter release_char (m_release m)))"

definition set_active :: "release \<Rightarrow> ('x, unit) run" where
  "set_active r = write_app (\<lambda>a. a\<lparr>a_active := active_of r\<rparr>)"

text \<open>
  \<open>promote_app\<close> of \<open>epilykos_os_activate.py\<close>: after a confirmation the app of the image becomes the promoted one when
  it is newer, in the same channel keeping the one before.
\<close>

definition bundled :: "base_release \<Rightarrow> promoted" where
  "bundled b = \<lparr>m_release = b_release b, m_channel = b_channel b, m_sequence = b_sequence b, m_digest = b_digest b, m_image = b_image b\<rparr>"

definition promote_app :: "'x host \<Rightarrow> ('x, unit) run" where
  "promote_app h =
     (let base = base_of h in
      if b_image base = [] \<or> b_sequence base = 0 then ret ()
      else bind get_app (\<lambda>a.
        let same = (case a_current a of None \<Rightarrow> False | Some m \<Rightarrow> m_channel m = b_channel base) in
        if same \<and> b_sequence base \<le> m_sequence (the (a_current a)) then ret ()
        else andthen (if same then write_app (\<lambda>a'. a'\<lparr>a_previous := a_current a\<rparr>) else ret ())
            (andthen (write_app (\<lambda>a'. a'\<lparr>a_current := Some (bundled base)\<rparr>))
            (bind get_app (\<lambda>a'.
             andthen (write_app (\<lambda>a''. a''\<lparr>a_floor := Some (max (stored_floor a') (b_sequence base))\<rparr>))
               (set_active (Promoted (bundled base))))))))"

section \<open>Invariants\<close>

text \<open>
  An app update never starts an image older than it has promoted: what the app starts from
  is the current release or an update in progress, and the floor covers neither less.
\<close>

lemma wp_get_app [wp_simps]: "wp get_app Q E w = Q (w_app w) w"
  by (simp add: get_app_def wp_simps)

lemma keeps_get_app [keeps_rules]: "keeps I get_app"
  unfolding get_app_def by (intro keeps_rules)

lemma wp_write_app [wp_simps]:
  "wp (write_app f) Q E w = (case w_plan w of
       [] \<Rightarrow> Q () (w\<lparr>w_app := f (w_app w)\<rparr>) | Done # p \<Rightarrow> Q () (w\<lparr>w_plan := p, w_app := f (w_app w)\<rparr>)
     | Refused # p \<Rightarrow> E (OSError ''write failed'') (w\<lparr>w_plan := p\<rparr>) | Cut # p \<Rightarrow> E PowerCut w)"
  by (simp add: write_app_def wp_durable split: list.split outcome.split)

end
