(* ===== verification/Epk_Activate.thy ===== *)
theory Epk_Activate
  imports Epk_AppFiles
begin

text \<open>
  Finishing an OS update, \<open>epilykos_os_activate.py\<close>: Restart and Discard, the activation by the worker, the
  confirmation of a healthy trial and the reconciliation of every boot.  Outside DATA the job is the
  seven \<open>epk_os_\<close> variables of the guarded environment, which the slot loader reads.
\<close>

section \<open>The environment\<close>

definition PENDING :: "string list" where
  "PENDING = [''epk_os_pending'', ''epk_os_target'', ''epk_os_from'', ''epk_os_target_sequence'', ''epk_os_target_sha256'',
     ''epk_os_phase'', ''epk_os_trial_started'']"

definition TRIAL_PHASES :: "string set" where
  "TRIAL_PHASES = {''activated'', ''confirming'', ''promoting''}"

text \<open>\<open>set_env\<close>: one batch, read back.\<close>

definition set_env :: "'x host \<Rightarrow> updates \<Rightarrow> ('x, string \<rightharpoonup> string) run" where
  "set_env h us =
     bind (outside (h_set h us)) (\<lambda>ok.
     if \<not> ok then raise (OsUpdateError ''Could not save the OS update state'')
     else bind (printenv h) (\<lambda>env.
       if list_all (\<lambda>(n, v). env n = v) us then ret env
       else raise (OsUpdateError ''The saved OS update state did not read back'')))"

definition clear_pending :: "'x host \<Rightarrow> ('x, string \<rightharpoonup> string) run" where
  "clear_pending h = set_env h (map (\<lambda>n. (n, None)) PENDING)"

text \<open>A slot that is not one of the two has no device: \<open>SLOTS[target]\<close> raises.\<close>

definition target_bad :: "'x host \<Rightarrow> string \<Rightarrow> ('x, bool) run" where
  "target_bad h target =
     (if target \<notin> {''A'', ''B''} then raise (KeyError target)
      else andthen (run_command ''rauc'' (h_mark h ''mark-bad'' (slot_device target)))
        (bind (printenv h) (\<lambda>env. ret (env (slot_left target) = Some ''0''))))"

section \<open>Hostd's actions\<close>

definition restart :: "'x host \<Rightarrow> string \<Rightarrow> ('x, view_result) run" where
  "restart h i =
     bind journal (\<lambda>jo.
     if jo = None \<or> j_id (the jo) \<noteq> i \<or> j_state (the jo) \<noteq> Ready
     then raise (OsUpdateError ''There is no OS update ready to finish'')
     else bind (worker_active h) (\<lambda>active.
       if active then raise (OsUpdateError ''The OS update is busy; try again shortly'')
       else andthen (load_job (the jo))
           (andthen (in_memory (\<lambda>j. j\<lparr>j_state := Restarting, j_error := None, j_progress := phase_only ''restarting''\<rparr>))
           (andthen save
           (andthen (start_worker h) (view h False))))))"

definition discard :: "'x host \<Rightarrow> string \<Rightarrow> ('x, view_result) run" where
  "discard h i =
     bind journal (\<lambda>jo.
     if jo = None \<or> j_id (the jo) \<noteq> i \<or> j_state (the jo) \<noteq> Ready
     then raise (OsUpdateError ''There is no OS update ready to discard'')
     else bind (worker_active h) (\<lambda>active.
       bind (if active then ret True else bind (printenv h) (\<lambda>env. ret (truthy (env ''epk_os_pending'')))) (\<lambda>activating.
       if activating then raise (OsUpdateError ''The OS update is being activated and can no longer be discarded'')
       else bind (target_bad h (j_target (the jo))) (\<lambda>held.
         if \<not> held then raise (OsUpdateError ''Could not make sure the other system slot stays unused'')
         else andthen (load_job (the jo)) (andthen (finish Discarded None) (view h False))))))"

section \<open>Activation\<close>

definition revalidate :: "'x host \<Rightarrow> ('x, unit) run" where
  "revalidate h =
     bind (lift (platform_of h)) (\<lambda>p. case p of
       None \<Rightarrow> raise (ValueError ''no platform'')
     | Some plat \<Rightarrow>
       bind (trust_now h plat) (\<lambda>st.
       bind the_job (\<lambda>j.
       bind (lift (unb64 (j_entry j))) (\<lambda>raw.
       bind (lift (unb64 (j_entry_sig j))) (\<lambda>sig.
       bind (lift (verify_os_release (h_crypto h) raw sig plat (t_policy st))) (\<lambda>entry.
       bind (lift (admissible entry plat (t_floor st))) (\<lambda>_.
       bind (ask (app_blockers h)) (\<lambda>blockers.
       case blockers of
         b # _ \<Rightarrow> raise (OsUpdateError b)
       | [] \<Rightarrow>
         bind (ask (h_usage h)) (\<lambda>usage.
         bind (lift (admit OCI_ALLOWANCE usage)) (\<lambda>_. verify_target h))))))))))"

definition back_to_ready :: "'x host \<Rightarrow> string \<Rightarrow> ('x, nat) run" where
  "back_to_ready h err =
     bind the_job (\<lambda>j.
     bind (try_catch
         (bind (target_bad h (j_target j)) (\<lambda>safe. if safe then andthen (clear_pending h) (ret safe) else ret safe))
         (\<lambda>e. case e of OsUpdateError _ \<Rightarrow> Some (ret False) | TrustError _ \<Rightarrow> Some (ret False) | _ \<Rightarrow> None)) (\<lambda>safe.
     if \<not> safe then mark_unsure j (err @ ''; the system state needs checking'')
     else andthen (in_memory (\<lambda>j. j\<lparr>j_state := Ready, j_error := Some err, j_progress := phase_only ''ready''\<rparr>))
         (andthen save
         (andthen (set_guard Pending (Some (j_id j))) (ret 1)))))"

definition intent_batch :: "job \<Rightarrow> string \<Rightarrow> updates" where
  "intent_batch j sha =
     [(''epk_os_pending'', Some (j_id j)), (''epk_os_target'', Some (j_target j)), (''epk_os_from'', Some (j_source j)),
      (''epk_os_target_sequence'', Some (write_int (j_sequence j))), (''epk_os_target_sha256'', Some sha),
      (''epk_os_phase'', Some ''activation_intent''), (''epk_os_trial_started'', None)]"

definition write_intent :: "'x host \<Rightarrow> ('x, unit) run" where
  "write_intent h =
     bind the_job (\<lambda>j.
     andthen (revalidate h)
    (bind (printenv h) (\<lambda>env.
     if env ''epk_os_pending'' \<notin> {None, Some [], Some (j_id j)}
     then raise (OsUpdateError ''Another OS update is recorded in the system state'')
     else case j_image_sha j of
       None \<Rightarrow> raise (KeyError ''image'')
     | Some sha \<Rightarrow> andthen (set_env h (intent_batch j sha)) (ret ()))))"

definition activate :: "'x host \<Rightarrow> ('x, nat) run" where
  "activate h =
     bind the_job (\<lambda>j.
     bind (if pr_activated (j_progress j) then bind (printenv h) (\<lambda>env. ret (env ''epk_os_phase'' = Some ''activated'')) else ret False)
       (\<lambda>only_reboot.
     if only_reboot then andthen (run_command ''systemctl'' (h_reboot h)) (ret 0)
     else bind (try_catch (andthen (write_intent h) (ret None))
         (\<lambda>e. case e of OsUpdateError m \<Rightarrow> Some (ret (Some m)) | TrustError m \<Rightarrow> Some (ret (Some m))
            | StorageError m \<Rightarrow> Some (ret (Some m)) | _ \<Rightarrow> None)) (\<lambda>failed.
       case failed of
         Some m \<Rightarrow> back_to_ready h m
       | None \<Rightarrow>
         andthen (run_command ''rauc'' (h_mark h ''mark-active'' (slot_device (j_target j))))
        (bind (printenv h) (\<lambda>env.
         if \<not> first_in_order env (j_target j) \<or> env (slot_left (j_target j)) \<noteq> Some ''3''
         then back_to_ready h ''The system could not be set to start the new version''
         else andthen (set_env h [(''epk_os_phase'', Some ''activated'')])
             (andthen (in_memory (\<lambda>j. j\<lparr>j_progress := (phase_only ''restarting'')\<lparr>pr_activated := True\<rparr>\<rparr>))
             (andthen save
             (andthen (run_command ''systemctl'' (h_reboot h)) (ret 0)))))))))"

section \<open>Confirmation\<close>

definition env_int :: "(string \<rightharpoonup> string) \<Rightarrow> string \<Rightarrow> int result" where
  "env_int env n = (case env n of
       None \<Rightarrow> Inl (KeyError n)
     | Some s \<Rightarrow> (case py_int s of None \<Rightarrow> Inl (ValueError ''invalid literal for int()'') | Some i \<Rightarrow> Inr i))"

definition rebuilt_job :: "(string \<rightharpoonup> string) \<Rightarrow> int \<Rightarrow> job" where
  "rebuilt_job env seq =
     \<lparr>j_id = or_empty (env ''epk_os_pending''), j_request = None, j_state = Trying, j_sequence = seq, j_sha256 = None, j_size = None,
      j_version = None, j_url = [], j_notes = [], j_source = or_empty (env ''epk_os_from''), j_target = or_empty (env ''epk_os_target''),
      j_entry = [], j_entry_sig = [], j_policy = [], j_policy_sig = [], j_progress = phase_only ''trying'', j_error = None,
      j_validator = None, j_image_size = None, j_image_sha = env ''epk_os_target_sha256'', j_rauc = None\<rparr>"

text \<open>\<open>rebuild\<close> leaves the journal's job in memory: the recorded one, or one made of the environment.\<close>

definition rebuild :: "(string \<rightharpoonup> string) \<Rightarrow> job option \<Rightarrow> ('x, unit) run" where
  "rebuild env jo =
     (if jo \<noteq> None \<and> Some (j_id (the jo)) = env ''epk_os_pending'' then load_job (the jo)
      else bind (lift (env_int env ''epk_os_target_sequence'')) (\<lambda>seq.
        andthen (load_job (rebuilt_job env seq)) save))"

definition confirm_floor :: "'x host \<Rightarrow> (string \<rightharpoonup> string) \<Rightarrow> int \<Rightarrow> ('x, string \<rightharpoonup> string) run" where
  "confirm_floor h env seq =
     (if env ''epk_os_phase'' = Some ''confirming'' then
        bind (run_command ''rauc'' (h_good h)) (\<lambda>(ok, _).
        if \<not> ok then raise (OsUpdateError ''Could not confirm the new system'')
        else bind (lift (env_int env ''epk_os_floor'')) (\<lambda>fl.
          set_env h [(''epk_os_floor'', Some (write_int (max fl seq))), (''epk_os_phase'', Some ''promoting'')]))
      else ret env)"

definition is_trial :: "(string \<rightharpoonup> string) \<Rightarrow> string \<Rightarrow> string \<Rightarrow> bool" where
  "is_trial env slot i \<longleftrightarrow> env ''epk_os_pending'' = Some i \<and> env ''epk_os_target'' = Some slot \<and>
     env ''epk_os_trial_started'' = Some i \<and> env ''epk_os_phase'' \<in> Some ` TRIAL_PHASES"

definition confirm_candidate :: "'x host \<Rightarrow> string \<Rightarrow> ('x, nat) run" where
  "confirm_candidate h i =
     bind (printenv h) (\<lambda>env.
     bind (lift (booted_slot h)) (\<lambda>slot.
     if \<not> is_trial env slot i then raise (OsUpdateError ''This boot is not the trial of that OS update'')
     else bind (lift (env_int env ''epk_os_target_sequence'')) (\<lambda>seq.
       bind (if env ''epk_os_phase'' = Some ''activated'' then set_env h [(''epk_os_phase'', Some ''confirming'')] else ret env) (\<lambda>env.
       bind (confirm_floor h env seq) (\<lambda>env.
       if env (slot_left slot) \<noteq> Some ''3'' then raise (OsUpdateError ''The confirmed system did not keep its attempts'')
       else andthen (promote_app h)
           (bind journal (\<lambda>jo.
            andthen (rebuild env jo)
           (andthen (finish Confirmed None)
           (andthen (clear_pending h) (ret 0))))))))))"

text \<open>\<open>confirm_main\<close>: the arguments, then up to three attempts.\<close>

definition hex_run :: "nat \<Rightarrow> string \<Rightarrow> bool" where
  "hex_run n s \<longleftrightarrow> hex_of_length n (take n s)"

definition job_id_ok :: "string \<Rightarrow> bool" where
  "job_id_ok s \<longleftrightarrow> length s = 36 \<and> hex_run 8 s \<and> s ! 8 = CHR ''-'' \<and> hex_run 4 (drop 9 s) \<and> s ! 13 = CHR ''-'' \<and>
     s ! 14 = CHR ''4'' \<and> hex_run 3 (drop 15 s) \<and> s ! 18 = CHR ''-'' \<and> s ! 19 \<in> {CHR ''8'', CHR ''9'', CHR ''a'', CHR ''b''} \<and>
     hex_run 3 (drop 20 s) \<and> s ! 23 = CHR ''-'' \<and> hex_run 12 (drop 24 s)"

fun confirm_attempts :: "'x host \<Rightarrow> string \<Rightarrow> nat \<Rightarrow> ('x, nat) run" where
  "confirm_attempts h i 0 = ret 1"
| "confirm_attempts h i (Suc n) =
     try_catch (confirm_candidate h i)
       (\<lambda>e. case e of OsUpdateError _ \<Rightarrow> Some (confirm_attempts h i n) | TrustError _ \<Rightarrow> Some (confirm_attempts h i n)
          | OSError _ \<Rightarrow> Some (confirm_attempts h i n) | _ \<Rightarrow> None)"

definition confirm_main :: "'x host \<Rightarrow> string list \<Rightarrow> ('x, nat) run" where
  "confirm_main h args = (case args of
       [opt, i] \<Rightarrow> if opt \<noteq> ''--job'' \<or> \<not> job_id_ok i then ret 2 else confirm_attempts h i 3
     | _ \<Rightarrow> ret 2)"

section \<open>Every boot\<close>

definition reconcile_unpending :: "'x host \<Rightarrow> (string \<rightharpoonup> string) \<Rightarrow> string \<Rightarrow> job option \<Rightarrow> ('x, string) run" where
  "reconcile_unpending h env slot jo =
     (if jo \<noteq> None \<and> j_state (the jo) = Restarting then
        andthen (load_job (the jo))
       (andthen (back_to_ready h ''The restart was interrupted; restart again to finish'')
       (bind journal (\<lambda>jo'. case jo' of None \<Rightarrow> raise (KeyError ''state'') | Some j \<Rightarrow> ret (state_name (j_state j)))))
      else if jo \<noteq> None \<and> j_state (the jo) = Trying then
        andthen (load_job (the jo))
       (bind (if slot = j_target (the jo)
              then bind (lift (env_int (env(''epk_os_floor'' \<mapsto> (case env ''epk_os_floor'' of None \<Rightarrow> ''0'' | Some s \<Rightarrow> s))) ''epk_os_floor''))
                (\<lambda>fl. ret (j_sequence (the jo) \<le> fl))
              else ret False) (\<lambda>confirmed.
        if confirmed then andthen (finish Confirmed None) (ret ''confirmed'')
        else andthen (finish Failed (Some ''The OS update ended without a result'')) (ret ''failed'')))
      else andthen (reconcile h) (ret ''none''))"

definition reconcile_trial :: "'x host \<Rightarrow> (string \<rightharpoonup> string) \<Rightarrow> job option \<Rightarrow> ('x, string) run" where
  "reconcile_trial h env jo =
     andthen (rebuild env jo)
    (bind the_job (\<lambda>j.
     if j_state j = Confirmed then andthen (clear_pending h) (andthen (set_guard Idle None) (ret ''confirmed''))
     else andthen (in_memory (\<lambda>j. j\<lparr>j_state := Trying, j_progress := phase_only ''trying''\<rparr>))
         (andthen save
         (andthen (set_guard Pending (Some (j_id j))) (ret ''trying'')))))"

definition reconcile_rollback :: "'x host \<Rightarrow> (string \<rightharpoonup> string) \<Rightarrow> string \<Rightarrow> job option \<Rightarrow> ('x, string) run" where
  "reconcile_rollback h env slot jo =
     andthen (rebuild env jo)
    (bind (target_bad h (or_empty (env ''epk_os_target''))) (\<lambda>held.
     if \<not> held then andthen (set_guard NeedsCheck (env ''epk_os_pending'')) (ret ''reconciling'')
     else andthen (if \<not> first_in_order env slot
                   then andthen (run_command ''rauc'' (h_mark h ''mark-active'' ''booted'')) (ret ()) else ret ())
         (bind the_job (\<lambda>j.
          andthen (if j_state j \<noteq> RolledBack
                   then finish RolledBack (Some ''The new version did not start properly, so the previous one is running'') else ret ())
         (andthen (clear_pending h) (ret ''rolled_back''))))))"

definition reconcile_intent :: "'x host \<Rightarrow> (string \<rightharpoonup> string) \<Rightarrow> job option \<Rightarrow> ('x, string) run" where
  "reconcile_intent h env jo =
     (if jo \<noteq> None \<and> Some (j_id (the jo)) = env ''epk_os_pending'' \<and> j_state (the jo) \<in> {Restarting, Ready} then
        andthen (load_job (the jo))
       (andthen (in_memory (\<lambda>j. j\<lparr>j_progress := phase_only ''ready''\<rparr>))
       (andthen (back_to_ready h ''The restart was interrupted; restart again to finish'') (ret ''ready'')))
      else
        andthen (rebuild env jo)
       (bind (target_bad h (or_empty (env ''epk_os_target''))) (\<lambda>held.
        if held then andthen (finish Failed (Some ''The OS update was interrupted before it started''))
             (andthen (clear_pending h) (ret ''failed''))
        else andthen (set_guard NeedsCheck (env ''epk_os_pending'')) (ret ''reconciling''))))"

definition reconcile_boot :: "'x host \<Rightarrow> ('x, string) run" where
  "reconcile_boot h =
     bind (try_catch
         (bind (printenv h) (\<lambda>env. bind journal (\<lambda>jo. bind (lift (booted_slot h)) (\<lambda>slot. ret (env, jo, slot)))))
         (\<lambda>e. case e of OsUpdateError m \<Rightarrow> Some (andthen (set_guard NeedsCheck None) (raise e))
            | TrustError m \<Rightarrow> Some (andthen (set_guard NeedsCheck None) (raise e)) | _ \<Rightarrow> None)) (\<lambda>(env, jo, slot).
     bind (if jo \<noteq> None \<and> j_state (the jo) \<in> {Installing, Restarting} \<union> WORKING then worker_active h else ret False) (\<lambda>carries_on.
     if carries_on then ret (state_name (j_state (the jo)))
     else if \<not> truthy (env ''epk_os_pending'') then reconcile_unpending h env slot jo
     else if env ''epk_os_target'' = Some slot then reconcile_trial h env jo
     else if env ''epk_os_from'' \<noteq> Some slot then
       andthen (set_guard NeedsCheck (env ''epk_os_pending'')) (ret ''reconciling'')
     else if env ''epk_os_trial_started'' = env ''epk_os_pending'' then reconcile_rollback h env slot jo
     else reconcile_intent h env jo))"

end
