(* ===== verification/Epk_Finish.thy ===== *)
theory Epk_Finish
  imports Epk_Activate Epk_Loader
begin

text \<open>
  What finishing an OS update promises.  The locale \<open>rauc_host\<close> states what the code relies on: the guarded
  environment, and RAUC changing only the boot order and the attempts of a slot.  Its
  interpretation is a host whose RAUC writes through the guarded environment.
\<close>

section \<open>What the code relies on\<close>

definition boot_vars :: "string set" where
  "boot_vars = {''BOOT_ORDER'', ''BOOT_A_LEFT'', ''BOOT_B_LEFT'', generation_name}"

text \<open>The variables of the update service are as before.\<close>

definition framed :: "(string \<rightharpoonup> string) \<Rightarrow> (string \<rightharpoonup> string) \<Rightarrow> bool" where
  "framed m m' \<longleftrightarrow> (\<forall>n. n \<notin> boot_vars \<longrightarrow> m' n = m n)"

definition same_data :: "'x world \<Rightarrow> 'x world \<Rightarrow> bool" where
  "same_data w0 w \<longleftrightarrow> same_files w0 w \<and> w_app w = w_app w0 \<and> w_job w = w_job w0"

section \<open>States of an update in the environment\<close>

text \<open>What the environment of a world says.\<close>

definition env_holds :: "'x host \<Rightarrow> ((string \<rightharpoonup> string) \<Rightarrow> bool) \<Rightarrow> 'x world \<Rightarrow> bool" where
  "env_holds h P w \<longleftrightarrow> (\<exists>m. h_env h (w_ext w) = Some m \<and> P m)"

definition held :: "(string \<rightharpoonup> string) \<Rightarrow> string \<Rightarrow> bool" where
  "held m s \<longleftrightarrow> m (slot_left s) = Some ''0''"

text \<open>A fact of the environment that RAUC does not touch, and one that a batch keeps wherever it stops.\<close>

definition unmarked :: "((string \<rightharpoonup> string) \<Rightarrow> bool) \<Rightarrow> bool" where
  "unmarked P \<longleftrightarrow> (\<forall>m m'. P m \<longrightarrow> framed m m' \<longrightarrow> P m')"

definition batch_keeps :: "updates \<Rightarrow> ((string \<rightharpoonup> string) \<Rightarrow> bool) \<Rightarrow> bool" where
  "batch_keeps us P \<longleftrightarrow> (\<forall>m m'. P m \<longrightarrow> agree m' m \<or> agree m' (apply_updates us m) \<longrightarrow> P m')"

abbreviation floor_is :: "string option \<Rightarrow> (string \<rightharpoonup> string) \<Rightarrow> bool" where
  "floor_is v \<equiv> (\<lambda>m. m ''epk_os_floor'' = v)"

text \<open>What a confirmation leaves of the environment until it has cleared it, and afterwards.\<close>

definition raised :: "(string \<rightharpoonup> string) \<Rightarrow> string option \<Rightarrow> bool" where
  "raised m v \<longleftrightarrow> (\<exists>fl seq. env_int m ''epk_os_floor'' = Inr fl \<and> env_int m ''epk_os_target_sequence'' = Inr seq \<and>
     v = Some (write_int (max fl seq)))"

definition trial_kept :: "string \<Rightarrow> string \<Rightarrow> (string \<rightharpoonup> string) \<Rightarrow> (string \<rightharpoonup> string) \<Rightarrow> bool" where
  "trial_kept i slot m m' \<longleftrightarrow> is_trial m' slot i \<and> m' ''epk_os_target_sequence'' = m ''epk_os_target_sequence'' \<and>
     (m' ''epk_os_floor'' = m ''epk_os_floor'' \<or> raised m (m' ''epk_os_floor''))"

definition recorded :: "string \<Rightarrow> 'x world \<Rightarrow> bool" where
  "recorded i w \<longleftrightarrow> guard_of w = Idle \<and> (\<exists>j. w_journal w = Journal j \<and> j_state j = Confirmed \<and> j_id j = i)"

definition cleared :: "(string \<rightharpoonup> string) \<Rightarrow> (string \<rightharpoonup> string) \<Rightarrow> bool" where
  "cleared m m' \<longleftrightarrow> (\<forall>n\<in>set PENDING. m' n = None) \<and> (m' ''epk_os_floor'' = m ''epk_os_floor'' \<or> raised m (m' ''epk_os_floor''))"

definition stopped_at :: "'x host \<Rightarrow> string \<Rightarrow> string \<Rightarrow> (string \<rightharpoonup> string) \<Rightarrow> 'x world \<Rightarrow> bool" where
  "stopped_at h i slot m w \<longleftrightarrow> env_holds h (trial_kept i slot m) w \<or> env_holds h (cleared m) w \<and> recorded i w"

text \<open>
  The environment names the job; a target that could boot is never unrecorded: it has no
  attempts, or the environment holds the job's intent.
\<close>

definition bound :: "job \<Rightarrow> (string \<rightharpoonup> string) \<Rightarrow> bool" where
  "bound j m \<longleftrightarrow> m ''epk_os_pending'' = Some (j_id j) \<and> m ''epk_os_target'' = Some (j_target j) \<and>
     m ''epk_os_from'' = Some (j_source j) \<and> m ''epk_os_target_sequence'' = Some (write_int (j_sequence j)) \<and>
     m ''epk_os_phase'' \<in> {Some ''activation_intent'', Some ''activated''} \<and> m ''epk_os_trial_started'' = None"

definition safe :: "job \<Rightarrow> (string \<rightharpoonup> string) \<Rightarrow> bool" where
  "safe j m \<longleftrightarrow> held m (j_target j) \<or> bound j m"

text \<open>What a refused activation leaves: nothing pending and a ready job, or a job that needs checking.\<close>

definition refused :: "'x host \<Rightarrow> job \<Rightarrow> 'x world \<Rightarrow> bool" where
  "refused h j w \<longleftrightarrow> (\<exists>j'. w_journal w = Journal j' \<and> j_id j' = j_id j \<and>
     (j_state j' = Ready \<and> guard_of w = Pending \<and> env_holds h (\<lambda>m. held m (j_target j) \<and> (\<forall>n\<in>set PENDING. m n = None)) w \<or>
      j_state j' = Reconciling \<and> guard_of w = NeedsCheck))"

text \<open>What a job passes before it is activated: the trust, the app, the space and the slot itself.\<close>

definition revalidated :: "'x host \<Rightarrow> 'x world \<Rightarrow> bool" where
  "revalidated h w \<longleftrightarrow> (\<exists>plat env st raw sig entry space. platform_of h = Inr (Some plat) \<and> h_env h (w_ext w) = Some env \<and>
     current_state (h_crypto h) (h_root h) plat env = Inr st \<and> unb64 (j_entry (w_job w)) = Inr raw \<and> unb64 (j_entry_sig (w_job w)) = Inr sig \<and>
     verify_os_release (h_crypto h) raw sig plat (t_policy st) = Inr entry \<and> t_floor st < e_sequence entry \<and>
     f_os_sequence plat < e_sequence entry \<and> app_blockers h (w_ext w) = [] \<and> admit OCI_ALLOWANCE (h_usage h (w_ext w)) = Inr space \<and>
     verified h (w_ext w) (w_job w))"

text \<open>An activation that succeeds: revalidated, or only its restart was missing.\<close>

definition launched :: "'x host \<Rightarrow> 'x world \<Rightarrow> 'x world \<Rightarrow> bool" where
  "launched h w w' \<longleftrightarrow> env_holds h (\<lambda>m. m ''epk_os_phase'' = Some ''activated'') w' \<and>
     (pr_activated (j_progress (w_job w)) \<or> revalidated h w \<and> env_holds h (bound (w_job w)) w' \<and>
       (\<exists>j'. w_journal w' = Journal j' \<and> j_id j' = j_id (w_job w) \<and> pr_activated (j_progress j')))"

section \<open>The host\<close>

locale rauc_host = env_store "h_env h" "h_set h" for h :: "'x host" +
  assumes mark: "h_mark h v d x = (a, x') \<Longrightarrow> h_env h x = Some m \<Longrightarrow> \<exists>m'. h_env h x' = Some m' \<and> framed m m'"
    and bad: "h_mark h ''mark-bad'' (slot_device s) x = (a, x') \<Longrightarrow> h_env h x = Some m \<Longrightarrow> h_env h x' = Some m' \<Longrightarrow>
        s \<in> {''A'', ''B''} \<Longrightarrow> m' (slot_left s) \<in> {m (slot_left s), Some ''0''}"
    and good: "h_good h x = (a, x') \<Longrightarrow> h_env h x = Some m \<Longrightarrow> \<exists>m'. h_env h x' = Some m' \<and> framed m m'"
    and reboot: "h_env h (snd (h_reboot h x)) = h_env h x"
    and start: "h_env h (snd (h_start h x)) = h_env h x"
begin

abbreviation env_is :: "((string \<rightharpoonup> string) \<Rightarrow> bool) \<Rightarrow> 'x world \<Rightarrow> bool" where
  "env_is \<equiv> env_holds h"

lemma wp_set_env:
  assumes "h_env h (w_ext w) = Some m"
  shows "wp (set_env h us)
     (\<lambda>env w'. h_env h (w_ext w') = Some env \<and> agree env (apply_updates us m) \<and> (\<forall>(n, v)\<in>set us. env n = v) \<and> same_data w w')
     (\<lambda>_ w'. env_is (\<lambda>m'. agree m' m \<or> agree m' (apply_updates us m)) w' \<and> same_data w w') w"
proof -
  obtain ok x' where x: "h_set h us (w_ext w) = (ok, x')" by fastforce
  from wr_whole [OF x assms] obtain m' where m': "h_env h x' = Some m'"
    and wh: "agree m' m \<or> agree m' (apply_updates us m)" by blast
  have ack: "ok \<Longrightarrow> agree m' (apply_updates us m)"
    using wr_acknowledged [of us "w_ext w" x' m] x assms m' by auto
  show ?thesis
    using assms x m' wh ack
    by (auto simp: set_env_def printenv_def wp_simps env_holds_def same_data_def same_files_def list_all_iff agree_def
        split: list.split outcome.split)
qed

lemma wp_mark:
  assumes "h_env h (w_ext w) = Some m"
  shows "wp (run_command name (h_mark h v d)) (\<lambda>_ w'. env_is (framed m) w' \<and> same_data w w')
     (\<lambda>_ w'. env_is (framed m) w' \<and> same_data w w') w"
proof -
  obtain a x' where x: "h_mark h v d (w_ext w) = (a, x')" by fastforce
  from mark [OF x assms] have "\<exists>m'. h_env h x' = Some m' \<and> framed m m'" .
  then show ?thesis
    using assms x by (auto simp: run_command_def wp_simps env_holds_def same_data_def same_files_def framed_def
        split: list.split outcome.split answer.split)
qed

lemma wp_good:
  assumes "h_env h (w_ext w) = Some m"
  shows "wp (run_command name (h_good h)) (\<lambda>_ w'. env_is (framed m) w' \<and> same_data w w')
     (\<lambda>_ w'. env_is (framed m) w' \<and> same_data w w') w"
proof -
  obtain a x' where x: "h_good h (w_ext w) = (a, x')" by fastforce
  from good [OF x assms] have "\<exists>m'. h_env h x' = Some m' \<and> framed m m'" .
  then show ?thesis
    using assms x by (auto simp: run_command_def wp_simps env_holds_def same_data_def same_files_def framed_def
        split: list.split outcome.split answer.split)
qed

text \<open>Taking the attempts of a slot: what it answers is what the environment says.\<close>

lemma wp_target_bad:
  assumes "h_env h (w_ext w) = Some m"
  shows "wp (target_bad h t)
     (\<lambda>b w'. env_is (\<lambda>m'. framed m m' \<and> b = held m' t \<and> (held m t \<longrightarrow> held m' t)) w' \<and> same_data w w')
     (\<lambda>_ w'. env_is (\<lambda>m'. framed m m' \<and> (held m t \<longrightarrow> held m' t)) w' \<and> same_data w w') w"
proof (cases "t \<in> {''A'', ''B''}")
  case True
  obtain a x' where x: "h_mark h ''mark-bad'' (slot_device t) (w_ext w) = (a, x')" by fastforce
  from mark [OF x assms] obtain m' where m': "h_env h x' = Some m'" and f: "framed m m'" by blast
  from bad [OF x assms m' True] have "held m t \<longrightarrow> held m' t" by (auto simp: held_def)
  then show ?thesis
    using True assms x m' f by (auto simp: target_bad_def run_command_def printenv_def wp_simps env_holds_def same_data_def same_files_def
        framed_def held_def split: list.split outcome.split answer.split)
next
  case False
  then show ?thesis
    using assms by (simp add: target_bad_def wp_simps env_holds_def same_data_def framed_def)
qed

section \<open>What the environment keeps\<close>

lemma env_durable [keeps_rules]: "(\<And>w. w_ext (f w) = w_ext w) \<Longrightarrow> keeps (env_is P) (durable f)"
  by (rule keepsI) (auto simp: wp_simps env_holds_def split: list.split outcome.split)

lemma env_memory [keeps_rules]: "keeps (env_is P) (in_memory f)"
  unfolding in_memory_def by (rule keeps_modify) (simp add: env_holds_def)

lemma env_set_env [keeps_rules]: "batch_keeps us P \<Longrightarrow> keeps (env_is P) (set_env h us)"
proof (rule keepsI)
  fix w assume b: "batch_keeps us P" and "env_is P w"
  then obtain m where m: "h_env h (w_ext w) = Some m" "P m" by (auto simp: env_holds_def)
  show "wp (set_env h us) (\<lambda>_. env_is P) (\<lambda>_. env_is P) w"
    by (rule wp_use [OF wp_set_env [OF m(1)]]) (use m(2) b in \<open>(unfold env_holds_def batch_keeps_def, blast)+\<close>)
qed

lemma env_target_bad [keeps_rules]: "unmarked P \<Longrightarrow> keeps (env_is P) (target_bad h t)"
proof (rule keepsI)
  fix w assume u: "unmarked P" and "env_is P w"
  then obtain m where m: "h_env h (w_ext w) = Some m" "P m" by (auto simp: env_holds_def)
  show "wp (target_bad h t) (\<lambda>_. env_is P) (\<lambda>_. env_is P) w"
    by (rule wp_use [OF wp_target_bad [OF m(1)]]) (use m(2) u in \<open>auto simp: env_holds_def unmarked_def\<close>)
qed

lemma env_mark [keeps_rules]: "unmarked P \<Longrightarrow> keeps (env_is P) (run_command name (h_mark h b d))"
proof (rule keepsI)
  fix w assume u: "unmarked P" and "env_is P w"
  then obtain m where m: "h_env h (w_ext w) = Some m" "P m" by (auto simp: env_holds_def)
  show "wp (run_command name (h_mark h b d)) (\<lambda>_. env_is P) (\<lambda>_. env_is P) w"
    by (rule wp_use [OF wp_mark [OF m(1)]]) (use m(2) u in \<open>auto simp: env_holds_def unmarked_def\<close>)
qed

lemma env_good [keeps_rules]: "unmarked P \<Longrightarrow> keeps (env_is P) (run_command name (h_good h))"
proof (rule keepsI)
  fix w assume u: "unmarked P" and "env_is P w"
  then obtain m where m: "h_env h (w_ext w) = Some m" "P m" by (auto simp: env_holds_def)
  show "wp (run_command name (h_good h)) (\<lambda>_. env_is P) (\<lambda>_. env_is P) w"
    by (rule wp_use [OF wp_good [OF m(1)]]) (use m(2) u in \<open>auto simp: env_holds_def unmarked_def\<close>)
qed

lemma env_command:
  assumes "\<And>x. h_env h (snd (f x)) = h_env h x"
  shows "keeps (env_is P) (run_command name f)"
  by (rule keepsI)
    (auto simp: run_command_def wp_simps env_holds_def assms split: list.split outcome.split answer.split)

lemma env_commands [keeps_rules]:
  "keeps (env_is P) (run_command name (h_reboot h))" "keeps (env_is P) (start_worker h)" "keeps (env_is P) (worker_active h)"
proof -
  show "keeps (env_is P) (start_worker h)"
    unfolding start_worker_def by (intro keeps_rules env_command) (simp add: start)
  show "keeps (env_is P) (worker_active h)" unfolding worker_active_def by (intro keeps_rules)
qed (rule env_command, simp add: reboot)

lemma env_files [keeps_rules]:
  "keeps (env_is P) save" "keeps (env_is P) (set_guard g i)" "keeps (env_is P) (finish s err)" "keeps (env_is P) (write_app k)"
  unfolding save_def set_guard_def finish_def write_app_def by (intro keeps_rules; simp)+

lemma env_view [keeps_rules]: "keeps (env_is P) (view h r)"
  unfolding view_def ensure_worker_def by (intro keeps_rules) (auto intro: keeps_rules split: exn.split_asm)

lemma env_parts [keeps_rules]:
  "keeps (env_is P) (mark_unsure j msg)" "keeps (env_is P) (rebuild env jo)" "keeps (env_is P) (promote_app h)"
  "keeps (env_is P) (revalidate h)" "keeps (env_is P) (load_job j)"
  unfolding mark_unsure_def rebuild_def load_job_def promote_app_def set_active_def revalidate_def verify_target_def Let_def
  by (intro keeps_rules)+

lemma env_reconcile [keeps_rules]: "keeps (env_is P) (reconcile h)"
  unfolding reconcile_def by (intro keeps_rules) (auto intro: keeps_rules split: exn.split_asm)

section \<open>The floor outside a confirmation\<close>

lemma floor_unmarked [keeps_rules]: "unmarked (floor_is v)"
  by (simp add: unmarked_def framed_def boot_vars_def)

lemma floor_batch [keeps_rules]: "''epk_os_floor'' \<notin> fst ` set us \<Longrightarrow> batch_keeps us (floor_is v)"
proof -
  assume "''epk_os_floor'' \<notin> fst ` set us"
  then have "map_of us ''epk_os_floor'' = None" by (simp add: map_of_eq_None_iff)
  then show ?thesis by (auto simp: batch_keeps_def agree_def apply_updates_def)
qed

lemma floor_clear [keeps_rules]: "keeps (env_is (floor_is v)) (clear_pending h)"
  unfolding clear_pending_def by (intro keeps_rules) (simp add: PENDING_def)

lemma floor_back [keeps_rules]: "keeps (env_is (floor_is v)) (back_to_ready h msg)"
  unfolding back_to_ready_def by (intro keeps_rules) (auto intro: keeps_rules split: exn.split_asm)

lemma floor_intent [keeps_rules]: "keeps (env_is (floor_is v)) (write_intent h)"
  unfolding write_intent_def by (intro keeps_rules) (simp add: intent_batch_def)

lemma floor_activate: "keeps (env_is (floor_is v)) (activate h)"
  unfolding activate_def by (intro keeps_rules) (auto intro: keeps_rules split: exn.split_asm)

lemma floor_boot: "keeps (env_is (floor_is v)) (reconcile_boot h)"
  unfolding reconcile_boot_def reconcile_unpending_def reconcile_trial_def reconcile_rollback_def reconcile_intent_def
  by (intro keeps_rules) (auto intro: keeps_rules split: exn.split_asm)

lemma floor_hostd: "keeps (env_is (floor_is v)) (restart h i)" "keeps (env_is (floor_is v)) (discard h i)"
  unfolding restart_def discard_def by (intro keeps_rules)+

section \<open>Confirmation\<close>

lemma trial_unmarked [keeps_rules]: "unmarked (trial_kept i slot m)"
  by (simp add: unmarked_def framed_def boot_vars_def trial_kept_def is_trial_def)

lemma trial_agree: "trial_kept i slot m e \<Longrightarrow> agree e' e \<Longrightarrow> trial_kept i slot m e'"
  by (auto simp: trial_kept_def is_trial_def agree_def)

lemma trial_phase: "p \<in> TRIAL_PHASES \<Longrightarrow> batch_keeps [(''epk_os_phase'', Some p)] (trial_kept i slot m)"
  by (auto simp: batch_keeps_def agree_def apply_updates_def trial_kept_def is_trial_def)

lemma trial_refl: "is_trial m slot i \<Longrightarrow> trial_kept i slot m m"
  by (simp add: trial_kept_def)

lemma py_int_write: "py_int (write_int n) = Some n"
proof -
  have sp: "is_digit c \<Longrightarrow> \<not> is_space c" for c by (auto simp: is_digit_def between_def is_space_def)
  have st: "strip s = s" if "\<forall>c\<in>set s. \<not> is_space c" for s
  proof -
    have "dropWhile is_space t = t" if "\<forall>c\<in>set t. \<not> is_space c" for t
      using that by (cases t) auto
    from this [of s] this [of "rev s"] that show ?thesis by (simp add: strip_def)
  qed
  have dig: "\<forall>c\<in>set (dec k). is_digit c" for k using dec_digits [of k] by (simp add: list_all_iff)
  have "\<not> is_space CHR ''-''" by (simp add: is_space_def)
  with dig sp have d1: "strip (dec k) = dec k" "strip (CHR ''-'' # dec k) = CHR ''-'' # dec k" for k
    by (intro st; simp)+
  obtain c cs where c: "dec (nat n) = c # cs" using dec_neq_Nil(1) [of "nat n"] by (cases "dec (nat n)") auto
  with dig [of "nat n"] have "is_digit c" by simp
  then have "c \<noteq> CHR ''-''" "c \<noteq> CHR ''+''" by (auto simp: is_digit_def between_def)
  with c have s: "\<not> startswith (dec (nat n)) ''-''" "\<not> startswith (dec (nat n)) ''+''" by simp_all
  show ?thesis
  proof (cases "n < 0")
    case True
    then show ?thesis by (simp add: py_int_def write_int_def Let_def d1)
  next
    case False
    then show ?thesis using s by (simp add: py_int_def write_int_def Let_def d1)
  qed
qed

lemma raised_again:
  assumes "trial_kept i slot m e" and "env_int m ''epk_os_target_sequence'' = Inr seq" and "env_int e ''epk_os_floor'' = Inr fl"
  shows "raised m (Some (write_int (max fl seq)))"
proof (cases "e ''epk_os_floor'' = m ''epk_os_floor''")
  case True
  with assms show ?thesis by (auto simp: raised_def env_int_def)
next
  case False
  with assms(1) obtain fl0 seq0 where f: "env_int m ''epk_os_floor'' = Inr fl0" "env_int m ''epk_os_target_sequence'' = Inr seq0"
    and e: "e ''epk_os_floor'' = Some (write_int (max fl0 seq0))" by (auto simp: trial_kept_def raised_def)
  with assms(2,3) have "fl = max fl0 seq" "seq0 = seq" by (simp_all add: env_int_def py_int_write)
  with f show ?thesis by (simp add: raised_def)
qed

lemma wp_confirm_floor:
  assumes e: "h_env h (w_ext w) = Some e" and t: "trial_kept i slot m e" and seq: "env_int m ''epk_os_target_sequence'' = Inr seq"
  shows "wp (confirm_floor h e seq)
     (\<lambda>e' w'. h_env h (w_ext w') = Some e' \<and> trial_kept i slot m e' \<and>
        (e ''epk_os_phase'' = Some ''confirming'' \<longrightarrow> raised m (e' ''epk_os_floor''))) (\<lambda>_. env_is (trial_kept i slot m)) w"
proof (cases "e ''epk_os_phase'' = Some ''confirming''")
  case False
  with e t show ?thesis by (simp add: confirm_floor_def wp_simps)
next
  case True
  have last: "wp (set_env h [(''epk_os_floor'', Some (write_int (max fl seq))), (''epk_os_phase'', Some ''promoting'')])
     (\<lambda>e' w'. h_env h (w_ext w') = Some e' \<and> trial_kept i slot m e' \<and> raised m (e' ''epk_os_floor''))
     (\<lambda>_. env_is (trial_kept i slot m)) w1"
    if w1: "h_env h (w_ext w1) = Some e1" "trial_kept i slot m e1" and r: "raised m (Some (write_int (max fl seq)))" for w1 e1 fl
  proof -
    have "trial_kept i slot m e'" if "agree e' e1 \<or>
       agree e' (apply_updates [(''epk_os_floor'', Some (write_int (max fl seq))), (''epk_os_phase'', Some ''promoting'')] e1)" for e'
      using that
    proof
      assume "agree e' e1"
      with w1(2) show ?thesis by (rule trial_agree)
    next
      assume "agree e' (apply_updates [(''epk_os_floor'', Some (write_int (max fl seq))), (''epk_os_phase'', Some ''promoting'')] e1)"
      then have at: "n \<noteq> generation_name \<Longrightarrow>
          e' n = apply_updates [(''epk_os_floor'', Some (write_int (max fl seq))), (''epk_os_phase'', Some ''promoting'')] e1 n" for n
        by (simp add: agree_def)
      show ?thesis
        using w1(2) r by (simp add: trial_kept_def is_trial_def at apply_updates_def TRIAL_PHASES_def)
    qed
    then show ?thesis
      by (intro wp_use [OF wp_set_env [OF w1(1)]]) (use r in \<open>auto simp: env_holds_def\<close>)
  qed
  have fl: "raised m (Some (write_int (max fl seq)))" if "env_int e ''epk_os_floor'' = Inr fl" for fl
    by (rule raised_again [OF t seq that])
  have k: "framed e ma \<Longrightarrow> trial_kept i slot m ma" for ma
    using trial_unmarked [of i slot m] t by (auto simp: unmarked_def)
  show ?thesis
    unfolding confirm_floor_def wp_bind wp_if if_P [OF True]
  proof (rule wp_use [OF wp_good [OF e]])
    fix r w1 assume "env_is (framed e) w1 \<and> same_data w w1"
    then obtain e1 where e1: "h_env h (w_ext w1) = Some e1" "trial_kept i slot m e1" by (auto simp: env_holds_def k)
    then show "wp (case r of (ok, uu) \<Rightarrow>
          if \<not> ok then raise (OsUpdateError ''Could not confirm the new system'')
          else bind (lift (env_int e ''epk_os_floor'')) (\<lambda>fl.
            set_env h [(''epk_os_floor'', Some (write_int (max fl seq))), (''epk_os_phase'', Some ''promoting'')]))
        (\<lambda>e' w'. h_env h (w_ext w') = Some e' \<and> trial_kept i slot m e' \<and>
          (e ''epk_os_phase'' = Some ''confirming'' \<longrightarrow> raised m (e' ''epk_os_floor'')))
        (\<lambda>_. env_is (trial_kept i slot m)) w1"
      using True last [OF e1 fl] by (auto simp: wp_simps env_holds_def split: sum.split)
  qed (auto simp: env_holds_def k)
qed

lemma wp_finish_recorded:
  assumes "j_id (w_job w) = i"
  shows "wp (finish Confirmed None) (\<lambda>_ w'. recorded i w' \<and> w_ext w' = w_ext w) (\<lambda>_ w'. w_ext w' = w_ext w) w"
  using assms by (auto simp: finish_def in_memory_def save_def set_guard_def the_job_def wp_simps recorded_def guard_of_def TERMINAL_def
      split: list.split outcome.split)

lemma wp_rebuild:
  "env ''epk_os_pending'' = Some i \<Longrightarrow>
   wp (rebuild env jo) (\<lambda>_ w'. j_id (w_job w') = i \<and> w_ext w' = w_ext w) (\<lambda>_ w'. w_ext w' = w_ext w) w"
  by (auto simp: rebuild_def load_job_def in_memory_def save_def wp_simps rebuilt_job_def or_empty_def
      split: list.split outcome.split sum.split)

lemma wp_promote_ext: "wp (promote_app h) (\<lambda>_ w'. w_ext w' = w_ext w) (\<lambda>_ w'. w_ext w' = w_ext w) w"
proof -
  have "keeps (\<lambda>w'. w_ext w' = w_ext w) (write_app f)" for f :: "app_files \<Rightarrow> app_files"
    by (rule keepsI) (auto simp: wp_simps split: list.split outcome.split)
  then have "keeps (\<lambda>w'. w_ext w' = w_ext w) (promote_app h)"
    unfolding promote_app_def set_active_def Let_def by (intro keeps_rules)
  then show ?thesis by (rule keepsD) simp
qed

lemma wp_confirm:
  assumes m: "h_env h (w_ext w) = Some m"
  shows "wp (confirm_candidate h i)
     (\<lambda>r w'. r = 0 \<and> (\<exists>slot. booted_slot h = Inr slot \<and> is_trial m slot i) \<and> recorded i w' \<and>
        env_is (\<lambda>m'. cleared m m' \<and> (m ''epk_os_phase'' \<noteq> Some ''promoting'' \<longrightarrow> raised m (m' ''epk_os_floor''))) w')
     (\<lambda>_ w'. w' = w \<or> (\<exists>slot. booted_slot h = Inr slot \<and> is_trial m slot i \<and> stopped_at h i slot m w')) w"
proof -
  let ?Q = "\<lambda>r w'. r = 0 \<and> (\<exists>slot. booted_slot h = Inr slot \<and> is_trial m slot i) \<and> recorded i w' \<and>
        env_is (\<lambda>m'. cleared m m' \<and> (m ''epk_os_phase'' \<noteq> Some ''promoting'' \<longrightarrow> raised m (m' ''epk_os_floor''))) w'"
  let ?E = "\<lambda>_::exn. \<lambda>w'. w' = w \<or> (\<exists>slot. booted_slot h = Inr slot \<and> is_trial m slot i \<and> stopped_at h i slot m w')"
  have go: "wp (bind (if m ''epk_os_phase'' = Some ''activated'' then set_env h [(''epk_os_phase'', Some ''confirming'')] else ret m) (\<lambda>env.
       bind (confirm_floor h env seq) (\<lambda>env.
       if env (slot_left slot) \<noteq> Some ''3'' then raise (OsUpdateError ''The confirmed system did not keep its attempts'')
       else andthen (promote_app h)
           (bind journal (\<lambda>jo.
            andthen (rebuild env jo)
           (andthen (finish Confirmed None)
           (andthen (clear_pending h) (ret 0)))))))) ?Q ?E w"
    if slot: "booted_slot h = Inr slot" and trial: "is_trial m slot i" and seq: "env_int m ''epk_os_target_sequence'' = Inr seq" for slot seq
  proof -
    let ?T = "trial_kept i slot m"
    let ?R = "\<lambda>e w. (m ''epk_os_phase'' \<noteq> Some ''promoting'' \<longrightarrow> raised m (e ''epk_os_floor''))"
    have err: "env_is ?T w' \<Longrightarrow> ?E e w'" for e w' using slot trial by (auto simp: stopped_at_def)
    have clear: "wp (andthen (clear_pending h) (ret 0)) ?Q ?E w4"
      if "h_env h (w_ext w4) = Some e4" "?T e4" "?R e4 w4" "recorded i w4" for w4 e4
    proof -
      have f: "agree m' e4 \<or> agree m' (apply_updates (map (\<lambda>n. (n, None)) PENDING) e4) \<Longrightarrow> m' ''epk_os_floor'' = e4 ''epk_os_floor''" for m'
        by (auto simp: agree_def apply_updates_def PENDING_def)
      have c: "agree m' (apply_updates (map (\<lambda>n. (n, None)) PENDING) e4) \<Longrightarrow> n \<in> set PENDING \<Longrightarrow> m' n = None" for m' n
        by (auto simp: agree_def apply_updates_def PENDING_def)
      have d: "recorded i w4 \<Longrightarrow> same_data w4 w5 \<Longrightarrow> recorded i w5" for w5
        by (simp add: recorded_def same_data_def same_files_def guard_of_def)
      show ?thesis
        unfolding clear_pending_def wp_andthen wp_ret
      proof (rule wp_use [OF wp_set_env [OF that(1)]], goal_cases)
        case (1 env' w5)
        with f [of env'] c [of env'] d that slot trial show ?case by (auto simp: env_holds_def cleared_def trial_kept_def)
      next
        case (2 e w5)
        then obtain m' where m': "h_env h (w_ext w5) = Some m'"
          "agree m' e4 \<or> agree m' (apply_updates (map (\<lambda>n. (n, None)) PENDING) e4)" by (auto simp: env_holds_def)
        from 2 d that have r: "recorded i w5" by simp
        have "?T m' \<or> cleared m m'"
          using m'(2) f [OF m'(2)] c [of m'] that(2) trial_agree [OF that(2), of m'] by (auto simp: cleared_def trial_kept_def)
        with m'(1) r slot trial show ?case by (auto simp: stopped_at_def env_holds_def)
      qed
    qed
    have rest: "wp (if e (slot_left slot) \<noteq> Some ''3'' then raise (OsUpdateError ''The confirmed system did not keep its attempts'')
       else andthen (promote_app h)
           (bind journal (\<lambda>jo.
            andthen (rebuild e jo)
           (andthen (finish Confirmed None)
           (andthen (clear_pending h) (ret 0)))))) ?Q ?E w3"
      if e: "h_env h (w_ext w3) = Some e" "?T e" "?R e w3" for w3 e
    proof -
      have pend: "e ''epk_os_pending'' = Some i" using e(2) by (simp add: trial_kept_def is_trial_def)
      have stop: "w_ext w' = w_ext w3 \<Longrightarrow> ?E x w'" for x w' using err [of w'] e by (simp add: env_holds_def)
      have fin: "wp (andthen (finish Confirmed None) (andthen (clear_pending h) (ret 0))) ?Q ?E w4"
        if "w_ext w4 = w_ext w3" "j_id (w_job w4) = i" for w4
        unfolding wp_andthen [of "finish _ _"]
        by (rule wp_use [OF wp_finish_recorded [OF that(2)]]) (rule clear [of _ e] stop; use that(1) e in simp)+
      have reb: "wp (andthen (rebuild e jo) (andthen (finish Confirmed None) (andthen (clear_pending h) (ret 0)))) ?Q ?E w4"
        if "w_ext w4 = w_ext w3" for w4 jo
        unfolding wp_andthen [of "rebuild _ _"]
        by (rule wp_use [OF wp_rebuild [of e, OF pend]]) (rule fin stop; use that in simp)+
      have jr: "wp (bind journal (\<lambda>jo. andthen (rebuild e jo) (andthen (finish Confirmed None) (andthen (clear_pending h) (ret 0))))) ?Q ?E w4"
        if "w_ext w4 = w_ext w3" for w4
        unfolding journal_def using that reb stop by (auto simp: wp_bind wp_lift wp_get_state split: sum.split)
      show ?thesis
        unfolding wp_if wp_andthen [of "promote_app _"] wp_raise
        using stop [of w3] by (auto intro!: wp_use [OF wp_promote_ext] jr stop)
    qed
    have flo: "wp (bind (confirm_floor h e seq) (\<lambda>e. if e (slot_left slot) \<noteq> Some ''3'' then raise (OsUpdateError ''The confirmed system did not keep its attempts'')
       else andthen (promote_app h)
           (bind journal (\<lambda>jo.
            andthen (rebuild e jo)
           (andthen (finish Confirmed None)
           (andthen (clear_pending h) (ret 0))))))) ?Q ?E w2"
      if e: "h_env h (w_ext w2) = Some e" "?T e" "m ''epk_os_phase'' \<noteq> Some ''promoting'' \<longrightarrow> e ''epk_os_phase'' = Some ''confirming''" for w2 e
      unfolding wp_bind [of "confirm_floor _ _ _"]
      by (rule wp_use [OF wp_confirm_floor [OF e(1,2) seq]]) (use e(3) in \<open>blast intro: rest\<close>, erule err)
    show ?thesis
    proof (cases "m ''epk_os_phase'' = Some ''activated''")
      case True
      have "batch_keeps [(''epk_os_phase'', Some ''confirming'')] ?T" by (rule trial_phase) (simp add: TRIAL_PHASES_def)
      then have p: "agree m' m \<or> agree m' (apply_updates [(''epk_os_phase'', Some ''confirming'')] m) \<Longrightarrow> ?T m'" for m'
        using trial_refl [OF trial] unfolding batch_keeps_def by blast
      show ?thesis
        unfolding if_P [OF True] wp_bind [of "set_env _ _"]
      proof (rule wp_use [OF wp_set_env [OF m]], goal_cases)
        case (1 env w2)
        then show ?case by (intro flo p) auto
      next
        case (2 e w2)
        then have "env_is ?T w2" using p by (auto simp: env_holds_def)
        then show ?case by (rule err)
      qed
    next
      case False
      with trial have "m ''epk_os_phase'' \<noteq> Some ''promoting'' \<longrightarrow> m ''epk_os_phase'' = Some ''confirming''"
        by (auto simp: is_trial_def TRIAL_PHASES_def)
      with False show ?thesis
        unfolding if_not_P [OF False] wp_bind [of "ret _"] wp_ret
        by (intro flo m trial_refl trial)
    qed
  qed
  have eq: "x w = y w \<Longrightarrow> wp y Q E w \<Longrightarrow> wp x Q E w" for x y :: "('x, nat) run" and Q E by (simp add: wp_def)
  show ?thesis
  proof (cases "booted_slot h")
    case (Inl e)
    with m show ?thesis by (simp add: confirm_candidate_def printenv_def wp_simps)
  next
    case (Inr slot)
    consider "\<not> is_trial m slot i" | e where "is_trial m slot i" "env_int m ''epk_os_target_sequence'' = Inl e"
      | seq where "is_trial m slot i" "env_int m ''epk_os_target_sequence'' = Inr seq"
      by (cases "env_int m ''epk_os_target_sequence''") auto
    then show ?thesis
    proof cases
      case 3
      show ?thesis
        by (rule eq [OF _ go [OF Inr 3]]) (simp add: confirm_candidate_def printenv_def bind_def ask_def lift_def m Inr 3)
    qed (use m Inr in \<open>simp_all add: confirm_candidate_def printenv_def bind_def ask_def lift_def raise_def wp_def\<close>)
  qed
qed

section \<open>Activation\<close>

lemma slot_left_names [simp]: "slot_left s \<noteq> generation_name" "slot_left s \<notin> set PENDING" "slot_left s \<noteq> ''epk_os_phase''"
  by (simp_all add: slot_left_def PENDING_def)

lemma bound_unmarked [keeps_rules]: "unmarked (bound j)"
  by (simp add: unmarked_def framed_def boot_vars_def bound_def)

lemma agree_at: "agree m' m \<Longrightarrow> n \<noteq> generation_name \<Longrightarrow> m' n = m n"
  by (simp add: agree_def)

lemma bound_agree: "bound j m \<Longrightarrow> agree m' m \<Longrightarrow> bound j m'"
  by (simp add: bound_def agree_at)

lemma safe_agree: "safe j m \<Longrightarrow> agree m' m \<Longrightarrow> safe j m'"
  using bound_agree [of j m m'] by (auto simp: safe_def held_def agree_at)

lemma bound_intent: "agree m' (apply_updates (intent_batch j sha) m) \<Longrightarrow> bound j m'"
  by (simp add: bound_def agree_at apply_updates_def intent_batch_def)

lemma bound_activated: "bound j m \<Longrightarrow> agree m' (apply_updates [(''epk_os_phase'', Some ''activated'')] m) \<Longrightarrow> bound j m'"
  by (simp add: bound_def agree_at apply_updates_def)

lemma held_cleared: "held m s \<Longrightarrow> agree m' (apply_updates (map (\<lambda>n. (n, None)) PENDING) m) \<Longrightarrow> held m' s"
  by (simp add: held_def agree_at apply_updates_def map_of_map_restrict restrict_map_def)

lemma cleared_pending: "agree m' (apply_updates (map (\<lambda>n. (n, None)) PENDING) m) \<Longrightarrow> n \<in> set PENDING \<Longrightarrow> m' n = None"
  by (auto simp: agree_at apply_updates_def PENDING_def)

lemma keeps_revalidate [keeps_rules]: "keeps I (revalidate h)"
  unfolding revalidate_def verify_target_def by (intro keeps_rules)

lemma wp_job: "wp the_job Q E w = Q (w_job w) w"
  by (simp add: the_job_def wp_simps)

lemma wp_the_job: "wp (bind the_job k) Q E w = wp (k (w_job w)) Q E w"
  by (simp add: the_job_def wp_simps)

lemma wp_back:
  assumes m: "h_env h (w_ext w) = Some m" and s: "safe j m" and j: "j_target (w_job w) = j_target j" "j_id (w_job w) = j_id j"
  shows "wp (back_to_ready h msg) (\<lambda>r w'. env_is (safe j) w' \<and> r = 1 \<and> refused h j w') (\<lambda>_. env_is (safe j)) w"
proof -
  let ?T = "\<lambda>w'. env_is (safe j) w' \<and> w_job w' = w_job w"
  let ?D = "\<lambda>w'. env_is (\<lambda>m'. held m' (j_target j) \<and> (\<forall>n\<in>set PENDING. m' n = None)) w' \<and> w_job w' = w_job w"
  have clear: "wp (andthen (clear_pending h) (ret True)) (\<lambda>b w'. if b then ?D w' else ?T w') (\<lambda>_. ?T) w1"
    if "h_env h (w_ext w1) = Some m1" "held m1 (j_target j)" "w_job w1 = w_job w" for w1 m1
    unfolding clear_pending_def wp_andthen wp_ret
  proof (rule wp_use [OF wp_set_env [OF that(1)]], goal_cases)
    case (1 env w2)
    then show ?case
      using that held_cleared [OF that(2), of env] cleared_pending [of env m1] by (auto simp: env_holds_def same_data_def)
  next
    case (2 e w2)
    then obtain m' where m': "h_env h (w_ext w2) = Some m'" "agree m' m1 \<or> agree m' (apply_updates (map (\<lambda>n. (n, None)) PENDING) m1)"
      and d: "same_data w1 w2" by (auto simp: env_holds_def)
    then have "held m' (j_target j)" using that(2) held_cleared [OF that(2), of m'] by (auto simp: held_def agree_at)
    with m' d that(3) show ?case by (auto simp: env_holds_def safe_def same_data_def)
  qed
  have tb: "wp (bind (target_bad h (j_target j)) (\<lambda>safe. if safe then andthen (clear_pending h) (ret safe) else ret safe))
     (\<lambda>b w'. if b then ?D w' else ?T w') (\<lambda>_. ?T) w"
    unfolding wp_bind
  proof (rule wp_use [OF wp_target_bad [OF m]], goal_cases)
    case (1 b w1)
    then obtain m1 where m1: "h_env h (w_ext w1) = Some m1" "framed m m1" "b = held m1 (j_target j)"
      "held m (j_target j) \<longrightarrow> held m1 (j_target j)" and d: "same_data w w1" by (auto simp: env_holds_def)
    have "safe j m1" using s m1 bound_unmarked [of j] by (auto simp: safe_def unmarked_def)
    with m1 d clear [of w1 m1] show ?case by (auto simp: wp_ret wp_if env_holds_def same_data_def)
  next
    case (2 e w1)
    then show ?case using s bound_unmarked [of j] by (auto simp: safe_def unmarked_def env_holds_def same_data_def)
  qed
  have unsure: "wp (mark_unsure (w_job w) (msg @ ''; the system state needs checking''))
     (\<lambda>r w'. env_is (safe j) w' \<and> r = 1 \<and> refused h j w') (\<lambda>_. env_is (safe j)) w1" if "?T w1" for w1
    using that j by (auto simp: mark_unsure_def in_memory_def save_def set_guard_def wp_simps env_holds_def refused_def guard_of_def
        split: list.split outcome.split)
  have ready: "wp (andthen (in_memory (\<lambda>j. j\<lparr>j_state := Ready, j_error := Some msg, j_progress := phase_only ''ready''\<rparr>))
         (andthen save (andthen (set_guard Pending (Some (j_id (w_job w)))) (ret 1))))
     (\<lambda>r w'. env_is (safe j) w' \<and> r = 1 \<and> refused h j w') (\<lambda>_. env_is (safe j)) w1" if "?D w1" for w1
    using that j by (auto simp: in_memory_def save_def set_guard_def wp_simps env_holds_def refused_def guard_of_def safe_def
        split: list.split outcome.split)
  show ?thesis
    unfolding back_to_ready_def wp_the_job j(1) wp_bind [of "try_catch _ _"] wp_try_catch
    by (rule wp_use [OF tb])
      (use unsure ready in \<open>auto simp: wp_if wp_ret wp_bind wp_get_state simp del: One_nat_def split: if_split_asm exn.split option.split\<close>)
qed

lemma wp_revalidate: "wp (revalidate h) (\<lambda>_ w'. w' = w \<and> revalidated h w) (\<lambda>_ w'. w' = w) w"
proof -
  have v: "revalidated h w" if "platform_of h = Inr (Some plat)" "h_env h (w_ext w) = Some env"
    "current_state (h_crypto h) (h_root h) plat env = Inr st" "unb64 (j_entry (w_job w)) = Inr raw" "unb64 (j_entry_sig (w_job w)) = Inr sig"
    "verify_os_release (h_crypto h) raw sig plat (t_policy st) = Inr entry" "t_floor st < e_sequence entry"
    "f_os_sequence plat < e_sequence entry" "app_blockers h (w_ext w) = []" "admit OCI_ALLOWANCE (h_usage h (w_ext w)) = Inr space"
    "verified h (w_ext w) (w_job w)" for plat env st raw sig entry space
    using that unfolding revalidated_def by blast
  show ?thesis
    unfolding revalidate_def trust_now_def printenv_def
    by (auto simp: wp_bind wp_lift wp_ask wp_option wp_raise wp_job admissible_Inr
        split: sum.split option.split list.split intro!: wp_use [OF verify_target_ok] intro: v)
qed

lemma wp_intent:
  assumes m: "h_env h (w_ext w) = Some m" and s: "safe (w_job w) m"
  shows "wp (write_intent h) (\<lambda>_ w'. env_is (bound (w_job w)) w' \<and> w_job w' = w_job w \<and> revalidated h w)
     (\<lambda>_ w'. env_is (safe (w_job w)) w' \<and> w_job w' = w_job w) w"
proof -
  have e: "env_is (safe (w_job w)) w" using m s by (auto simp: env_holds_def)
  have set: "wp (andthen (set_env h (intent_batch (w_job w) sha)) (ret ()))
     (\<lambda>_ w'. env_is (bound (w_job w)) w' \<and> w_job w' = w_job w \<and> revalidated h w)
     (\<lambda>_ w'. env_is (safe (w_job w)) w' \<and> w_job w' = w_job w) w" if "revalidated h w" for sha
    unfolding wp_andthen wp_ret
  proof (rule wp_use [OF wp_set_env [OF m]], goal_cases)
    case (1 env w')
    then show ?case using that bound_intent by (auto simp: env_holds_def same_data_def)
  next
    case (2 e w')
    then show ?case using safe_agree [OF s] bound_intent by (auto simp: env_holds_def same_data_def safe_def)
  qed
  show ?thesis
    unfolding write_intent_def wp_the_job wp_andthen [of "revalidate h"]
    by (rule wp_use [OF wp_revalidate]) (use m e set in \<open>auto simp: wp_bind printenv_def wp_ask wp_lift wp_if wp_option wp_raise split: option.split\<close>)
qed

lemma wp_activate:
  assumes m: "h_env h (w_ext w) = Some m" and s: "safe (w_job w) m"
  shows "wp (activate h) (\<lambda>r w'. env_is (safe (w_job w)) w' \<and> (r = 0 \<and> launched h w w' \<or> r = 1 \<and> refused h (w_job w) w'))
     (\<lambda>_. env_is (safe (w_job w))) w"
proof -
  let ?j = "w_job w"
  let ?Q = "\<lambda>(r::nat) w'. env_is (safe ?j) w' \<and> (r = 0 \<and> launched h w w' \<or> r = 1 \<and> refused h ?j w')"
  let ?E = "\<lambda>_::exn. env_is (safe ?j)"
  have sb: "env_is (bound ?j) w' \<Longrightarrow> env_is (safe ?j) w'" for w' by (auto simp: env_holds_def safe_def)
  have bk: "wp (back_to_ready h msg) ?Q ?E w1" if "env_is (safe ?j) w1" "w_job w1 = ?j" for msg w1
    using that by (auto simp: env_holds_def intro!: wp_use [OF wp_back])
  have fin: "wp (andthen (in_memory (\<lambda>j. j\<lparr>j_progress := (phase_only ''restarting'')\<lparr>pr_activated := True\<rparr>\<rparr>))
       (andthen save (andthen (run_command ''systemctl'' (h_reboot h)) (ret 0)))) ?Q ?E w1"
    if "h_env h (w_ext w1) = Some m1" "bound ?j m1" "m1 ''epk_os_phase'' = Some ''activated''" "revalidated h w" "w_job w1 = ?j" for w1 m1
    using that reboot
    by (auto simp: in_memory_def save_def run_command_def wp_simps env_holds_def launched_def safe_def
        split: list.split outcome.split answer.split)
  have act: "wp (andthen (set_env h [(''epk_os_phase'', Some ''activated'')])
       (andthen (in_memory (\<lambda>j. j\<lparr>j_progress := (phase_only ''restarting'')\<lparr>pr_activated := True\<rparr>\<rparr>))
       (andthen save (andthen (run_command ''systemctl'' (h_reboot h)) (ret 0))))) ?Q ?E w1"
    if "h_env h (w_ext w1) = Some m1" "bound ?j m1" "revalidated h w" "w_job w1 = ?j" for w1 m1
    unfolding wp_andthen [of "set_env _ _"]
  proof (rule wp_use [OF wp_set_env [OF that(1)]], goal_cases)
    case (1 env w2)
    then show ?case using that bound_activated [OF that(2), of env] by (intro fin [of w2 env]) (auto simp: same_data_def)
  next
    case (2 e w2)
    then show ?case using bound_agree [OF that(2)] bound_activated [OF that(2)] by (auto simp: env_holds_def safe_def)
  qed
  have go: "wp (andthen (run_command ''rauc'' (h_mark h ''mark-active'' (slot_device (j_target ?j))))
        (bind (printenv h) (\<lambda>env.
         if \<not> first_in_order env (j_target ?j) \<or> env (slot_left (j_target ?j)) \<noteq> Some ''3''
         then back_to_ready h ''The system could not be set to start the new version''
         else andthen (set_env h [(''epk_os_phase'', Some ''activated'')])
             (andthen (in_memory (\<lambda>j. j\<lparr>j_progress := (phase_only ''restarting'')\<lparr>pr_activated := True\<rparr>\<rparr>))
             (andthen save
             (andthen (run_command ''systemctl'' (h_reboot h)) (ret 0))))))) ?Q ?E w1"
    if at: "env_is (bound ?j) w1" "w_job w1 = ?j" "revalidated h w" for w1
  proof -
    obtain m1 where m1: "h_env h (w_ext w1) = Some m1" "bound ?j m1" using at(1) by (auto simp: env_holds_def)
    have k: "framed m1 m2 \<Longrightarrow> bound ?j m2" for m2 using bound_unmarked [of ?j] m1(2) by (auto simp: unmarked_def)
    show ?thesis
      unfolding wp_andthen [of "run_command ''rauc'' _"]
    proof (rule wp_use [OF wp_mark [OF m1(1)]], goal_cases)
      case (1 x w2)
      then obtain m2 where m2: "h_env h (w_ext w2) = Some m2" "bound ?j m2" "w_job w2 = ?j"
        using k at(2) by (auto simp: env_holds_def same_data_def)
      then have "env_is (safe ?j) w2" by (auto simp: env_holds_def safe_def)
      then show ?case
        using bk [OF _ m2(3)] act [OF m2(1,2) at(3) m2(3)] m2(1)
        by (simp add: wp_bind printenv_def wp_ask wp_lift del: One_nat_def)
    next
      case (2 e w2)
      then show ?case using k by (auto simp: env_holds_def safe_def)
    qed
  qed
  have attempt: "wp (bind (try_catch (andthen (write_intent h) (ret None))
         (\<lambda>e. case e of OsUpdateError m \<Rightarrow> Some (ret (Some m)) | TrustError m \<Rightarrow> Some (ret (Some m))
            | StorageError m \<Rightarrow> Some (ret (Some m)) | _ \<Rightarrow> None)) K) ?Q ?E w"
    if k: "\<And>msg w1. env_is (safe ?j) w1 \<Longrightarrow> w_job w1 = ?j \<Longrightarrow> wp (K (Some msg)) ?Q ?E w1"
      "\<And>w1. env_is (bound ?j) w1 \<Longrightarrow> w_job w1 = ?j \<Longrightarrow> revalidated h w \<Longrightarrow> wp (K None) ?Q ?E w1" for K
    unfolding wp_bind wp_try_catch wp_andthen wp_ret
    by (rule wp_use [OF wp_intent [OF m s]]) (use k in \<open>auto simp: wp_ret split: exn.split\<close>)
  let ?only = "pr_activated (j_progress ?j) \<and> m ''epk_os_phase'' = Some ''activated''"
  have test: "wp (bind (if pr_activated (j_progress ?j) then bind (printenv h) (\<lambda>env. ret (env ''epk_os_phase'' = Some ''activated'')) else ret False) K)
     ?Q ?E w = wp (K ?only) ?Q ?E w" for K
    using m by (simp add: wp_bind printenv_def wp_ask wp_lift wp_ret)
  have boot: "wp (andthen (run_command ''systemctl'' (h_reboot h)) (ret 0)) ?Q ?E w" if ?only
    using that m s reboot by (auto simp: run_command_def wp_simps env_holds_def launched_def split: list.split outcome.split answer.split)
  show ?thesis
  proof (cases ?only)
    case True
    show ?thesis unfolding activate_def wp_the_job test if_P [OF True] by (rule boot [OF True])
  next
    case False
    show ?thesis
      unfolding activate_def wp_the_job test if_not_P [OF False]
      by (rule attempt) (simp_all only: option.case bk go)
  qed
qed

text \<open>The loader after an activation that stopped anywhere: it starts the target only as the recorded trial.\<close>

lemma launch_recorded:
  assumes m: "h_env h x = Some m" and s: "safe j m" and t: "j_target j \<in> {''A'', ''B''}" and i: "j_id j \<noteq> []"
    and l: "loader (h_env h) (h_set h) x = (Inr (j_target j), x')"
  shows "\<exists>m'. h_env h x' = Some m' \<and> bound j m \<and> var m' ''epk_os_trial_started'' = j_id j \<and> m' ''epk_os_pending'' = Some (j_id j)"
proof -
  obtain m0 where m0: "h_env h x = Some m0" "pick_slot m0 = Some (j_target j)" by (rule loader_launchE [OF l]) blast
  with m have "eligible m (j_target j)" using pick_slotD(1) by auto
  then have "\<not> held m (j_target j)" using t by (auto simp: eligible_def held_def slot_left_def var_def)
  with s have b: "bound j m" by (simp add: safe_def)
  have v: "var m ''epk_os_pending'' = j_id j" "var m ''epk_os_target'' = j_target j" using b by (simp_all add: bound_def var_def)
  obtain m' where m': "h_env h x' = Some m'" "var m' ''epk_os_trial_started'' = j_id j"
  proof -
    obtain m1 m2 where "h_env h x = Some m1" "h_env h x' = Some m2"
      "if var m1 ''epk_os_pending'' \<noteq> [] \<and> j_target j = var m1 ''epk_os_target''
       then var m2 ''epk_os_trial_started'' = var m1 ''epk_os_pending'' \<and> var m1 ''epk_os_phase'' \<noteq> ''ready''
       else m2 ''epk_os_trial_started'' = m1 ''epk_os_trial_started''" using launch_marks_trial [OF l] by blast
    with m v i that [of m2] show ?thesis by simp
  qed
  obtain m1 m2 where "h_env h x = Some m1" "h_env h x' = Some m2" "\<forall>n. n \<notin> boot_names (j_target j) \<longrightarrow> m2 n = m1 n"
    using launch_spends [OF l] by blast
  moreover have "''epk_os_pending'' \<notin> boot_names (j_target j)" using t by (auto simp: boot_names_def)
  ultimately have "m' ''epk_os_pending'' = m ''epk_os_pending''" using m m' by simp
  with m' b show ?thesis by (auto simp: bound_def)
qed

end

section \<open>RAUC over the guarded environment\<close>

text \<open>
  RAUC's U-Boot backend over a store: \<open>mark-bad\<close> takes the attempts of a slot, \<open>mark-active\<close> puts it first
  with three, \<open>mark-good\<close> gives the booted slot its attempts back.
\<close>

definition rauc_slot :: "string \<Rightarrow> string \<Rightarrow> string" where
  "rauc_slot booted dev = (if dev = ''rootfs.0'' then ''A'' else if dev = ''rootfs.1'' then ''B'' else booted)"

definition rauc_batch :: "string \<Rightarrow> string \<Rightarrow> updates" where
  "rauc_batch verb slot =
     (if verb = ''mark-bad'' then [(slot_left slot, Some ''0'')]
      else [(''BOOT_ORDER'', Some (slot @ '' '' @ other_slot slot)), (slot_left slot, Some ''3'')])"

definition rauc_box :: "('x \<Rightarrow> (string \<rightharpoonup> string) option) \<Rightarrow> (updates \<Rightarrow> 'x \<Rightarrow> bool \<times> 'x) \<Rightarrow> bool \<Rightarrow> 'x host \<Rightarrow> 'x host" where
  "rauc_box rd wr in_a h =
     (let booted = (if in_a then ''A'' else ''B'') in
      h\<lparr>h_cmdline := ''rauc.slot='' @ booted, h_env := rd, h_set := wr,
        h_mark := (\<lambda>verb dev x. (Exited True (), snd (wr (rauc_batch verb (rauc_slot booted dev)) x))),
        h_good := (\<lambda>x. (Exited True (), snd (wr [(slot_left booted, Some ''3'')] x))),
        h_reboot := (\<lambda>x. (fst (h_reboot h x), x)), h_start := (\<lambda>x. (fst (h_start h x), x))\<rparr>)"

lemma rauc_box_laws:
  assumes "env_store rd wr"
  shows "rauc_host (rauc_box rd wr in_a h)"
proof -
  have ab: "rauc_slot (if in_a then ''A'' else ''B'') dev \<in> {''A'', ''B''}" for dev by (simp add: rauc_slot_def)
  have frame: "\<exists>m'. rd (snd (wr us x)) = Some m' \<and> framed m m'"
    if "rd x = Some m" "fst ` set us \<subseteq> boot_vars" for us x m
  proof -
    obtain ok x' where w: "wr us x = (ok, x')" by fastforce
    from env_store.wr_whole [OF assms w that(1)] obtain m' where m': "rd x' = Some m'" by blast
    have "m' n = m n" if "n \<notin> boot_vars" for n
      by (rule env_store.wr_frame [OF assms w \<open>rd x = Some m\<close> m'])
        (use that \<open>fst ` set us \<subseteq> boot_vars\<close> in \<open>auto simp: boot_vars_def\<close>)
    with w m' show ?thesis by (simp add: framed_def)
  qed
  have batch: "fst ` set (rauc_batch verb slot) \<subseteq> boot_vars" if "slot \<in> {''A'', ''B''}" for verb slot
    using that by (auto simp: rauc_batch_def boot_vars_def slot_left_def)
  have bad: "m' (slot_left s) \<in> {m (slot_left s), Some ''0''}"
    if "rd x = Some m" "rd (snd (wr (rauc_batch ''mark-bad'' s) x)) = Some m'" for x m m' s
  proof -
    obtain ok x' where w: "wr (rauc_batch ''mark-bad'' s) x = (ok, x')" by fastforce
    from env_store.wr_whole [OF assms w that(1)] that(2) w
    have "agree m' m \<or> agree m' (apply_updates (rauc_batch ''mark-bad'' s) m)" by auto
    then show ?thesis by (auto simp: agree_def apply_updates_def rauc_batch_def slot_left_def)
  qed
  have dev: "rauc_slot b (slot_device s) = s" if "s \<in> {''A'', ''B''}" for b s
    using that by (auto simp: rauc_slot_def slot_device_def)
  show ?thesis
  proof (rule rauc_host.intro, goal_cases)
    case 1
    show ?case using assms by (simp add: rauc_box_def Let_def)
  next
    case 2
    show ?case
    proof (rule rauc_host_axioms.intro, goal_cases)
      case (1 v d x a x' m)
      then show ?case using frame [OF _ batch [OF ab]] by (auto simp: rauc_box_def Let_def)
    next
      case (2 s x a x' m m')
      then show ?case using bad by (auto simp: rauc_box_def Let_def dev)
    next
      case (3 x a x' m)
      then show ?case using frame [of x m "[(slot_left (if in_a then ''A'' else ''B''), Some ''3'')]"]
        by (auto simp: rauc_box_def Let_def boot_vars_def slot_left_def)
    qed (simp_all add: rauc_box_def Let_def)
  qed
qed

interpretation guarded_rauc: rauc_host "rauc_box guard_read guard_write in_a h" for in_a :: bool and h :: "guarded host"
  by (rule rauc_box_laws) unfold_locales

text \<open>A store that holds the map itself and refuses what the guard refuses.\<close>

definition plain_read :: "(string \<rightharpoonup> string) \<Rightarrow> (string \<rightharpoonup> string) option" where
  "plain_read m = (if floor_of m = None \<or> epoch_of m = None then None else Some m)"

definition plain_write :: "updates \<Rightarrow> (string \<rightharpoonup> string) \<Rightarrow> bool \<times> (string \<rightharpoonup> string)" where
  "plain_write us m =
     (let m' = apply_updates us m in
      case (floor_of m, floor_of m', epoch_of m, epoch_of m') of
        (Some f, Some f', Some e, Some e') \<Rightarrow> if f \<le> f' \<and> e \<le> e' then (True, m') else (False, m)
      | _ \<Rightarrow> (False, m))"

lemma plain_store: "env_store plain_read plain_write"
  by unfold_locales
    (auto simp: plain_read_def plain_write_def Let_def agree_def split: if_split_asm option.split_asm)

end
