(* ===== verification/Epk_Trial.thy ===== *)
theory Epk_Trial
  imports Epk_Finish
begin

text \<open>
  The properties of finishing an OS update: activation, trial, confirmation, rollback, for every host
  that keeps to \<open>rauc_host\<close> and wherever an operation stops.
\<close>

section \<open>The guard through activation and boot\<close>

lemma busy_durable [keeps_rules]: "(\<And>w. w_guard (f w) = w_guard w) \<Longrightarrow> keeps busy (durable f)"
  by (rule keepsI) (auto simp: wp_simps busy_def guard_of_def split: list.split outcome.split)

lemma busy_memory [keeps_rules]: "keeps busy (in_memory f)"
  unfolding in_memory_def by (rule keeps_modify) (simp add: busy_def guard_of_def)

lemma busy_outside [keeps_rules]: "keeps busy (outside f)"
  by (rule keepsI) (auto simp: wp_simps busy_def guard_of_def split: list.split outcome.split)

lemma busy_command [keeps_rules]: "keeps busy (run_command name f)"
  unfolding run_command_def by (intro keeps_rules)

lemma busy_guard [keeps_rules]: "g \<noteq> Idle \<Longrightarrow> keeps busy (set_guard g i)"
  unfolding set_guard_def
  by (rule keepsI) (auto simp: wp_simps busy_def guard_of_def split: list.split outcome.split)

lemma busy_env [keeps_rules]: "keeps busy (set_env h us)" "keeps busy (clear_pending h)" "keeps busy (target_bad h t)"
  unfolding set_env_def clear_pending_def target_bad_def by (intro keeps_rules)+

lemma busy_save [keeps_rules]: "keeps busy save"
  unfolding save_def by (intro keeps_rules) simp

lemma keeps_checks [keeps_rules]: "keeps I (revalidate h)"
  unfolding revalidate_def verify_target_def by (intro keeps_rules)

lemma busy_back [keeps_rules]: "keeps busy (back_to_ready h msg)"
  unfolding back_to_ready_def mark_unsure_def by (intro keeps_rules) (auto intro: keeps_rules split: exn.split_asm)

lemma busy_intent [keeps_rules]: "keeps busy (write_intent h)"
  unfolding write_intent_def by (intro keeps_rules)

lemma busy_activate: "keeps busy (activate h)"
  unfolding activate_def by (intro keeps_rules) (auto intro: keeps_rules split: exn.split_asm)

text \<open>
  The worker keeps the guard through every job, downloads, installations, reconciled installations and activations, whatever
  the host answers and wherever it stops: the guard never reads idle while the
  journal holds a job that may have touched the other slot.
\<close>

theorem worker_keeps_guard:
  assumes "guard_kept w"
  shows "guard_kept (snd (run_worker h answers polls (activate h) w))"
proof (rule guard_worker.run_worker_F [OF assms])
  show "busy (w'\<lparr>w_guard := Guard Active (Some (j_id j))\<rparr>)" for w' :: "'a world" and j
    by (simp add: busy_def guard_of_def)
  show "wp (activate h) (\<lambda>_. guard_kept) (\<lambda>_. guard_kept) w'" if "guard_of w' = Active" for w'
  proof -
    have "busy w'" using that by (simp add: busy_def)
    then show ?thesis
      by (rule wp_use [OF keepsD [OF busy_activate]]) (simp_all add: busy_def guard_kept_def)
  qed
qed

theorem worker_keeps_guard_witness:
  "guard_kept sample_world \<and> guard_kept (snd (run_worker sample_host [None] 0 (activate sample_host) sample_world))"
proof -
  have "guard_kept sample_world" by (simp add: guard_kept_def guard_of_def sample_world_def)
  with worker_keeps_guard [OF this] show ?thesis by blast
qed

section \<open>Sample hosts\<close>

definition trial_host :: "(string \<rightharpoonup> string) host" where
  "trial_host = rauc_box plain_read plain_write False
    \<lparr>h_crypto = sample_crypto, h_root = None, h_platform = Missing, h_cmdline = [], h_health = (\<lambda>_. (None, None)),
     h_env = plain_read, h_set = plain_write, h_inspect = (\<lambda>_. Timeout), h_fetch = (\<lambda>_ _. Inl []), h_usage = (\<lambda>_. (0, 0)),
     h_uuid = (\<lambda>_. []), h_active = (\<lambda>_. Timeout), h_start = (\<lambda>x. (Timeout, x)), h_mark = (\<lambda>_ _ x. (Timeout, x)),
     h_reboot = (\<lambda>x. (Exited True (), x)), h_slot = (\<lambda>_ _. None), h_get = (\<lambda>_ _ x. (NoAnswer, x)), h_owner = (\<lambda>_. Timeout),
     h_operation = (\<lambda>_. Timeout), h_last_error = (\<lambda>_. Timeout), h_invocation = (\<lambda>_. Timeout), h_start_rauc = (\<lambda>x. (Timeout, x)),
     h_restart_rauc = (\<lambda>x. (Timeout, x)), h_install = (\<lambda>_ _ x. (([], True), x)), h_wait = (\<lambda>x. x), h_good = (\<lambda>x. (Timeout, x)),
     h_image_env = None, h_app_key = None, h_app_inspect = (\<lambda>_ _ _. Timeout), h_pull = (\<lambda>_ x. (Timeout, x)),
     h_restart_app = (\<lambda>x. (Timeout, x)), h_remove_image = (\<lambda>_ x. (Timeout, x)), h_lease = (\<lambda>_. None)\<rparr>"

text \<open>The environment of an activated update to B whose trial has or has not started.\<close>

definition trial_guard :: "bool \<Rightarrow> string \<rightharpoonup> string" where
  "trial_guard begun = map_of
     ([(''epk_state_schema'', ''1''), (''epk_os_floor'', ''3''), (''epk_trust_epoch'', ''2''), (''BOOT_ORDER'', ''B A''),
       (''BOOT_A_LEFT'', ''3''), (''BOOT_B_LEFT'', ''3''), (''epk_os_pending'', ''0f0f''), (''epk_os_target'', ''B''),
       (''epk_os_from'', ''A''), (''epk_os_target_sequence'', ''7''), (''epk_os_target_sha256'', ''00''),
       (''epk_os_phase'', ''activated'')] @ (if begun then [(''epk_os_trial_started'', ''0f0f'')] else []))"

definition trial_world :: "bool \<Rightarrow> outcome list \<Rightarrow> (string \<rightharpoonup> string) world" where
  "trial_world begun plan =
     (let j = sample_job\<lparr>j_state := Restarting, j_progress := (phase_only ''restarting'')\<lparr>pr_activated := True\<rparr>\<rparr>
      in \<lparr>w_journal = Journal j, w_guard = Guard Active (Some ''0f0f''), w_cancel = None, w_checked = None, w_staging = Map.empty,
          w_app = w_app sample_world, w_job = j, w_plan = plan, w_ext = trial_guard begun\<rparr>)"

lemma trial_laws: "rauc_host trial_host"
  unfolding trial_host_def by (rule rauc_box_laws [OF plain_store])

lemma trial_values:
  "trial_guard b ''epk_os_floor'' = Some ''3''" "trial_guard b ''epk_trust_epoch'' = Some ''2''" "trial_guard b ''BOOT_B_LEFT'' = Some ''3''"
  "trial_guard b ''BOOT_A_LEFT'' = Some ''3''" "trial_guard b ''epk_os_target_sha256'' = Some ''00''"
  "trial_guard b ''BOOT_ORDER'' = Some ''B A''"
  "trial_guard b ''epk_os_pending'' = Some ''0f0f''" "trial_guard b ''epk_os_target'' = Some ''B''"
  "trial_guard b ''epk_os_phase'' = Some ''activated''" "trial_guard b ''epk_os_target_sequence'' = Some ''7''"
  "trial_guard b ''epk_os_from'' = Some ''A''" "trial_guard b ''epk_os_trial_started'' = (if b then Some ''0f0f'' else None)"
  by (simp_all add: trial_guard_def)

lemma digits: "py_int ''3'' = Some 3" "py_int ''7'' = Some 7" "py_int ''2'' = Some 2"
  by code_simp+

lemma trial_floor: "floor_of (trial_guard b) = Some 3" "epoch_of (trial_guard b) = Some 2"
  by (simp_all add: floor_of_def epoch_of_def trial_values decimal_def uint64_max_def is_digit_def between_def digit_value_def)

lemma trial_reads: "plain_read (trial_guard b) = Some (trial_guard b)"
  by (simp add: plain_read_def trial_floor)

lemma trial_host_simps: "h_env trial_host = plain_read" "h_set trial_host = plain_write" "h_cmdline trial_host = ''rauc.slot=B''"
  "h_reboot trial_host x = (Exited True (), x)" "h_good trial_host x = (Exited True (), snd (plain_write [(slot_left ''B'', Some ''3'')] x))"
  "h_image_env trial_host = None"
  by (simp_all add: trial_host_def rauc_box_def Let_def)

lemma trial_booted: "booted_slot trial_host = Inr ''B''"
  unfolding booted_slot_def trial_host_simps by code_simp

lemmas trial_run = run_simps printenv_def ask_def trial_booted trial_host_simps trial_world_def trial_reads Let_def trial_values
  set_env_def outside_def run_command_def answered_def the_job_def phase_only_def save_def durable_def in_memory_def set_guard_def load_job_def
  journal_def journal_of_def

lemma trial_stops: "fst (confirm_candidate trial_host ''0f0f'' (trial_world True [Cut])) = Inl PowerCut"
  by (simp add: confirm_candidate_def is_trial_def TRIAL_PHASES_def env_int_def digits trial_run cong: run_cong)

lemma trial_restarts: "fst (activate trial_host (trial_world False [])) = Inr 0"
  "w_ext (snd (activate trial_host (trial_world False []))) = trial_guard False"
  by (simp_all add: activate_def trial_run cong: run_cong)

lemma trial_write: "floor_of m = Some f \<Longrightarrow> floor_of (apply_updates us m) = Some f' \<Longrightarrow> f \<le> f' \<Longrightarrow>
    epoch_of m = Some e \<Longrightarrow> epoch_of (apply_updates us m) = Some e' \<Longrightarrow> e \<le> e' \<Longrightarrow>
   plain_write us m = (True, apply_updates us m)"
  by (simp add: plain_write_def)

lemma trial_read: "floor_of m = Some f \<Longrightarrow> epoch_of m = Some e \<Longrightarrow> plain_read m = Some m"
  by (simp add: plain_read_def)

lemma trial_decimal: "decimal (Some ''3'') = Some 3" "decimal (Some ''2'') = Some 2" "decimal (Some ''7'') = Some 7"
  by (simp_all add: decimal_def uint64_max_def is_digit_def between_def digit_value_def)

lemma apply_value: "apply_updates us m n = (case map_of us n of None \<Rightarrow> m n | Some v \<Rightarrow> v)"
  by (simp add: apply_updates_def)

lemmas trial_store = trial_write trial_read trial_decimal apply_value floor_of_def epoch_of_def

lemma trial_launches: "fst (loader plain_read plain_write (trial_guard False)) = Inr ''B''"
proof -
  have "pick_slot (trial_guard False) = Some ''B''"
    by (simp add: pick_slot_def var_def trial_values split_ws_def is_space_def eligible_def)
  then show ?thesis
    by (simp add: loader_def trial_store trial_values check_state_def var_def counter_ok_def known_phases_def boot_updates_def left_name_def)
qed

lemma trial_number: "write_int 7 = ''7''"
  by code_simp

lemma trial_confirms: "fst (confirm_candidate trial_host ''0f0f'' (trial_world True [])) = Inr 0"
  by (simp add: confirm_candidate_def confirm_floor_def is_trial_def TRIAL_PHASES_def env_int_def digits trial_run trial_store
      trial_number slot_left_def promote_app_def baseline_def image_value_def or_empty_def base_of_def rebuild_def sample_job_def
      finish_def TERMINAL_def clear_pending_def PENDING_def cong: run_cong)

lemma trial_env_of: "h_env trial_host (w_ext (trial_world b p)) = Some (trial_guard b)"
  by (simp add: trial_host_simps trial_world_def Let_def trial_reads)

lemma trial_job: "j_target (w_job (trial_world b p)) = ''B''" "j_id (w_job (trial_world b p)) = ''0f0f''"
  by (simp_all add: trial_world_def Let_def sample_job_def)

lemma trial_safe: "safe (w_job (trial_world False p)) (trial_guard False)"
  by (simp add: safe_def bound_def trial_world_def Let_def sample_job_def trial_values trial_number)

section \<open>Activation\<close>

lemma floor_ends:
  assumes "keeps (env_holds h (floor_is (m ''epk_os_floor''))) p" and "h_env h (w_ext w) = Some m"
  shows "\<exists>m'. h_env h (w_ext (snd (p w))) = Some m' \<and> m' ''epk_os_floor'' = m ''epk_os_floor''"
  using keepsD [OF assms(1), of w] assms(2) by (simp add: wp_state env_holds_def)

text \<open>
  C19. The confirmed floor is raised by a confirmation only: a restart, a discard, an activation and the
  reconciliation of a boot leave it as it was, wherever they stop, and the environment readable.
\<close>

theorem floor_only_by_confirmation:
  assumes "rauc_host h" and "h_env h (w_ext w) = Some m"
  shows "\<forall>x \<in> {w_ext (snd (restart h i w)), w_ext (snd (discard h i w)), w_ext (snd (activate h w)), w_ext (snd (reconcile_boot h w))}.
    \<exists>m'. h_env h x = Some m' \<and> m' ''epk_os_floor'' = m ''epk_os_floor''"
  by (intro ballI, elim insertE emptyE; hypsubst; rule floor_ends [OF _ assms(2)])
    (rule rauc_host.floor_hostd [OF assms(1)] rauc_host.floor_activate [OF assms(1)] rauc_host.floor_boot [OF assms(1)])+

theorem floor_only_by_confirmation_witness:
  "\<exists>m'. h_env trial_host (w_ext (snd (reconcile_boot trial_host (trial_world True [])))) = Some m' \<and> m' ''epk_os_floor'' = Some ''3''"
  using floor_only_by_confirmation [OF trial_laws, of "trial_world True []" "trial_guard True" _] trial_reads [of True]
  by (simp add: trial_host_simps trial_world_def Let_def trial_values)


text \<open>
  C20. A target that could start is never unrecorded: if the target had no attempts or the environment held the job's
  intent before an activation, the same holds wherever it stops.  An activation that succeeds passed
  the whole revalidation, of the trust, the app, the space and the installed slot itself (or only its
  restart was missing), and one that gives up leaves a ready job with a slot that cannot start, or a job that needs checking.
\<close>

theorem activation_recorded:
  assumes "rauc_host h" and "h_env h (w_ext w) = Some m" and "safe (w_job w) m"
  shows "env_holds h (safe (w_job w)) (snd (activate h w)) \<and>
    (case fst (activate h w) of Inl e \<Rightarrow> True
     | Inr r \<Rightarrow> r = 0 \<and> launched h w (snd (activate h w)) \<or> r = 1 \<and> refused h (w_job w) (snd (activate h w)))"
  using rauc_host.wp_activate [OF assms]
  by (auto simp: wp_def split: prod.split sum.split)

theorem activation_recorded_witness:
  "fst (activate trial_host (trial_world False [])) = Inr 0 \<and>
   env_holds trial_host (safe (w_job (trial_world False []))) (snd (activate trial_host (trial_world False [])))"
  using activation_recorded [OF trial_laws _ trial_safe, of "[]"] trial_restarts(1) by (simp add: trial_env_of)


text \<open>
  C21. The loader never starts an unrecorded system: after an activation that stopped anywhere, power cuts
  included, a boot that starts the target does so as the trial of exactly this job, and records it.
\<close>

theorem trial_always_recorded:
  assumes "rauc_host h" and "h_env h (w_ext w) = Some m" and "safe (w_job w) m"
    and "j_target (w_job w) \<in> {''A'', ''B''}" and "j_id (w_job w) \<noteq> []"
    and "loader (h_env h) (h_set h) (w_ext (snd (activate h w))) = (Inr (j_target (w_job w)), x')"
  shows "\<exists>m'. h_env h x' = Some m' \<and> var m' ''epk_os_trial_started'' = j_id (w_job w) \<and>
    m' ''epk_os_pending'' = Some (j_id (w_job w))"
proof -
  have "env_holds h (safe (w_job w)) (snd (activate h w))"
    using rauc_host.wp_activate [OF assms(1-3)] by (auto simp: wp_def split: prod.splits sum.splits)
  then obtain m1 where "h_env h (w_ext (snd (activate h w))) = Some m1" "safe (w_job w) m1" by (auto simp: env_holds_def)
  from rauc_host.launch_recorded [OF assms(1) this assms(4-6)] show ?thesis by blast
qed

theorem trial_always_recorded_witness:
  "\<exists>x'. loader plain_read plain_write (trial_guard False) = (Inr ''B'', x') \<and>
     (\<exists>m'. plain_read x' = Some m' \<and> var m' ''epk_os_trial_started'' = ''0f0f'' \<and> m' ''epk_os_pending'' = Some ''0f0f'')"
proof -
  obtain x' where x: "loader plain_read plain_write (trial_guard False) = (Inr ''B'', x')"
    using trial_launches by (metis prod.collapse)
  have "\<exists>m'. h_env trial_host x' = Some m' \<and> var m' ''epk_os_trial_started'' = j_id (w_job (trial_world False [])) \<and>
    m' ''epk_os_pending'' = Some (j_id (w_job (trial_world False [])))"
    by (rule trial_always_recorded [OF trial_laws trial_env_of trial_safe])
      (use x trial_restarts(2) in \<open>simp_all add: trial_host_simps trial_job\<close>)
  with x show ?thesis by (simp add: trial_host_simps trial_job)
qed


section \<open>Confirmation\<close>

text \<open>
  C22. A confirmation that returns has confirmed: this boot was the job's trial, the journal holds the job as
  confirmed, the guard is idle, nothing is pending, and unless an earlier attempt had raised the floor already it is now
  the larger of the old floor and the job's sequence.
\<close>

theorem confirm_completes:
  assumes "rauc_host h" and "h_env h (w_ext w) = Some m" and "confirm_candidate h i w = (Inr r, w')"
  shows "r = 0 \<and> recorded i w' \<and> (\<exists>slot. booted_slot h = Inr slot \<and> is_trial m slot i) \<and>
    env_holds h (\<lambda>m'. cleared m m' \<and> (m ''epk_os_phase'' \<noteq> Some ''promoting'' \<longrightarrow> raised m (m' ''epk_os_floor''))) w'"
  using rauc_host.wp_confirm [OF assms(1,2), of i] assms(3) by (simp add: wp_def)

theorem confirm_completes_witness:
  "fst (confirm_candidate trial_host ''0f0f'' (trial_world True [])) = Inr 0 \<and>
   recorded ''0f0f'' (snd (confirm_candidate trial_host ''0f0f'' (trial_world True [])))"
  using confirm_completes [OF trial_laws trial_env_of fst_eq [OF trial_confirms]] trial_confirms by blast


text \<open>
  C23. A confirmation can always be repeated: where it stops before its end it has changed nothing, or the environment
  still names this trial with its sequence in a phase it resumes from, or everything is recorded and only nothing is pending any more.  The
  floor is the old one or the larger of it and the job's sequence.
\<close>

theorem confirm_resumable:
  assumes "rauc_host h" and "h_env h (w_ext w) = Some m" and "confirm_candidate h i w = (Inl e, w')"
  shows "w' = w \<or> (\<exists>slot. booted_slot h = Inr slot \<and> is_trial m slot i \<and> stopped_at h i slot m w')"
  using rauc_host.wp_confirm [OF assms(1,2), of i] assms(3) by (simp add: wp_def)

theorem confirm_resumable_witness:
  "fst (confirm_candidate trial_host ''0f0f'' (trial_world True [Cut])) = Inl PowerCut \<and>
   (let w' = snd (confirm_candidate trial_host ''0f0f'' (trial_world True [Cut])) in
    w' = trial_world True [Cut] \<or> stopped_at trial_host ''0f0f'' ''B'' (trial_guard True) w')"
  using confirm_resumable [OF trial_laws trial_env_of fst_eq [OF trial_stops]] trial_stops
  by (auto simp: trial_booted Let_def)

end
