(* ===== verification/Epk_Health.thy ===== *)
theory Epk_Health
  imports Epk_World
begin

text \<open>
  The health supervision of every boot, \<open>epilykos_boot_health.py\<close>: one tick of the supervisor, and its ticks until it
  is done.  Times are microseconds of the monotonic clock.  Each reading of the clock, each spawn and each poll
  is a function of the box, so time passes within a tick.  What the supervisor did is
  kept in a trace, the latest first.
\<close>

section \<open>The box\<close>

datatype rcode = Code int | TimedOut

record 'x monitor =
  mo_clock :: "'x \<Rightarrow> int \<times> 'x"
  mo_spawn :: "string list \<Rightarrow> 'x \<Rightarrow> nat option \<times> 'x"
  mo_poll :: "nat \<Rightarrow> 'x \<Rightarrow> (int \<times> string) option \<times> 'x"
  mo_kill :: "nat \<Rightarrow> 'x \<Rightarrow> 'x"
  mo_mounted :: "'x \<Rightarrow> bool"
  mo_coordinator :: "'x \<Rightarrow> bool"
  mo_sleep :: "'x \<Rightarrow> 'x"

datatype event = Heartbeat | Spawned "string list" | Killed nat | Recorded "string option" | SysRq

record child =
  c_bound :: int
  c_started :: int
  c_process :: "nat option"

datatype sstate = Checking | Confirming | Finished | Rebooting

text \<open>The attributes of \<open>Supervisor\<close>; an attribute that is not set yet is None.\<close>

record 'x sup =
  s_state :: sstate
  s_deadline :: int
  s_slot :: "string option"
  s_mount_check :: "child option"
  s_mount_checked :: "int option"
  s_data_failed :: bool
  s_podman :: "child option"
  s_health :: "child option"
  s_env_read :: "child option"
  s_env :: "(string \<rightharpoonup> string) option"
  s_finish :: "child option"
  s_stage :: nat
  s_stopping :: "child option"
  s_reboot_at :: int
  s_trace :: "event list"
  s_ext :: 'x

type_synonym ('x, 'a) watch = "('x sup, 'a) act"

definition seconds :: "int \<Rightarrow> int" where "seconds n = n * 1000000"
definition DEADLINE_S :: int where "DEADLINE_S = 1200"
definition TICK_S :: int where "TICK_S = 2"
definition REBOOT_FORCE_S :: int where "REBOOT_FORCE_S = 120"
definition REBOOT_SYSRQ_S :: int where "REBOOT_SYSRQ_S = 60"

datatype bounded = Podman_info | Health | Mark_good | Confirm | Env | Stop_app

fun BOUNDS :: "bounded \<Rightarrow> int" where
  "BOUNDS Podman_info = 60" | "BOUNDS Health = 20" | "BOUNDS Mark_good = 60" | "BOUNDS Confirm = 300"
| "BOUNDS Env = 15" | "BOUNDS Stop_app = 60"

definition COORDINATOR :: string where "COORDINATOR = ''/usr/bin/epilykos-os-confirm''"

section \<open>Text the supervisor reads\<close>

text \<open>\<open>userspace_start\<close>: a positive number of microseconds, or none.\<close>

definition userspace_start :: "rcode \<times> string \<Rightarrow> int option" where
  "userspace_start res = (case res of (code, out) \<Rightarrow>
     if code = Code 0 then (case undec (strip out) of None \<Rightarrow> None | Some n \<Rightarrow> if n > 0 then Some (int n) else None) else None)"

definition is_slot_word :: "string \<Rightarrow> bool" where
  "is_slot_word word \<longleftrightarrow> startswith word ''rauc.slot=''"

definition slot_of_cmdline :: "string \<Rightarrow> string option" where
  "slot_of_cmdline cmdline = map_option (drop 10) (find is_slot_word (split_ws cmdline))"

definition parse_env :: "string \<Rightarrow> string \<rightharpoonup> string" where
  "parse_env text = map_of (rev (List.map_filter (partition_at CHR ''='') (splitlines text)))"

section \<open>Commands\<close>

definition read_clock :: "'x monitor \<Rightarrow> ('x, int) watch" where
  "read_clock m = (\<lambda>s. case mo_clock m (s_ext s) of (t, x) \<Rightarrow> (Inr t, s\<lparr>s_ext := x\<rparr>))"

definition spawn :: "'x monitor \<Rightarrow> string list \<Rightarrow> ('x, nat option) watch" where
  "spawn m argv = (\<lambda>s. case mo_spawn m argv (s_ext s) of (p, x) \<Rightarrow> (Inr p, s\<lparr>s_trace := Spawned argv # s_trace s, s_ext := x\<rparr>))"

definition command :: "'x monitor \<Rightarrow> bounded \<Rightarrow> string list \<Rightarrow> ('x, child) watch" where
  "command m key argv =
     bind (read_clock m) (\<lambda>t. bind (spawn m argv) (\<lambda>p.
       ret \<lparr>c_bound = seconds (BOUNDS key), c_started = t, c_process = p\<rparr>))"

definition poll :: "'x monitor \<Rightarrow> nat \<Rightarrow> ('x, (int \<times> string) option) watch" where
  "poll m p = (\<lambda>s. case mo_poll m p (s_ext s) of (r, x) \<Rightarrow> (Inr r, s\<lparr>s_ext := x\<rparr>))"

definition kill :: "'x monitor \<Rightarrow> nat \<Rightarrow> ('x, unit) watch" where
  "kill m p = modify (\<lambda>s. s\<lparr>s_trace := Killed p # s_trace s, s_ext := mo_kill m p (s_ext s)\<rparr>)"

definition outcome_of :: "'x monitor \<Rightarrow> child \<Rightarrow> ('x, (rcode \<times> string) option) watch" where
  "outcome_of m c = (case c_process c of
       None \<Rightarrow> ret (Some (Code 127, []))
     | Some p \<Rightarrow> bind (poll m p) (\<lambda>r. case r of
         Some (code, out) \<Rightarrow> ret (Some (Code code, out))
       | None \<Rightarrow> bind (read_clock m) (\<lambda>t.
           if t - c_started c > c_bound c then andthen (kill m p) (ret (Some (TimedOut, [])))
           else ret None)))"

section \<open>One tick\<close>

definition start_reboot :: "'x monitor \<Rightarrow> int \<Rightarrow> ('x, sstate) watch" where
  "start_reboot m now =
     andthen (modify (\<lambda>s. s\<lparr>s_state := Rebooting, s_reboot_at := now, s_stage := 0\<rparr>))
    (bind (command m Stop_app [''systemctl'', ''stop'', ''epilykos.service'']) (\<lambda>c.
     andthen (modify (\<lambda>s. s\<lparr>s_stopping := Some c\<rparr>)) (ret Rebooting)))"

text \<open>The spawn of a reboot is not caught: an \<open>OSError\<close> ends the supervisor.\<close>

definition spawn_or_raise :: "'x monitor \<Rightarrow> string list \<Rightarrow> ('x, unit) watch" where
  "spawn_or_raise m argv = bind (spawn m argv) (\<lambda>p. if p = None then raise (OSError ''spawn'') else ret ())"

definition continue_reboot :: "'x monitor \<Rightarrow> int \<Rightarrow> ('x, sstate) watch" where
  "continue_reboot m now =
     bind get_state (\<lambda>s.
     if s_stage s = 0 then
       (case s_stopping s of
          None \<Rightarrow> raise (KeyError ''stopping'')
        | Some c \<Rightarrow> bind (outcome_of m c) (\<lambda>r.
            if r = None then ret Rebooting
            else andthen (spawn_or_raise m [''systemctl'', ''--no-block'', ''reboot''])
                (andthen (modify (\<lambda>s. s\<lparr>s_stage := 1, s_reboot_at := now\<rparr>)) (ret Rebooting))))
     else if s_stage s = 1 \<and> now - s_reboot_at s > seconds REBOOT_FORCE_S then
       andthen (spawn_or_raise m [''systemctl'', ''reboot'', ''--force''])
      (andthen (modify (\<lambda>s. s\<lparr>s_stage := 2, s_reboot_at := now\<rparr>)) (ret Rebooting))
     else if s_stage s = 2 \<and> now - s_reboot_at s > seconds REBOOT_SYSRQ_S then
       andthen (modify (\<lambda>s. s\<lparr>s_trace := SysRq # s_trace s, s_stage := 3\<rparr>)) (ret Rebooting)
     else ret Rebooting)"

definition data_mount_failed :: "'x monitor \<Rightarrow> int \<Rightarrow> ('x, bool) watch" where
  "data_mount_failed m now =
     bind get_state (\<lambda>s.
     if mo_mounted m (s_ext s) then ret False
     else
       andthen
         (if s_mount_check s = None \<and> (case s_mount_checked s of None \<Rightarrow> True | Some t \<Rightarrow> now - t \<ge> seconds 10)
          then bind (command m Env [''systemctl'', ''is-failed'', ''--quiet'', ''data.mount'']) (\<lambda>c.
            modify (\<lambda>s. s\<lparr>s_mount_check := Some c\<rparr>))
          else ret ())
      (bind get_state (\<lambda>s'. andthen
         (case s_mount_check s' of None \<Rightarrow> ret ()
          | Some c \<Rightarrow> bind (outcome_of m c) (\<lambda>r. case r of
              None \<Rightarrow> ret ()
            | Some (code, _) \<Rightarrow> modify (\<lambda>s. s\<lparr>s_mount_check := None, s_mount_checked := Some now, s_data_failed := (code = Code 0)\<rparr>)))
         (bind get_state (\<lambda>s''. ret (s_data_failed s''))))))"

definition is_trial_of :: "string option \<Rightarrow> (string \<rightharpoonup> string) \<Rightarrow> bool" where
  "is_trial_of slot env \<longleftrightarrow> truthy (env ''epk_os_pending'') \<and> slot = env ''epk_os_target'' \<and>
     env ''epk_os_trial_started'' = env ''epk_os_pending''"

definition finish_argv :: "string option \<Rightarrow> (string \<rightharpoonup> string) \<Rightarrow> string list" where
  "finish_argv slot env =
     (if is_trial_of slot env then [COORDINATOR, ''--job'', (case env ''epk_os_pending'' of None \<Rightarrow> [] | Some i \<Rightarrow> i)]
      else [''rauc'', ''status'', ''mark-good''])"

text \<open>The second half of \<open>confirm\<close>: the environment is read.\<close>

definition conclude :: "'x monitor \<Rightarrow> (string \<rightharpoonup> string) \<Rightarrow> ('x, sstate) watch" where
  "conclude m env =
     bind get_state (\<lambda>s.
     bind (case s_finish s of
         Some c \<Rightarrow> ret (Some c)
       | None \<Rightarrow>
         if is_trial_of (s_slot s) env \<and> \<not> mo_coordinator m (s_ext s) then ret None
         else bind (command m (if is_trial_of (s_slot s) env then Confirm else Mark_good) (finish_argv (s_slot s) env)) (\<lambda>c.
           andthen (modify (\<lambda>s. s\<lparr>s_finish := Some c\<rparr>)) (ret (Some c)))) (\<lambda>f.
     case f of
       None \<Rightarrow> andthen (modify (\<lambda>s. s\<lparr>s_state := Finished\<rparr>)) (ret Finished)
     | Some c \<Rightarrow> bind (outcome_of m c) (\<lambda>r. case r of
         None \<Rightarrow> ret Confirming
       | Some (code, _) \<Rightarrow>
         andthen (if code = Code 0 then modify (\<lambda>s. s\<lparr>s_trace := Recorded (s_slot s) # s_trace s\<rparr>) else ret ())
        (andthen (modify (\<lambda>s. s\<lparr>s_state := Finished\<rparr>)) (ret Finished)))))"

definition confirm_slot :: "'x monitor \<Rightarrow> ('x, sstate) watch" where
  "confirm_slot m =
     bind get_state (\<lambda>s. case s_env s of
       Some env \<Rightarrow> conclude m env
     | None \<Rightarrow>
       bind (case s_env_read s of
           Some c \<Rightarrow> ret c
         | None \<Rightarrow> bind (command m Env [''fw_printenv'']) (\<lambda>c. andthen (modify (\<lambda>s. s\<lparr>s_env_read := Some c\<rparr>)) (ret c))) (\<lambda>c.
       bind (outcome_of m c) (\<lambda>r. case r of
         None \<Rightarrow> ret Confirming
       | Some (code, out) \<Rightarrow>
         if code \<noteq> Code 0 then andthen (modify (\<lambda>s. s\<lparr>s_state := Finished\<rparr>)) (ret Finished)
         else andthen (modify (\<lambda>s. s\<lparr>s_env := Some (parse_env out)\<rparr>)) (conclude m (parse_env out)))))"

text \<open>\<open>check\<close>: Podman works, then the app is healthy.\<close>

definition check_health :: "'x monitor \<Rightarrow> ('x, sstate) watch" where
  "check_health m =
     bind get_state (\<lambda>s.
     bind (case s_health s of
         Some c \<Rightarrow> ret c
       | None \<Rightarrow> bind (command m Health [''podman'', ''inspect'', ''--format'', ''{{.State.Health.Status}}'', ''epilykos'']) (\<lambda>c.
           andthen (modify (\<lambda>s. s\<lparr>s_health := Some c\<rparr>)) (ret c))) (\<lambda>c.
     bind (outcome_of m c) (\<lambda>r. case r of
       None \<Rightarrow> ret Checking
     | Some (code, out) \<Rightarrow>
       andthen (modify (\<lambda>s. s\<lparr>s_health := None\<rparr>))
      (if code \<noteq> Code 0 \<or> strip out \<noteq> ''healthy'' then ret Checking
       else andthen (modify (\<lambda>s. s\<lparr>s_state := Confirming\<rparr>)) (confirm_slot m)))))"

definition check_app :: "'x monitor \<Rightarrow> ('x, sstate) watch" where
  "check_app m =
     bind get_state (\<lambda>s.
     if \<not> mo_mounted m (s_ext s) then ret Checking
     else
       bind (case s_podman s of
           Some c \<Rightarrow> ret c
         | None \<Rightarrow> bind (command m Podman_info [''podman'', ''info'', ''--format'', ''{{.Host.Arch}}'']) (\<lambda>c.
             andthen (modify (\<lambda>s. s\<lparr>s_podman := Some c\<rparr>)) (ret c))) (\<lambda>c.
       bind (outcome_of m c) (\<lambda>r. case r of
         None \<Rightarrow> ret Checking
       | Some (code, _) \<Rightarrow>
         if code \<noteq> Code 0 then andthen (modify (\<lambda>s. s\<lparr>s_podman := None\<rparr>)) (ret Checking)
         else check_health m)))"

definition tick :: "'x monitor \<Rightarrow> ('x, sstate) watch" where
  "tick m =
     bind (read_clock m) (\<lambda>now.
     andthen (modify (\<lambda>s. s\<lparr>s_trace := Heartbeat # s_trace s\<rparr>))
    (bind get_state (\<lambda>s. case s_state s of
       Rebooting \<Rightarrow> continue_reboot m now
     | Finished \<Rightarrow> ret Finished
     | Confirming \<Rightarrow> confirm_slot m
     | Checking \<Rightarrow>
       bind (data_mount_failed m now) (\<lambda>failed.
       if failed then start_reboot m now
       else if now \<ge> s_deadline s then start_reboot m now
       else check_app m))))"

section \<open>A boot\<close>

definition boot :: "string \<Rightarrow> int option \<Rightarrow> 'x \<Rightarrow> 'x sup" where
  "boot cmdline start x =
     \<lparr>s_state = Checking, s_deadline = (case start of None \<Rightarrow> 0 | Some t \<Rightarrow> t) + seconds DEADLINE_S, s_slot = slot_of_cmdline cmdline,
      s_mount_check = None, s_mount_checked = None, s_data_failed = False, s_podman = None, s_health = None, s_env_read = None,
      s_env = None, s_finish = None, s_stage = 0, s_stopping = None, s_reboot_at = 0, s_trace = [], s_ext = x\<rparr>"

text \<open>The loop of \<open>main\<close> for at most so many ticks; it sleeps between two of them.\<close>

fun ticks :: "'x monitor \<Rightarrow> nat \<Rightarrow> ('x, sstate) watch" where
  "ticks m 0 = bind get_state (\<lambda>s. ret (s_state s))"
| "ticks m (Suc n) =
     bind (tick m) (\<lambda>r.
     if r = Finished then ret Finished
     else andthen (modify (\<lambda>s. s\<lparr>s_ext := mo_sleep m (s_ext s)\<rparr>)) (ticks m n))"

section \<open>Rules for one tick\<close>

lemma wp_clock [wp_simps]: "wp (read_clock m) Q E s = (case mo_clock m (s_ext s) of (t, x) \<Rightarrow> Q t (s\<lparr>s_ext := x\<rparr>))"
  by (simp add: read_clock_def wp_def split: prod.split)

lemma wp_spawn [wp_simps]:
  "wp (spawn m argv) Q E s = (case mo_spawn m argv (s_ext s) of (p, x) \<Rightarrow> Q p (s\<lparr>s_trace := Spawned argv # s_trace s, s_ext := x\<rparr>))"
  by (simp add: spawn_def wp_def split: prod.split)

lemma wp_poll [wp_simps]: "wp (poll m p) Q E s = (case mo_poll m p (s_ext s) of (r, x) \<Rightarrow> Q r (s\<lparr>s_ext := x\<rparr>))"
  by (simp add: poll_def wp_def split: prod.split)

section \<open>What a boot's supervisor has done\<close>

text \<open>The commands that confirm this boot, those that end it, and the records of a confirmed slot.\<close>

fun finishing :: "event \<Rightarrow> bool" where
  "finishing (Spawned argv) \<longleftrightarrow> argv = [''rauc'', ''status'', ''mark-good''] \<or> take 1 argv = [COORDINATOR]"
| "finishing _ \<longleftrightarrow> False"

fun ending :: "event \<Rightarrow> bool" where
  "ending (Spawned argv) \<longleftrightarrow> argv \<in> {[''systemctl'', ''--no-block'', ''reboot''], [''systemctl'', ''reboot'', ''--force'']}"
| "ending SysRq \<longleftrightarrow> True"
| "ending _ \<longleftrightarrow> False"

fun recording :: "event \<Rightarrow> bool" where
  "recording (Recorded v) \<longleftrightarrow> True"
| "recording _ \<longleftrightarrow> False"

definition orderly :: "'x sup \<Rightarrow> bool" where
  "orderly s \<longleftrightarrow>
     (s_finish s = None \<longrightarrow> filter finishing (s_trace s) = []) \<and>
     (s_finish s \<noteq> None \<longrightarrow> s_state s \<in> {Confirming, Finished} \<and> s_env s \<noteq> None \<and>
        filter finishing (s_trace s) = [Spawned (finish_argv (s_slot s) (the (s_env s)))]) \<and>
     (s_state s = Checking \<longrightarrow> s_env s = None \<and> s_env_read s = None) \<and>
     (s_state s \<noteq> Rebooting \<longrightarrow> filter ending (s_trace s) = []) \<and>
     (s_state s \<noteq> Finished \<longrightarrow> filter recording (s_trace s) = []) \<and>
     filter recording (s_trace s) \<in> {[], [Recorded (s_slot s)]} \<and>
     (filter recording (s_trace s) \<noteq> [] \<longrightarrow> s_finish s \<noteq> None)"

text \<open>Commands and their outcomes touch only the trace and the box.\<close>

lemma wp_command:
  assumes "\<And>c x. Q c (s\<lparr>s_trace := Spawned argv # s_trace s, s_ext := x\<rparr>)"
  shows "wp (command m key argv) Q E s"
  using assms by (auto simp: command_def wp_simps split: prod.split)

lemma wp_outcome:
  assumes "\<And>r x. Q r (s\<lparr>s_ext := x\<rparr>)" and "\<And>r p x. Q r (s\<lparr>s_trace := Killed p # s_trace s, s_ext := x\<rparr>)"
  shows "wp (outcome_of m c) Q E s"
proof -
  have "Q r s" for r using assms(1) [of r "s_ext s"] by simp
  then show ?thesis
    using assms by (auto simp: outcome_of_def kill_def wp_simps split: prod.split option.split)
qed

lemma finish_argv_finishing [simp]: "finishing (Spawned (finish_argv slot env))" "\<not> ending (Spawned (finish_argv slot env))"
  by (simp_all add: finish_argv_def COORDINATOR_def)

declare finishing.simps(1) [simp del] ending.simps(1) [simp del]

lemma other_commands [simp]:
  "\<not> finishing (Spawned [''fw_printenv''])" "\<not> ending (Spawned [''fw_printenv''])"
  "\<not> finishing (Spawned (''systemctl'' # args))" "\<not> finishing (Spawned (''podman'' # args))" "\<not> ending (Spawned (''podman'' # args))"
  "\<not> ending (Spawned (''systemctl'' # ''stop'' # args))" "\<not> ending (Spawned (''systemctl'' # ''is-failed'' # args))"
  by (simp_all add: finishing.simps ending.simps COORDINATOR_def)

lemma orderly_box [simp]: "orderly (s\<lparr>s_ext := x\<rparr>) = orderly s"
  by (simp add: orderly_def)

lemma orderly_event [simp]:
  "\<not> finishing e \<Longrightarrow> \<not> ending e \<Longrightarrow> \<not> recording e \<Longrightarrow> orderly (s\<lparr>s_trace := e # s_trace s, s_ext := x\<rparr>) = orderly s"
  "\<not> finishing e \<Longrightarrow> \<not> ending e \<Longrightarrow> \<not> recording e \<Longrightarrow> orderly (s\<lparr>s_trace := e # s_trace s\<rparr>) = orderly s"
  by (simp_all add: orderly_def)

lemma orderly_outcome [keeps_rules]: "keeps orderly (outcome_of m c)"
  by (rule keepsI, rule wp_outcome) simp_all

lemma orderly_command [keeps_rules]: "\<not> finishing (Spawned argv) \<Longrightarrow> \<not> ending (Spawned argv) \<Longrightarrow> keeps orderly (command m key argv)"
  by (rule keepsI, rule wp_command) simp

lemma orderly_clock [keeps_rules]: "keeps orderly (read_clock m)"
  by (rule keepsI) (simp add: wp_simps split: prod.split)

lemma orderly_mount [keeps_rules]: "keeps orderly (data_mount_failed m now)"
  unfolding data_mount_failed_def
  by (intro keeps_rules keeps_modify) (simp_all add: orderly_def)

lemma orderly_conclude:
  assumes "orderly s" "s_state s = Confirming" "s_env s = Some env"
  shows "wp (conclude m env) (\<lambda>_. orderly) (\<lambda>_. orderly) s"
proof -
  have ends: "wp (outcome_of m c) (\<lambda>r. wp (case r of
         None \<Rightarrow> ret Confirming
       | Some (code, _) \<Rightarrow>
         andthen (if code = Code 0 then modify (\<lambda>s. s\<lparr>s_trace := Recorded (s_slot s) # s_trace s\<rparr>) else ret ())
        (andthen (modify (\<lambda>s. s\<lparr>s_state := Finished\<rparr>)) (ret Finished))) (\<lambda>_. orderly) (\<lambda>_. orderly)) (\<lambda>_. orderly) s'"
    if "orderly s'" "s_state s' = Confirming" "s_finish s' = Some c" for s' :: "'a sup" and c
    by (rule wp_outcome) (use that in \<open>auto simp: wp_simps orderly_def split: option.split\<close>)
  have begins: "orderly (s\<lparr>s_trace := Spawned (finish_argv (s_slot s) env) # s_trace s, s_ext := x, s_finish := Some c\<rparr>)"
    if "s_finish s = None" for c x
    using assms that by (auto simp: orderly_def)
  have gives_up: "orderly (s\<lparr>s_state := Finished\<rparr>)" if "s_finish s = None"
    using assms that by (auto simp: orderly_def)
  show ?thesis
  proof (cases "s_finish s")
    case (Some c)
    then show ?thesis
      using ends [OF assms(1,2)] by (simp only: conclude_def wp_bind wp_get_state option.case wp_ret)
  next
    case None
    show ?thesis
      unfolding conclude_def wp_bind [of get_state] wp_get_state None option.case wp_bind [of "if _ then _ else _"] wp_if wp_bind [of "command _ _ _"]
      using gives_up [OF None]
      by (auto simp: wp_simps assms(2) intro!: wp_command ends begins [OF None])
  qed
qed

lemma orderly_confirm:
  assumes "orderly s" "s_state s = Confirming"
  shows "wp (confirm_slot m) (\<lambda>_. orderly) (\<lambda>_. orderly) s"
proof (cases "s_env s")
  case (Some env)
  then show ?thesis using orderly_conclude [OF assms Some] by (simp add: confirm_slot_def wp_bind wp_get_state)
next
  case None
  have reads: "wp (outcome_of m c) (\<lambda>r. wp (case r of
         None \<Rightarrow> ret Confirming
       | Some (code, out) \<Rightarrow>
         if code \<noteq> Code 0 then andthen (modify (\<lambda>s. s\<lparr>s_state := Finished\<rparr>)) (ret Finished)
         else andthen (modify (\<lambda>s. s\<lparr>s_env := Some (parse_env out)\<rparr>)) (conclude m (parse_env out))) (\<lambda>_. orderly) (\<lambda>_. orderly))
     (\<lambda>_. orderly) s'"
    if "orderly s'" "s_state s' = Confirming" "s_env s' = None" for s' :: "'a sup" and c
  proof -
    have "orderly (s'\<lparr>s_state := Finished\<rparr>)" "orderly (s'\<lparr>s_env := Some e\<rparr>)" for e using that by (auto simp: orderly_def)
    moreover have "orderly (s'\<lparr>s_ext := x, s_state := Finished\<rparr>)" "orderly (s'\<lparr>s_ext := x, s_env := Some e\<rparr>)"
      "orderly (s'\<lparr>s_trace := Killed p # s_trace s', s_ext := x, s_state := Finished\<rparr>)"
      "orderly (s'\<lparr>s_trace := Killed p # s_trace s', s_ext := x, s_env := Some e\<rparr>)" for e p x
      using that by (auto simp: orderly_def)
    ultimately show ?thesis
      using that
      by (intro wp_outcome) (auto simp: wp_simps split: option.split intro!: orderly_conclude)
  qed
  have begins: "orderly (s\<lparr>s_trace := Spawned [''fw_printenv''] # s_trace s, s_ext := x, s_env_read := Some c\<rparr>)" for c x
    using assms by (auto simp: orderly_def)
  show ?thesis
  proof (cases "s_env_read s")
    case (Some c)
    then show ?thesis
      using reads [OF assms None] by (simp only: confirm_slot_def wp_bind wp_get_state None option.case wp_ret)
  next
    case read: None
    show ?thesis
      unfolding confirm_slot_def wp_bind [of get_state] wp_get_state None read option.case wp_bind [of "bind _ _"] wp_bind [of "command _ _ _"]
      using assms(2) None by (auto simp: wp_simps intro!: wp_command reads begins)
  qed
qed

text \<open>A supervisor that is checking has confirmed nothing.\<close>

definition unsettled :: "'x sup \<Rightarrow> bool" where
  "unsettled s \<longleftrightarrow> orderly s \<and> s_state s = Checking"

lemma checking_outcome [keeps_rules]: "keeps unsettled (outcome_of m c)"
  by (rule keepsI, rule wp_outcome) (simp_all add: unsettled_def)

lemma checking_command [keeps_rules]: "\<not> finishing (Spawned argv) \<Longrightarrow> \<not> ending (Spawned argv) \<Longrightarrow> keeps unsettled (command m key argv)"
  by (rule keepsI, rule wp_command) (simp add: unsettled_def)

lemma checking_mount [keeps_rules]: "keeps unsettled (data_mount_failed m now)"
  unfolding data_mount_failed_def
  by (intro keeps_rules keeps_modify) (auto simp: unsettled_def orderly_def)

lemma orderly_health:
  assumes "unsettled s"
  shows "wp (check_health m) (\<lambda>_. orderly) (\<lambda>_. orderly) s"
proof -
  have k: "keeps unsettled (case v of Some c \<Rightarrow> ret c
      | None \<Rightarrow> bind (command m Health (''podman'' # args)) (\<lambda>c. andthen (modify (\<lambda>s. s\<lparr>s_health := Some c\<rparr>)) (ret c)))" for v args
    by (intro keeps_rules keeps_modify) (auto simp: unsettled_def orderly_def)
  have healthy: "wp (andthen (modify (\<lambda>s. s\<lparr>s_health := None\<rparr>))
      (if c then ret Checking else andthen (modify (\<lambda>s. s\<lparr>s_state := Confirming\<rparr>)) (confirm_slot m))) (\<lambda>_. orderly) (\<lambda>_. orderly) s'"
    if "unsettled s'" for s' :: "'a sup" and c
    using that by (auto simp: wp_simps unsettled_def intro!: orderly_confirm) (simp_all add: orderly_def)
  have out: "wp (case r of None \<Rightarrow> ret Checking | Some (code, out) \<Rightarrow> andthen (modify (\<lambda>s. s\<lparr>s_health := None\<rparr>))
      (if code \<noteq> Code 0 \<or> strip out \<noteq> ''healthy'' then ret Checking
       else andthen (modify (\<lambda>s. s\<lparr>s_state := Confirming\<rparr>)) (confirm_slot m))) (\<lambda>_. orderly) (\<lambda>_. orderly) s'"
    if "unsettled s'" for s' :: "'a sup" and r
    by (rule wp_optionI, use that in \<open>simp add: wp_ret unsettled_def\<close>, rule wp_prodI, rule healthy [OF that])
  show ?thesis
    unfolding check_health_def wp_bind [of get_state] wp_get_state
    by (rule wp_then [OF k assms], rule wp_then [OF checking_outcome])
      (assumption | rule out | simp add: unsettled_def)+
qed

lemma orderly_check:
  assumes "unsettled s"
  shows "wp (check_app m) (\<lambda>_. orderly) (\<lambda>_. orderly) s"
proof -
  have k: "keeps unsettled (case v of Some c \<Rightarrow> ret c
      | None \<Rightarrow> bind (command m Podman_info (''podman'' # args)) (\<lambda>c. andthen (modify (\<lambda>s. s\<lparr>s_podman := Some c\<rparr>)) (ret c)))" for v args
    by (intro keeps_rules keeps_modify) (auto simp: unsettled_def orderly_def)
  have works: "wp (if c then andthen (modify (\<lambda>s. s\<lparr>s_podman := None\<rparr>)) (ret Checking) else check_health m) (\<lambda>_. orderly) (\<lambda>_. orderly) s'"
    if "unsettled s'" for s' :: "'a sup" and c
    using that orderly_health [OF that] by (auto simp: wp_simps unsettled_def) (simp add: orderly_def)
  have out: "wp (case r of None \<Rightarrow> ret Checking
       | Some (code, _) \<Rightarrow> if code \<noteq> Code 0 then andthen (modify (\<lambda>s. s\<lparr>s_podman := None\<rparr>)) (ret Checking) else check_health m)
     (\<lambda>_. orderly) (\<lambda>_. orderly) s'" if "unsettled s'" for s' :: "'a sup" and r
    by (rule wp_optionI, use that in \<open>simp add: wp_ret unsettled_def\<close>, rule wp_prodI, rule works [OF that])
  have rest: "wp (bind (case v of Some c \<Rightarrow> ret c
      | None \<Rightarrow> bind (command m Podman_info (''podman'' # args)) (\<lambda>c. andthen (modify (\<lambda>s. s\<lparr>s_podman := Some c\<rparr>)) (ret c))) (\<lambda>c.
       bind (outcome_of m c) (\<lambda>r. case r of None \<Rightarrow> ret Checking
       | Some (code, _) \<Rightarrow> if code \<noteq> Code 0 then andthen (modify (\<lambda>s. s\<lparr>s_podman := None\<rparr>)) (ret Checking) else check_health m)))
     (\<lambda>_. orderly) (\<lambda>_. orderly) s" for v args
    by (rule wp_then [OF k assms], rule wp_then [OF checking_outcome])
      (assumption | rule out | simp add: unsettled_def)+
  show ?thesis
    unfolding check_app_def wp_bind [of get_state] wp_get_state wp_if
    using rest assms by (simp add: wp_ret unsettled_def)
qed

lemma orderly_start_reboot:
  assumes "unsettled s"
  shows "wp (start_reboot m now) (\<lambda>_. orderly) (\<lambda>_. orderly) s"
  unfolding start_reboot_def wp_andthen [of "modify _"] wp_modify wp_bind
  by (rule wp_command) (use assms in \<open>auto simp: wp_simps unsettled_def orderly_def\<close>)

lemma orderly_continue_reboot:
  assumes "orderly s" "s_state s = Rebooting"
  shows "wp (continue_reboot m now) (\<lambda>_. orderly) (\<lambda>_. orderly) s"
proof -
  have e: "orderly (s'\<lparr>s_trace := e # s_trace s', s_ext := x\<rparr>)" "orderly (s'\<lparr>s_trace := e # s_trace s', s_ext := x, s_stage := k, s_reboot_at := t\<rparr>)"
    if "orderly s'" "s_state s' = Rebooting" "\<not> finishing e" "\<not> recording e" for s' :: "'a sup" and e x k t
    using that by (auto simp: orderly_def)
  have sp: "wp (andthen (spawn_or_raise m (''systemctl'' # args)) (andthen (modify (\<lambda>s. s\<lparr>s_stage := k, s_reboot_at := now\<rparr>)) (ret Rebooting)))
     (\<lambda>_. orderly) (\<lambda>_. orderly) s'" if "orderly s'" "s_state s' = Rebooting" for s' :: "'a sup" and args k
    using e [OF that, of "Spawned (''systemctl'' # args)"]
    by (auto simp: spawn_or_raise_def wp_simps split: prod.split)
  have stop: "wp (bind (outcome_of m c) (\<lambda>r. if r = None then ret Rebooting
            else andthen (spawn_or_raise m [''systemctl'', ''--no-block'', ''reboot''])
                (andthen (modify (\<lambda>s. s\<lparr>s_stage := 1, s_reboot_at := now\<rparr>)) (ret Rebooting)))) (\<lambda>_. orderly) (\<lambda>_. orderly) s" for c
    unfolding wp_bind
    by (rule wp_outcome) (use assms in \<open>auto simp: wp_ret wp_if intro!: sp\<close>)
  have sysrq: "orderly (s\<lparr>s_trace := SysRq # s_trace s, s_stage := 3\<rparr>)" using assms by (auto simp: orderly_def)
  show ?thesis
    unfolding continue_reboot_def wp_bind [of get_state] wp_get_state
    using stop sp [OF assms] sysrq assms(1)
    by (auto simp: wp_ret wp_raise wp_andthen [of "modify _"] wp_modify intro!: wp_caseI)
qed

lemma orderly_tick: "keeps orderly (tick m)"
proof (rule keepsI)
  fix s :: "'a sup" assume s: "orderly s"
  have tick: "wp (case s_state s' of Rebooting \<Rightarrow> continue_reboot m now | Finished \<Rightarrow> ret Finished | Confirming \<Rightarrow> confirm_slot m
     | Checking \<Rightarrow> bind (data_mount_failed m now) (\<lambda>failed.
       if failed then start_reboot m now else if now \<ge> s_deadline s' then start_reboot m now else check_app m)) (\<lambda>_. orderly) (\<lambda>_. orderly) s'"
    if "orderly s'" for s' :: "'a sup" and now
  proof (cases "s_state s'")
    case Checking
    then have "unsettled s'" using that by (simp add: unsettled_def)
    then show ?thesis
      unfolding Checking sstate.case
      by (rule wp_then [OF checking_mount]) (auto simp: wp_if intro: orderly_start_reboot orderly_check, simp add: unsettled_def)
  qed (use that orderly_confirm orderly_continue_reboot in \<open>simp_all add: wp_ret\<close>)
  show "wp (tick m) (\<lambda>_. orderly) (\<lambda>_. orderly) s"
    unfolding tick_def wp_bind [of "read_clock _"] wp_andthen [of "modify _"] wp_bind [of get_state] wp_clock wp_modify wp_get_state case_prod_beta
    by (rule tick) (use s in \<open>simp add: orderly_def\<close>)
qed

lemma orderly_ticks: "keeps orderly (ticks m n)"
  by (induction n) (simp_all, (intro keeps_rules keeps_modify orderly_tick; simp)+)

lemma orderly_boot: "orderly (boot cmdline start x)"
  by (simp add: orderly_def boot_def)

section \<open>The slot of the boot\<close>

lemma keeps_sstate [keeps_rules]:
  "keeps I a \<Longrightarrow> keeps I b \<Longrightarrow> keeps I c \<Longrightarrow> keeps I d \<Longrightarrow>
   keeps I (case st of Checking \<Rightarrow> a | Confirming \<Rightarrow> b | Finished \<Rightarrow> c | Rebooting \<Rightarrow> d)"
  by (cases st) simp_all

text \<open>A fact that no tick changes: it does not read the attributes a tick assigns, the trace or the box.\<close>

abbreviation settled :: "string option \<Rightarrow> int \<Rightarrow> 'x sup \<Rightarrow> bool" where
  "settled slot deadline s \<equiv> s_slot s = slot \<and> s_deadline s = deadline"

lemma settled_prims [keeps_rules]:
  "keeps (settled v d) (read_clock m)" "keeps (settled v d) (spawn m argv)" "keeps (settled v d) (poll m q)"
  by (rule keepsI; simp add: wp_simps split: prod.split)+

lemma settled_ticks: "keeps (settled v d) (ticks m n)"
proof -
  have out: "keeps (settled v d) (outcome_of m c)" for c
    unfolding outcome_of_def kill_def by (intro keeps_rules keeps_modify) simp_all
  have com: "keeps (settled v d) (command m k argv)" for k argv
    unfolding command_def by (intro keeps_rules)
  have con: "keeps (settled v d) (conclude m env)" for env
    unfolding conclude_def by (intro keeps_rules keeps_modify com out) simp_all
  have cs: "keeps (settled v d) (confirm_slot m)"
    unfolding confirm_slot_def by (intro keeps_rules keeps_modify com out con) simp_all
  have ca: "keeps (settled v d) (check_app m)"
    unfolding check_app_def check_health_def by (intro keeps_rules keeps_modify com out cs) simp_all
  have mt: "keeps (settled v d) (data_mount_failed m now)" for now
    unfolding data_mount_failed_def by (intro keeps_rules keeps_modify com out) simp_all
  have sr: "keeps (settled v d) (start_reboot m now)" for now
    unfolding start_reboot_def by (intro keeps_rules keeps_modify com) simp_all
  have cr: "keeps (settled v d) (continue_reboot m now)" for now
    unfolding continue_reboot_def spawn_or_raise_def by (intro keeps_rules keeps_modify out) simp_all
  have "keeps (settled v d) (tick m)"
    unfolding tick_def by (intro keeps_rules keeps_modify mt sr cr ca cs) simp_all
  then show ?thesis
    by (induction n) (simp_all, (intro keeps_rules keeps_modify; simp)+)
qed

text \<open>
  C24. However a boot goes, its supervisor confirms the slot at most once, in the way the environment asks for (a trial only through the coordinator and
  with the job it is the trial of, any other boot with \<open>mark-good\<close>), it records a confirmed slot only after
  that, only once and only the booted one, and a boot that it confirms or tries to is never rebooted.
\<close>

theorem one_confirmation:
  "let s = snd (ticks m n (boot cmdline start x)) in
   (case filter finishing (s_trace s) of
      [] \<Rightarrow> filter recording (s_trace s) = []
    | [e] \<Rightarrow> filter ending (s_trace s) = [] \<and> filter recording (s_trace s) \<in> {[], [Recorded (slot_of_cmdline cmdline)]} \<and>
        (\<exists>env. s_env s = Some env \<and>
          (if is_trial_of (slot_of_cmdline cmdline) env
           then \<exists>i. env ''epk_os_pending'' = Some i \<and> i \<noteq> [] \<and> e = Spawned [COORDINATOR, ''--job'', i]
           else e = Spawned [''rauc'', ''status'', ''mark-good'']))
    | _ \<Rightarrow> False)"
proof -
  let ?s = "snd (ticks m n (boot cmdline start x))"
  have o: "orderly ?s"
    using keepsD [OF orderly_ticks orderly_boot] by (simp add: wp_state)
  have sl: "s_slot ?s = slot_of_cmdline cmdline"
    using keepsD [OF settled_ticks, where w = "boot cmdline start x"] by (simp add: wp_state boot_def)
  show ?thesis
  proof (cases "s_finish ?s")
    case None
    then show ?thesis using o by (simp add: orderly_def Let_def)
  next
    case (Some c)
    with o obtain env where env: "s_env ?s = Some env" "filter finishing (s_trace ?s) = [Spawned (finish_argv (s_slot ?s) env)]"
      "s_state ?s \<noteq> Rebooting" unfolding orderly_def by auto
    have rest: "filter ending (s_trace ?s) = []" "filter recording (s_trace ?s) \<in> {[], [Recorded (slot_of_cmdline cmdline)]}"
      using o env(3) unfolding orderly_def sl by blast+
    have argv: "if is_trial_of v env
           then \<exists>i. env ''epk_os_pending'' = Some i \<and> i \<noteq> [] \<and> finish_argv v env = [COORDINATOR, ''--job'', i]
           else finish_argv v env = [''rauc'', ''status'', ''mark-good'']" for v
      by (cases "env ''epk_os_pending''") (simp_all add: finish_argv_def is_trial_of_def truthy_def)
    show ?thesis
      unfolding Let_def env(2) sl using rest argv [of "slot_of_cmdline cmdline"] env(1) by simp
  qed
qed

section \<open>Every boot is decided\<close>

text \<open>The ticks, two seconds apart at least, until a time has passed; and how many a supervisor needs at most.\<close>

definition ticks_left :: "int \<Rightarrow> int \<Rightarrow> nat" where
  "ticks_left d t = nat ((d - t) div seconds TICK_S + 1)"

definition end_of :: "child \<Rightarrow> int" where
  "end_of c = c_started c + c_bound c"

definition rank :: "'x sup \<Rightarrow> int \<Rightarrow> nat" where
  "rank s t = (case s_state s of
       Finished \<Rightarrow> 0
     | Rebooting \<Rightarrow>
         if s_stage s = 0 then (case s_stopping s of None \<Rightarrow> 0 | Some c \<Rightarrow> 95 + ticks_left (end_of c) t)
         else if s_stage s = 1 then 33 + ticks_left (s_reboot_at s + seconds REBOOT_FORCE_S) t
         else if s_stage s = 2 then 1 + ticks_left (s_reboot_at s + seconds REBOOT_SYSRQ_S) t
         else 0
     | Confirming \<Rightarrow>
         (case s_env s of
            None \<Rightarrow> (case s_env_read s of None \<Rightarrow> 170 | Some c \<Rightarrow> 155 + ticks_left (end_of c) t)
          | Some _ \<Rightarrow> (case s_finish s of None \<Rightarrow> 154 | Some c \<Rightarrow> 1 + ticks_left (end_of c) t))
     | Checking \<Rightarrow> 200 + ticks_left (s_deadline s) t)"


lemma rank_box [simp]: "rank (s\<lparr>s_ext := x\<rparr>) t = rank s t" "rank (s\<lparr>s_trace := tr\<rparr>) t = rank s t"
  by (simp_all add: rank_def cong: option.case_cong sstate.case_cong if_cong)









text \<open>
  The supervisor reads back what \<open>fw_printenv\<close> prints: one line for each variable, any value without line breaks.
\<close>

theorem parse_env_printed:
  assumes "distinct (map fst kvs)" and "\<forall>(n, v)\<in>set kvs. CHR ''='' \<notin> set n \<and> (\<forall>c\<in>set (n @ v). \<not> is_linebreak c)"
  shows "parse_env (concat (map (\<lambda>(n, v). n @ ''='' @ v @ [CHR 0x0A]) kvs)) = map_of kvs"
proof -
  have "splitlines (concat (map (\<lambda>l. l @ [CHR 0x0A]) (map (\<lambda>(n, v). n @ ''='' @ v) kvs))) = map (\<lambda>(n, v). n @ ''='' @ v) kvs"
    by (rule splitlines_unlines) (use assms(2) in \<open>fastforce simp: is_linebreak_def\<close>)
  moreover have "concat (map (\<lambda>(n, v). n @ ''='' @ v @ [CHR 0x0A]) kvs) = concat (map (\<lambda>l. l @ [CHR 0x0A]) (map (\<lambda>(n, v). n @ ''='' @ v) kvs))"
    by (induction kvs) auto
  moreover have "List.map_filter (partition_at CHR ''='') (map (\<lambda>(n, v). n @ ''='' @ v) kvs) = kvs"
    using assms(2) by (induction kvs) (auto simp: map_filter_simps partition_at_append)
  ultimately show ?thesis
    using map_of_inject_set [of "rev kvs" kvs] assms(1) by (simp add: parse_env_def rev_map [symmetric])
qed

theorem parse_env_printed_witness:
  "parse_env (concat (map (\<lambda>(n, v). n @ ''='' @ v @ [CHR 0x0A]) [(''BOOT_ORDER'', ''A B''), (''epk_os_pending'', ''x=1'')])) ''epk_os_pending'' = Some ''x=1''"
  using parse_env_printed [of "[(''BOOT_ORDER'', ''A B''), (''epk_os_pending'', ''x=1'')]"] by (simp add: is_linebreak_def)

end
