(* ===== verification/Epk_AppUpdate.thy ===== *)
theory Epk_AppUpdate
  imports Epk_AppFiles
begin

text \<open>
  App updates, \<open>epilykos_update.py\<close>: the signed manifest, hostd's check and apply, the update that runs in its
  own thread, and the recovery at hostd's start.  \<open>running\<close> is the flag \<open>_running\<close> of the process: an
  update's thread exists.  A removed file is as durable as a written one here.

  The reader of a manifest takes ASCII texts and integers: \<open>json.loads\<close> also reads fractions and other
  encodings, which no checked field may have, and the release name must have code points below 256.
\<close>

section \<open>Reading a manifest\<close>

definition is_blank_char :: "char \<Rightarrow> bool" where
  "is_blank_char c \<longleftrightarrow> c \<in> {CHR '' '', CHR 0x09, CHR 0x0A, CHR 0x0D}"

definition is_structural :: "char \<Rightarrow> bool" where
  "is_structural c \<longleftrightarrow> c \<in> set ''{}[],:''"

text \<open>
  The text without the blanks between tokens: blanks end at a structural character or follow one, or the text is none.
  The first argument is the character before (None at the start), the second tells whether blanks came since.
\<close>

fun in_text :: "string \<Rightarrow> (string \<times> string) option" where
  "in_text [] = None"
| "in_text (c # cs) =
     (if c = CHR 0x22 then Some ([c], cs)
      else if c = CHR 0x5C then (case cs of [] \<Rightarrow> None | d # ds \<Rightarrow> map_option (\<lambda>(t, r). (c # d # t, r)) (in_text ds))
      else map_option (\<lambda>(t, r). (c # t, r)) (in_text cs))"

fun squeeze :: "nat \<Rightarrow> char option \<Rightarrow> bool \<Rightarrow> string \<Rightarrow> string option" where
  "squeeze 0 before gap s = None"
| "squeeze (Suc f) before gap [] = Some []"
| "squeeze (Suc f) before gap (c # cs) =
     (if is_blank_char c then squeeze f before True cs
      else if gap \<and> before \<noteq> None \<and> \<not> is_structural (the before) \<and> \<not> is_structural c then None
      else if c = CHR 0x22 then
        (case in_text cs of None \<Rightarrow> None | Some (t, r) \<Rightarrow> map_option (\<lambda>z. c # t @ z) (squeeze f (Some c) False r))
      else map_option (\<lambda>z. c # z) (squeeze f (Some c) False cs))"

text \<open>The last of duplicate members counts; \<open>field\<close> takes the first.\<close>

fun last_first :: "json \<Rightarrow> json" where
  "last_first (JArr vs) = JArr (map last_first vs)"
| "last_first (JObj ms) = JObj (rev (map (\<lambda>(k, v). (k, last_first v)) ms))"
| "last_first v = v"

definition read_manifest :: "string \<Rightarrow> json option" where
  "read_manifest s = (case squeeze (length s + 1) None False s of
       None \<Rightarrow> None | Some t \<Rightarrow> map_option last_first (json_loads t))"

section \<open>The manifest\<close>

record candidate =
  c_release :: string
  c_channel :: string
  c_sequence :: int
  c_digest :: string
  c_source :: string

text \<open>\<open>bool(v)\<close>, and \<open>str(v)\<close> where it can match a pattern.\<close>

fun json_false :: "json \<Rightarrow> bool" where
  "json_false JNull = True"
| "json_false (JBool b) = (\<not> b)"
| "json_false (JInt i) = (i = 0)"
| "json_false (JStr t) = (t = [])"
| "json_false (JArr vs) = (vs = [])"
| "json_false (JObj ms) = (ms = [])"

definition py_str :: "json \<Rightarrow> string option" where
  "py_str v = (case v of
       JStr t \<Rightarrow> if list_all (\<lambda>c. c < 256) t then Some (ascii t) else None
     | JInt i \<Rightarrow> Some (write_int i)
     | _ \<Rightarrow> None)"

text \<open>A pattern ending in \<open>$\<close> also matches before a final line break.\<close>

definition dollar :: "(string \<Rightarrow> bool) \<Rightarrow> string \<Rightarrow> bool" where
  "dollar p s \<longleftrightarrow> p s \<or> s \<noteq> [] \<and> last s = CHR 0x0A \<and> p (butlast s)"

definition DIGEST_RE :: "string \<Rightarrow> bool" where
  "DIGEST_RE = dollar (\<lambda>s. startswith s ''sha256:'' \<and> hex_of_length 64 (drop 7 s))"

definition is_low_alnum :: "char \<Rightarrow> bool" where
  "is_low_alnum c \<longleftrightarrow> between CHR ''a'' CHR ''z'' c \<or> is_digit c"

definition SOURCE_RE :: "string \<Rightarrow> bool" where
  "SOURCE_RE = dollar (\<lambda>s. s \<noteq> [] \<and> is_low_alnum (hd s) \<and> length s \<le> 128 \<and> list_all (\<lambda>c. is_low_alnum c \<or> c \<in> set ''._/-'') (tl s))"

definition invalid_manifest :: exn where
  "invalid_manifest = UpdateError ''The update manifest is not valid''"

definition validate :: "'x host \<Rightarrow> json \<Rightarrow> candidate result" where
  "validate h m = (case m of
       JObj ms \<Rightarrow>
         rbind (if json_false (field ms ''images'') then Inr JNull
                else case field ms ''images'' of JObj is \<Rightarrow> Inr (field is ''epilykos'') | _ \<Rightarrow> Inl (AttributeError ''get'')) (\<lambda>app.
         case (app, field ms ''sequence'', py_str (get app ''digest''), py_str (get app ''source''), field ms ''release'') of
           (JObj _, JInt seq, Some digest, Some source, JStr r) \<Rightarrow>
             if field ms ''schema'' \<notin> {JInt 1, JBool True} \<or> seq < 1 \<or> \<not> DIGEST_RE digest \<or> \<not> SOURCE_RE source \<or> \<not> list_all (\<lambda>c. c < 256) r
             then Inl invalid_manifest
             else if field ms ''channel'' \<noteq> JStr (u (b_channel (base_of h)))
             then Inl (UpdateError ''The update is for another channel, not this appliance's'')
             else Inr \<lparr>c_release = ascii r, c_channel = b_channel (base_of h), c_sequence = seq, c_digest = digest, c_source = source\<rparr>
         | _ \<Rightarrow> Inl invalid_manifest)
     | _ \<Rightarrow> Inl (AttributeError ''get''))"

definition verify :: "'x host \<Rightarrow> string \<Rightarrow> string \<Rightarrow> candidate result" where
  "verify h manifest signature = (case h_app_key h of
       None \<Rightarrow> Inl (UpdateError ''This EpilykosOS build has no app update key, so it cannot install app updates'')
     | Some key \<Rightarrow>
       if length signature \<noteq> 64 then Inl (UpdateError ''The update signature is not valid'')
       else if \<not> pkeyutl_verify (h_crypto h) key manifest signature
       then Inl (UpdateError ''The update is not signed by Epilykos, so it was refused'')
       else case read_manifest manifest of
         None \<Rightarrow> Inl (UpdateError ''The update manifest is unreadable'')
       | Some m \<Rightarrow> validate h m)"

section \<open>The feed\<close>

definition MAX_MANIFEST :: nat where "MAX_MANIFEST = 64 * 1024"

definition fetch_app :: "'x host \<Rightarrow> string \<Rightarrow> ('x, string) run" where
  "fetch_app h url = bind (ask (h_fetch h url)) (\<lambda>r. case r of
       Inl reason \<Rightarrow> raise (UpdateError (''Could not reach the update server ('' @ reason @ '')''))
     | Inr data \<Rightarrow> if MAX_MANIFEST < length data then raise (UpdateError ''The update manifest is too large'') else ret data)"

definition app_feed :: "'x host \<Rightarrow> string" where
  "app_feed h =
     (let channel = (if b_channel (base_of h) = [] then ''stable'' else b_channel (base_of h))
      in rev (dropWhile (\<lambda>c. c = CHR ''/'') (rev (''https://github.com/ashipaek0/epilykos-os/releases/download/app-'' @ channel))))"

definition fetch_latest :: "'x host \<Rightarrow> ('x, candidate \<times> string \<times> string) run" where
  "fetch_latest h =
     bind (fetch_app h (app_feed h @ ''/manifest.json'')) (\<lambda>manifest.
     bind (fetch_app h (app_feed h @ ''/manifest.json.sig'')) (\<lambda>signature.
     bind (lift (verify h manifest signature)) (\<lambda>c. ret (c, manifest, signature))))"

section \<open>Hostd's actions\<close>

record app_view =
  av_digest :: string
  av_version :: string
  av_job :: "app_job option"
  av_result :: "app_result option"
  av_available :: "bool option"
  av_error :: "string option"
  av_latest :: "candidate option"

definition app_view_of :: "'x host \<Rightarrow> app_files \<Rightarrow> app_view" where
  "app_view_of h a = \<lparr>av_digest = release_digest (current h a), av_version = release_version (current h a), av_job = a_job a,
     av_result = a_result a, av_available = None, av_error = None, av_latest = None\<rparr>"

definition status :: "'x host \<Rightarrow> ('x, app_view \<times> string) run" where
  "status h = bind get_app (\<lambda>a. ret (app_view_of h a, b_os_version (base_of h)))"

definition check_app_update :: "'x host \<Rightarrow> ('x, app_view \<times> string) run" where
  "check_app_update h =
     bind get_app (\<lambda>a.
     bind (try_catch (bind (fetch_latest h) (\<lambda>l. ret (Inr l)))
         (\<lambda>e. case e of UpdateError m \<Rightarrow> Some (ret (Inl m)) | _ \<Rightarrow> None)) (\<lambda>r. case r of
       Inl m \<Rightarrow> ret ((app_view_of h a)\<lparr>av_available := Some False, av_error := Some m\<rparr>, b_os_version (base_of h))
     | Inr (c, manifest, signature) \<Rightarrow>
         let newer = (c_sequence c > app_floor h a \<and> c_digest c \<noteq> release_digest (current h a)) in
         andthen (if newer then write_app (\<lambda>a. a\<lparr>a_verified := Some (manifest, signature)\<rparr>) else ret ())
           (ret ((app_view_of h a)\<lparr>av_available := Some newer, av_latest := Some c\<rparr>, b_os_version (base_of h)))))"

definition unverified_config :: exn where
  "unverified_config = UpdateError ''Could not verify the app maintenance configuration''"

definition as_update_error :: "'a result \<Rightarrow> 'a result" where
  "as_update_error r = (case r of Inl (CompatibilityError m) \<Rightarrow> Inl (UpdateError m) | _ \<Rightarrow> r)"

definition inspect_app :: "'x host \<Rightarrow> string \<Rightarrow> string \<Rightarrow> ('x, json) run" where
  "inspect_app h kind ref = bind (ask (h_app_inspect h kind ref)) (\<lambda>a. case a of
       Timeout \<Rightarrow> raise unverified_config
     | Exited ok out \<Rightarrow> if ok then lift (as_update_error (inspection out)) else raise unverified_config)"

datatype apply_result = Applying candidate app_job | UpToDate | AlreadyAttempted

definition starting_job :: "candidate \<Rightarrow> app_job" where
  "starting_job c = \<lparr>aj_starting = False, aj_release = c_release c, aj_sequence = c_sequence c, aj_digest = c_digest c\<rparr>"

text \<open>Under the lease: what fails here takes the job back, a power cut does not.\<close>

definition start_update :: "'x host \<Rightarrow> candidate \<Rightarrow> bool \<Rightarrow> ('x, apply_result) run" where
  "start_update h c automatic =
     try_catch
       (bind (inspect_app h ''container'' ''epilykos'') (\<lambda>info.
        bind (lift (as_update_error (running_container info))) (\<lambda>_.
        andthen (if automatic then write_app (\<lambda>a. a\<lparr>a_attempt := Some (c_sequence c, c_digest c)\<rparr>) else ret ())
       (andthen (write_app (\<lambda>a. a\<lparr>a_job := Some (starting_job c)\<rparr>))
         (ret (Applying c (starting_job c)))))))
       (\<lambda>e. if e = PowerCut then None else Some (andthen (write_app (\<lambda>a. a\<lparr>a_job := None\<rparr>)) (raise e)))"

definition saved_candidate :: "'x host \<Rightarrow> app_files \<Rightarrow> candidate option result" where
  "saved_candidate h a = (case a_verified a of
       None \<Rightarrow> Inr None
     | Some (manifest, signature) \<Rightarrow> (case verify h manifest signature of
         Inr c \<Rightarrow> Inr (Some c)
       | Inl (UpdateError _) \<Rightarrow> Inr None | Inl (KeyError _) \<Rightarrow> Inr None | Inl (ValueError _) \<Rightarrow> Inr None
       | Inl e \<Rightarrow> Inl e))"

text \<open>\<open>apply\<close> once it has the candidate, and the whole of it.\<close>

definition admit_candidate :: "'x host \<Rightarrow> app_files \<Rightarrow> bool \<Rightarrow> int option \<Rightarrow> string option \<Rightarrow> candidate \<Rightarrow> ('x, apply_result) run" where
  "admit_candidate h a automatic sequence digest c =
     (if automatic \<and> (Some (c_sequence c) \<noteq> sequence \<or> Some (c_digest c) \<noteq> digest)
      then raise (UpdateError ''The verified release changed; check for updates again'')
      else if automatic \<and> (case a_attempt a of None \<Rightarrow> 0 | Some (n, _) \<Rightarrow> n) \<ge> c_sequence c then ret AlreadyAttempted
      else if c_sequence c \<le> app_floor h a \<or> c_digest c = release_digest (current h a) then ret UpToDate
      else bind (ask (h_lease h)) (\<lambda>busy. case busy of
          Some m \<Rightarrow> raise (UpdateError m)
        | None \<Rightarrow> start_update h c automatic))"

definition apply_update :: "'x host \<Rightarrow> bool \<Rightarrow> string \<Rightarrow> bool \<Rightarrow> int option \<Rightarrow> string option \<Rightarrow> ('x, apply_result) run" where
  "apply_update h running target automatic sequence digest =
     (if target = ''os'' then raise (UpdateError ''EpilykosOS updates are not published yet'')
      else if target \<noteq> ''app'' then raise (UpdateError ''unknown update target'')
      else bind get_app (\<lambda>a.
        if running \<or> a_job a \<noteq> None then raise (UpdateError ''An update is already running'')
        else bind (lift (saved_candidate h a)) (\<lambda>saved.
        bind (case saved of Some c \<Rightarrow> ret c | None \<Rightarrow> bind (fetch_latest h) (\<lambda>(c, _). ret c))
          (admit_candidate h a automatic sequence digest))))"

section \<open>The update\<close>

definition restart_app :: "'x host \<Rightarrow> ('x, bool) run" where
  "restart_app h = bind (outside (h_restart_app h)) (\<lambda>a. case a of
       Timeout \<Rightarrow> raise (TimeoutExpired ''systemctl'') | Exited ok _ \<Rightarrow> ret ok)"

definition image_ref :: "candidate \<Rightarrow> string" where
  "image_ref c = ''docker.io/'' @ c_source c @ ''@'' @ c_digest c"

definition last_line :: "string \<Rightarrow> string" where
  "last_line err = take 200 (case splitlines (strip err) of [] \<Rightarrow> ''podman pull failed'' | ls \<Rightarrow> last ls)"

definition promoted_of :: "candidate \<Rightarrow> string \<Rightarrow> promoted" where
  "promoted_of c i = \<lparr>m_release = c_release c, m_channel = c_channel c, m_sequence = c_sequence c, m_digest = c_digest c, m_image = i\<rparr>"

text \<open>Until the candidate is what the app starts from.\<close>

definition prepare :: "'x host \<Rightarrow> candidate \<Rightarrow> app_job \<Rightarrow> ('x, promoted) run" where
  "prepare h c job =
     bind (outside (h_pull h (image_ref c))) (\<lambda>a. case a of
       Timeout \<Rightarrow> raise (TimeoutExpired ''podman'')
     | Exited ok err \<Rightarrow>
       if \<not> ok then raise (UpdateError (''Could not download the update: '' @ last_line err))
       else bind (inspect_app h ''image'' (image_ref c)) (\<lambda>info.
         bind (lift (as_update_error (candidate_image info))) (\<lambda>image.
         andthen (write_app (\<lambda>a. a\<lparr>a_job := Some (job\<lparr>aj_starting := True\<rparr>)\<rparr>))
        (andthen (set_active (Promoted (promoted_of c image))) (ret (promoted_of c image))))))"

definition unneeded_image :: "'x host \<Rightarrow> promoted \<Rightarrow> release \<Rightarrow> promoted option \<Rightarrow> string option" where
  "unneeded_image h m before old = (case old of
       None \<Rightarrow> None
     | Some p \<Rightarrow> if m_image p \<in> {m_image m, release_image before, b_image (base_of h)} then None else Some (m_image p))"

definition start_and_promote :: "'x host \<Rightarrow> promoted \<Rightarrow> release \<Rightarrow> ('x, unit) run" where
  "start_and_promote h m before =
     bind (try_catch (restart_app h) (\<lambda>e. case e of TimeoutExpired _ \<Rightarrow> Some (ret False) | _ \<Rightarrow> None)) (\<lambda>healthy.
     if \<not> healthy then raise (UpdateError ''The new version did not start, so the previous version was put back'')
     else bind get_app (\<lambda>a.
       andthen (case before of Promoted p \<Rightarrow> write_app (\<lambda>a. a\<lparr>a_previous := Some p\<rparr>) | Baseline _ \<Rightarrow> ret ())
      (andthen (write_app (\<lambda>a. a\<lparr>a_current := Some m\<rparr>))
      (andthen (write_app (\<lambda>a. a\<lparr>a_floor := Some (m_sequence m)\<rparr>))
      (andthen (write_app (\<lambda>a. a\<lparr>a_result := Some \<lparr>ar_ok = True, ar_error = [], ar_rolled_back = False, ar_release = m_release m\<rparr>\<rparr>))
        (case unneeded_image h m before (a_previous a) of
           None \<Rightarrow> ret ()
         | Some i \<Rightarrow> bind (outside (h_remove_image h i)) (\<lambda>a. case a of
             Timeout \<Rightarrow> raise (TimeoutExpired ''podman'') | Exited _ _ \<Rightarrow> ret ())))))))"

fun exn_name :: "exn \<Rightarrow> string" where
  "exn_name (OSError _) = ''OSError''" | "exn_name (TimeoutExpired _) = ''TimeoutExpired''"
| "exn_name (KeyError _) = ''KeyError''" | "exn_name (ValueError _) = ''ValueError''"
| "exn_name (AttributeError _) = ''AttributeError''" | "exn_name _ = ''Exception''"

definition error_text :: "exn \<Rightarrow> string" where
  "error_text e = (case e of UpdateError m \<Rightarrow> m | _ \<Rightarrow> ''The update failed ('' @ exn_name e @ '')'')"

text \<open>\<open>except Exception\<close>: every exception but the end of the box.\<close>

definition attempted :: "('x, 'a) run \<Rightarrow> ('x, exn + 'a) run" where
  "attempted m = try_catch (bind m (\<lambda>x. ret (Inr x))) (\<lambda>e. if e = PowerCut then None else Some (ret (Inl e)))"

definition roll_back :: "'x host \<Rightarrow> candidate \<Rightarrow> release \<Rightarrow> bool \<Rightarrow> exn \<Rightarrow> ('x, unit) run" where
  "roll_back h c before started e =
     bind (attempted (andthen (set_active before) (if started then restart_app h else ret True))) (\<lambda>r.
     write_app (\<lambda>a. a\<lparr>a_result := Some \<lparr>ar_ok = False, ar_error = error_text e,
       ar_rolled_back = (case r of Inr b \<Rightarrow> b | Inl _ \<Rightarrow> False), ar_release = c_release c\<rparr>\<rparr>))"

definition run_update :: "'x host \<Rightarrow> candidate \<Rightarrow> app_job \<Rightarrow> ('x, unit) run" where
  "run_update h c job =
     bind get_app (\<lambda>a.
     let before = current h a in
     try_finally
       (bind (attempted (prepare h c job)) (\<lambda>r. case r of
          Inl e \<Rightarrow> roll_back h c before False e
        | Inr m \<Rightarrow> bind (attempted (start_and_promote h m before)) (\<lambda>r. case r of
            Inl e \<Rightarrow> roll_back h c before True e
          | Inr _ \<Rightarrow> ret ())))
       (andthen (write_app (\<lambda>a. a\<lparr>a_job := None\<rparr>)) (write_app (\<lambda>a. a\<lparr>a_verified := None\<rparr>))))"

definition recover :: "'x host \<Rightarrow> ('x, unit) run" where
  "recover h =
     bind get_app (\<lambda>a. case a_job a of
       None \<Rightarrow> ret ()
     | Some job \<Rightarrow>
       andthen (set_active (current h a))
      (andthen (write_app (\<lambda>a. a\<lparr>a_result := Some \<lparr>ar_ok = False,
          ar_error = ''The update was interrupted, so the previous version was kept'', ar_rolled_back = True, ar_release = aj_release job\<rparr>\<rparr>))
        (write_app (\<lambda>a. a\<lparr>a_job := None\<rparr>))))"

section \<open>What the operations do\<close>

text \<open>A candidate that the appliance's key signed, for its channel.\<close>

definition authentic :: "'x host \<Rightarrow> candidate \<Rightarrow> bool" where
  "authentic h c \<longleftrightarrow> (\<exists>key manifest signature m. h_app_key h = Some key \<and> length signature = 64 \<and>
     pkeyutl_verify (h_crypto h) key manifest signature \<and> read_manifest manifest = Some m \<and> validate h m = Inr c) \<and>
     c_channel c = b_channel (base_of h) \<and> 1 \<le> c_sequence c \<and> DIGEST_RE (c_digest c) \<and> SOURCE_RE (c_source c)"

lemma validate_facts:
  assumes "validate h m = Inr c"
  shows "c_channel c = b_channel (base_of h)" "1 \<le> c_sequence c" "DIGEST_RE (c_digest c)" "SOURCE_RE (c_source c)"
proof -
  obtain ms where m: "m = JObj ms" using assms by (cases m) (simp_all add: validate_def)
  from assms obtain app where i: "(case (app, field ms ''sequence'', py_str (get app ''digest''), py_str (get app ''source''), field ms ''release'') of
           (JObj _, JInt seq, Some digest, Some source, JStr r) \<Rightarrow>
             if field ms ''schema'' \<notin> {JInt 1, JBool True} \<or> seq < 1 \<or> \<not> DIGEST_RE digest \<or> \<not> SOURCE_RE source \<or> \<not> list_all (\<lambda>c. c < 256) r
             then Inl invalid_manifest
             else if field ms ''channel'' \<noteq> JStr (u (b_channel (base_of h)))
             then Inl (UpdateError ''The update is for another channel, not this appliance's'')
             else Inr \<lparr>c_release = ascii r, c_channel = b_channel (base_of h), c_sequence = seq, c_digest = digest, c_source = source\<rparr>
         | _ \<Rightarrow> Inl invalid_manifest) = Inr c"
    unfolding validate_def m json.case rbind_Inr_iff by blast
  obtain as where a: "app = JObj as" using i by (cases app) simp_all
  obtain seq where q: "field ms ''sequence'' = JInt seq" using i a by (cases "field ms ''sequence''") simp_all
  obtain d where d: "py_str (get app ''digest'') = Some d" using i a q by (cases "py_str (get app ''digest'')") simp_all
  obtain t where t: "py_str (get app ''source'') = Some t" using i a q d by (cases "py_str (get app ''source'')") simp_all
  obtain r where r: "field ms ''release'' = JStr r" using i a q d t by (cases "field ms ''release''") simp_all
  show "c_channel c = b_channel (base_of h)" "1 \<le> c_sequence c" "DIGEST_RE (c_digest c)" "SOURCE_RE (c_source c)"
    using i unfolding a q r prod.case json.case using d t a by (auto split: if_split_asm)
qed

lemma verify_authentic: "verify h manifest signature = Inr c \<Longrightarrow> authentic h c"
  using validate_facts [of h _ c]
  by (auto simp: verify_def authentic_def split: option.split_asm if_split_asm)

lemma wp_attempted [wp_simps]:
  "wp (attempted m) Q E w = wp m (\<lambda>x. Q (Inr x)) (\<lambda>e w'. if e = PowerCut then E e w' else Q (Inl e) w') w"
proof -
  have "(case if e = PowerCut then None else Some (ret (Inl e)) of None \<Rightarrow> E e w' | Some a \<Rightarrow> wp a Q E w') =
    (if e = PowerCut then E e w' else Q (Inl e) w')" for e w' by (simp add: wp_ret)
  then show ?thesis by (simp add: attempted_def wp_simps)
qed

lemma wp_inspect_app [wp_simps]:
  "wp (inspect_app h kind ref) Q E w = (case h_app_inspect h kind ref (w_ext w) of
       Timeout \<Rightarrow> E unverified_config w
     | Exited ok out \<Rightarrow> if ok then (case as_update_error (inspection out) of Inl e \<Rightarrow> E e w | Inr x \<Rightarrow> Q x w) else E unverified_config w)"
  by (simp add: inspect_app_def wp_simps wp_ask split: answer.split)

lemma wp_fetch_latest:
  "wp (fetch_latest h) (\<lambda>(c, _) w'. w' = w \<and> authentic h c) (\<lambda>_ w'. w' = w) w"
  by (auto simp: fetch_latest_def fetch_app_def wp_simps wp_ask verify_authentic split: sum.split)

lemma as_update_error_Inr [simp]: "as_update_error r = Inr x \<longleftrightarrow> r = Inr x"
  by (auto simp: as_update_error_def split: sum.split exn.split)

text \<open>What an admission writes.\<close>

definition admits :: "'x host \<Rightarrow> candidate \<Rightarrow> bool \<Rightarrow> 'x world \<Rightarrow> 'x world \<Rightarrow> bool" where
  "admits h c automatic w w' \<longleftrightarrow>
     (\<exists>out info. h_app_inspect h ''container'' ''epilykos'' (w_ext w) = Exited True out \<and> inspection out = Inr info \<and> running_container info = Inr ()) \<and>
     w_app w' = (w_app w)\<lparr>a_attempt := if automatic then Some (c_sequence c, c_digest c) else a_attempt (w_app w), a_job := Some (starting_job c)\<rparr>"

definition untouched :: "'x world \<Rightarrow> 'x world \<Rightarrow> bool" where
  "untouched w w' \<longleftrightarrow> (w_app w')\<lparr>a_attempt := a_attempt (w_app w), a_job := a_job (w_app w)\<rparr> = w_app w"

lemma untouched_refl [simp]: "untouched w w"
  by (simp add: untouched_def)

lemma wp_start_update:
  "wp (start_update h c automatic) (\<lambda>r w'. r = Applying c (starting_job c) \<and> admits h c automatic w w') (\<lambda>e w'. untouched w w') w"
  by (auto simp: start_update_def wp_simps admits_def untouched_def split: answer.split sum.split list.split outcome.split)

text \<open>The answers of an admission.\<close>

definition answered_by :: "'x host \<Rightarrow> bool \<Rightarrow> 'x world \<Rightarrow> apply_result \<Rightarrow> 'x world \<Rightarrow> bool" where
  "answered_by h automatic w r w' = (case r of
       Applying c j \<Rightarrow> authentic h c \<and> j = starting_job c \<and>
         app_floor h (w_app w) < c_sequence c \<and> c_digest c \<noteq> release_digest (current h (w_app w)) \<and>
         h_lease h (w_ext w) = None \<and> admits h c automatic w w'
     | _ \<Rightarrow> w' = w)"

lemma wp_admit_candidate:
  assumes "authentic h c"
  shows "wp (admit_candidate h (w_app w) automatic sequence digest c) (answered_by h automatic w) (\<lambda>_. untouched w) w"
proof -
  have st: "wp (start_update h c automatic) (answered_by h automatic w) (\<lambda>_. untouched w) w"
    if "app_floor h (w_app w) < c_sequence c" "c_digest c \<noteq> release_digest (current h (w_app w))" "h_lease h (w_ext w) = None"
    by (rule wp_use [OF wp_start_update]) (use that assms in \<open>simp_all add: answered_by_def\<close>)
  show ?thesis
    unfolding admit_candidate_def
    by (intro wp_ifI) (use st in \<open>auto simp: wp_ret wp_raise wp_bind wp_ask answered_by_def split: option.split\<close>)
qed

lemma wp_apply_update:
  "wp (apply_update h running target automatic sequence digest)
     (\<lambda>r w'. target = ''app'' \<and> \<not> running \<and> a_job (w_app w) = None \<and> answered_by h automatic w r w') (\<lambda>_. untouched w) w"
proof -
  have saved: "saved_candidate h (w_app w) = Inr (Some c) \<Longrightarrow> authentic h c" for c
    by (auto simp: saved_candidate_def verify_authentic split: option.split_asm sum.split_asm exn.split_asm)
  have choose: "wp (case v of Some c \<Rightarrow> ret c | None \<Rightarrow> bind (fetch_latest h) (\<lambda>(c, _). ret c))
     (\<lambda>c w'. w' = w \<and> authentic h c) (\<lambda>_ w'. w' = w) w" if "saved_candidate h (w_app w) = Inr v" for v
    by (rule wp_optionI) (use that saved in \<open>auto simp: wp_ret wp_bind intro!: wp_use [OF wp_fetch_latest]\<close>)
  have main: "wp (bind (lift (saved_candidate h (w_app w))) (\<lambda>saved.
        bind (case saved of Some c \<Rightarrow> ret c | None \<Rightarrow> bind (fetch_latest h) (\<lambda>(c, _). ret c))
          (admit_candidate h (w_app w) automatic sequence digest))) (answered_by h automatic w) (\<lambda>_. untouched w) w"
  proof (cases "saved_candidate h (w_app w)")
    case (Inr v)
    show ?thesis
      unfolding wp_bind Inr wp_lift sum.case
      by (rule wp_use [OF choose [OF Inr]]) (auto intro: wp_admit_candidate)
  qed (simp add: wp_bind wp_lift)
  show ?thesis
    unfolding apply_update_def
  proof (rule wp_ifI, simp add: wp_raise, rule wp_ifI, simp add: wp_raise, unfold wp_bind [of get_app] wp_get_app,
      rule wp_ifI, simp add: wp_raise, goal_cases)
    case 1
    then show ?case by (intro wp_use [OF main]) simp_all
  qed
qed


section \<open>The update and its ends\<close>

lemma on_write:
  assumes "\<And>w'. w_app w' = f (w_app w) \<Longrightarrow> Q () w'" and "\<And>e w'. w_app w' = w_app w \<Longrightarrow> E e w'"
  shows "wp (write_app f) Q E w"
  using assms by (auto simp: wp_write_app split: list.split outcome.split)

lemma on_outside:
  assumes "\<And>x w'. w_app w' = w_app w \<Longrightarrow> Q x w'" and "\<And>w'. w_app w' = w_app w \<Longrightarrow> E PowerCut w'"
  shows "wp (outside f) Q E w"
  using assms by (auto simp: outside_def wp_def split: list.split outcome.split prod.split)

lemma on_ask:
  assumes "\<And>x. Q x w" shows "wp (ask f) Q E w"
  using assms by (simp add: wp_ask)

lemmas app_rules = on_write on_outside on_ask

text \<open>What holds between the begin of an update and its end, and when the candidate is promoted.\<close>

definition reach :: "candidate \<Rightarrow> app_files \<Rightarrow> app_files \<Rightarrow> bool" where
  "reach c a a' \<longleftrightarrow> (a_current a' = a_current a \<or> (\<exists>i. a_current a' = Some (promoted_of c i))) \<and>
     a_floor a' \<in> {a_floor a, Some (c_sequence c)} \<and> a_attempt a' = a_attempt a"

definition promoted_now :: "candidate \<Rightarrow> app_files \<Rightarrow> bool" where
  "promoted_now c a \<longleftrightarrow> (\<exists>i. a_current a = Some (promoted_of c i) \<and> a_active a = active_of (Promoted (promoted_of c i))) \<and>
     a_floor a = Some (c_sequence c)"

lemma promoted_of_simps [simp]: "m_sequence (promoted_of c i) = c_sequence c" "m_release (promoted_of c i) = c_release c"
  by (simp_all add: promoted_of_def)

lemma reach_steps: "reach c a0 a \<Longrightarrow> reach c a0 (a\<lparr>a_previous := p\<rparr>)" "reach c a0 a \<Longrightarrow> reach c a0 (a\<lparr>a_result := r\<rparr>)"
  "reach c a0 a \<Longrightarrow> reach c a0 (a\<lparr>a_active := t\<rparr>)" "reach c a0 a \<Longrightarrow> reach c a0 (a\<lparr>a_job := j\<rparr>)"
  "reach c a0 a \<Longrightarrow> reach c a0 (a\<lparr>a_verified := v\<rparr>)"
  "reach c a0 a \<Longrightarrow> reach c a0 (a\<lparr>a_current := Some (promoted_of c i)\<rparr>)"
  "reach c a0 a \<Longrightarrow> reach c a0 (a\<lparr>a_floor := Some (c_sequence c)\<rparr>)"
  "reach c a0 a \<Longrightarrow> reach c a0 (a\<lparr>a_current := Some (promoted_of c i), a_floor := Some (c_sequence c)\<rparr>)"
  "reach c a0 a \<Longrightarrow> reach c a0 (a\<lparr>a_current := Some (promoted_of c i), a_floor := Some (c_sequence c), a_result := r\<rparr>)"
  "reach c a0 a \<Longrightarrow> reach c a0 (a\<lparr>a_previous := p, a_current := Some (promoted_of c i)\<rparr>)"
  "reach c a0 a \<Longrightarrow> reach c a0 (a\<lparr>a_previous := p, a_current := Some (promoted_of c i), a_floor := Some (c_sequence c)\<rparr>)"
  "reach c a0 a \<Longrightarrow> reach c a0 (a\<lparr>a_previous := p, a_current := Some (promoted_of c i), a_floor := Some (c_sequence c), a_result := r\<rparr>)"
  by (auto simp: reach_def)

lemma promoted_nowI: "a_current a = Some (promoted_of c i) \<Longrightarrow> a_active a = active_of (Promoted (promoted_of c i)) \<Longrightarrow>
   a_floor a = Some (c_sequence c) \<Longrightarrow> promoted_now c a"
  by (auto simp: promoted_now_def)

lemma wp_prepare:
  "wp (prepare h c job)
     (\<lambda>m w'. m \<in> range (promoted_of c) \<and> a_active (w_app w') = active_of (Promoted m) \<and> a_job (w_app w') \<noteq> None \<and> reach c (w_app w) (w_app w'))
     (\<lambda>e w'. reach c (w_app w) (w_app w') \<and> (a_job (w_app w) \<noteq> None \<longrightarrow> a_job (w_app w') \<noteq> None)) w"
  by (auto simp: prepare_def set_active_def wp_bind wp_andthen wp_ret wp_raise wp_lift wp_inspect_app reach_def
      split: answer.split sum.split intro!: app_rules)

lemma wp_start_and_promote:
  assumes "a_active (w_app w) = active_of (Promoted m)" and "m = promoted_of c i" and "a_job (w_app w) \<noteq> None" and "reach c a0 (w_app w)"
  shows "wp (start_and_promote h m before)
     (\<lambda>_ w'. promoted_now c (w_app w') \<and> a_job (w_app w') \<noteq> None \<and> reach c a0 (w_app w') \<and>
        (\<exists>r. a_result (w_app w') = Some r \<and> ar_ok r \<and> ar_release r = c_release c))
     (\<lambda>e w'. reach c a0 (w_app w') \<and> a_job (w_app w') \<noteq> None) w"
  unfolding start_and_promote_def restart_app_def wp_bind wp_andthen wp_try_catch
  using assms
  by (auto simp: wp_bind wp_andthen wp_ret wp_raise wp_get_app reach_steps
      split: answer.split option.split release.split intro!: app_rules promoted_nowI [where i = i])

lemma wp_roll_back:
  assumes "reach c a0 (w_app w)" and "a_job (w_app w) \<noteq> None"
  shows "wp (roll_back h c before started e)
     (\<lambda>_ w'. reach c a0 (w_app w') \<and> a_job (w_app w') \<noteq> None \<and> (\<exists>r. a_result (w_app w') = Some r \<and> \<not> ar_ok r \<and> ar_release r = c_release c \<and>
        (if ar_rolled_back r then a_active (w_app w') = active_of before else True)))
     (\<lambda>e w'. reach c a0 (w_app w') \<and> a_job (w_app w') \<noteq> None) w"
  unfolding roll_back_def set_active_def restart_app_def
  using assms
  by (auto simp: wp_bind wp_andthen wp_attempted wp_ret wp_raise reach_steps split: answer.split intro!: app_rules)

text \<open>How an update ends.\<close>

definition update_ended :: "'x host \<Rightarrow> candidate \<Rightarrow> app_files \<Rightarrow> app_files \<Rightarrow> bool" where
  "update_ended h c a a' \<longleftrightarrow> (\<exists>r. a_result a' = Some r \<and> ar_release r = c_release c \<and>
     (if ar_ok r then promoted_now c a' else if ar_rolled_back r then a_active a' = active_of (current h a) else True))"

lemma update_ended_cleared [simp]:
  "update_ended h c a (a'\<lparr>a_job := j\<rparr>) = update_ended h c a a'" "update_ended h c a (a'\<lparr>a_verified := v\<rparr>) = update_ended h c a a'"
  by (simp_all add: update_ended_def promoted_now_def)

lemma wp_run_update:
  assumes "a_job (w_app w) \<noteq> None"
  shows "wp (run_update h c job)
     (\<lambda>_ w'. a_job (w_app w') = None \<and> a_verified (w_app w') = None \<and> update_ended h c (w_app w) (w_app w') \<and> reach c (w_app w) (w_app w'))
     (\<lambda>_ w'. reach c (w_app w) (w_app w')) w"
proof -
  let ?a = "w_app w" and ?before = "current h (w_app w)"
  let ?P = "\<lambda>_ w'. a_job (w_app w') = None \<and> a_verified (w_app w') = None \<and> update_ended h c ?a (w_app w') \<and> reach c ?a (w_app w')"
    and ?E = "\<lambda>_ w'. reach c ?a (w_app w')"
  have ends: "wp (andthen (write_app (\<lambda>a. a\<lparr>a_job := None\<rparr>)) (write_app (\<lambda>a. a\<lparr>a_verified := None\<rparr>))) ?P ?E w'"
    if "update_ended h c ?a (w_app w')" "reach c ?a (w_app w')" for w'
    using that by (auto simp: wp_andthen reach_steps intro!: app_rules)
  have fails: "wp (andthen (write_app (\<lambda>a. a\<lparr>a_job := None\<rparr>)) (write_app (\<lambda>a. a\<lparr>a_verified := None\<rparr>))) (\<lambda>_. ?E e) ?E w'"
    if "reach c ?a (w_app w')" for w' e
    using that by (auto simp: wp_andthen reach_steps intro!: app_rules)
  have restores: "wp (roll_back h c ?before st e)
      (\<lambda>x. wp (andthen (write_app (\<lambda>a. a\<lparr>a_job := None\<rparr>)) (write_app (\<lambda>a. a\<lparr>a_verified := None\<rparr>))) (\<lambda>_. ?P x) ?E)
      (\<lambda>e. wp (andthen (write_app (\<lambda>a. a\<lparr>a_job := None\<rparr>)) (write_app (\<lambda>a. a\<lparr>a_verified := None\<rparr>))) (\<lambda>_. ?E e) ?E) w'"
    if "reach c ?a (w_app w')" "a_job (w_app w') \<noteq> None" for w' st e
  proof (rule wp_use [OF wp_roll_back [OF that, of h ?before st e]], goal_cases)
    case (1 x w1)
    then obtain r where "a_result (w_app w1) = Some r" "\<not> ar_ok r" "ar_release r = c_release c"
      "if ar_rolled_back r then a_active (w_app w1) = active_of ?before else True" by blast
    then have "update_ended h c ?a (w_app w1)" by (simp add: update_ended_def)
    with 1 show ?case using ends by blast
  qed (use fails in blast)
  have launch: "wp (attempted (start_and_promote h m ?before)) (\<lambda>r. wp (case r of Inl e \<Rightarrow> roll_back h c ?before True e | Inr _ \<Rightarrow> ret ())
        (\<lambda>x. wp (andthen (write_app (\<lambda>a. a\<lparr>a_job := None\<rparr>)) (write_app (\<lambda>a. a\<lparr>a_verified := None\<rparr>))) (\<lambda>_. ?P x) ?E)
        (\<lambda>e. wp (andthen (write_app (\<lambda>a. a\<lparr>a_job := None\<rparr>)) (write_app (\<lambda>a. a\<lparr>a_verified := None\<rparr>))) (\<lambda>_. ?E e) ?E))
      (\<lambda>e. wp (andthen (write_app (\<lambda>a. a\<lparr>a_job := None\<rparr>)) (write_app (\<lambda>a. a\<lparr>a_verified := None\<rparr>))) (\<lambda>_. ?E e) ?E) w1"
    if w1: "m = promoted_of c i" "a_active (w_app w1) = active_of (Promoted m)" "a_job (w_app w1) \<noteq> None" "reach c ?a (w_app w1)" for m i w1
    unfolding wp_attempted
  proof (rule wp_use [OF wp_start_and_promote [OF w1(2,1,3,4)]], goal_cases)
    case (1 x w2)
    then obtain r where "a_result (w_app w2) = Some r" "ar_ok r" "ar_release r = c_release c" by blast
    with 1 have "update_ended h c ?a (w_app w2)" by (simp add: update_ended_def)
    with 1 show ?case using ends [of w2] by (simp add: wp_ret)
  next
    case (2 e w2)
    then show ?case using restores [of w2 True e] fails [of w2] by simp
  qed
  show ?thesis
    unfolding run_update_def wp_bind [of get_app] wp_get_app Let_def wp_try_finally wp_bind [of "attempted _"] wp_attempted [of "prepare _ _ _"]
  proof (rule wp_use [OF wp_prepare [of h c job w]], goal_cases)
    case (1 m w1)
    then obtain i where "m = promoted_of c i" by auto
    then show ?case unfolding sum.case wp_bind [of "attempted _"] by (rule launch) (use 1 in simp_all)
  next
    case (2 e w1)
    then show ?case using restores [of w1 False e] fails [of w1] assms by simp
  qed
qed


lemma floor_quiet:
  "a_floor (w_app (snd (check_app_update h w))) = a_floor (w_app w)"
  "a_floor (w_app (snd (apply_update h running target automatic sequence digest w))) = a_floor (w_app w)"
  "a_floor (w_app (snd (recover h w))) = a_floor (w_app w)"
proof -
  let ?F = "\<lambda>w'. a_floor (w_app w') = a_floor (w_app w)"
  have fl: "untouched w w' \<Longrightarrow> ?F w'" for w' :: "'a world"
    by (drule arg_cong [of _ _ a_floor, OF untouched_def [THEN iffD1]]) simp
  have "wp (check_app_update h) (\<lambda>_. ?F) (\<lambda>_. ?F) w"
    unfolding check_app_update_def wp_bind wp_get_app wp_try_catch
    by (rule wp_use [OF wp_fetch_latest])
      (auto simp: wp_ret wp_bind wp_andthen Let_def split: exn.split intro!: app_rules)
  then show "?F (snd (check_app_update h w))" by (simp add: wp_state)
  have "wp (apply_update h running target automatic sequence digest) (\<lambda>_. ?F) (\<lambda>_. ?F) w"
  proof (rule wp_use [OF wp_apply_update], goal_cases)
    case (1 r w')
    then show ?case by (cases r) (simp_all add: answered_by_def admits_def)
  qed (rule fl)
  then show "?F (snd (apply_update h running target automatic sequence digest w))" by (simp add: wp_state)
  have "wp (recover h) (\<lambda>_. ?F) (\<lambda>_. ?F) w"
    by (auto simp: recover_def set_active_def wp_bind wp_get_app wp_andthen wp_ret split: option.split intro!: app_rules)
  then show "?F (snd (recover h w))" by (simp add: wp_state)
qed

text \<open>
  C28. The anti-replay floor is never lowered: an update of a release above it only raises it to the release's sequence, wherever it
  stops, and the check, the admission and the recovery leave it alone.
\<close>

theorem app_floor_monotone:
  assumes "a_job (w_app w) \<noteq> None" and "stored_floor (w_app w) \<le> c_sequence c"
  shows "stored_floor (w_app w) \<le> stored_floor (w_app (snd (run_update h c job w))) \<and>
     a_floor (w_app (snd (check_app_update h w))) = a_floor (w_app w) \<and>
     a_floor (w_app (snd (apply_update h running target automatic sequence digest w))) = a_floor (w_app w) \<and>
     a_floor (w_app (snd (recover h w))) = a_floor (w_app w)"
proof -
  have "wp (run_update h c job) (\<lambda>_ w'. reach c (w_app w) (w_app w')) (\<lambda>_ w'. reach c (w_app w) (w_app w')) w"
    by (rule wp_use [OF wp_run_update [OF assms(1)]]) simp_all
  then have "stored_floor (w_app w) \<le> stored_floor (w_app (snd (run_update h c job w)))"
    using assms(2) by (auto simp: wp_state reach_def stored_floor_def)
  then show ?thesis using floor_quiet by blast
qed

text \<open>
  C29. Hostd's start after an update that stopped anywhere, its job still there: the app starts from the current release, whole the old one
  or whole the candidate, and the job is gone.
\<close>

theorem recover_restores:
  assumes "a_job (w_app (snd (run_update h c job w))) \<noteq> None" and "a_job (w_app w) \<noteq> None"
  shows "case recover h ((snd (run_update h c job w))\<lparr>w_plan := p\<rparr>) of
     (Inr _, w') \<Rightarrow> a_job (w_app w') = None \<and> a_active (w_app w') = active_of (current h (w_app w')) \<and>
       a_current (w_app w') \<in> insert (a_current (w_app w)) (Some ` range (promoted_of c))
   | (Inl e, w') \<Rightarrow> True"
proof -
  let ?w = "(snd (run_update h c job w))\<lparr>w_plan := p\<rparr>"
  have "wp (run_update h c job) (\<lambda>_ w'. reach c (w_app w) (w_app w')) (\<lambda>_ w'. reach c (w_app w) (w_app w')) w"
    by (rule wp_use [OF wp_run_update [OF assms(2)]]) simp_all
  then have r: "reach c (w_app w) (w_app ?w)" by (simp add: wp_state)
  have cur: "current h (a\<lparr>a_active := t\<rparr>) = current h a" "current h (a\<lparr>a_result := v\<rparr>) = current h a"
    "current h (a\<lparr>a_job := j\<rparr>) = current h a" "current h (a\<lparr>a_active := t, a_result := v, a_job := j\<rparr>) = current h a" for a t v j
    by (simp_all add: current_def)
  obtain j where "a_job (w_app ?w) = Some j" using assms(1) by auto
  then have "wp (recover h) (\<lambda>_ w'. a_job (w_app w') = None \<and> a_active (w_app w') = active_of (current h (w_app w')) \<and>
      a_current (w_app w') = a_current (w_app ?w)) (\<lambda>_ _. True) ?w"
    by (auto simp: recover_def set_active_def wp_bind wp_get_app wp_andthen cur intro!: app_rules)
  moreover have "a_current (w_app ?w) \<in> insert (a_current (w_app w)) (Some ` range (promoted_of c))"
    using r by (auto simp: reach_def)
  ultimately show ?thesis by (auto simp: wp_def split: prod.splits sum.splits)
qed

section \<open>An appliance\<close>

definition app_info :: json where
  "app_info = JObj [(u ''Os'', JStr (u ''linux'')), (u ''Architecture'', JStr (u ''arm64'')), (u ''Id'', JStr (u (replicate 64 CHR ''a''))),
     (u ''Config'', JObj [(u ''Labels'', JObj [(u LABEL, JStr (u PROTOCOL))])])]"

definition app_host :: "bool \<Rightarrow> unit host" where
  "app_host hangs = \<lparr>h_crypto = sample_crypto, h_root = None, h_platform = Missing, h_cmdline = [], h_health = (\<lambda>_. (None, None)),
     h_env = (\<lambda>_. None), h_set = (\<lambda>_ x. (False, x)), h_inspect = (\<lambda>_. Timeout), h_fetch = (\<lambda>_ _. Inl []), h_usage = (\<lambda>_. (0, 0)),
     h_uuid = (\<lambda>_. []), h_active = (\<lambda>_. Timeout), h_start = (\<lambda>x. (Timeout, x)), h_mark = (\<lambda>_ _ x. (Timeout, x)),
     h_reboot = (\<lambda>x. (Timeout, x)), h_slot = (\<lambda>_ _. None), h_get = (\<lambda>_ _ x. (NoAnswer, x)), h_owner = (\<lambda>_. Timeout),
     h_operation = (\<lambda>_. Timeout), h_last_error = (\<lambda>_. Timeout), h_invocation = (\<lambda>_. Timeout), h_start_rauc = (\<lambda>x. (Timeout, x)),
     h_restart_rauc = (\<lambda>x. (Timeout, x)), h_install = (\<lambda>_ _ x. (([], True), x)), h_wait = (\<lambda>x. x), h_good = (\<lambda>x. (Timeout, x)),
     h_image_env = None, h_app_key = None, h_app_inspect = (\<lambda>_ _ _. Exited True (Some (JArr [app_info]))),
     h_pull = (\<lambda>_ x. (Exited True [], x)), h_restart_app = (\<lambda>x. (Exited True (), x)),
     h_remove_image = (\<lambda>_ x. (if hangs then Timeout else Exited True (), x)), h_lease = (\<lambda>_. None)\<rparr>"

definition app_release :: "int \<Rightarrow> promoted" where
  "app_release n = \<lparr>m_release = ''1.0'', m_channel = ''stable'', m_sequence = n, m_digest = ''d'', m_image = (if n = 5 then ''five'' else ''four'')\<rparr>"

definition app_candidate :: candidate where
  "app_candidate = \<lparr>c_release = ''1.1'', c_channel = ''stable'', c_sequence = 9, c_digest = ''e'', c_source = ''epilykos''\<rparr>"

text \<open>Release 5 runs, release 4 ran before it, an update to release 9 begins.\<close>

definition app_world :: "outcome list \<Rightarrow> unit world" where
  "app_world plan = \<lparr>w_journal = NoJournal, w_guard = Guard Idle None, w_cancel = None, w_checked = None, w_staging = Map.empty,
     w_app = \<lparr>a_current = Some (app_release 5), a_previous = Some (app_release 4), a_floor = Some 5, a_active = active_of (Promoted (app_release 5)),
        a_job = Some (starting_job app_candidate), a_result = None, a_verified = None, a_attempt = None\<rparr>,
     w_job = sample_job, w_plan = plan, w_ext = ()\<rparr>"

lemma app_image: "candidate_image app_info = Inr (replicate 64 CHR ''a'')"
proof -
  have "hex_of_length 64 (replicate 64 CHR ''a'')" "list_all (\<lambda>c. c < 128) (u (replicate 64 CHR ''a''))"
    by (simp_all add: hex_of_length_def list_all_iff is_lower_hex_def between_def u_def)
  then show ?thesis
    by (simp add: candidate_image_def app_info_def get_def field_def text_is_def labels_ok_def is_dict_def matching_def u_def [of "''Os''"]
        u_def [of "''Architecture''"] u_def [of "''Id''"] u_def [of "''Config''"] u_def [of "''Labels''"])
qed

lemma app_base: "base_of (app_host b) = \<lparr>b_release = [], b_channel = [], b_sequence = 0, b_digest = [], b_image = [], b_os_version = []\<rparr>"
proof -
  have "py_int ''0'' = Some 0" by code_simp
  then show ?thesis by (simp add: base_of_def app_host_def baseline_def image_value_def or_empty_def)
qed

lemma app_values:
  "h_app_inspect (app_host b) k r x = Exited True (Some (JArr [app_info]))" "h_pull (app_host b) r x = (Exited True [], x)"
  "h_restart_app (app_host b) x = (Exited True (), x)" "h_remove_image (app_host b) i x = (if b then Timeout else Exited True (), x)"
  by (simp_all add: app_host_def)

lemma app_inspection: "inspection (Some (JArr [app_info])) = Inr app_info"
  by (simp add: inspection_def app_info_def)

lemma app_current: "current (app_host b) (w_app (app_world p)) = Promoted (app_release 5)"
  by (simp add: current_def app_base app_world_def app_release_def)

lemma app_world_values:
  "w_plan (app_world p) = p" "w_ext (app_world p) = ()" "a_current (w_app (app_world p)) = Some (app_release 5)"
  "a_previous (w_app (app_world p)) = Some (app_release 4)" "a_floor (w_app (app_world p)) = Some 5"
  "a_job (w_app (app_world p)) = Some (starting_job app_candidate)"
  by (simp_all add: app_world_def)

lemma app_images:
  "m_image (app_release 4) \<noteq> m_image (app_release 5)" "m_image (app_release 4) \<noteq> []"
    "m_image (app_release 4) \<noteq> m_image (promoted_of app_candidate (replicate 64 CHR ''a''))"
    "c_sequence app_candidate = 9" "c_release app_candidate = ''1.1''"
  by (auto simp: app_release_def promoted_of_def app_candidate_def dest: arg_cong [of _ _ length])

lemmas app_run = app_images app_world_values run_simps run_update_def get_app_def Let_def attempted_def prepare_def start_and_promote_def roll_back_def restart_app_def
  inspect_app_def outside_def ask_def write_app_def durable_def set_active_def app_values app_inspection app_image as_update_error_def
  unneeded_image_def app_base try_finally_def recover_def



theorem app_floor_monotone_witness:
  "5 \<le> stored_floor (w_app (snd (run_update (app_host False) app_candidate (starting_job app_candidate) (app_world [Done, Done, Cut]))))"
  using app_floor_monotone [of "app_world [Done, Done, Cut]" app_candidate "app_host False" "starting_job app_candidate"]
  by (simp add: app_world_def stored_floor_def app_candidate_def)

lemma app_cut: "a_job (w_app (snd (run_update (app_host False) app_candidate (starting_job app_candidate) (app_world [Done, Done, Cut])))) \<noteq> None"
  by (simp add: app_run app_current cong: run_cong)

theorem recover_restores_witness:
  "case recover (app_host False) ((snd (run_update (app_host False) app_candidate (starting_job app_candidate) (app_world [Done, Done, Cut])))\<lparr>w_plan := []\<rparr>) of
     (Inr _, w') \<Rightarrow> a_job (w_app w') = None \<and> a_active (w_app w') = active_of (current (app_host False) (w_app w'))
   | (Inl e, w') \<Rightarrow> True"
  using recover_restores [OF app_cut, of "[]"] by (auto simp: app_world_def split: prod.splits sum.splits)

section \<open>Two ends that do not fit\<close>

lemma app_split:
  "w_app (snd (run_update (app_host True) app_candidate (starting_job app_candidate) (app_world []))) =
     (w_app (app_world []))\<lparr>a_previous := Some (app_release 5), a_current := Some (promoted_of app_candidate (replicate 64 CHR ''a'')),
       a_floor := Some 9, a_active := active_of (Promoted (app_release 5)), a_job := None, a_verified := None,
       a_result := Some \<lparr>ar_ok = False, ar_error = error_text (TimeoutExpired ''podman''), ar_rolled_back = True, ar_release = ''1.1''\<rparr>\<rparr>"
  by (simp add: app_run app_current cong: run_cong)

text \<open>
  The old image is removed after the promotion, inside the block whose failure puts the previous version back: when that command
  hangs, release 9 is current and the floor, and the app starts from release 5, reported as put back.
\<close>

theorem cleanup_timeout_splits:
  "let a = w_app (snd (run_update (app_host True) app_candidate (starting_job app_candidate) (app_world []))) in
   map_option m_sequence (a_current a) = Some 9 \<and> a_floor a = Some 9 \<and> a_active a = active_of (Promoted (app_release 5)) \<and>
   map_option ar_ok (a_result a) = Some False \<and> map_option ar_rolled_back (a_result a) = Some True"
  unfolding Let_def app_split by (simp add: app_candidate_def)

text \<open>
  The floor is written after \<open>current.json\<close>: a power cut between the two leaves release 9 current with the floor at 5, and the recovery does not raise it, so
  a signed release 7 would be admitted over release 9.
\<close>

theorem cut_before_floor:
  "let w1 = snd (run_update (app_host False) app_candidate (starting_job app_candidate) (app_world [Done, Done, Done, Done, Done, Done, Cut]));
       a = w_app (snd (recover (app_host False) (w1\<lparr>w_plan := []\<rparr>))) in
   map_option m_sequence (a_current a) = Some 9 \<and> app_floor (app_host False) a = 5 \<and> a_job a = None"
  by (simp add: app_run app_current app_floor_def stored_floor_def app_candidate_def cong: run_cong)

end
