(* ===== verification/Epk_Ssh.thy ===== *)
theory Epk_Ssh
  imports Epk_Text Epk_Base64
begin

text \<open>
  The SSH maintenance login (\<open>epilykos_ssh.py\<close>): the files of \<open>/data/ssh\<close>, the password, the shadow
  file built from the image's own, the public keys, and what is read from files on BOOT.  A file
  replaced through a temporary one is written whole or not at all, and \<open>f_writable\<close> says whether the
  file system takes a write.  libcrypt, the random choices of the salt and SHA-256 are arguments.
\<close>

section \<open>The files\<close>

record ssh_files =
  f_enabled :: bool
  f_hash :: "string option"
  f_keys :: "string option"
  f_shadow_base :: "string option"
  f_shadow :: string
  f_writable :: bool

definition USER :: string where
  "USER = ''epilykos''"

definition KEY_TYPES :: "string list" where
  "KEY_TYPES = [''ssh-ed25519'', ''ssh-rsa'', ''ecdsa-sha2-nistp256'', ''ecdsa-sha2-nistp384'', ''ecdsa-sha2-nistp521'',
    ''sk-ssh-ed25519@openssh.com'', ''sk-ecdsa-sha2-nistp256@openssh.com'']"

text \<open>\<open>^\$(5|6|y|2b)\$[./0-9A-Za-z$=,]{8,}$\<close>\<close>

definition hash_char :: "char \<Rightarrow> bool" where
  "hash_char c \<longleftrightarrow> is_alnum c \<or> c \<in> set ''./$=,''"

definition HASH_RE :: re where
  "HASH_RE = re_seq [lit ''$'', re_choice (map lit [''5'', ''6'', ''y'', ''2b'']), lit ''$'',
     re_times 8 (Ch hash_char), Star (Ch hash_char), TextEnd]"

definition write_file :: "(ssh_files \<Rightarrow> ssh_files) \<Rightarrow> (ssh_files, unit) act" where
  "write_file f = bind get_state (\<lambda>s. if f_writable s then modify f else raise (OSError ''read-only file system''))"

definition write_private :: "string \<Rightarrow> (ssh_files, unit) act" where
  "write_private text = write_file (f_hash_update (\<lambda>_. Some text))"

definition is_enabled :: "(ssh_files, bool) act" where
  "is_enabled = bind get_state (\<lambda>s. ret (f_enabled s))"

definition set_enabled :: "bool \<Rightarrow> (ssh_files, unit) act" where
  "set_enabled on = (if on then write_file (f_enabled_update (\<lambda>_. True))
     else bind is_enabled (\<lambda>e. if e then write_file (f_enabled_update (\<lambda>_. False)) else ret ()))"

section \<open>The password\<close>

definition LIBCRYPT_NAMES :: "string list" where
  "LIBCRYPT_NAMES = [''libcrypt.so.2'', ''libcrypt.so.1'']"

text \<open>\<open>load\<close> is \<open>ctypes.CDLL\<close>: the library's \<open>crypt_ra\<close>, or None when it cannot be loaded.\<close>

type_synonym crypt = "string \<Rightarrow> string \<Rightarrow> string option"

definition libcrypt :: "string option \<Rightarrow> (string \<Rightarrow> crypt option) \<Rightarrow> crypt result" where
  "libcrypt found load = (case List.map_filter load ((case found of None \<Rightarrow> [] | Some n \<Rightarrow> [n]) @ LIBCRYPT_NAMES) of
       [] \<Rightarrow> Inl (OSError ''no libcrypt (libcrypt.so.2, libcrypt.so.1)'')
     | lib # _ \<Rightarrow> Inr lib)"

text \<open>\<open>None\<close> is a value that is not a text.\<close>

definition validate_password :: "string option \<Rightarrow> unit result" where
  "validate_password password = (case password of
       None \<Rightarrow> Inl (SshError ''the SSH password must be 8 to 128 characters'')
     | Some p \<Rightarrow>
         if \<not> (8 \<le> length p \<and> length p \<le> 128) then Inl (SshError ''the SSH password must be 8 to 128 characters'')
         else if \<exists>c\<in>set p. (of_char c :: nat) < 32 \<or> (of_char c :: nat) = 127
           then Inl (SshError ''the SSH password must not contain control characters'')
         else Inr ())"

definition salt_alphabet :: string where
  "salt_alphabet = ''abcdefghijklmnopqrstuvwxyzABCDEFGHIJKLMNOPQRSTUVWXYZ0123456789./''"

definition hash_password :: "string option \<Rightarrow> (string \<Rightarrow> crypt option) \<Rightarrow> nat list \<Rightarrow> string option \<Rightarrow> string result" where
  "hash_password found load choices password =
     rbind (validate_password password) (\<lambda>_.
     rbind (libcrypt found load) (\<lambda>crypt_ra.
       let salt = ''$6$'' @ map (\<lambda>n. salt_alphabet ! (n mod 64)) (take 16 choices)
       in case crypt_ra (utf8 (the password)) salt of
            None \<Rightarrow> Inl (SshError ''could not hash the password'')
          | Some out \<Rightarrow> if startswith out ''$6$'' then Inr out else Inl (SshError ''could not hash the password'')))"

definition validate_hash :: "string option \<Rightarrow> string result" where
  "validate_hash value =
     (let v = strip (case value of None \<Rightarrow> [] | Some s \<Rightarrow> s)
      in if re_match HASH_RE v = None \<or> CHR '':'' \<in> set v
         then Inl (SshError ''unsupported password hash (sha256crypt, sha512crypt, yescrypt or bcrypt only)'')
         else Inr v)"

definition password_set :: "(ssh_files, bool) act" where
  "password_set = bind get_state (\<lambda>s. ret (f_hash s \<noteq> None))"

definition set_password_hash :: "string option \<Rightarrow> (ssh_files, unit) act" where
  "set_password_hash value = bind (lift (validate_hash value)) (\<lambda>v. write_private (v @ [CHR 0x0A]))"

definition clear_password :: "(ssh_files, unit) act" where
  "clear_password = bind password_set (\<lambda>b. if b then write_file (f_hash_update (\<lambda>_. None)) else ret ())"

definition password_hash :: "ssh_files \<Rightarrow> string option" where
  "password_hash s = (case f_hash s of None \<Rightarrow> None
     | Some text \<Rightarrow> (case validate_hash (Some text) of Inl e \<Rightarrow> None | Inr h \<Rightarrow> Some h))"

text \<open>One line of the shadow file, and the whole of it.\<close>

definition shadow_line :: "string \<Rightarrow> string \<Rightarrow> string" where
  "shadow_line field line = (case split_on CHR '':'' line of
       name # old # rest \<Rightarrow> if name = USER then join_with CHR '':'' (name # field # rest) else line
     | _ \<Rightarrow> line)"

definition user_line :: "string \<Rightarrow> bool" where
  "user_line line = (case split_on CHR '':'' line of name # old # rest \<Rightarrow> name = USER | _ \<Rightarrow> False)"

definition render_shadow :: "string \<Rightarrow> string option \<Rightarrow> string" where
  "render_shadow base pw_hash =
     (let field = (case pw_hash of None \<Rightarrow> ''*'' | Some h \<Rightarrow> if h = [] then ''*'' else h);
          lines = splitlines base
      in join_with CHR 0x0A (map (shadow_line field) lines @
           (if \<exists>l\<in>set lines. user_line l then [] else [USER @ '':'' @ field @ '':19000:0:99999:7:::''])) @ [CHR 0x0A])"

definition write_shadow :: "(ssh_files, unit) act" where
  "write_shadow = bind get_state (\<lambda>s. case f_shadow_base s of
       None \<Rightarrow> raise (OSError ''no shadow.base'')
     | Some base \<Rightarrow> write_file (f_shadow_update (\<lambda>_. render_shadow base (password_hash s))))"

section \<open>Public keys\<close>

definition from_big_endian :: "string \<Rightarrow> nat" where
  "from_big_endian s = foldl (\<lambda>n c. n * 256 + of_char c) 0 s"

text \<open>The type the key's own data names: its first field, as \<open>blob[4:4 + n]\<close> slices it.\<close>

definition blob_type :: "string \<Rightarrow> string option" where
  "blob_type blob = (if length blob < 4 then None
     else Some (take (from_big_endian (take 4 blob)) (drop 4 blob)))"

definition has_control :: "string \<Rightarrow> bool" where
  "has_control s \<longleftrightarrow> (\<exists>c\<in>set s. (of_char c :: nat) < 32)"

definition key_fields :: "string \<Rightarrow> string list \<Rightarrow> (string \<times> string \<times> string) result" where
  "key_fields t rest = (case rest of
       [] \<Rightarrow> Inl (SshError ''not an SSH public key (expected e.g. \"ssh-ed25519 AAAA... name\")'')
     | data # others \<Rightarrow>
         if t \<notin> set KEY_TYPES then Inl (SshError ''not an SSH public key (expected e.g. \"ssh-ed25519 AAAA... name\")'')
         else (case b64decode data of
             None \<Rightarrow> Inl (SshError ''the key is not valid base64'')
           | Some blob \<Rightarrow>
               if blob_type blob \<noteq> Some t then Inl (SshError ''the key data does not match its type'')
               else (let comment = (case others of [] \<Rightarrow> [] | c # _ \<Rightarrow> strip c)
                     in if has_control comment then Inl (SshError ''the key comment text_contains control characters'')
                        else Inr (t, blob, comment))))"

definition parse_key :: "string option \<Rightarrow> (string \<times> string \<times> string) result" where
  "parse_key line = (case split_words 2 (strip (case line of None \<Rightarrow> [] | Some l \<Rightarrow> l)) of
       [] \<Rightarrow> Inl (SshError ''not an SSH public key (expected e.g. \"ssh-ed25519 AAAA... name\")'')
     | t # rest \<Rightarrow> key_fields t rest)"

definition rstrip_char :: "char \<Rightarrow> string \<Rightarrow> string" where
  "rstrip_char c s = rev (dropWhile ((=) c) (rev s))"

definition fingerprint :: "(string \<Rightarrow> string) \<Rightarrow> string \<Rightarrow> string" where
  "fingerprint sha blob = ''SHA256:'' @ rstrip_char CHR ''='' (b64encode (sha blob))"

type_synonym key = "string \<times> string \<times> string \<times> string"

fun key_line :: "string \<Rightarrow> key list" where
  "key_line line = (if line = [] \<or> startswith line ''#'' then []
     else (case parse_key (Some line) of Inl _ \<Rightarrow> [] | Inr (t, blob, comment) \<Rightarrow> [(line, t, blob, comment)]))"

definition keys_in :: "string \<Rightarrow> key list" where
  "keys_in text = concat (map (key_line \<circ> strip) (file_lines text))"

definition read_keys :: "ssh_files \<Rightarrow> key list" where
  "read_keys s = (case f_keys s of None \<Rightarrow> [] | Some text \<Rightarrow> keys_in text)"

definition list_keys :: "(string \<Rightarrow> string) \<Rightarrow> ssh_files \<Rightarrow> (string \<times> string \<times> string) list" where
  "list_keys sha s = map (\<lambda>(l, t, b, c). (t, fingerprint sha b, c)) (read_keys s)"

definition write_keys :: "string list \<Rightarrow> (ssh_files, unit) act" where
  "write_keys lines = write_file (f_keys_update (\<lambda>_. Some (unlines lines)))"

definition clean_line :: "string \<Rightarrow> string \<Rightarrow> string \<Rightarrow> string" where
  "clean_line t blob comment = t @ '' '' @ b64encode blob @ (if comment = [] then [] else '' '' @ comment)"

definition add_key :: "(string \<Rightarrow> string) \<Rightarrow> string option \<Rightarrow> (ssh_files, string) act" where
  "add_key sha line =
     bind (lift (parse_key line)) (\<lambda>(t, blob, comment).
     bind get_state (\<lambda>s.
       let fp = fingerprint sha blob; keys = read_keys s
       in if \<exists>(l, t', b, c)\<in>set keys. fingerprint sha b = fp then ret fp
          else andthen (write_keys (map fst keys @ [clean_line t blob comment])) (ret fp)))"

definition remove_key :: "(string \<Rightarrow> string) \<Rightarrow> string \<Rightarrow> (ssh_files, unit) act" where
  "remove_key sha fp = bind get_state (\<lambda>s.
     let keys = read_keys s; kept = map fst (filter (\<lambda>(l, t, b, c). fingerprint sha b \<noteq> fp) keys)
     in if length kept = length keys then raise (SshError ''no such key'') else write_keys kept)"

record ssh_status =
  st_enabled :: bool
  st_password_set :: bool
  st_keys :: "(string \<times> string \<times> string) list"
  st_user :: string

definition ssh_status_of :: "(string \<Rightarrow> string) \<Rightarrow> ssh_files \<Rightarrow> ssh_status" where
  "ssh_status_of sha s = \<lparr>st_enabled = f_enabled s, st_password_set = (f_hash s \<noteq> None),
     st_keys = list_keys sha s, st_user = USER\<rparr>"

section \<open>Files on BOOT\<close>

definition KEY_IN_TEXT :: re where
  "KEY_IN_TEXT = re_seq [NotBehind (\<lambda>c. word_char c \<or> c = CHR ''-''),
     Grp 1 (re_seq [
       re_choice [lit ''ssh-ed25519'', lit ''ssh-rsa'',
         Cat (lit ''ecdsa-sha2-nistp'') (re_choice (map lit [''256'', ''384'', ''521''])),
         lit ''sk-ssh-ed25519@openssh.com'', lit ''sk-ecdsa-sha2-nistp256@openssh.com''],
       lit '' '', re_plus (Ch (\<lambda>c. is_alnum c \<or> c \<in> set ''+/'')), upto_times 3 (lit ''=''),
       re_optional (Cat (lit '' '') (Star (Ch (\<lambda>c. c \<notin> set [CHR 0x27, CHR 0x22, CHR 0x0A, CHR 0x5C])))) ])]"

definition quote :: re where
  "quote = Ch ((=) CHR 0x27)"

definition not_quote :: re where
  "not_quote = Ch (\<lambda>c. c \<noteq> CHR 0x27)"

definition quoted_hash :: re where
  "quoted_hash = re_seq [quote, Grp 1 (Cat (lit ''$'') (re_plus not_quote)), quote]"

definition some_spaces :: re where
  "some_spaces = re_plus (Ch is_space)"

definition USERCONF :: re where
  "USERCONF = re_seq [lit ''userconf'', re_optional (lit ''-pi/userconf''), some_spaces, quote, Star not_quote, quote, some_spaces, quoted_hash]"

definition opt_quotes :: re where
  "opt_quotes = re_optional (Ch (\<lambda>c. c = CHR 0x22 \<or> c = CHR 0x27))"

definition CHPASSWD :: re where
  "CHPASSWD = re_seq [opt_quotes, lit ''$FIRSTUSER:'', opt_quotes, spaces, quoted_hash, spaces, lit ''|'', spaces,
     lit ''chpasswd'', some_spaces, lit ''-e'']"

definition ENABLES_SSH :: re where
  "ENABLES_SSH = Alt (re_seq [lit ''imager_custom'', some_spaces, lit ''enable_ssh'', word_end])
     (re_seq [lit ''systemctl'', some_spaces, lit ''enable'', some_spaces, lit ''ssh'', word_end])"

definition KEY_ONLY :: re where
  "KEY_ONLY = re_seq [lit ''enable_ssh'', some_spaces, lit ''-k'', word_end]"

definition text_contains :: "string \<Rightarrow> string \<Rightarrow> bool" where
  "text_contains s t \<longleftrightarrow> re_search (lit t) s \<noteq> None"

text \<open>The valid keys of the script, in order, each once.\<close>

definition take_key :: "string list \<Rightarrow> place \<Rightarrow> string list" where
  "take_key keys m = (let line = strip (group_of m 1)
     in case parse_key (Some line) of Inl _ \<Rightarrow> keys | Inr _ \<Rightarrow> if line \<in> set keys then keys else keys @ [line])"

definition parse_firstrun_ssh :: "string \<Rightarrow> bool \<times> string option \<times> string list" where
  "parse_firstrun_ssh text =
     (if re_search ENABLES_SSH text = None then (False, None, [])
      else let keys = foldl take_key [] (re_finditer KEY_IN_TEXT text);
               key_only = (re_search KEY_ONLY text \<noteq> None \<or> text_contains text ''PasswordAuthentication no'');
               found = (case re_search USERCONF text of Some m \<Rightarrow> Some m | None \<Rightarrow> re_search CHPASSWD text);
               pw_hash = (if key_only then None else (case found of None \<Rightarrow> None
                 | Some m \<Rightarrow> (case validate_hash (Some (group_of m 1)) of Inl _ \<Rightarrow> None | Inr h \<Rightarrow> Some h)))
           in (True, pw_hash, keys))"

fun authorized_lines :: "string list \<Rightarrow> string list result" where
  "authorized_lines [] = Inr []"
| "authorized_lines (l # ls) = (let line = strip l
     in if line = [] \<or> startswith line ''#'' then authorized_lines ls
        else rbind (parse_key (Some line)) (\<lambda>_. rbind (authorized_lines ls) (\<lambda>keys. Inr (line # keys))))"

definition parse_authorized_keys :: "string \<Rightarrow> string list result" where
  "parse_authorized_keys text = rbind (authorized_lines (splitlines text)) (\<lambda>keys.
     if keys = [] then Inl (SshError ''no public keys in the file'') else Inr keys)"

section \<open>A key written is the key read\<close>

lemma key_types: "t \<in> set KEY_TYPES \<Longrightarrow> t \<noteq> [] \<and> list_all (\<lambda>c. \<not> is_space c) t \<and> line_free t \<and> \<not> startswith t ''#''"
  by (auto simp: KEY_TYPES_def is_space_def line_free_def)

lemma b64_no_space: "b64_text c \<Longrightarrow> \<not> is_space c"
  using b64_text_printable [of c] by (auto simp: is_space_def printable_def b64_text_def b64_digit_def is_digit_def between_def split: if_splits)

lemma b64_word: "list_all (\<lambda>c. \<not> is_space c) (b64encode raw)"
  using b64encode_text [of raw] by (auto simp: list_all_iff b64_no_space)

lemma b64_line_free: "line_free (b64encode raw)"
  using b64_word [of raw] by (auto simp: line_free_def list_all_iff is_space_def)

lemma word_then: "list_all (\<lambda>c. \<not> is_space c) w \<Longrightarrow>
   takeWhile (\<lambda>c. \<not> is_space c) (w @ CHR '' '' # r) = w \<and> dropWhile (\<lambda>c. \<not> is_space c) (w @ CHR '' '' # r) = CHR '' '' # r"
  by (induction w) (auto simp: is_space_def)

lemma word_only: "list_all (\<lambda>c. \<not> is_space c) w \<Longrightarrow> takeWhile (\<lambda>c. \<not> is_space c) w = w"
  "list_all (\<lambda>c. \<not> is_space c) w \<Longrightarrow> dropWhile (\<lambda>c. \<not> is_space c) w = []"
  by (simp_all add: list_all_iff)

lemma lstrip_space [simp]: "lstrip (CHR '' '' # r) = lstrip r"
  by (simp add: lstrip_def is_space_def)

lemma lstrip_trimmed: "trimmed r \<Longrightarrow> lstrip r = r"
  by (auto simp: lstrip_def dropWhile_hd trimmed_def)

lemma trimmed_word: "list_all (\<lambda>c. \<not> is_space c) w \<Longrightarrow> trimmed w"
  by (cases w) (auto simp: trimmed_def list_all_iff)

lemma split_words_Suc: "trimmed s \<Longrightarrow> s \<noteq> [] \<Longrightarrow> split_words (Suc n) s =
   takeWhile (\<lambda>c. \<not> is_space c) s # split_words n (dropWhile (\<lambda>c. \<not> is_space c) s)"
  by (simp add: lstrip_trimmed split: list.split)

lemma split_words_space: "split_words n (CHR '' '' # r) = split_words n r"
  by (cases n) simp_all

lemma split_words_last: "split_words n [] = []" "trimmed s \<Longrightarrow> s \<noteq> [] \<Longrightarrow> split_words 0 s = [s]"
  by (cases n; simp add: lstrip_def) (simp add: lstrip_trimmed split: list.split)

declare split_words.simps [simp del]

definition good_key :: "string \<times> string \<times> string \<Rightarrow> bool" where
  "good_key k = (case k of (t, blob, comment) \<Rightarrow>
     t \<in> set KEY_TYPES \<and> blob_type blob = Some t \<and> trimmed comment \<and> \<not> has_control comment)"

lemma key_fields_good: "key_fields t rest = Inr k \<Longrightarrow> good_key k"
  by (auto simp: key_fields_def good_key_def Let_def trimmed_def [of "[]"] has_control_def
      split: list.splits option.splits if_splits)

lemma parse_key_good: "parse_key line = Inr k \<Longrightarrow> good_key k"
  by (auto simp: parse_key_def dest: key_fields_good split: list.splits)

lemma clean_line_trimmed:
  assumes "t \<in> set KEY_TYPES" and "trimmed comment" and "blob \<noteq> []"
  shows "trimmed (clean_line t blob comment)"
proof -
  have e: "b64encode blob \<noteq> []" using assms(3) by (cases blob rule: b64encode.cases) (simp_all add: Let_def)
  then have "\<not> is_space (last (b64encode blob))" using b64_word [of blob] by (simp add: list_all_iff)
  moreover have "\<not> is_space (hd t)" using key_types [OF assms(1)] by (simp add: list_all_iff)
  ultimately show ?thesis using e key_types [OF assms(1)] assms(2) by (auto simp: clean_line_def trimmed_def)
qed

lemma clean_line_parsed:
  assumes "good_key (t, blob, comment)"
  shows "parse_key (Some (clean_line t blob comment)) = Inr (t, blob, comment)"
proof -
  from assms have t: "t \<in> set KEY_TYPES" and b: "blob_type blob = Some t" and c: "trimmed comment" "\<not> has_control comment"
    by (simp_all add: good_key_def)
  have n: "blob \<noteq> []" using b by (auto simp: blob_type_def)
  have e: "b64encode blob \<noteq> []" using n by (cases blob rule: b64encode.cases) (simp_all add: Let_def)
  note w = key_types [OF t] b64_word [of blob]
  note p = split_words_Suc [OF trimmed_word, OF w(2) e] split_words_last split_words_space
  have "split_words 2 (clean_line t blob comment) =
      t # b64encode blob # (if comment = [] then [] else [comment])"
  proof (cases "comment = []")
    case True
    with clean_line_trimmed [OF t c(1) n] w word_then [of t "b64encode blob"] word_only [OF w(2)] show ?thesis
      by (simp add: numeral_2_eq_2 split_words_Suc clean_line_def p del: takeWhile_eq_all_conv dropWhile_eq_Nil_conv)
  next
    case False
    have q: "trimmed (b64encode blob @ CHR '' '' # comment)"
      using e w(2) c False by (cases "b64encode blob") (auto simp: trimmed_def list_all_iff)
    with False clean_line_trimmed [OF t c(1) n] w word_then [of t "b64encode blob @ CHR '' '' # comment"]
      word_then [OF w(2), of comment] e c(1) q show ?thesis
      by (simp add: numeral_2_eq_2 split_words_Suc clean_line_def p)
  qed
  with strip_trimmed [OF clean_line_trimmed [OF t c(1) n]] t b c show ?thesis
    by (simp add: parse_key_def key_fields_def strip_trimmed has_control_def)
qed

text \<open>A line of the file that holds a key: it reads as that key again.\<close>

definition key_ok :: "key \<Rightarrow> bool" where
  "key_ok k \<longleftrightarrow> trimmed (fst k) \<and> line_free (fst k) \<and> key_line (fst k) = [k]"

lemma key_line_ok: "line_free l \<Longrightarrow> trimmed l \<Longrightarrow> k \<in> set (key_line l) \<Longrightarrow> key_ok k"
  by (auto simp: key_ok_def split: if_splits sum.splits)

lemma keys_in_ok: "list_all key_ok (keys_in s)"
  using file_lines_free [of s]
  by (auto simp: keys_in_def list_all_iff simp del: key_line.simps intro: key_line_ok [OF line_free_strip trimmed_strip])

lemma keys_in_lines:
  assumes "list_all key_ok keys"
  shows "keys_in (unlines (map fst keys)) = keys"
proof -
  have "file_lines (unlines (map fst keys)) = map fst keys"
    using assms by (intro file_lines_unlines) (auto simp: list_all_iff key_ok_def)
  moreover have "concat (map (key_line \<circ> strip) (map fst keys)) = keys"
    using assms by (induction keys) (auto simp: key_ok_def strip_trimmed simp del: key_line.simps)
  ultimately show ?thesis by (simp add: keys_in_def)
qed

lemma clean_line_ok:
  assumes "good_key (t, blob, comment)"
  shows "key_ok (clean_line t blob comment, t, blob, comment)"
proof -
  from assms have t: "t \<in> set KEY_TYPES" and b: "blob \<noteq> []" and c: "trimmed comment" "\<not> has_control comment"
    by (auto simp: good_key_def blob_type_def)
  have "line_free comment" using c(2) by (auto simp: line_free_def has_control_def)
  then have "line_free (clean_line t blob comment)"
    using key_types [OF t] b64_line_free [of blob] by (simp add: clean_line_def line_free_def)
  moreover have "clean_line t blob comment \<noteq> []" "\<not> startswith (clean_line t blob comment) ''#''"
    using key_types [OF t] by (cases t; simp add: clean_line_def)+
  ultimately show ?thesis
    using clean_line_trimmed [OF t c(1) b] clean_line_parsed [OF assms] by (simp add: key_ok_def)
qed

section \<open>The key store refines a list of keys\<close>

definition keys_of :: "ssh_files \<Rightarrow> (string \<times> string \<times> string) list" where
  "keys_of s = map snd (read_keys s)"

definition key_print :: "(string \<Rightarrow> string) \<Rightarrow> string \<times> string \<times> string \<Rightarrow> string" where
  "key_print sha k = fingerprint sha (fst (snd k))"

definition enrol :: "(string \<Rightarrow> string) \<Rightarrow> string \<times> string \<times> string \<Rightarrow> (string \<times> string \<times> string) list \<Rightarrow> (string \<times> string \<times> string) list" where
  "enrol sha k ks = (if key_print sha k \<in> key_print sha ` set ks then ks else ks @ [k])"

definition revoke :: "(string \<Rightarrow> string) \<Rightarrow> string \<Rightarrow> (string \<times> string \<times> string) list \<Rightarrow> (string \<times> string \<times> string) list" where
  "revoke sha fp ks = filter (\<lambda>k. key_print sha k \<noteq> fp) ks"

lemma read_keys_ok: "list_all key_ok (read_keys s)"
  by (simp add: read_keys_def keys_in_ok split: option.split)

lemma read_keys_written: "list_all key_ok keys \<Longrightarrow> read_keys (s\<lparr>f_keys := Some (unlines (map fst keys))\<rparr>) = keys"
  by (simp add: read_keys_def keys_in_lines)

lemma add_key_refines:
  "case add_key sha line s of
     (Inl e, s') \<Rightarrow> s' = s \<and> (parse_key line = Inl e \<or> \<not> f_writable s)
   | (Inr fp, s') \<Rightarrow> \<exists>k. parse_key line = Inr k \<and> fp = key_print sha k \<and> keys_of s' = enrol sha k (keys_of s)"
proof (cases "parse_key line")
  case (Inl e)
  then show ?thesis by (simp add: add_key_def act_defs)
next
  case (Inr k)
  obtain t blob comment where k: "k = (t, blob, comment)" by (cases k)
  let ?known = "\<exists>(l, t', b, c)\<in>set (read_keys s). fingerprint sha b = fingerprint sha blob"
  have known: "?known \<longleftrightarrow> key_print sha k \<in> key_print sha ` set (keys_of s)"
    by (force simp: k keys_of_def key_print_def)
  let ?keys = "read_keys s @ [(clean_line t blob comment, t, blob, comment)]"
  have "list_all key_ok ?keys"
    using read_keys_ok [of s] clean_line_ok parse_key_good [OF Inr] by (simp add: k)
  then have "read_keys (s\<lparr>f_keys := Some (unlines (map fst ?keys))\<rparr>) = ?keys" by (rule read_keys_written)
  then show ?thesis
    using Inr known
    by (simp add: k add_key_def act_defs Let_def write_keys_def write_file_def enrol_def keys_of_def key_print_def)
qed

lemma remove_key_refines:
  "case remove_key sha fp s of
     (Inl e, s') \<Rightarrow> s' = s \<and> (fp \<notin> key_print sha ` set (keys_of s) \<or> \<not> f_writable s)
   | (Inr _, s') \<Rightarrow> keys_of s' = revoke sha fp (keys_of s) \<and> fp \<in> key_print sha ` set (keys_of s)"
proof -
  let ?keep = "filter (\<lambda>(l, t, b, c). fingerprint sha b \<noteq> fp) (read_keys s)"
  have r: "map snd ?keep = revoke sha fp (keys_of s)"
    by (induction "read_keys s") (auto simp: revoke_def keys_of_def key_print_def filter_map o_def case_prod_beta)
  have l: "length ?keep = length (read_keys s) \<longleftrightarrow> fp \<notin> key_print sha ` set (keys_of s)"
  proof
    assume "length ?keep = length (read_keys s)"
    then have "\<forall>k\<in>set (read_keys s). (\<lambda>(l, t, b, c). fingerprint sha b \<noteq> fp) k"
      by (metis (no_types, lifting) length_filter_less not_less_iff_gr_or_eq)
    then show "fp \<notin> key_print sha ` set (keys_of s)" by (auto simp: keys_of_def key_print_def)
  next
    assume "fp \<notin> key_print sha ` set (keys_of s)"
    then have "?keep = read_keys s" by (intro filter_True) (force simp: keys_of_def key_print_def)
    then show "length ?keep = length (read_keys s)" by simp
  qed
  have "list_all key_ok ?keep" using read_keys_ok [of s] by (simp add: list_all_iff)
  from read_keys_written [OF this, of s] r l show ?thesis
    by (simp add: remove_key_def act_defs Let_def write_keys_def write_file_def keys_of_def)
qed

text \<open>
  C30. The file of authorized keys refines a list of keys told apart by their fingerprints.  Adding a key that parses
  appends it with its type, data and comment unless a key of that fingerprint is there, and reads back so; removing a
  fingerprint drops exactly its keys; every other key stays as it was; and a refusal, which only an unusable line, an
  unknown fingerprint or a file system that takes no write causes, changes nothing.
\<close>

theorem ssh_keys_refine:
  "(case add_key sha line s of
      (Inl e, s') \<Rightarrow> s' = s \<and> (parse_key line = Inl e \<or> \<not> f_writable s)
    | (Inr fp, s') \<Rightarrow> \<exists>k. parse_key line = Inr k \<and> fp = key_print sha k \<and> keys_of s' = enrol sha k (keys_of s)) \<and>
   (case remove_key sha fp s of
      (Inl e, s') \<Rightarrow> s' = s \<and> (fp \<notin> key_print sha ` set (keys_of s) \<or> \<not> f_writable s)
    | (Inr _, s') \<Rightarrow> keys_of s' = revoke sha fp (keys_of s) \<and> fp \<in> key_print sha ` set (keys_of s))"
  by (intro conjI add_key_refines remove_key_refines)

definition ssh_sample_key :: "string \<times> string \<times> string" where
  "ssh_sample_key = (''ssh-rsa'', [CHR 0x00, CHR 0x00, CHR 0x00, CHR 0x07] @ ''ssh-rsa'', ''me'')"

definition empty_ssh :: ssh_files where
  "empty_ssh = \<lparr>f_enabled = True, f_hash = None, f_keys = None, f_shadow_base = None, f_shadow = [], f_writable = True\<rparr>"

abbreviation sample_line :: "string option" where
  "sample_line \<equiv> Some (clean_line (fst ssh_sample_key) (fst (snd ssh_sample_key)) (snd (snd ssh_sample_key)))"

lemma ssh_sample_key_parsed: "parse_key sample_line = Inr ssh_sample_key"
proof -
  have "good_key ssh_sample_key"
    by (simp add: ssh_sample_key_def good_key_def KEY_TYPES_def blob_type_def from_big_endian_def trimmed_def has_control_def is_space_def)
  then show ?thesis using clean_line_parsed by (cases ssh_sample_key) simp
qed

theorem ssh_keys_refine_witness:
  "case add_key (\<lambda>b. b) sample_line empty_ssh of
     (Inl e, s') \<Rightarrow> False | (Inr fp, s') \<Rightarrow> keys_of s' = [ssh_sample_key]"
proof -
  have "keys_of empty_ssh = []" "f_writable empty_ssh" by (simp_all add: empty_ssh_def keys_of_def read_keys_def)
  then show ?thesis
    using ssh_keys_refine [where sha = "\<lambda>b. b" and line = sample_line and s = empty_ssh] ssh_sample_key_parsed
    by (auto simp: enrol_def split: prod.splits sum.splits)
qed

section \<open>Other accounts keep their passwords\<close>

lemma split_on_neq_Nil [simp]: "split_on d s \<noteq> []"
  by (induction s) (auto split: list.split)

lemma join_split: "join_with d (split_on d s) = s"
proof (induction s)
  case (Cons c s)
  then show ?case by (cases "split_on d s"; cases "tl (split_on d s)") auto
qed simp

lemma split_on_free: "p \<in> set (split_on d s) \<Longrightarrow> d \<notin> set p"
  by (induction s arbitrary: p) (auto split: list.splits if_splits)

lemma split_on_word: "d \<notin> set p \<Longrightarrow> split_on d p = [p]" "d \<notin> set p \<Longrightarrow> split_on d (p @ d # r) = p # split_on d r"
  by (induction p) auto

lemma split_join: "ps \<noteq> [] \<Longrightarrow> \<forall>p\<in>set ps. d \<notin> set p \<Longrightarrow> split_on d (join_with d ps) = ps"
  by (induction d ps rule: join_with.induct) (simp_all add: split_on_word)

lemma shadow_line_fields:
  assumes "CHR '':'' \<notin> set field"
  shows "split_on CHR '':'' (shadow_line field line) =
     (if user_line line then USER # field # drop 2 (split_on CHR '':'' line) else split_on CHR '':'' line)"
proof (cases "user_line line")
  case True
  then obtain old rest where l: "split_on CHR '':'' line = USER # old # rest"
    by (auto simp: user_line_def split: list.splits)
  have "\<forall>p\<in>set rest. CHR '':'' \<notin> set p" using split_on_free [of _ "CHR '':''" line] by (simp add: l)
  with True l assms show ?thesis
    by (simp add: shadow_line_def split_join USER_def)
next
  case False
  then show ?thesis by (auto simp: shadow_line_def user_line_def split: list.splits)
qed

end
