(* ===== verification/Epk_Wifi.thy ===== *)
theory Epk_Wifi
  imports Epk_Text
begin

text \<open>
  Wi-Fi provisioning (\<open>epilykos_wifi.py\<close>): the known-network files of iwd, the regulatory country and
  the parsers of the settings files someone leaves on BOOT.  SSIDs are bytes, texts are Latin-1, and
  code points past 255, which only an escape of a YAML scalar can write, are numbers until they are encoded.
\<close>

section \<open>Networks\<close>

record wifi_network =
  n_ssid :: string
  n_passphrase :: string
  n_hidden :: bool
  n_country :: string

text \<open>A pattern that ends in \<open>$\<close> also matches before a final line feed.\<close>

definition ends_dollar :: "(string \<Rightarrow> bool) \<Rightarrow> string \<Rightarrow> bool" where
  "ends_dollar P s \<longleftrightarrow> P s \<or> s \<noteq> [] \<and> last s = CHR 0x0A \<and> P (butlast s)"

definition is_hex :: "char \<Rightarrow> bool" where
  "is_hex c \<longleftrightarrow> is_digit c \<or> between CHR ''A'' CHR ''F'' c \<or> between CHR ''a'' CHR ''f'' c"

definition HEX64 :: "string \<Rightarrow> bool" where
  "HEX64 = ends_dollar (\<lambda>s. length s = 64 \<and> list_all is_hex s)"

definition COUNTRY :: "string \<Rightarrow> bool" where
  "COUNTRY = ends_dollar (\<lambda>s. length s = 2 \<and> list_all (between CHR ''A'' CHR ''Z'') s)"

definition validate_network :: "wifi_network \<Rightarrow> wifi_network result" where
  "validate_network net =
     (let p = n_passphrase net
      in if \<not> (1 \<le> length (n_ssid net) \<and> length (n_ssid net) \<le> 32) then Inl (WifiError ''SSID must be 1 to 32 bytes'')
         else if p \<noteq> [] \<and> \<not> HEX64 p \<and> \<not> (8 \<le> length p \<and> length p \<le> 63)
           then Inl (WifiError ''Wi-Fi password must be 8 to 63 characters'')
         else if p \<noteq> [] \<and> \<not> HEX64 p \<and> (\<exists>c\<in>set p. \<not> printable c)
           then Inl (WifiError ''Wi-Fi password must be printable ASCII'')
         else if n_country net \<noteq> [] \<and> \<not> COUNTRY (n_country net)
           then Inl (WifiError ''country must be a two-letter code such as GB or NG'')
         else Inr net)"

section \<open>The files of iwd\<close>

definition hex_char :: "nat \<Rightarrow> char" where
  "hex_char n = char_of (if n < 10 then 48 + n else 87 + n)"

definition hex_bytes :: "string \<Rightarrow> string" where
  "hex_bytes s = concat (map (\<lambda>c. [hex_char (of_char c div 16), hex_char (of_char c mod 16)]) s)"

definition plain_char :: "char \<Rightarrow> bool" where
  "plain_char c \<longleftrightarrow> is_alnum c \<or> c \<in> set ''-_ ''"

definition iwd_file_name :: "string \<Rightarrow> bool \<Rightarrow> string" where
  "iwd_file_name ssid open_network =
     (let ext = (if open_network then ''open'' else ''psk'')
      in if ssid \<noteq> [] \<and> list_all plain_char ssid then ssid @ ''.'' @ ext
         else ''='' @ hex_bytes ssid @ ''.'' @ ext)"

definition settings_escape :: "string \<Rightarrow> string" where
  "settings_escape v =
     (let e = replace_char CHR 0x0D [CHR 0x5C, CHR ''r''] (replace_char CHR 0x0A [CHR 0x5C, CHR ''n'']
           (replace_char CHR 0x09 [CHR 0x5C, CHR ''t''] (replace_char CHR 0x5C [CHR 0x5C, CHR 0x5C] v)))
      in case e of [] \<Rightarrow> [] | c # cs \<Rightarrow> if c = CHR '' '' then [CHR 0x5C, CHR ''s''] @ cs else e)"

definition iwd_file_content :: "wifi_network \<Rightarrow> string" where
  "iwd_file_content net =
     (let p = n_passphrase net
      in join_with CHR 0x0A
           ((if p = [] then [] else [''[Security]'',
               (if HEX64 p then ''PreSharedKey='' @ lower p else ''Passphrase='' @ settings_escape p), []])
            @ [''[Settings]'', ''AutoConnect=true''] @ (if n_hidden net then [''Hidden=true''] else [])) @ [CHR 0x0A])"

text \<open>The directory of iwd: its files, and whether it takes a new one; and the country file.\<close>

record wifi_files =
  d_iwd :: "(string \<times> string) list"
  d_writable :: bool
  d_country :: "string option"

type_synonym 'a wifi = "(wifi_files, 'a) act"









definition known_file :: "string \<Rightarrow> bool" where
  "known_file n \<longleftrightarrow> (endswith n ''.psk'' \<or> endswith n ''.open'') \<and> \<not> startswith n ''.''"

fun insert_text :: "string \<Rightarrow> string list \<Rightarrow> string list" where
  "insert_text s [] = [s]"
| "insert_text s (t # ts) = (if text_le s t then s # t # ts else t # insert_text s ts)"

definition sort_texts :: "string list \<Rightarrow> string list" where
  "sort_texts ts = foldr insert_text ts []"

lemma set_sort_texts [simp]: "set (sort_texts ts) = set ts"
proof -
  have "set (insert_text s us) = insert s (set us)" for s us
    by (induction us) auto
  then show ?thesis by (induction ts) (simp_all add: sort_texts_def)
qed

definition configured_networks :: "wifi_files \<Rightarrow> string list" where
  "configured_networks d = sort_texts (filter known_file (map fst (d_iwd d)))"

section \<open>The regulatory country\<close>

definition save_country :: "string \<Rightarrow> unit wifi" where
  "save_country country =
     (let c = upper country
      in if COUNTRY c then bind get_state (\<lambda>d. if d_writable d then modify (d_country_update (\<lambda>_. Some (c @ [CHR 0x0A])))
           else raise (OSError ''cannot write''))
         else raise (WifiError ''country must be a two-letter code''))"

definition load_country :: "wifi_files \<Rightarrow> string" where
  "load_country d = (case d_country d of None \<Rightarrow> []
     | Some text \<Rightarrow> (let v = upper (strip text) in if COUNTRY v then v else []))"

text \<open>\<open>zone_tab\<close> is the text of tzdata's \<open>zone.tab\<close>, None when it cannot be read.\<close>

definition country_for_zone :: "string \<Rightarrow> string option \<Rightarrow> string" where
  "country_for_zone zone zone_tab = (case zone_tab of None \<Rightarrow> []
     | Some text \<Rightarrow>
         (case filter (\<lambda>line. let cols = split_on CHR 0x09 line
               in 3 \<le> length cols \<and> \<not> startswith line ''#'' \<and> cols ! 2 = zone \<and> COUNTRY (cols ! 0)) (file_lines text) of
            [] \<Rightarrow> [] | line # _ \<Rightarrow> split_on CHR 0x09 line ! 0))"

definition effective_country :: "string \<Rightarrow> string option \<Rightarrow> wifi_files \<Rightarrow> string \<times> string" where
  "effective_country zone zone_tab d =
     (if load_country d \<noteq> [] then (load_country d, ''Wi-Fi settings'')
      else let c = country_for_zone zone zone_tab in if c \<noteq> [] then (c, ''time zone '' @ zone) else ([], []))"

text \<open>\<open>runs\<close>: whether the command succeeds.  The commands run are returned with the reply.\<close>

definition apply_country :: "string \<Rightarrow> string option \<Rightarrow> (string list \<Rightarrow> bool) \<Rightarrow> wifi_files \<Rightarrow> (string \<times> string \<times> bool) \<times> string list list" where
  "apply_country zone zone_tab runs d =
     (case effective_country zone zone_tab d of (country, source) \<Rightarrow>
        if country = [] then (([], [], True), [])
        else let set = [''iw'', ''reg'', ''set'', country]
             in ((country, source, runs set), [[''modprobe'', ''cfg80211''], set]))"

section \<open>Settings files on BOOT\<close>

definition is_blank :: "string \<Rightarrow> bool" where
  "is_blank data \<longleftrightarrow> list_all (\<lambda>c. c \<in> {CHR 0x00, CHR '' '', CHR 0x09, CHR 0x0D, CHR 0x0A}) data"

definition unquote :: "string \<Rightarrow> string" where
  "unquote value = (let v = strip value
     in if 2 \<le> length v \<and> hd v = last v \<and> (hd v = CHR 0x22 \<or> hd v = CHR 0x27) then butlast (tl v) else v)"

definition is_truthy :: "string \<Rightarrow> bool" where
  "is_truthy value \<longleftrightarrow> lower (strip value) \<in> {''1'', ''true'', ''yes'', ''on''}"

definition wifi_txt_line :: "string \<Rightarrow> (string \<times> string) list" where
  "wifi_txt_line raw = (let line = strip raw
     in if line = [] \<or> startswith line ''#'' then []
        else (case partition_at CHR ''='' line of None \<Rightarrow> [] | Some (k, v) \<Rightarrow> [(lower (strip k), unquote v)]))"

definition first_of :: "(string \<rightharpoonup> string) \<Rightarrow> string list \<Rightarrow> string" where
  "first_of values names = (case List.map_filter values names of [] \<Rightarrow> [] | v # _ \<Rightarrow> v)"

definition parse_wifi_txt :: "string \<Rightarrow> wifi_network result" where
  "parse_wifi_txt text =
     (let values = map_of (rev (concat (map wifi_txt_line (splitlines text))))
      in case values ''ssid'' of
           None \<Rightarrow> Inl (WifiError ''wifi.txt has no ssid= line'')
         | Some ssid \<Rightarrow>
             if ssid = [] then Inl (WifiError ''ssid= is empty in wifi.txt'')
             else validate_network \<lparr>n_ssid = utf8 ssid, n_passphrase = first_of values [''password'', ''psk'', ''passphrase''],
                    n_hidden = is_truthy (first_of values [''hidden'']), n_country = upper (first_of values [''country''])\<rparr>)"

subsection \<open>wpa\_supplicant.conf and firstrun.sh\<close>

definition any_char :: re where
  "any_char = Ch (\<lambda>_. True)"

definition COUNTRY_LINE :: re where
  "COUNTRY_LINE = re_seq [LineStart, spaces, lit ''country='', Grp 1 (re_times 2 (Ch is_alpha)), spaces, LineEnd]"

definition NETWORK_BLOCK :: re where
  "NETWORK_BLOCK = re_seq [lit ''network'', spaces, lit ''='', spaces, lit ''{'', Grp 1 (Lazy any_char), LineStart, spaces, lit ''}'']"

definition unhex_digit :: "char \<Rightarrow> nat option" where
  "unhex_digit c = (if is_digit c then Some (of_char c - 48)
     else if between CHR ''a'' CHR ''f'' c then Some (of_char c - 87)
     else if between CHR ''A'' CHR ''F'' c then Some (of_char c - 55) else None)"

text \<open>\<open>bytes.fromhex\<close>: pairs of digits, with ASCII white space between them.\<close>

fun fromhex :: "string \<Rightarrow> string option" where
  "fromhex [] = Some []"
| "fromhex [c] = (if c \<in> {CHR '' '', CHR 0x09, CHR 0x0A, CHR 0x0B, CHR 0x0C, CHR 0x0D} then Some [] else None)"
| "fromhex (c # d # cs) =
     (if c \<in> {CHR '' '', CHR 0x09, CHR 0x0A, CHR 0x0B, CHR 0x0C, CHR 0x0D} then fromhex (d # cs)
      else (case (unhex_digit c, unhex_digit d) of
          (Some x, Some y) \<Rightarrow> map_option ((#) (char_of (16 * x + y))) (fromhex cs)
        | _ \<Rightarrow> None))"

text \<open>\<open>v[1:v.rfind('\"')]\<close> when \<open>v\<close> starts with a quote that is not the last one.\<close>

definition quoted :: "string \<Rightarrow> string option" where
  "quoted v = (if startswith v [CHR 0x22] \<and> CHR 0x22 \<in> set (tl v)
     then Some (rev (tl (dropWhile ((\<noteq>) CHR 0x22) (rev (tl v))))) else None)"

record wpa =
  wpa_ssid :: "string option"
  wpa_pass :: string
  wpa_hidden :: bool
  wpa_open :: bool

definition wpa_line :: "wpa \<Rightarrow> string \<Rightarrow> wpa result" where
  "wpa_line b raw =
     (let line = strip raw; packed = replace_char CHR '' '' [] line
      in if startswith line ''ssid='' then
           (let v = drop 5 line
            in case quoted v of
                 Some s \<Rightarrow> Inr (b\<lparr>wpa_ssid := Some (utf8 s)\<rparr>)
               | None \<Rightarrow> (case fromhex (if startswith v ''hex:'' then drop 4 v else v) of
                     None \<Rightarrow> Inl (WifiError ''unreadable ssid in network block'')
                   | Some s \<Rightarrow> Inr (b\<lparr>wpa_ssid := Some s\<rparr>)))
         else if startswith line ''psk='' then
           (let v = drop 4 line in Inr (b\<lparr>wpa_pass := (case quoted v of Some s \<Rightarrow> s | None \<Rightarrow> v)\<rparr>))
         else if packed = ''key_mgmt=NONE'' then Inr (b\<lparr>wpa_open := True\<rparr>)
         else if packed = ''scan_ssid=1'' then Inr (b\<lparr>wpa_hidden := True\<rparr>)
         else Inr b)"

fun wpa_lines :: "wpa \<Rightarrow> string list \<Rightarrow> wpa result" where
  "wpa_lines b [] = Inr b"
| "wpa_lines b (l # ls) = rbind (wpa_line b l) (\<lambda>b'. wpa_lines b' ls)"

definition parse_wpa_supplicant :: "string \<Rightarrow> wifi_network result" where
  "parse_wpa_supplicant text =
     (let country = (case re_search COUNTRY_LINE text of None \<Rightarrow> [] | Some m \<Rightarrow> upper (group_of m 1))
      in case re_search NETWORK_BLOCK text of
           None \<Rightarrow> Inl (WifiError ''no network={} block'')
         | Some m \<Rightarrow>
             rbind (wpa_lines \<lparr>wpa_ssid = None, wpa_pass = [], wpa_hidden = False, wpa_open = False\<rparr> (splitlines (group_of m 1))) (\<lambda>b.
             case wpa_ssid b of
               None \<Rightarrow> Inl (WifiError ''network block has no ssid'')
             | Some ssid \<Rightarrow> if ssid = [] then Inl (WifiError ''network block has no ssid'')
                 else validate_network \<lparr>n_ssid = ssid, n_passphrase = (if wpa_open b then [] else wpa_pass b),
                        n_hidden = wpa_hidden b, n_country = country\<rparr>))"

definition HERE_DOCUMENT :: re where
  "HERE_DOCUMENT = re_seq [lit ''cat'', spaces, lit ''>'', spaces, lit ''/etc/wpa_supplicant/wpa_supplicant.conf'', spaces,
     lit ''<<'', spaces, re_optional (lit [CHR 0x27]), Grp 1 (re_plus (Ch (\<lambda>c. is_alnum c \<or> c = CHR ''_''))),
     re_optional (lit [CHR 0x27]), spaces, lit [CHR 0x0A], Grp 2 (Lazy any_char), lit [CHR 0x0A], Ref 1, spaces, LineEnd]"

definition parse_firstrun :: "string \<Rightarrow> wifi_network option result" where
  "parse_firstrun text = (case re_search HERE_DOCUMENT text of
       None \<Rightarrow> Inr None
     | Some m \<Rightarrow> rbind (parse_wpa_supplicant (group_of m 2)) (\<lambda>n. Inr (Some n)))"

subsection \<open>network-config\<close>

definition YAML_ESCAPES :: "char \<rightharpoonup> char" where
  "YAML_ESCAPES = map_of [(CHR ''0'', CHR 0x00), (CHR ''a'', CHR 0x07), (CHR ''b'', CHR 0x08), (CHR ''t'', CHR 0x09),
     (CHR 0x09, CHR 0x09), (CHR ''n'', CHR 0x0A), (CHR ''v'', CHR 0x0B), (CHR ''f'', CHR 0x0C), (CHR ''r'', CHR 0x0D),
     (CHR ''e'', CHR 0x1B), (CHR '' '', CHR '' ''), (CHR 0x22, CHR 0x22), (CHR ''/'', CHR ''/''), (CHR 0x5C, CHR 0x5C),
     (CHR ''N'', CHR 0x85), (CHR ''_'', CHR 0xA0)]"

text \<open>
  \<open>int(s, 16)\<close>: white space around, a sign, a prefix \<open>0x\<close>, and single underscores between the digits are accepted.
\<close>

fun hex_run_of :: "bool \<Rightarrow> nat \<Rightarrow> string \<Rightarrow> nat option" where
  "hex_run_of after n [] = (if after then Some n else None)"
| "hex_run_of after n (c # cs) =
     (if c = CHR ''_'' then (if after then hex_run_of False n cs else None)
      else (case unhex_digit c of None \<Rightarrow> None | Some d \<Rightarrow> hex_run_of True (16 * n + d) cs))"

definition hex_number :: "string \<Rightarrow> nat option" where
  "hex_number s = (if startswith (lower s) ''0x''
     then hex_run_of False 0 (if startswith (drop 2 s) ''_'' then drop 3 s else drop 2 s) else hex_run_of False 0 s)"

definition int16 :: "string \<Rightarrow> int option" where
  "int16 s = (case strip s of
       [] \<Rightarrow> None
     | c # cs \<Rightarrow> if c = CHR ''-'' then map_option (\<lambda>n. - int n) (hex_number cs)
         else if c = CHR ''+'' then map_option int (hex_number cs) else map_option int (hex_number (c # cs)))"

text \<open>\<open>chr\<close>, the UTF-8 encoding of code points, and whether bytes are valid UTF-8 (with their code points).\<close>

definition chr_of :: "int \<Rightarrow> nat result" where
  "chr_of n = (if 0 \<le> n \<and> n < 0x110000 then Inr (nat n) else Inl (ValueError ''chr() arg not in range(0x110000)''))"

definition utf8_point :: "nat \<Rightarrow> string" where
  "utf8_point n = map char_of
     (if n < 0x80 then [n] else if n < 0x800 then [192 + n div 64, 128 + n mod 64]
      else if n < 0x10000 then [224 + n div 4096, 128 + n div 64 mod 64, 128 + n mod 64]
      else [240 + n div 262144, 128 + n div 4096 mod 64, 128 + n div 64 mod 64, 128 + n mod 64])"

definition surrogate :: "nat \<Rightarrow> bool" where
  "surrogate n \<longleftrightarrow> 0xD800 \<le> n \<and> n \<le> 0xDFFF"

definition encode_utf8 :: "nat list \<Rightarrow> string result" where
  "encode_utf8 ps = (if \<exists>n\<in>set ps. surrogate n then Inl (ValueError ''surrogates not allowed'')
     else Inr (concat (map utf8_point ps)))"

definition trail :: "char \<Rightarrow> nat option" where
  "trail c = (let n = of_char c :: nat in if 128 \<le> n \<and> n < 192 then Some (n - 128) else None)"

fun decode_utf8 :: "string \<Rightarrow> nat list option" where
  "decode_utf8 [] = Some []"
| "decode_utf8 (c # cs) = (let n = of_char c :: nat
     in if n < 128 then map_option ((#) n) (decode_utf8 cs)
        else if 192 \<le> n \<and> n < 224 then (case cs of
            d # ds \<Rightarrow> (case trail d of None \<Rightarrow> None
              | Some x \<Rightarrow> let v = (n - 192) * 64 + x in if v < 0x80 then None else map_option ((#) v) (decode_utf8 ds))
          | _ \<Rightarrow> None)
        else if 224 \<le> n \<and> n < 240 then (case cs of
            d # e # es \<Rightarrow> (case (trail d, trail e) of
                (Some x, Some y) \<Rightarrow> let v = (n - 224) * 4096 + x * 64 + y
                  in if v < 0x800 \<or> surrogate v then None else map_option ((#) v) (decode_utf8 es)
              | _ \<Rightarrow> None)
          | _ \<Rightarrow> None)
        else if 240 \<le> n \<and> n < 248 then (case cs of
            d # e # f # fs \<Rightarrow> (case (trail d, trail e, trail f) of
                (Some x, Some y, Some z) \<Rightarrow> let v = (n - 240) * 262144 + x * 4096 + y * 64 + z
                  in if v < 0x10000 \<or> 0x110000 \<le> v then None else map_option ((#) v) (decode_utf8 fs)
              | _ \<Rightarrow> None)
          | _ \<Rightarrow> None)
        else None)"

text \<open>
  The body of a double-quoted scalar: its code points, and whether an escape \<open>\x\<close> wrote one from 128 on.  A lone
  backslash at the end gets past \<open>e in 'xuU'\<close> and raises \<open>KeyError\<close>.  \<open>fuel\<close> bounds the characters, each round takes one.
\<close>

primrec yaml_body :: "nat \<Rightarrow> string \<Rightarrow> (nat list \<times> bool) result" where
  "yaml_body 0 s = Inr ([], False)"
| "yaml_body (Suc fuel) s = (case s of
       [] \<Rightarrow> Inr ([], False)
     | c # cs \<Rightarrow>
         if c \<noteq> CHR 0x5C then rbind (yaml_body fuel cs) (\<lambda>(ps, h). Inr (of_char c # ps, h))
         else (case cs of
             [] \<Rightarrow> Inl (KeyError [])
           | e # es \<Rightarrow> (case YAML_ESCAPES e of
                 Some d \<Rightarrow> rbind (yaml_body fuel es) (\<lambda>(ps, h). Inr (of_char d # ps, h))
               | None \<Rightarrow>
                   if e \<in> set ''xuU'' then
                     (let n = (if e = CHR ''x'' then 2 else if e = CHR ''u'' then 4 else 8)
                      in case int16 (take n es) of
                           None \<Rightarrow> Inl (WifiError ''unreadable escape in network-config'')
                         | Some code \<Rightarrow> rbind (chr_of code) (\<lambda>p. rbind (yaml_body fuel (drop n es)) (\<lambda>(ps, h).
                             Inr (p # ps, h \<or> e = CHR ''x'' \<and> 0x80 \<le> code))))
                   else Inl (WifiError ''unsupported escape in network-config''))))"

fun undouble :: "string \<Rightarrow> string" where
  "undouble (c # d # s) = (if c = CHR 0x27 \<and> d = CHR 0x27 then c # undouble s else c # undouble (d # s))"
| "undouble s = s"

text \<open>\<open>value.split(' #', 1)[0]\<close>\<close>

fun before_comment :: "string \<Rightarrow> string" where
  "before_comment [] = []"
| "before_comment (c # s) = (if c = CHR '' '' \<and> startswith s ''#'' then [] else c # before_comment s)"

definition yaml_scalar :: "string \<Rightarrow> string result" where
  "yaml_scalar value =
     (let v = strip value; s = butlast (tl v)
      in if 2 \<le> length v \<and> hd v = CHR 0x22 \<and> last v = CHR 0x22 then
           rbind (yaml_body (length s) s) (\<lambda>(ps, high_escape).
             if high_escape \<and> list_all (\<lambda>c. (of_char c :: nat) < 128) s \<and> list_all (\<lambda>p. p < 256) ps
               \<and> decode_utf8 (map char_of ps) = None
             then Inr (map char_of ps) else encode_utf8 ps)
         else if 2 \<le> length v \<and> hd v = CHR 0x27 \<and> last v = CHR 0x27 then Inr (utf8 (undouble s))
         else Inr (utf8 (strip (before_comment v))))"

text \<open>
  Decoded texts whose points do not fit stand with the last character: a country or a passphrase with one is refused
  whichever it is.
\<close>

definition latin :: "nat list \<Rightarrow> string" where
  "latin ps = map (\<lambda>p. char_of (min p 255)) ps"

definition ascii_or_last :: "string \<Rightarrow> string" where
  "ascii_or_last s = map (\<lambda>c. if (of_char c :: nat) < 128 then c else CHR 0xFF) s"

definition dot :: re where
  "dot = Ch (\<lambda>c. c \<noteq> CHR 0x0A)"

definition REGULATORY :: re where
  "REGULATORY = re_seq [LineStart, spaces, lit ''regulatory-domain:'', spaces, Grp 1 (re_plus dot), LineEnd]"

definition ACCESS_POINTS :: re where
  "ACCESS_POINTS = re_seq [spaces, lit ''access-points:'', spaces, TextEnd]"

definition AP_KEY :: re where
  "AP_KEY = re_seq [Grp 1 (re_choice [
     re_seq [lit [CHR 0x22], Star (Alt (Ch (\<lambda>c. c \<noteq> CHR 0x22 \<and> c \<noteq> CHR 0x5C)) (Cat (lit [CHR 0x5C]) dot)), lit [CHR 0x22]],
     re_seq [lit [CHR 0x27], Star (Alt (Ch (\<lambda>c. c \<noteq> CHR 0x27)) (lit [CHR 0x27, CHR 0x27])), lit [CHR 0x27]],
     re_plus (Ch (\<lambda>c. c \<noteq> CHR '':'' \<and> c \<noteq> CHR ''#''))]), lit '':'', spaces, TextEnd]"

definition HIDDEN_TRUE :: re where
  "HIDDEN_TRUE = re_seq [lit ''hidden:'', spaces, lit ''true'', spaces, TextEnd]"

definition indent_of :: "string \<Rightarrow> nat" where
  "indent_of line = length line - length (lstrip line)"

record ap =
  ap_ssid :: "string option"
  ap_indent :: nat
  ap_pass :: string
  ap_hidden :: bool

text \<open>The lines below one \<open>access-points:\<close>, up to the end of its first entry.\<close>

fun ap_lines :: "nat \<Rightarrow> ap \<Rightarrow> string list \<Rightarrow> ap result" where
  "ap_lines base a [] = Inr a"
| "ap_lines base a (nxt # rest) =
     (let body = strip nxt; indent = indent_of nxt
      in if body = [] \<or> startswith (lstrip nxt) ''#'' then ap_lines base a rest
         else if indent \<le> base then Inr a
         else (case ap_ssid a of
             None \<Rightarrow> (case re_match AP_KEY body of
                 None \<Rightarrow> Inl (WifiError ''unreadable access point in network-config'')
               | Some m \<Rightarrow> rbind (yaml_scalar (group_of m 1)) (\<lambda>s. ap_lines base (a\<lparr>ap_ssid := Some s, ap_indent := indent\<rparr>) rest))
           | Some _ \<Rightarrow>
               if indent \<le> ap_indent a then Inr a
               else if startswith body ''password:'' then
                 rbind (yaml_scalar (drop 9 body)) (\<lambda>s. case decode_utf8 s of
                     None \<Rightarrow> Inl (ValueError ''invalid utf-8'')
                   | Some ps \<Rightarrow> ap_lines base (a\<lparr>ap_pass := latin ps\<rparr>) rest)
               else if re_match HIDDEN_TRUE body \<noteq> None then ap_lines base (a\<lparr>ap_hidden := True\<rparr>) rest
               else ap_lines base a rest))"

fun access_points :: "string \<Rightarrow> string list \<Rightarrow> wifi_network option result" where
  "access_points country [] = Inr None"
| "access_points country (line # rest) =
     (if re_match ACCESS_POINTS line = None then access_points country rest
      else rbind (ap_lines (indent_of line) \<lparr>ap_ssid = None, ap_indent = 0, ap_pass = [], ap_hidden = False\<rparr> rest) (\<lambda>a.
        case ap_ssid a of
          None \<Rightarrow> access_points country rest
        | Some ssid \<Rightarrow> if ssid = [] then access_points country rest
            else rbind (validate_network \<lparr>n_ssid = ssid, n_passphrase = ap_pass a, n_hidden = ap_hidden a, n_country = country\<rparr>)
              (\<lambda>n. Inr (Some n))))"

definition parse_network_config :: "string \<Rightarrow> wifi_network option result" where
  "parse_network_config text =
     rbind (case re_search REGULATORY text of None \<Rightarrow> Inr []
       | Some m \<Rightarrow> rbind (yaml_scalar (group_of m 1)) (\<lambda>s. Inr (upper (ascii_or_last s)))) (\<lambda>country.
     access_points country (splitlines text))"

section \<open>A failed attempt loses no network\<close>




lemma iwd_file_name_kinds [simp]: "iwd_file_name ssid False \<noteq> iwd_file_name ssid True" "iwd_file_name ssid True \<noteq> iwd_file_name ssid False"
  by (simp_all add: iwd_file_name_def Let_def)





section \<open>What a settings file can write\<close>

definition setting_lines :: "wifi_network \<Rightarrow> string list" where
  "setting_lines net =
     (let p = n_passphrase net
      in (if p = [] then [] else [''[Security]'',
            if HEX64 p then ''PreSharedKey='' @ lower (take 64 p) else ''Passphrase='' @ settings_escape p])
         @ [''[Settings]'', ''AutoConnect=true''] @ (if n_hidden net then [''Hidden=true''] else []))"

lemma join_unlines: "ls \<noteq> [] \<Longrightarrow> join_with CHR 0x0A ls @ [CHR 0x0A] = unlines ls"
  by (induction "CHR 0x0A" ls rule: join_with.induct) (simp_all add: unlines_def)

lemma splitlines_printable: "list_all (list_all printable) ls \<Longrightarrow> splitlines (unlines ls) = ls"
  unfolding unlines_def by (rule splitlines_unlines) (auto simp: list_all_iff)

lemma replace_printable: "list_all printable t \<Longrightarrow> list_all printable v \<Longrightarrow> list_all printable (replace_char d t v)"
  by (auto simp: replace_char_def list_all_iff)

lemma printable_chars [simp]: "printable CHR 0x5C" "printable CHR ''n''" "printable CHR ''r''" "printable CHR ''t''" "printable CHR ''s''"
  by (simp_all add: printable_def)

lemma escape_printable:
  assumes "list_all printable v"
  shows "list_all printable (settings_escape v)"
proof -
  let ?e = "replace_char CHR 0x0D [CHR 0x5C, CHR ''r''] (replace_char CHR 0x0A [CHR 0x5C, CHR ''n'']
    (replace_char CHR 0x09 [CHR 0x5C, CHR ''t''] (replace_char CHR 0x5C [CHR 0x5C, CHR 0x5C] v)))"
  have "list_all printable ?e" using assms by (intro replace_printable) simp_all
  then show ?thesis by (cases ?e) (auto simp: settings_escape_def Let_def)
qed

lemma hex_lower_printable: "is_hex c \<Longrightarrow> printable (lower_char c)"
  by (auto simp: is_hex_def lower_char_def printable_def is_digit_def between_def)

lemma HEX64_cases:
  assumes "HEX64 p"
  obtains q where "length q = 64" "list_all is_hex q" "p = q \<or> p = q @ [CHR 0x0A]"
  using assms unfolding HEX64_def ends_dollar_def by (metis append_butlast_last_id)

lemma lines_printable:
  "list_all printable ''[Security]''" "list_all printable ''PreSharedKey=''" "list_all printable ''Passphrase=''"
  "list_all printable ''[Settings]''" "list_all printable ''AutoConnect=true''" "list_all printable ''Hidden=true''"
  by (simp_all add: printable_def)

lemma content_lines:
  assumes "validate_network net = Inr net"
  shows "filter (\<lambda>l. l \<noteq> []) (splitlines (iwd_file_content net)) = setting_lines net"
proof -
  let ?p = "n_passphrase net"
  let ?tail = "[''[Settings]'', ''AutoConnect=true''] @ (if n_hidden net then [''Hidden=true''] else [])"
  have t: "list_all (list_all printable) ?tail" using lines_printable by simp
  have tn: "filter (\<lambda>l. l \<noteq> []) ?tail = ?tail" by simp
  consider "?p = []" | q where "?p \<noteq> []" "length q = 64" "list_all is_hex q" "HEX64 ?p" "?p = q"
    | q where "?p \<noteq> []" "length q = 64" "list_all is_hex q" "HEX64 ?p" "?p = q @ [CHR 0x0A]"
    | "?p \<noteq> []" "\<not> HEX64 ?p" "list_all printable ?p"
  proof (cases "HEX64 ?p")
    case True
    then have "?p \<noteq> []" by (auto simp: HEX64_def ends_dollar_def)
    with True that(2,3) show thesis by (metis HEX64_cases)
  next
    case False
    then have "?p = [] \<or> list_all printable ?p" using assms
      by (auto simp: validate_network_def Let_def list_all_iff split: if_splits)
    with False that(1,4) show thesis by blast
  qed
  then show ?thesis
  proof cases
    case 1
    then have "iwd_file_content net = unlines ?tail"
      unfolding iwd_file_content_def by (simp add: Let_def join_unlines del: append_Cons)
    with 1 splitlines_printable [OF t] tn show ?thesis by (simp add: setting_lines_def)
  next
    case (2 q)
    let ?ls = "[''[Security]'', ''PreSharedKey='' @ lower q, []] @ ?tail"
    have "list_all (list_all printable) ?ls"
      using t 2 lines_printable by (auto simp: list_all_iff hex_lower_printable)
    moreover have "iwd_file_content net = unlines ?ls"
      using 2 by (simp add: iwd_file_content_def Let_def join_unlines del: append.simps)
    ultimately show ?thesis using 2 by (simp add: splitlines_printable setting_lines_def)
  next
    case (3 q)
    let ?ls = "[''[Security]'', ''PreSharedKey='' @ lower q, [], []] @ ?tail"
    have "list_all (list_all printable) ?ls"
      using t 3 lines_printable by (auto simp: list_all_iff hex_lower_printable)
    moreover have "iwd_file_content net = unlines ?ls"
      using 3 by (simp add: iwd_file_content_def Let_def join_unlines del: append.simps) (simp add: unlines_def lower_char_def between_def)
    ultimately show ?thesis using 3 by (simp add: splitlines_printable setting_lines_def)
  next
    case 4
    let ?ls = "[''[Security]'', ''Passphrase='' @ settings_escape ?p, []] @ ?tail"
    have "list_all (list_all printable) ?ls"
      using t 4 lines_printable escape_printable [OF 4(3)] by (auto simp: list_all_iff)
    moreover have "iwd_file_content net = unlines ?ls"
      using 4 by (simp add: iwd_file_content_def Let_def join_unlines del: append.simps)
    ultimately show ?thesis using 4 by (simp add: splitlines_printable setting_lines_def)
  qed
qed

text \<open>The name of a network's file: a plain one, and one network's only.\<close>

definition file_stem :: "string \<Rightarrow> string" where
  "file_stem ssid = (if ssid \<noteq> [] \<and> list_all plain_char ssid then ssid else ''='' @ hex_bytes ssid)"

lemma file_name_stem: "iwd_file_name ssid open_network = file_stem ssid @ ''.'' @ (if open_network then ''open'' else ''psk'')"
  by (simp add: iwd_file_name_def file_stem_def Let_def)

lemma hex_char_bounds: "n < 16 \<Longrightarrow> 48 \<le> (of_char (hex_char n) :: nat) \<and> (of_char (hex_char n) :: nat) < 128"
  by (simp add: hex_char_def)

lemma unhex_hex_char: "n < 16 \<Longrightarrow> unhex_digit (hex_char n) = Some n"
  by (simp add: hex_char_def unhex_digit_def is_digit_def between_def)

lemma hex_char_inject: "m < 16 \<Longrightarrow> n < 16 \<Longrightarrow> hex_char m = hex_char n \<longleftrightarrow> m = n"
  by (metis option.inject unhex_hex_char)

lemma byte_halves: "(of_char c :: nat) div 16 < 16"
proof -
  have "(of_char c :: nat) < 256" by (metis of_char_mod_256 mod_less_divisor zero_less_numeral)
  then show ?thesis by (intro less_mult_imp_div_less) simp
qed

lemma hex_bytes_inject: "hex_bytes s = hex_bytes t \<Longrightarrow> s = t"
proof (induction s arbitrary: t)
  case Nil
  then show ?case by (cases t) (simp_all add: hex_bytes_def)
next
  case (Cons c s)
  then obtain d r where t: "t = d # r" by (cases t) (simp_all add: hex_bytes_def)
  with Cons.prems have h: "hex_char (of_char c div 16) = hex_char (of_char d div 16)" "hex_char (of_char c mod 16) = hex_char (of_char d mod 16)"
    and r: "hex_bytes s = hex_bytes r" by (simp_all add: hex_bytes_def)
  from h have "(of_char c :: nat) div 16 = of_char d div 16" "(of_char c :: nat) mod 16 = of_char d mod 16"
    by (simp_all add: hex_char_inject byte_halves)
  then have "(of_char c :: nat) = of_char d" by (metis div_mult_mod_eq)
  then show ?case using Cons.IH [OF r] t by simp
qed

lemma hex_bytes_chars: "c \<in> set (hex_bytes s) \<Longrightarrow> 48 \<le> (of_char c :: nat) \<and> (of_char c :: nat) < 128"
  using hex_char_bounds byte_halves by (auto simp: hex_bytes_def)

lemma file_stem_chars: "CHR ''.'' \<notin> set (file_stem ssid) \<and> CHR ''/'' \<notin> set (file_stem ssid)"
  using hex_bytes_chars [of "CHR ''.''" ssid] hex_bytes_chars [of "CHR ''/''" ssid]
  by (auto simp: file_stem_def list_all_iff plain_char_def is_alnum_def is_alpha_def is_digit_def between_def)

lemma file_stem_inject: "file_stem s = file_stem t \<Longrightarrow> s = t"
  by (cases s; cases t) (auto simp: file_stem_def plain_char_def is_alnum_def is_alpha_def is_digit_def between_def
    dest: hex_bytes_inject split: if_splits)

lemma iwd_file_name_inject: "iwd_file_name s a = iwd_file_name t b \<longleftrightarrow> s = t \<and> a = b"
proof
  assume e: "iwd_file_name s a = iwd_file_name t b"
  have p: "partition_at CHR ''.'' (iwd_file_name x c) = Some (file_stem x, if c then ''open'' else ''psk'')" for x c
    using partition_at_append [of "CHR ''.''" "file_stem x"] file_stem_chars [of x] by (simp add: file_name_stem)
  from arg_cong [OF e, of "partition_at CHR ''.''"] show "s = t \<and> a = b"
    unfolding p by (auto dest: file_stem_inject split: if_splits)
qed simp

lemma hex_bytes_length: "length (hex_bytes s) = 2 * length s"
  by (induction s) (simp_all add: hex_bytes_def)

lemma iwd_file_name_plain:
  "CHR ''/'' \<notin> set (iwd_file_name ssid a)" "length ssid \<le> 32 \<Longrightarrow> length (iwd_file_name ssid a) \<le> 70"
  using file_stem_chars [of ssid] by (auto simp: file_name_stem) (auto simp: file_stem_def hex_bytes_length)

text \<open>The networks the files on BOOT give.\<close>

definition from_boot :: "string \<Rightarrow> wifi_network \<Rightarrow> bool" where
  "from_boot text net \<longleftrightarrow> parse_wifi_txt text = Inr net \<or> parse_wpa_supplicant text = Inr net \<or>
     parse_firstrun text = Inr (Some net) \<or> parse_network_config text = Inr (Some net)"

lemma validate_Inr: "validate_network n = Inr net \<Longrightarrow> validate_network net = Inr net"
  by (auto simp: validate_network_def Let_def split: if_splits)

lemma wpa_valid: "parse_wpa_supplicant s = Inr net \<Longrightarrow> validate_network net = Inr net"
  by (auto simp: parse_wpa_supplicant_def Let_def rbind_Inr_iff dest: validate_Inr split: option.splits if_splits)

lemma access_points_valid: "access_points c ls = Inr (Some net) \<Longrightarrow> validate_network net = Inr net"
  by (induction ls) (auto simp: rbind_Inr_iff dest: validate_Inr split: if_splits option.splits)

lemma from_boot_valid: "from_boot s net \<Longrightarrow> validate_network net = Inr net"
  by (auto simp: from_boot_def parse_wifi_txt_def parse_firstrun_def parse_network_config_def Let_def rbind_Inr_iff
      dest: validate_Inr wpa_valid access_points_valid split: option.splits if_splits)

text \<open>
  C32. Whatever stands in a settings file on BOOT, the network read from it is written to a file of iwd's directory of a
  plain name (no slash, at most 70 characters) that no other network has, and the lines of that file are the ones of the
  format, with the passphrase on its own line: no SSID, passphrase or escape in it adds a setting.
\<close>

theorem boot_network_contained:
  assumes "from_boot s net"
  shows "filter (\<lambda>l. l \<noteq> []) (splitlines (iwd_file_content net)) = setting_lines net \<and>
     CHR ''/'' \<notin> set (iwd_file_name (n_ssid net) a) \<and> length (iwd_file_name (n_ssid net) a) \<le> 70 \<and>
     (iwd_file_name (n_ssid net) a = iwd_file_name ssid b \<longleftrightarrow> n_ssid net = ssid \<and> a = b)"
proof -
  note v = from_boot_valid [OF assms]
  then have "length (n_ssid net) \<le> 32" by (auto simp: validate_network_def Let_def split: if_splits)
  from iwd_file_name_plain(2) [OF this] show ?thesis
    by (intro conjI content_lines [OF v] iwd_file_name_plain(1) iwd_file_name_inject)
qed

lemma boot_sample: "parse_wifi_txt (''ssid=My net'' @ [CHR 0x0A] @ ''password=a=b secret'') =
   Inr \<lparr>n_ssid = ''My net'', n_passphrase = ''a=b secret'', n_hidden = False, n_country = []\<rparr>"
  by (simp add: parse_wifi_txt_def Let_def splitlines_def is_linebreak_def wifi_txt_line_def strip_def is_space_def
      lower_char_def between_def unquote_def first_of_def List.map_filter_def utf8_def is_truthy_def validate_network_def
      HEX64_def ends_dollar_def printable_def)

theorem boot_network_contained_witness:
  "filter (\<lambda>l. l \<noteq> []) (splitlines (iwd_file_content
       \<lparr>n_ssid = ''My net'', n_passphrase = ''a=b secret'', n_hidden = False, n_country = []\<rparr>)) =
     [''[Security]'', ''Passphrase=a=b secret'', ''[Settings]'', ''AutoConnect=true'']"
proof -
  let ?net = "\<lparr>n_ssid = ''My net'', n_passphrase = ''a=b secret'', n_hidden = False, n_country = []\<rparr>"
  have "filter (\<lambda>l. l \<noteq> []) (splitlines (iwd_file_content ?net)) = setting_lines ?net"
    using boot_network_contained [of _ ?net, unfolded from_boot_def, OF disjI1 [OF boot_sample]] by blast
  also have "setting_lines ?net = [''[Security]'', ''Passphrase=a=b secret'', ''[Settings]'', ''AutoConnect=true'']"
    by code_simp
  finally show ?thesis .
qed

text \<open>A scalar that ends in a lone backslash is no \<open>WifiError\<close>: the lookup of its escape raises \<open>KeyError\<close>.\<close>

lemma lone_backslash: "yaml_scalar [CHR 0x22, CHR ''a'', CHR 0x5C, CHR 0x22] = Inl (KeyError [])"
  by code_simp

end
