(* ===== verification/Epk_Bluetooth.thy ===== *)
theory Epk_Bluetooth
  imports Epk_Text
begin

text \<open>
  Bluetooth pairing (\<open>epilykos_bluetooth.py\<close>): the coroutines of the pairing agent and of hostd's actions, which share
  one \<open>Pairing\<close> object and interleave wherever one awaits BlueZ, an answer or a task, and the recovery of a stuck BlueZ.

  A coroutine is a tree: it reads and writes the shared object, or waits for a reply.  Whatever lies between two waits
  runs at once, as in the event loop; the scheduler below resumes any waiting coroutine with any reply its wait can have.
  The object carries the loop's own data (clock, futures, tasks) and a history of what the agent did, which no coroutine reads.
\<close>

section \<open>The shared object\<close>

definition WINDOW_S :: nat where
  "WINDOW_S = 300"

datatype val = VTrue | VStr string | VOther

record question =
  q_id :: nat
  q_kind :: string
  q_value :: "string option"

datatype future = Unset | Result val | Failed string

text \<open>The history: \<open>bool\<close> is whether the pairing window was open.\<close>

datatype bt_event =
    Selected string
  | Shown nat string bool
  | Given nat val bool
  | Returned nat string val
  | Authorised string bool
  | Trusted string

text \<open>\<open>futures\<close> are named by the identifier of the request they answer; a task of \<open>pr_created\<close> has not started yet.\<close>

record pairing =
  adapter :: "string option"
  deadline :: nat
  until :: nat
  selected :: "string option"
  pending :: "question option"
  answer :: "nat option"
  task :: "nat option"
  pr_result :: "(bool \<times> string) option"
  clock :: nat
  futures :: "nat \<Rightarrow> future"
  fresh :: nat
  created :: "(nat \<times> string) list"
  cancelled :: "nat list"
  finished :: "nat list"
  history :: "bt_event list"

record device =
  d_path :: string
  d_address :: "string option"
  d_name :: string
  d_paired :: bool
  d_connected :: bool

record objects =
  o_adapters :: "string list"
  o_devices :: "device list"

section \<open>Coroutines\<close>

datatype awaited =
    Call string string "string list"
  | Future nat nat
  | Join nat

datatype bt_response = Body objects | Refused string | Answer val | Expired | Interrupted

datatype 'a co = Fin "'a result" | Get "pairing \<Rightarrow> 'a co" | Put pairing "'a co" | Wait awaited "bt_response \<Rightarrow> 'a co"

primrec co_bind :: "'a co \<Rightarrow> ('a \<Rightarrow> 'b co) \<Rightarrow> 'b co" where
  "co_bind (Fin r) f = (case r of Inl e \<Rightarrow> Fin (Inl e) | Inr x \<Rightarrow> f x)"
| "co_bind (Get k) f = Get (\<lambda>p. co_bind (k p) f)"
| "co_bind (Put p c) f = Put p (co_bind c f)"
| "co_bind (Wait w k) f = Wait w (\<lambda>r. co_bind (k r) f)"

primrec co_catch :: "'a co \<Rightarrow> (exn \<Rightarrow> 'a co) \<Rightarrow> 'a co" where
  "co_catch (Fin r) h = (case r of Inl e \<Rightarrow> h e | Inr x \<Rightarrow> Fin (Inr x))"
| "co_catch (Get k) h = Get (\<lambda>p. co_catch (k p) h)"
| "co_catch (Put p c) h = Put p (co_catch c h)"
| "co_catch (Wait w k) h = Wait w (\<lambda>r. co_catch (k r) h)"

definition co_return :: "'a \<Rightarrow> 'a co" where
  "co_return x = Fin (Inr x)"

definition co_raise :: "exn \<Rightarrow> 'a co" where
  "co_raise e = Fin (Inl e)"

definition co_then :: "'a co \<Rightarrow> 'b co \<Rightarrow> 'b co" where
  "co_then m n = co_bind m (\<lambda>_. n)"

definition co_finally :: "'a co \<Rightarrow> unit co \<Rightarrow> 'a co" where
  "co_finally m f = co_bind (co_catch (co_bind m (\<lambda>x. co_return (Inr x))) (\<lambda>e. co_return (Inl e)))
     (\<lambda>r. co_then f (Fin r))"

definition change :: "(pairing \<Rightarrow> pairing) \<Rightarrow> unit co" where
  "change f = Get (\<lambda>p. Put (f p) (co_return ()))"

definition note_event :: "bt_event \<Rightarrow> pairing \<Rightarrow> pairing" where
  "note_event e = history_update ((#) e)"

text \<open>\<open>await\<close> of a call to BlueZ (with its limit of 8 s), of a future and of a task.\<close>

definition awaiting :: "awaited \<Rightarrow> bt_response co" where
  "awaiting w = Wait w (\<lambda>r. case r of
       Refused name \<Rightarrow> co_raise (DBusError name) | Expired \<Rightarrow> co_raise (TimeoutExpired []) | Interrupted \<Rightarrow> co_raise Cancelled
     | _ \<Rightarrow> co_return r)"

definition no_objects :: objects where
  "no_objects = \<lparr>o_adapters = [], o_devices = []\<rparr>"

definition bt_call :: "string \<Rightarrow> string \<Rightarrow> string list \<Rightarrow> objects co" where
  "bt_call path member args = co_bind (awaiting (Call path member args)) (\<lambda>r. case r of Body b \<Rightarrow> co_return b | _ \<Rightarrow> co_return no_objects)"

text \<open>\<open>except (DBusError, asyncio.TimeoutError): pass\<close>\<close>

definition ignoring :: "objects co \<Rightarrow> unit co" where
  "ignoring m = co_catch (co_then m (co_return ())) (\<lambda>e. case e of
     DBusError _ \<Rightarrow> co_return () | TimeoutExpired _ \<Rightarrow> co_return () | _ \<Rightarrow> co_raise e)"

section \<open>The methods of \<open>Pairing\<close>\<close>

definition bt_active :: "pairing \<Rightarrow> bool" where
  "bt_active p \<longleftrightarrow> clock p < deadline p"

definition get_objects :: "objects co" where
  "get_objects = bt_call ''/'' ''GetManagedObjects'' []"

definition set_prop :: "string \<Rightarrow> string \<Rightarrow> objects co" where
  "set_prop name variant = Get (\<lambda>p. bt_call (case adapter p of None \<Rightarrow> [] | Some a \<Rightarrow> a) ''Set'' [''org.bluez.Adapter1'', name, variant])"

text \<open>The first adapter by path.\<close>

fun first_path :: "string list \<Rightarrow> string option" where
  "first_path [] = None"
| "first_path (a # as) = (case first_path as of None \<Rightarrow> Some a
     | Some b \<Rightarrow> Some (if text_le a b then a else b))"

definition pairing_init :: "unit co" where
  "pairing_init = co_bind get_objects (\<lambda>o'.
     co_then (change (adapter_update (\<lambda>_. first_path (o_adapters o'))))
     (Get (\<lambda>p. if adapter p = None then co_raise (PairingError ''No Bluetooth adapter is available'')
       else co_then (bt_call ''/org/bluez'' ''RegisterAgent'' [''/org/epilykos/PairingAgent'', ''KeyboardDisplay''])
            (co_then (set_prop ''Pairable'' ''false'') (co_return ())))))"

definition guard :: "string \<Rightarrow> unit co" where
  "guard device = Get (\<lambda>p. if \<not> bt_active p \<or> selected p \<noteq> Some device
     then co_raise (DBusError ''org.bluez.Error.Rejected'') else co_return ())"

definition cancel_pending :: "unit co" where
  "cancel_pending = change (\<lambda>p. (case answer p of None \<Rightarrow> p
     | Some f \<Rightarrow> if futures p f = Unset then p\<lparr>futures := (futures p)(f := Failed ''org.bluez.Error.Canceled'')\<rparr> else p)
     \<lparr>pending := None\<rparr>)"

text \<open>The wait of \<open>ask\<close>, and \<open>ask\<close>.\<close>

definition await_answer :: "string \<Rightarrow> nat \<Rightarrow> nat \<Rightarrow> val co" where
  "await_answer device n limit =
     co_finally
       (co_bind (co_catch (awaiting (Future n limit))
           (\<lambda>e. case e of TimeoutExpired _ \<Rightarrow> co_raise (DBusError ''org.bluez.Error.Canceled'') | _ \<Rightarrow> co_raise e))
         (\<lambda>r. case r of
            Answer v \<Rightarrow> co_then (change (note_event (Returned n device v))) (co_return v)
          | _ \<Rightarrow> co_return VOther))
       (change (\<lambda>p. p\<lparr>pending := None, answer := None\<rparr>))"

definition ask_bluetooth :: "string \<Rightarrow> string \<Rightarrow> string option \<Rightarrow> val co" where
  "ask_bluetooth device kind shown =
     co_then (guard device)
     (Get (\<lambda>p. if pending p \<noteq> None then co_raise (DBusError ''org.bluez.Error.Rejected'')
       else let n = fresh p in
         co_then (change (\<lambda>p. note_event (Shown n device (bt_active p))
             (p\<lparr>answer := Some n, futures := (futures p)(n := Unset), fresh := n + 1,
                pending := Some \<lparr>q_id = n, q_kind = kind, q_value = shown\<rparr>\<rparr>)))
         (await_answer device n (min 90 (deadline p - clock p)))))"

definition display :: "string \<Rightarrow> string \<Rightarrow> unit co" where
  "display device shown = co_then (guard device)
     (change (\<lambda>p. p\<lparr>pending := Some \<lparr>q_id = fresh p, q_kind = ''display'', q_value = Some shown\<rparr>, fresh := fresh p + 1\<rparr>))"

definition close_pairing :: "unit co" where
  "close_pairing =
     co_then (change (\<lambda>p. p\<lparr>deadline := 0, until := 0\<rparr>))
     (co_then cancel_pending
     (co_then (Get (\<lambda>p. case selected p of None \<Rightarrow> co_return () | Some d \<Rightarrow> ignoring (bt_call d ''CancelPairing'' [])))
     (co_then (Get (\<lambda>p. case task p of None \<Rightarrow> co_return ()
         | Some t \<Rightarrow> if t \<in> set (finished p) then co_return ()
             else co_then (change (cancelled_update ((#) t))) (co_then (awaiting (Join t)) (co_return ()))))
     (co_then (change (selected_update (\<lambda>_. None)))
     (Get (\<lambda>p. if adapter p = None then co_return ()
       else co_then (ignoring (set_prop ''Pairable'' ''false''))
            (ignoring (bt_call (the (adapter p)) ''StopDiscovery'' []))))))))"

record bt_status =
  bs_until :: nat
  bs_pairing :: bool
  bs_pending :: "question option"
  bs_result :: "(bool \<times> string) option"
  bs_devices :: "(string option \<times> string \<times> bool \<times> bool) list"

definition below :: "pairing \<Rightarrow> string \<Rightarrow> bool" where
  "below p path \<longleftrightarrow> startswith path ((case adapter p of None \<Rightarrow> [] | Some a \<Rightarrow> a) @ ''/'')"

text \<open>Sorted by \<open>(not paired, name)\<close>, stably; the first sixty.\<close>

definition device_le :: "string option \<times> string \<times> bool \<times> bool \<Rightarrow> string option \<times> string \<times> bool \<times> bool \<Rightarrow> bool" where
  "device_le a b = (case (a, b) of ((_, n, x, _), (_, m, y, _)) \<Rightarrow>
     if x = y then text_le n m else x)"

fun insert_device :: "string option \<times> string \<times> bool \<times> bool \<Rightarrow> (string option \<times> string \<times> bool \<times> bool) list
    \<Rightarrow> (string option \<times> string \<times> bool \<times> bool) list" where
  "insert_device d [] = [d]"
| "insert_device d (e # es) = (if device_le d e then d # e # es else e # insert_device d es)"

definition pairing_status :: "bt_status co" where
  "pairing_status = co_bind get_objects (\<lambda>o'. Get (\<lambda>p. co_return
     \<lparr>bs_until = (if bt_active p then until p else 0), bs_pairing = (selected p \<noteq> None), bs_pending = pending p,
      bs_result = pr_result p,
      bs_devices = take 60 (foldr insert_device
        (map (\<lambda>d. (d_address d, take 100 (d_name d), d_paired d, d_connected d)) (filter (\<lambda>d. below p (d_path d)) (o_devices o'))) [])\<rparr>))"

text \<open>\<open>except Exception\<close>: everything but a cancellation.\<close>

definition open_pairing :: "nat \<Rightarrow> bt_status co" where
  "open_pairing wall_clock =
     co_then close_pairing
     (co_then (change (pr_result_update (\<lambda>_. None)))
     (co_then
       (co_catch
         (co_then (set_prop ''Powered'' ''true'')
         (co_then (set_prop ''PairableTimeout'' ''300'')
         (co_then (set_prop ''Pairable'' ''true'')
         (Get (\<lambda>p. co_then (bt_call (the (adapter p)) ''SetDiscoveryFilter'' [''Transport'', ''le''])
           (co_then (bt_call (the (adapter p)) ''StartDiscovery'' []) (co_return ())))))))
         (\<lambda>e. if e = Cancelled then co_raise e else co_then close_pairing (co_raise e)))
     (co_then (change (\<lambda>p. p\<lparr>deadline := clock p + WINDOW_S, until := wall_clock + WINDOW_S\<rparr>)) pairing_status)))"

text \<open>\<open>(?:[0-9A-Fa-f]{2}:){5}[0-9A-Fa-f]{2}\<close>\<close>

definition hex_pair :: "string \<Rightarrow> bool" where
  "hex_pair s \<longleftrightarrow> length s = 2 \<and>
     list_all (\<lambda>c. is_digit c \<or> between CHR ''A'' CHR ''F'' c \<or> between CHR ''a'' CHR ''f'' c) s"

definition is_address :: "string \<Rightarrow> bool" where
  "is_address s \<longleftrightarrow> length (split_on CHR '':'' s) = 6 \<and> list_all hex_pair (split_on CHR '':'' s)"

definition find_device :: "val \<Rightarrow> string co" where
  "find_device addr = (case addr of
       VStr a \<Rightarrow> if \<not> is_address a then co_raise (PairingError ''Select a Bluetooth device from the list'')
         else co_bind get_objects (\<lambda>o'. Get (\<lambda>p.
           case filter (\<lambda>d. (case d_address d of None \<Rightarrow> False | Some x \<Rightarrow> x \<noteq> [] \<and> upper x = upper a) \<and> below p (d_path d)) (o_devices o') of
             [] \<Rightarrow> co_raise (PairingError ''That device is no longer available; scan again'')
           | d # _ \<Rightarrow> co_return (d_path d)))
     | _ \<Rightarrow> co_raise (PairingError ''Select a Bluetooth device from the list''))"

definition pair_device :: "val \<Rightarrow> bt_status co" where
  "pair_device addr = Get (\<lambda>p.
     if \<not> bt_active p then co_raise (PairingError ''Open the five-minute pairing window first'')
     else if selected p \<noteq> None then co_raise (PairingError ''A device is already pairing'')
     else co_bind (find_device addr) (\<lambda>d.
       co_then (change (\<lambda>p. note_event (Selected d)
           (p\<lparr>selected := Some d, pr_result := None, created := created p @ [(fresh p, d)], task := Some (fresh p), fresh := fresh p + 1\<rparr>)))
         pairing_status))"

definition do_pair :: "nat \<Rightarrow> string \<Rightarrow> unit co" where
  "do_pair t d =
     co_finally
       (co_catch
          (co_then (bt_call d ''Pair'' [])
          (co_then (change (note_event (Trusted d)))
          (co_then (ignoring (bt_call d ''Set'' [''org.bluez.Device1'', ''Trusted'', ''true'']))
            (change (pr_result_update (\<lambda>_. Some (True, ''Paired. Select this device in your source settings.'')))))))
          (\<lambda>e. case e of
             Cancelled \<Rightarrow> change (pr_result_update (\<lambda>_. Some (False, ''Pairing cancelled'')))
           | DBusError name \<Rightarrow> change (pr_result_update (\<lambda>_. Some (False,
               ''Pairing failed: '' @ name @ ''. Check the device PIN and try again.'')))
           | TimeoutExpired _ \<Rightarrow> change (pr_result_update (\<lambda>_. Some (False,
               ''Pairing failed: timed out. Check the device PIN and try again.'')))
           | _ \<Rightarrow> co_raise e))
       (co_then cancel_pending (change (\<lambda>p. p\<lparr>selected := None, finished := t # finished p\<rparr>)))"

definition passkey_ok :: "val \<Rightarrow> bool" where
  "passkey_ok v = (case v of VStr s \<Rightarrow> 1 \<le> length s \<and> length s \<le> 6 \<and> list_all is_digit s | _ \<Rightarrow> False)"

definition pin_ok :: "val \<Rightarrow> bool" where
  "pin_ok v = (case v of VStr s \<Rightarrow> 1 \<le> length s \<and> length s \<le> 16 \<and> list_all printable s | _ \<Rightarrow> False)"

definition reply_pairing :: "nat \<Rightarrow> val \<Rightarrow> bt_status co" where
  "reply_pairing request_id v = Get (\<lambda>p.
     case (pending p, answer p) of
       (Some q, Some f) \<Rightarrow>
         if \<not> bt_active p \<or> q_id q \<noteq> request_id then co_raise (PairingError ''That PIN request has expired'')
         else if q_kind q = ''confirm'' \<and> v \<noteq> VTrue then co_then cancel_pending pairing_status
         else if q_kind q = ''passkey'' \<and> \<not> passkey_ok v then co_raise (PairingError ''Enter a numeric passkey of up to six digits'')
         else if q_kind q = ''pin'' \<and> \<not> pin_ok v then co_raise (PairingError ''Enter a PIN of 1 to 16 characters'')
         else if futures p f \<noteq> Unset then co_raise (PairingError ''That request was already answered'')
         else co_then (change (\<lambda>p. note_event (Given f v (bt_active p)) (p\<lparr>futures := (futures p)(f := Result v)\<rparr>))) pairing_status
     | _ \<Rightarrow> co_raise (PairingError ''That PIN request has expired''))"

definition remove_device :: "val \<Rightarrow> bt_status co" where
  "remove_device addr = Get (\<lambda>p. if selected p \<noteq> None
     then co_raise (PairingError ''Finish or cancel pairing before forgetting a device'')
     else co_bind (find_device addr) (\<lambda>d. co_then (bt_call (the (adapter p)) ''RemoveDevice'' [d]) pairing_status))"

section \<open>The agent and the actions of hostd\<close>

text \<open>The number of six digits that BlueZ shows.\<close>

definition six_digits :: "nat \<Rightarrow> string" where
  "six_digits n = replicate (6 - length (dec n)) CHR ''0'' @ dec n"

definition authorise :: "string \<Rightarrow> unit co" where
  "authorise device = co_then (guard device) (change (\<lambda>p. note_event (Authorised device (bt_active p)) p))"

definition request_passkey :: "string \<Rightarrow> unit co" where
  "request_passkey device = co_bind (ask_bluetooth device ''passkey'' None) (\<lambda>v. case v of
     VStr s \<Rightarrow> (case undec s of None \<Rightarrow> co_raise (ValueError ''invalid literal for int()'') | Some n \<Rightarrow> co_return ())
   | _ \<Rightarrow> co_return ())"

datatype agent =
    Release | RequestPinCode string | RequestPasskey string | RequestConfirmation string nat | RequestAuthorization string
  | AuthorizeService string | DisplayPinCode string string | DisplayPasskey string nat | CancelRequest

fun agent_method :: "agent \<Rightarrow> unit co" where
  "agent_method Release = cancel_pending"
| "agent_method (RequestPinCode d) = co_then (ask_bluetooth d ''pin'' None) (co_return ())"
| "agent_method (RequestPasskey d) = request_passkey d"
| "agent_method (RequestConfirmation d n) = co_then (ask_bluetooth d ''confirm'' (Some (six_digits n))) (co_return ())"
| "agent_method (RequestAuthorization d) = authorise d"
| "agent_method (AuthorizeService d) = authorise d"
| "agent_method (DisplayPinCode d pin) = display d pin"
| "agent_method (DisplayPasskey d n) = display d (six_digits n)"
| "agent_method CancelRequest = cancel_pending"

datatype bt_action = BtStatus | BtOpen nat | BtClose | BtPair val | BtReply nat val | BtRemove val

fun bt_dispatch :: "bt_action \<Rightarrow> bt_status co" where
  "bt_dispatch BtStatus = pairing_status"
| "bt_dispatch (BtOpen wall_clock) = open_pairing wall_clock"
| "bt_dispatch BtClose = co_then close_pairing pairing_status"
| "bt_dispatch (BtPair a) = pair_device a"
| "bt_dispatch (BtReply i v) = reply_pairing i v"
| "bt_dispatch (BtRemove a) = remove_device a"

section \<open>The event loop\<close>

text \<open>The part of a coroutine up to its next wait runs at once.\<close>

primrec advance :: "'a co \<Rightarrow> pairing \<Rightarrow> 'a co \<times> pairing" where
  "advance (Fin r) p = (Fin r, p)"
| "advance (Get k) p = advance (k p) p"
| "advance (Put p' c) p = advance c p'"
| "advance (Wait w k) p = (Wait w k, p)"

datatype thread_kind = Request | AgentCall | Task nat

record loop =
  l_obj :: pairing
  l_threads :: "(thread_kind \<times> unit co) list"

text \<open>
  The replies a wait can have.  A call to BlueZ can succeed, be refused or time out, whenever it likes; a future has the
  result it was given; hostd gives a request up after 12 s, and a task is interrupted when it was cancelled.
\<close>

fun possible :: "pairing \<Rightarrow> thread_kind \<Rightarrow> awaited \<Rightarrow> bt_response \<Rightarrow> bool" where
  "possible p k w Interrupted = (case k of Request \<Rightarrow> True | AgentCall \<Rightarrow> False | Task t \<Rightarrow> t \<in> set (cancelled p))"
| "possible p k (Call path m args) (Body b) = True"
| "possible p k (Call path m args) (Refused name) = True"
| "possible p k (Call path m args) Expired = True"
| "possible p k (Future f limit) (Answer v) = (futures p f = Result v)"
| "possible p k (Future f limit) (Refused name) = (futures p f = Failed name)"
| "possible p k (Future f limit) Expired = (futures p f = Unset)"
| "possible p k (Join t) (Body b) = (t \<in> set (finished p))"
| "possible p k w r = False"

datatype move = Tick nat | Arrive bt_action | Agent agent | WindowEnds | StartTask | Resume nat bt_response

definition launch :: "thread_kind \<Rightarrow> unit co \<Rightarrow> loop \<Rightarrow> loop" where
  "launch k c l = (case advance c (l_obj l) of (c', p) \<Rightarrow> \<lparr>l_obj = p, l_threads = l_threads l @ [(k, c')]\<rparr>)"

fun move_loop :: "move \<Rightarrow> loop \<Rightarrow> loop option" where
  "move_loop (Tick n) l = Some (l\<lparr>l_obj := (l_obj l)\<lparr>clock := clock (l_obj l) + n\<rparr>\<rparr>)"
| "move_loop (Arrive a) l = Some (launch Request (co_then (bt_dispatch a) (co_return ())) l)"
| "move_loop (Agent m) l = Some (launch AgentCall (agent_method m) l)"
| "move_loop WindowEnds l = (if until (l_obj l) \<noteq> 0 \<and> \<not> bt_active (l_obj l) then Some (launch AgentCall close_pairing l) else None)"
| "move_loop StartTask l = (case created (l_obj l) of
     [] \<Rightarrow> None
   | (t, d) # rest \<Rightarrow>
       (let p = (l_obj l)\<lparr>created := rest\<rparr>
        in if t \<in> set (cancelled p) then Some (l\<lparr>l_obj := p\<lparr>finished := t # finished p\<rparr>\<rparr>)
           else Some (launch (Task t) (do_pair t d) (l\<lparr>l_obj := p\<rparr>))))"
| "move_loop (Resume i r) l = (if i < length (l_threads l) then (case l_threads l ! i of
     (k, Wait w f) \<Rightarrow> if possible (l_obj l) k w r
        then (case advance (f r) (l_obj l) of (c, p) \<Rightarrow> Some \<lparr>l_obj = p, l_threads = (l_threads l)[i := (k, c)]\<rparr>) else None
   | _ \<Rightarrow> None) else None)"

definition ready_object :: "string \<Rightarrow> pairing" where
  "ready_object a = \<lparr>adapter = Some a, deadline = 0, until = 0, selected = None, pending = None, answer = None, task = None,
     pr_result = None, clock = 0, futures = (\<lambda>_. Unset), fresh = 0, created = [], cancelled = [], finished = [], history = []\<rparr>"


fun moves :: "move list \<Rightarrow> loop \<Rightarrow> loop option" where
  "moves [] l = Some l"
| "moves (m # ms) l = (case move_loop m l of None \<Rightarrow> None | Some l' \<Rightarrow> moves ms l')"


section \<open>Every answer was given to the question it answers\<close>

text \<open>What an event of the history stands on, and what the object may claim.\<close>

fun justified :: "bt_event set \<Rightarrow> bt_event \<Rightarrow> bool" where
  "justified H (Selected d) = True"
| "justified H (Shown n d w) = (w \<and> Selected d \<in> H)"
| "justified H (Given n v w) = w"
| "justified H (Returned n d v) = (Given n v True \<in> H \<and> Shown n d True \<in> H)"
| "justified H (Authorised d w) = (w \<and> Selected d \<in> H)"
| "justified H (Trusted d) = (Selected d \<in> H)"

abbreviation events :: "pairing \<Rightarrow> bt_event set" where
  "events p \<equiv> set (history p)"

definition sound :: "pairing \<Rightarrow> bool" where
  "sound p \<longleftrightarrow> (\<forall>e\<in>events p. justified (events p) e) \<and>
     (\<forall>d. selected p = Some d \<longrightarrow> Selected d \<in> events p) \<and>
     (\<forall>f v. futures p f = Result v \<longrightarrow> Given f v True \<in> events p) \<and>
     (\<forall>t d. (t, d) \<in> set (created p) \<longrightarrow> Selected d \<in> events p)"

text \<open>
  \<open>co_ok c Q p\<close>: run from \<open>p\<close>, the coroutine leaves a sound object at every wait, forgets no event, and ends in \<open>Q\<close>,
  whatever the others did in its waits.
\<close>

fun fits :: "pairing \<Rightarrow> awaited \<Rightarrow> bt_response \<Rightarrow> bool" where
  "fits p (Future f limit) (Answer v) = (futures p f = Result v)"
| "fits p (Call path m args) (Answer v) = False"
| "fits p (Join t) (Answer v) = False"
| "fits p w r = True"


definition later :: "pairing \<Rightarrow> pairing \<Rightarrow> bool" where
  "later p q \<longleftrightarrow> events p \<subseteq> events q \<and> sound q"

primrec co_ok :: "'a co \<Rightarrow> ('a result \<Rightarrow> pairing \<Rightarrow> bool) \<Rightarrow> pairing \<Rightarrow> bool" where
  "co_ok (Fin r) Q p = Q r p"
| "co_ok (Get k) Q p = co_ok (k p) Q p"
| "co_ok (Put p' c) Q p = (events p \<subseteq> events p' \<and> co_ok c Q p')"
| "co_ok (Wait w k) Q p = (sound p \<and> (\<forall>r q. later p q \<longrightarrow> fits q w r \<longrightarrow> co_ok (k r) Q q))"

lemma safe_bind: "co_ok (co_bind m f) Q p = co_ok m (\<lambda>r q. case r of Inl e \<Rightarrow> Q (Inl e) q | Inr x \<Rightarrow> co_ok (f x) Q q) p"
  by (induction m arbitrary: p) (auto split: sum.split)

lemma safe_catch: "co_ok (co_catch m h) Q p = co_ok m (\<lambda>r q. case r of Inl e \<Rightarrow> co_ok (h e) Q q | Inr x \<Rightarrow> Q (Inr x) q) p"
  by (induction m arbitrary: p) (auto split: sum.split)

lemma safe_mono: "co_ok m Q p \<Longrightarrow> (\<And>r q. events p \<subseteq> events q \<Longrightarrow> Q r q \<Longrightarrow> Q' r q) \<Longrightarrow> co_ok m Q' p"
proof (induction m arbitrary: p)
  case (Wait w k)
  show ?case
  proof (simp, intro conjI allI impI)
    show "sound p" using Wait.prems(1) by simp
    fix r q
    assume q: "later p q" "fits q w r"
    then have "co_ok (k r) Q q" using Wait.prems(1) by simp
    then show "co_ok (k r) Q' q"
    proof (rule Wait.IH [rotated])
      fix r' q'
      assume "events q \<subseteq> events q'" "Q r' q'"
      then show "Q' r' q'" using q(1) Wait.prems(2) unfolding later_def by blast
    qed simp
  qed
next
  case (Put p' c)
  then show ?case by (simp, metis order_trans)
qed simp_all

lemma safe_return [simp]: "co_ok (co_return x) Q p = Q (Inr x) p"
  by (simp add: co_return_def)

lemma safe_raise [simp]: "co_ok (co_raise e) Q p = Q (Inl e) p"
  by (simp add: co_raise_def)

lemma safe_change [simp]: "co_ok (change f) Q p = (events p \<subseteq> events (f p) \<and> Q (Inr ()) (f p))"
  by (simp add: change_def)

lemma safe_then: "co_ok (co_then m n) Q p = co_ok m (\<lambda>r q. case r of Inl e \<Rightarrow> Q (Inl e) q | Inr _ \<Rightarrow> co_ok n Q q) p"
  by (simp add: co_then_def safe_bind)

lemma safe_finally: "co_ok (co_finally m f) Q p =
   co_ok m (\<lambda>r q. co_ok f (\<lambda>r' q'. case r' of Inl e \<Rightarrow> Q (Inl e) q' | Inr _ \<Rightarrow> Q r q') q) p"
  by (simp add: co_finally_def safe_bind safe_catch safe_then cong: sum.case_cong)
    (rule arg_cong [where f = "\<lambda>X. co_ok m X p"], auto simp: fun_eq_iff split: sum.split)

lemmas co_safe = safe_bind safe_catch safe_then safe_finally


text \<open>A co_quiet coroutine keeps a sound object sound.\<close>

definition fine :: "'a result \<Rightarrow> pairing \<Rightarrow> bool" where
  "fine r p \<longleftrightarrow> sound p"

definition co_quiet :: "'a co \<Rightarrow> bool" where
  "co_quiet c \<longleftrightarrow> (\<forall>p. sound p \<longrightarrow> co_ok c fine p)"


lemma quiet_await [simp]: "co_quiet (awaiting w)"
  by (auto simp: co_quiet_def awaiting_def later_def fine_def split: bt_response.split)

lemma quiet_return [simp]: "co_quiet (co_return x)"
  by (simp add: co_quiet_def fine_def)

lemma quiet_raise [simp]: "co_quiet (co_raise e)"
  by (simp add: co_quiet_def fine_def)

lemma quiet_Get: "(\<And>p. co_quiet (k p)) \<Longrightarrow> co_quiet (Get k)"
  by (simp add: co_quiet_def)

lemma quiet_change: "(\<And>p. sound p \<Longrightarrow> sound (f p) \<and> events p \<subseteq> events (f p)) \<Longrightarrow> co_quiet (change f)"
  by (simp add: co_quiet_def fine_def)

lemma quiet_bind: "co_quiet m \<Longrightarrow> (\<And>x. co_quiet (f x)) \<Longrightarrow> co_quiet (co_bind m f)"
  unfolding co_quiet_def co_safe
  by (intro allI impI, rule safe_mono, erule allE, erule (1) mp) (simp add: fine_def split: sum.split)

lemma quiet_then: "co_quiet m \<Longrightarrow> co_quiet n \<Longrightarrow> co_quiet (co_then m n)"
  unfolding co_then_def by (rule quiet_bind)

lemma quiet_catch: "co_quiet m \<Longrightarrow> (\<And>e. co_quiet (h e)) \<Longrightarrow> co_quiet (co_catch m h)"
  unfolding co_quiet_def co_safe
  by (intro allI impI, rule safe_mono, erule allE, erule (1) mp) (simp add: fine_def split: sum.split)

lemma quiet_finally: "co_quiet m \<Longrightarrow> co_quiet f \<Longrightarrow> co_quiet (co_finally m f)"
  unfolding co_quiet_def co_safe
  by (intro allI impI, rule safe_mono, erule allE, erule (1) mp, rule safe_mono, erule allE, erule mp)
    (simp_all add: fine_def split: sum.split)

lemma quiet_if: "co_quiet m \<Longrightarrow> co_quiet n \<Longrightarrow> co_quiet (if b then m else n)"
  by simp

lemma quiet_option: "co_quiet n \<Longrightarrow> (\<And>x. co_quiet (f x)) \<Longrightarrow> co_quiet (case v of None \<Rightarrow> n | Some x \<Rightarrow> f x)"
  by (simp split: option.split)

lemmas quiet_intros = quiet_Get quiet_then quiet_bind quiet_catch quiet_finally quiet_if quiet_option

lemma sound_fields [simp]:
  "sound (adapter_update f0 p) = sound p" "sound (deadline_update f1 p) = sound p" "sound (until_update f2 p) = sound p"
  "sound (pending_update f3 p) = sound p" "sound (answer_update f4 p) = sound p" "sound (task_update f5 p) = sound p"
  "sound (pr_result_update f6 p) = sound p" "sound (clock_update f7 p) = sound p" "sound (fresh_update f8 p) = sound p"
  "sound (cancelled_update f9 p) = sound p" "sound (finished_update f10 p) = sound p"
  by (simp_all add: sound_def)

lemma sound_unselect: "sound p \<Longrightarrow> sound (p\<lparr>selected := None\<rparr>)"
  by (simp add: sound_def)

lemma sound_future: "sound p \<Longrightarrow> \<forall>v. x \<noteq> Result v \<Longrightarrow> sound (p\<lparr>futures := (futures p)(f := x)\<rparr>)"
  by (simp add: sound_def)

lemma justified_mono: "justified H e \<Longrightarrow> H \<subseteq> H' \<Longrightarrow> justified H' e"
  by (cases e) auto

lemma sound_note:
  assumes "sound p" and "justified (insert e (events p)) e"
  shows "sound (note_event e p)"
  using assms justified_mono [OF _ subset_insertI, of "events p"]
  by (auto simp: sound_def note_event_def split: option.splits)

lemma events_note [simp]: "events (note_event e p) = insert e (events p)"
  by (simp add: note_event_def)

lemma sound_pick:
  assumes "sound p"
  shows "sound (note_event (Selected d) (p\<lparr>selected := Some d, pr_result := None, created := created p @ [(t, d)], task := Some t, fresh := n\<rparr>))"
  using assms justified_mono [OF _ subset_insertI, of "events p"]
  by (auto simp: sound_def note_event_def split: option.splits)

lemma sound_give:
  assumes "sound p" and "bt_active p"
  shows "sound (note_event (Given f v (bt_active p)) (p\<lparr>futures := (futures p)(f := Result v)\<rparr>))"
  using assms justified_mono [OF _ subset_insertI, of "events p"]
  by (auto simp: sound_def note_event_def split: option.splits)

lemma quiet_call [simp]: "co_quiet (bt_call path m args)"
  by (auto simp: bt_call_def intro!: quiet_bind split: bt_response.split)

lemma quiet_ignoring: "co_quiet m \<Longrightarrow> co_quiet (ignoring m)"
  by (auto simp: ignoring_def intro!: quiet_intros split: exn.split)

lemma quiet_objects [simp]: "co_quiet get_objects"
  by (simp add: get_objects_def)

lemma quiet_prop [simp]: "co_quiet (set_prop n v)"
  by (simp add: set_prop_def quiet_Get)

lemma quiet_cancel [simp]: "co_quiet cancel_pending"
  by (auto simp: cancel_pending_def intro!: quiet_change sound_future split: option.split)

lemma quiet_guard [simp]: "co_quiet (guard d)"
  by (simp add: guard_def quiet_Get)

lemma quiet_display [simp]: "co_quiet (display d v)"
  by (simp add: display_def quiet_then quiet_change)

lemma quiet_close [simp]: "co_quiet close_pairing"
  unfolding close_pairing_def
  by (intro quiet_intros quiet_ignoring quiet_change quiet_call quiet_prop quiet_return quiet_cancel quiet_await)
    (simp_all add: sound_unselect)

lemma quiet_status [simp]: "co_quiet pairing_status"
  by (simp add: pairing_status_def quiet_bind quiet_Get)

lemma quiet_open [simp]: "co_quiet (open_pairing n)"
  unfolding open_pairing_def
  by (intro quiet_intros quiet_change quiet_call quiet_prop quiet_return quiet_raise quiet_close quiet_status) simp_all

lemma quiet_find [simp]: "co_quiet (find_device v)"
  by (auto simp: find_device_def intro!: quiet_intros split: val.split list.split)

lemma quiet_pair [simp]: "co_quiet (pair_device v)"
  unfolding pair_device_def
  by (intro quiet_intros quiet_change quiet_raise quiet_find quiet_status) (auto intro: sound_pick)

lemma quiet_remove [simp]: "co_quiet (remove_device v)"
  by (simp add: remove_device_def quiet_Get quiet_bind quiet_then)

lemma quiet_reply [simp]: "co_quiet (reply_pairing i v)"
  unfolding co_quiet_def
proof (intro allI impI)
  fix p :: pairing
  assume p: "sound p"
  note s = quiet_status [unfolded co_quiet_def, rule_format]
  have c: "co_ok (co_then cancel_pending pairing_status) fine p"
    using quiet_then [OF quiet_cancel quiet_status] p unfolding co_quiet_def by blast
  have g: "co_ok (co_then (change (\<lambda>p. note_event (Given f v (bt_active p)) (p\<lparr>futures := (futures p)(f := Result v)\<rparr>)))
      pairing_status) fine p" if "bt_active p" for f
    using s [OF sound_give [OF p that, of f v]] by (auto simp: safe_then)
  show "co_ok (reply_pairing i v) fine p"
    using p by (auto simp: reply_pairing_def fine_def [of "Inl _"] c g split: option.split)
qed

lemma quiet_authorise [simp]: "co_quiet (authorise d)"
  unfolding co_quiet_def
proof (intro allI impI)
  fix p :: pairing
  assume p: "sound p"
  then have "selected p = Some d \<Longrightarrow> Selected d \<in> events p" by (auto simp: sound_def)
  then show "co_ok (authorise d) fine p"
    using p by (auto simp: authorise_def guard_def safe_then fine_def intro!: sound_note)
qed

text \<open>A question is for the selected device, and what its future gets was given to it.\<close>

lemma quiet_ask [simp]: "co_quiet (ask_bluetooth d kind shown)"
  unfolding co_quiet_def
proof (intro allI impI)
  fix p :: pairing
  assume p: "sound p"
  let ?n = "fresh p"
  let ?q = "note_event (Shown ?n d (bt_active p))
     (p\<lparr>answer := Some ?n, futures := (futures p)(?n := Unset), fresh := ?n + 1, pending := Some \<lparr>q_id = ?n, q_kind = kind, q_value = shown\<rparr>\<rparr>)"
  show "co_ok (ask_bluetooth d kind shown) fine p"
  proof (cases "bt_active p \<and> selected p = Some d \<and> pending p = None")
    case False
    with p show ?thesis by (auto simp: ask_bluetooth_def guard_def safe_then fine_def)
  next
    case True
    then have d: "Selected d \<in> events p" using p by (auto simp: sound_def)
    have "sound (p\<lparr>answer := Some ?n, futures := (futures p)(?n := Unset)\<rparr>)"
      using sound_future [of "p\<lparr>answer := Some ?n\<rparr>" Unset ?n] p by simp
    then have q: "sound ?q" using True d by (intro sound_note) simp_all
    have r: "sound (note_event (Returned ?n d v) q')" if "later ?q q'" "futures q' ?n = Result v" for q' v
    proof (rule sound_note)
      show "sound q'" using that(1) by (simp add: later_def)
      then have "Given ?n v True \<in> events q'" using that(2) by (simp add: sound_def)
      then show "justified (insert (Returned ?n d v) (events q')) (Returned ?n d v)"
        using that(1) True by (simp add: later_def)
    qed
    have "co_ok (await_answer d ?n limit) fine ?q" for limit
      using q r by (auto simp: await_answer_def co_safe awaiting_def fine_def later_def split: bt_response.split)
    then show ?thesis
      using True p by (simp add: ask_bluetooth_def guard_def safe_then Let_def subset_insertI)
  qed
qed










lemma events_fields [simp]: "events (p\<lparr>clock := n\<rparr>) = events p" "events (p\<lparr>created := cs\<rparr>) = events p" "events (p\<lparr>finished := ts\<rparr>) = events p"
  by simp_all





text \<open>A pairing with a PIN, and two requests to pair at once.\<close>

definition found :: bt_response where
  "found = Body \<lparr>o_adapters = [''/h''], o_devices = [\<lparr>d_path = ''/h/d'', d_address = Some ''AA:BB:CC:DD:EE:FF'', d_name = ''Meter'',
     d_paired = False, d_connected = False\<rparr>]\<rparr>"

definition open_moves :: "move list" where
  "open_moves = Arrive (BtOpen 1000) # replicate 7 (Resume 0 found)"

definition pick_device :: move where
  "pick_device = Arrive (BtPair (VStr ''aa:bb:cc:dd:ee:ff''))"


definition fresh_loop :: loop where
  "fresh_loop = \<lparr>l_obj = ready_object ''/h'', l_threads = []\<rparr>"




text \<open>
  \<open>pair\<close> awaits the list of devices between its check that none is selected and the selection: two requests both pass,
  and both tasks run, of which \<open>close\<close> knows the second only.
\<close>

definition race_moves :: "move list" where
  "race_moves = open_moves @ [pick_device, pick_device, Resume 1 found, Resume 2 found, StartTask, StartTask]"

lemma two_pairings_race:
  "\<exists>l. moves race_moves fresh_loop = Some l \<and>
     length (filter (\<lambda>(k, c). case (k, c) of (Task t, Wait w f) \<Rightarrow> t \<notin> set (finished (l_obj l)) | _ \<Rightarrow> False) (l_threads l)) = 2"
proof -
  have "case moves race_moves fresh_loop of None \<Rightarrow> False | Some l \<Rightarrow>
     length (filter (\<lambda>(k, c). case (k, c) of (Task t, Wait w f) \<Rightarrow> t \<notin> set (finished (l_obj l)) | _ \<Rightarrow> False) (l_threads l)) = 2"
    by code_simp
  then show ?thesis by (auto split: option.splits)
qed

text \<open>
  \<open>display\<close> replaces the pending question and keeps the future of the earlier one: a reply to what is only displayed is
  passed on, unchecked, as the answer to the request before.
\<close>

definition display_moves :: "move list" where
  "display_moves = open_moves @ [pick_device, Resume 1 found, StartTask, Agent (RequestPinCode ''/h/d''),
     Agent (DisplayPasskey ''/h/d'' 5), Arrive (BtReply 2 VOther), Resume 3 (Answer VOther)]"

lemma display_reply_unchecked:
  "\<exists>l. moves display_moves fresh_loop = Some l \<and> Returned 1 ''/h/d'' VOther \<in> set (history (l_obj l)) \<and> \<not> pin_ok VOther"
proof -
  have "case moves display_moves fresh_loop of None \<Rightarrow> False
     | Some l \<Rightarrow> Returned 1 ''/h/d'' VOther \<in> set (history (l_obj l)) \<and> \<not> pin_ok VOther"
    by code_simp
  then show ?thesis by (auto split: option.splits)
qed

section \<open>Recovery of a stuck BlueZ\<close>

definition RECOVER_INTERVAL_MS :: int where
  "RECOVER_INTERVAL_MS = 600000"

definition RECOVER_REASONS :: "string list" where
  "RECOVER_REASONS = [''in_progress'', ''no_adapter'']"

datatype recovery = Restarted | RetryIn int

text \<open>
  \<open>stamp\<close> is the time the marker file was last written, in milliseconds, None when it is not there.  The new stamp is
  returned with the reply; the restart itself is \<open>systemctl --no-block restart bluetooth.service\<close>.
\<close>

definition bluetooth_recover :: "string \<Rightarrow> int \<Rightarrow> int option \<Rightarrow> recovery result \<times> int option" where
  "bluetooth_recover reason now_ms stamp =
     (if reason \<notin> set RECOVER_REASONS then (Inl (PairingError ''Unknown Bluetooth recovery reason''), stamp)
      else (case stamp of
          Some s \<Rightarrow> if 0 \<le> now_ms - s \<and> now_ms - s < RECOVER_INTERVAL_MS
              then (Inr (RetryIn ((RECOVER_INTERVAL_MS - (now_ms - s)) div 1000 + 1)), stamp)
              else (Inr Restarted, Some now_ms)
        | None \<Rightarrow> (Inr Restarted, Some now_ms)))"

lemma recover_limited:
  assumes "bluetooth_recover r t stamp = (Inr Restarted, stamp')" and "bluetooth_recover r' t' stamp' = (Inr Restarted, stamp'')"
    and "t \<le> t'"
  shows "t + RECOVER_INTERVAL_MS \<le> t'"
  using assms by (auto simp: bluetooth_recover_def split: if_splits option.splits)

end
