(* ===== verification/Epk_Settings.thy ===== *)
theory Epk_Settings
  imports Epk_Wifi
begin

text \<open>
  The smaller settings of the box: the dashboard's port (\<open>epilykos_port.py\<close>) and password (\<open>epilykos_dashboard.py\<close>), the factory
  reset (\<open>epilykos_reset.py\<close>), the time zone, clock and card (\<open>epilykos_system.py\<close>), what the network page shows
  (\<open>epilykos_netinfo.py\<close>) and the maintenance lock (\<open>epilykos_maintenance.py\<close>).  A file is an optional text in the state of
  its part; one replaced through a temporary file is written whole or not at all.
\<close>

section \<open>The dashboard's port\<close>

definition DEFAULT_PORT :: int where
  "DEFAULT_PORT = 3000"

definition RESERVED :: "int \<rightharpoonup> string" where
  "RESERVED = map_of [(5353, ''mDNS''), (5355, ''LLMNR'')]"

datatype port_value = PBool | PInt int | PStr string | POther

text \<open>\<open>str.isdigit\<close> holds of the superscripts too, which \<open>int\<close> refuses.\<close>

definition isdigit :: "string \<Rightarrow> bool" where
  "isdigit s \<longleftrightarrow> s \<noteq> [] \<and> list_all (\<lambda>c. is_digit c \<or> (of_char c :: nat) \<in> {178, 179, 185}) s"

definition port_in_range :: "int \<Rightarrow> int result" where
  "port_in_range n =
     (if n \<noteq> 80 \<and> \<not> (1024 \<le> n \<and> n \<le> 65535) then Inl (PortError ''the port must be 80 or between 1024 and 65535'')
      else (case RESERVED n of None \<Rightarrow> Inr n
        | Some who \<Rightarrow> Inl (PortError (''port '' @ dec (nat n) @ '' is used by the system ('' @ who @ '')''))))"

fun validate_port :: "port_value \<Rightarrow> int result" where
  "validate_port PBool = Inl (PortError ''the port must be a number'')"
| "validate_port (PInt n) = port_in_range n"
| "validate_port (PStr s) = (if isdigit (strip s)
     then (case undec (strip s) of None \<Rightarrow> Inl (ValueError ''invalid literal for int()'') | Some n \<Rightarrow> port_in_range (int n))
     else Inl (PortError ''the port must be a number''))"
| "validate_port POther = Inl (PortError ''the port must be a number'')"

text \<open>The first line of the file; only \<open>OSError\<close> and \<open>PortError\<close> are answered.\<close>

definition read_port :: "string option \<Rightarrow> int result" where
  "read_port port_file = (case port_file of None \<Rightarrow> Inr DEFAULT_PORT
     | Some s \<Rightarrow> (case validate_port (PStr (strip (case file_lines s of [] \<Rightarrow> [] | l # _ \<Rightarrow> l))) of
         Inr n \<Rightarrow> Inr n | Inl (PortError _) \<Rightarrow> Inr DEFAULT_PORT | Inl e \<Rightarrow> Inl e))"

definition write_port :: "bool \<Rightarrow> port_value \<Rightarrow> (string option, int) act" where
  "write_port writable v = bind (lift (validate_port v)) (\<lambda>n.
     if writable then andthen (modify (\<lambda>_. Some (dec (nat n) @ [CHR 0x0A]))) (ret n) else raise (OSError ''cannot write''))"

text \<open>\<open>bound family port\<close>: the outcome of binding; None when there is no such family.\<close>

datatype bind_outcome = Bound | AddressInUse | OtherError

definition in_use :: "(bool \<Rightarrow> int \<Rightarrow> bind_outcome option) \<Rightarrow> int \<Rightarrow> bool" where
  "in_use bound n \<longleftrightarrow> (\<exists>ipv6\<in>{False, True}. bound ipv6 n = Some AddressInUse)"

definition dashboard_url :: "string \<Rightarrow> int \<Rightarrow> string" where
  "dashboard_url host n = (if n = 80 then ''http://'' @ host @ ''/'' else ''http://'' @ host @ '':'' @ dec (nat n) @ ''/'')"

lemma validate_port_range: "validate_port v = Inr n \<Longrightarrow> (n = 80 \<or> 1024 \<le> n \<and> n \<le> 65535) \<and> n \<notin> {5353, 5355}"
  by (cases v) (auto simp: port_in_range_def RESERVED_def split: if_splits option.splits)

lemma dec_is_digit: "isdigit (dec n)"
  using dec_digits [of n] by (auto simp: isdigit_def list_all_iff)

lemma strip_dec: "strip (dec n) = dec n"
proof (rule strip_trimmed)
  have "list_all (\<lambda>c. \<not> is_space c) (dec n)"
    using dec_digits [of n] by (auto simp: list_all_iff is_digit_def between_def is_space_def)
  then show "trimmed (dec n)" by (cases "dec n") (auto simp: trimmed_def list_all_iff)
qed

text \<open>What is written is what is read.\<close>

lemma port_round_trip:
  assumes "write_port w v f = (Inr n, f')"
  shows "read_port f' = Inr n"
proof -
  from assms have v: "validate_port v = Inr n" and f: "f' = Some (unlines [dec (nat n)])"
    by (auto simp: write_port_def act_defs unlines_def split: sum.splits prod.splits if_splits)
  have "line_free (dec (nat n))"
    using dec_digits [of "nat n"] by (auto simp: line_free_def list_all_iff is_digit_def between_def)
  then have l: "file_lines (unlines [dec (nat n)]) = [dec (nat n)]" by (intro file_lines_unlines) simp
  have "0 \<le> n" using validate_port_range [OF v] by auto
  moreover have "port_in_range n = Inr n"
    using validate_port_range [OF v] by (auto simp: port_in_range_def RESERVED_def)
  ultimately show ?thesis by (simp add: read_port_def f l strip_dec dec_is_digit)
qed

text \<open>A file that holds a superscript digit raises \<open>ValueError\<close> through \<open>read\<close>.\<close>

lemma superscript_port: "read_port (Some [CHR 0xB2]) = Inl (ValueError ''invalid literal for int()'')"
  by (simp add: read_port_def file_lines_def strip_def is_space_def isdigit_def undec_def is_digit_def between_def)

section \<open>The dashboard's password\<close>

record dashboard =
  db_password :: "string option"
  db_two_step :: bool

definition validate_dashboard :: "string option \<Rightarrow> string result" where
  "validate_dashboard password = (case password of
       None \<Rightarrow> Inl (PasswordError ''the dashboard password must be 4 to 128 characters'')
     | Some p \<Rightarrow> if \<not> (4 \<le> length p \<and> length p \<le> 128) then Inl (PasswordError ''the dashboard password must be 4 to 128 characters'')
         else if \<exists>c\<in>set p. (of_char c :: nat) < 32 \<or> (of_char c :: nat) = 127
           then Inl (PasswordError ''the dashboard password must not contain control characters'')
         else Inr p)"

text \<open>\<open>scrypt\<close> is the hash of a password and a salt, in hexadecimal.\<close>

definition verify_dashboard :: "(string \<Rightarrow> string \<Rightarrow> string) \<Rightarrow> string \<Rightarrow> dashboard \<Rightarrow> bool result" where
  "verify_dashboard scrypt password d = (case db_password d of
       None \<Rightarrow> Inl (OSError ''no password file'')
     | Some t \<Rightarrow> (case partition_at CHR '':'' (strip t) of
           None \<Rightarrow> Inr (scrypt (utf8 password) (utf8 (strip t)) = [])
         | Some (salt, stored) \<Rightarrow> Inr (scrypt (utf8 password) (utf8 salt) = stored)))"

definition clear_two_step :: "(dashboard, bool) act" where
  "clear_two_step = bind get_state (\<lambda>d. if db_two_step d then andthen (modify (db_two_step_update (\<lambda>_. False))) (ret True) else ret False)"

definition set_dashboard_password :: "(string \<Rightarrow> string \<Rightarrow> string) \<Rightarrow> string \<Rightarrow> bool \<Rightarrow> string option \<Rightarrow> (dashboard, bool) act" where
  "set_dashboard_password scrypt salt writable password =
     bind (lift (validate_dashboard password)) (\<lambda>p.
       if writable then andthen (modify (db_password_update (\<lambda>_. Some (salt @ '':'' @ scrypt (utf8 p) (utf8 salt))))) clear_two_step
       else raise (OSError ''cannot write''))"

fun first_text :: "string list \<Rightarrow> string option" where
  "first_text [] = None"
| "first_text (l # ls) = (if strip l = [] then first_text ls else Some (strip l))"

definition parse_password_file :: "string \<Rightarrow> string result" where
  "parse_password_file s = (case first_text (splitlines s) of
       None \<Rightarrow> Inl (PasswordError ''the file has no password in it'') | Some l \<Rightarrow> validate_dashboard (Some l))"

text \<open>With a salt of hexadecimal digits, the password set is the one accepted, and two-step sign-in is off.\<close>

lemma dashboard_round_trip:
  assumes "set_dashboard_password scrypt salt w (Some p) d = (Inr b, d')"
    and "salt \<noteq> []" and "list_all is_alnum salt" and "list_all is_alnum (scrypt (utf8 p) (utf8 salt))"
  shows "verify_dashboard scrypt p d' = Inr True \<and> \<not> db_two_step d'"
proof -
  let ?t = "salt @ '':'' @ scrypt (utf8 p) (utf8 salt)"
  have a: "is_alnum c \<Longrightarrow> \<not> is_space c \<and> c \<noteq> CHR '':''" for c
    by (auto simp: is_alnum_def is_alpha_def is_digit_def between_def is_space_def)
  have "trimmed ?t"
    using assms(2-4) a by (cases "scrypt (utf8 p) (utf8 salt)" rule: rev_cases)
      (auto simp: trimmed_def list_all_iff is_space_def)
  moreover have "CHR '':'' \<notin> set salt" using assms(3) a by (auto simp: list_all_iff)
  moreover have "db_password d' = Some ?t \<and> \<not> db_two_step d'"
    using assms(1) by (auto simp: set_dashboard_password_def clear_two_step_def act_defs validate_dashboard_def split: if_splits)
  ultimately show ?thesis
    using partition_at_append [of "CHR '':''" salt] by (simp add: verify_dashboard_def strip_trimmed)
qed

section \<open>Factory reset\<close>

definition CONFIRM :: string where
  "CONFIRM = ''ERASE''"

definition confirmed :: "string \<Rightarrow> bool" where
  "confirmed s \<longleftrightarrow> (\<exists>l\<in>set (splitlines s). upper (strip l) = CONFIRM)"

definition check_confirm :: "string option \<Rightarrow> unit result" where
  "check_confirm confirm = (case confirm of None \<Rightarrow> Inl (ResetError ''type ERASE to confirm the factory reset'')
     | Some c \<Rightarrow> if upper (strip c) \<noteq> CONFIRM then Inl (ResetError ''type ERASE to confirm the factory reset'') else Inr ())"

text \<open>BOOT is mounted read-only but for the write; \<open>remounts\<close> says whether that works.\<close>

record reset_files =
  rf_request :: "string option"
  rf_done :: bool
  rf_writable :: bool

definition boot_writable :: "bool \<Rightarrow> bool \<Rightarrow> (reset_files, unit) act" where
  "boot_writable remounts writable =
     (if writable \<and> \<not> remounts then raise (OSError ''mount failed'') else modify (rf_writable_update (\<lambda>_. writable)))"

definition request_text :: "string \<Rightarrow> string \<Rightarrow> string" where
  "request_text source when = unlines [CONFIRM, ''Factory reset asked for from '' @ source @ '' on '' @ when @ ''.'',
     ''EpilykosOS erases everything on its DATA partition the next time it starts,'',
     ''then deletes this file. To cancel before then, delete this file.'']"

definition request_reset :: "bool \<Rightarrow> string \<Rightarrow> string \<Rightarrow> (reset_files, unit) act" where
  "request_reset remounts source when =
     andthen (boot_writable remounts True)
       (try_finally (modify (rf_request_update (\<lambda>_. Some (replace_char CHR 0x0A [CHR 0x0D, CHR 0x0A] (request_text source when)))))
         (boot_writable remounts False))"

definition pending_reset :: "reset_files \<Rightarrow> bool" where
  "pending_reset r = (case rf_request r of None \<Rightarrow> False | Some s \<Rightarrow> confirmed s)"

definition forget_done :: "(reset_files, bool) act" where
  "forget_done = bind get_state (\<lambda>r. if rf_done r \<and> rf_request r = None
     then andthen (modify (rf_done_update (\<lambda>_. False))) (ret True) else ret False)"

text \<open>A request made is pending, whatever the source it names, and BOOT is read-only again.\<close>

lemma request_pending:
  assumes "request_reset m source when r = (Inr (), r')"
  shows "pending_reset r' \<and> \<not> rf_writable r' \<and> rf_done r' = rf_done r"
proof -
  have "''ERASE'' \<in> set (splitlines (''ERASE'' @ CHR 0x0D # CHR 0x0A # t))" for t
    by (simp add: splitlines_def is_linebreak_def)
  moreover have e: "upper (strip ''ERASE'') = CONFIRM" by code_simp
  ultimately have "confirmed (''ERASE'' @ CHR 0x0D # CHR 0x0A # t)" for t
    unfolding confirmed_def using e by (intro bexI [where x = "''ERASE''"])
  moreover have "replace_char CHR 0x0A [CHR 0x0D, CHR 0x0A] (request_text source when) =
      ''ERASE'' @ CHR 0x0D # CHR 0x0A # replace_char CHR 0x0A [CHR 0x0D, CHR 0x0A] (drop 6 (request_text source when))"
    by (simp add: replace_char_def request_text_def unlines_def CONFIRM_def)
  ultimately show ?thesis
    using assms by (auto simp: request_reset_def boot_writable_def act_defs pending_reset_def split: if_splits)
qed

section \<open>Time zone, clock and card\<close>

text \<open>\<open>zone_file\<close>: whether the name resolves to a file of zoneinfo that starts with \<open>TZif\<close>.\<close>

definition zone_char :: "char \<Rightarrow> bool" where
  "zone_char c \<longleftrightarrow> is_alnum c \<or> c \<in> set ''_+/-''"

definition has_dotdot :: "string \<Rightarrow> bool" where
  "has_dotdot s \<longleftrightarrow> re_search (lit ''..'') s \<noteq> None"

definition validate_zone :: "(string \<Rightarrow> bool) \<Rightarrow> string option \<Rightarrow> string result" where
  "validate_zone zone_file zone = (case zone of
       None \<Rightarrow> Inl (SystemError ''Enter an IANA time zone, such as Africa/Lagos'')
     | Some z \<Rightarrow> if \<not> (1 \<le> length z \<and> length z \<le> 80 \<and> list_all zone_char z) \<or> has_dotdot z
           then Inl (SystemError ''Enter an IANA time zone, such as Africa/Lagos'')
         else if \<not> zone_file z then Inl (SystemError ''That time zone is not available'') else Inr z)"

record clock_state =
  ck_zone_file :: "string option"
  ck_synchronized :: bool
  ck_epoch :: int
  ck_stamp :: "int option"
  ck_json :: "(int \<times> bool \<times> string) option"

definition timezone :: "(string \<Rightarrow> bool) \<Rightarrow> clock_state \<Rightarrow> string" where
  "timezone zone_file s = (case ck_zone_file s of None \<Rightarrow> ''UTC''
     | Some t \<Rightarrow> (case validate_zone zone_file (Some (strip t)) of Inl _ \<Rightarrow> ''UTC'' | Inr z \<Rightarrow> z))"

definition set_timezone :: "(string \<Rightarrow> bool) \<Rightarrow> string option \<Rightarrow> (clock_state, string) act" where
  "set_timezone zone_file zone = bind (lift (validate_zone zone_file zone)) (\<lambda>z.
     andthen (modify (ck_zone_file_update (\<lambda>_. Some (z @ [CHR 0x0A])))) (ret z))"

definition clock_of :: "(string \<Rightarrow> bool) \<Rightarrow> clock_state \<Rightarrow> int \<times> bool \<times> string" where
  "clock_of zone_file s = (ck_epoch s, ck_synchronized s, timezone zone_file s)"

definition write_clock :: "(string \<Rightarrow> bool) \<Rightarrow> (clock_state, unit) act" where
  "write_clock zone_file = modify (\<lambda>s. s\<lparr>ck_json := Some (clock_of zone_file s)\<rparr>)"

text \<open>
  \<open>epoch\<close> is None for a value that is no number, and otherwise its whole seconds and whether a fraction follows; \<open>sets\<close> says
  whether \<open>date\<close> succeeds.
\<close>

definition set_clock :: "(string \<Rightarrow> bool) \<Rightarrow> bool \<Rightarrow> (int \<times> bool) option \<Rightarrow> (clock_state, int \<times> bool \<times> string) act" where
  "set_clock zone_file sets epoch = (case epoch of
       None \<Rightarrow> raise (SystemError ''Choose a time between 2020 and 2100'')
     | Some (e, fraction) \<Rightarrow> if \<not> (1577836800 \<le> e \<and> (e < 4102444800 \<or> e = 4102444800 \<and> \<not> fraction)) then raise (SystemError ''Choose a time between 2020 and 2100'')
         else if \<not> sets then raise (SystemError ''The host could not set its clock'')
         else andthen (modify (\<lambda>s. s\<lparr>ck_epoch := e, ck_stamp := Some e, ck_synchronized := False\<rparr>))
              (andthen (write_clock zone_file) (bind get_state (\<lambda>s. ret (clock_of zone_file s)))))"

text \<open>A zone set is the zone read.\<close>

lemma zone_round_trip:
  assumes "set_timezone zone_file zone s = (Inr z, s')"
  shows "timezone zone_file s' = z \<and> zone = Some z"
proof -
  from assms have v: "validate_zone zone_file zone = Inr z" and s: "ck_zone_file s' = Some (z @ [CHR 0x0A])"
    by (auto simp: set_timezone_def act_defs split: sum.splits prod.splits)
  from v have z: "zone = Some z" "list_all zone_char z" "z \<noteq> []" by (auto simp: validate_zone_def split: option.splits if_splits)
  have "\<not> is_space c" if "zone_char c" for c
    using that by (auto simp: zone_char_def is_alnum_def is_alpha_def is_digit_def between_def is_space_def)
  then have t: "trimmed z" using z by (cases z) (auto simp: trimmed_def list_all_iff)
  have "strip (z @ [CHR 0x0A]) = strip z"
    using z(3) t by (simp add: strip_def trimmed_def is_space_def [of "CHR 0x0A"] dropWhile_append)
      (metis (no_types, lifting) dropWhile.simps(2) dropWhile_append1 hd_in_set rev_append rev.simps append.simps is_space_def)
  with v z s t show ?thesis by (simp add: timezone_def strip_trimmed)
qed

end
