(* ===== verification/Epk_Box.thy ===== *)
theory Epk_Box
  imports Epk_Settings
begin

text \<open>
  What the settings pages read of the box: its card (\<open>epilykos_system.py\<close>) and its network (\<open>epilykos_netinfo.py\<close>), and the lock
  that excludes two maintenance jobs at once (\<open>epilykos_maintenance.py\<close>).
\<close>

section \<open>The card\<close>

text \<open>\<open>/sys/class/block\<close>: for each device the text of its \<open>size\<close>, and its parent when it is a partition.\<close>

record block_device =
  bd_size :: "string option"
  bd_partition_of :: "string option"

record card =
  cd_device :: string
  cd_bytes :: int
  cd_undersized :: bool
  cd_minimum_gb :: int
  cd_recommended_gb :: int

definition UNDERSIZED_BYTES :: int where
  "UNDERSIZED_BYTES = 28000000000"

definition base_name :: "string \<Rightarrow> string" where
  "base_name path = rev (takeWhile ((\<noteq>) CHR ''/'') (dropWhile ((=) CHR ''/'') (rev path)))"

text \<open>\<open>int(s)\<close> of a decimal number: a sign, digits, single underscores between them.\<close>

fun decimal_run :: "bool \<Rightarrow> nat \<Rightarrow> string \<Rightarrow> nat option" where
  "decimal_run after n [] = (if after then Some n else None)"
| "decimal_run after n (c # cs) =
     (if c = CHR ''_'' then (if after then decimal_run False n cs else None)
      else if is_digit c then decimal_run True (10 * n + digit_value c) cs else None)"

definition int10 :: "string \<Rightarrow> int option" where
  "int10 s = (case strip s of
       [] \<Rightarrow> None
     | c # cs \<Rightarrow> if c = CHR ''-'' then map_option (\<lambda>n. - int n) (decimal_run False 0 cs)
         else if c = CHR ''+'' then map_option int (decimal_run False 0 cs) else map_option int (decimal_run False 0 (c # cs)))"

definition device_char :: "char \<Rightarrow> bool" where
  "device_char c \<longleftrightarrow> is_alnum c \<or> c \<in> set ''_-''"

text \<open>\<open>source\<close> is what \<open>findmnt\<close> names as the device of DATA, None when it fails.\<close>

definition card_of :: "(string \<Rightarrow> block_device option) \<Rightarrow> string option \<Rightarrow> card option" where
  "card_of sys source = (case source of None \<Rightarrow> None
     | Some src \<Rightarrow>
         (let name = base_name (strip src)
          in if name = [] \<or> \<not> list_all device_char name then None
             else (case sys name of None \<Rightarrow> None
               | Some b \<Rightarrow>
                   (let dev = (case bd_partition_of b of None \<Rightarrow> name | Some parent \<Rightarrow> parent)
                    in case (case sys dev of None \<Rightarrow> None | Some d \<Rightarrow> bd_size d) of
                         None \<Rightarrow> None
                       | Some t \<Rightarrow> (case int10 t of None \<Rightarrow> None
                           | Some sectors \<Rightarrow> Some \<lparr>cd_device = dev, cd_bytes = sectors * 512,
                               cd_undersized = (sectors * 512 < UNDERSIZED_BYTES), cd_minimum_gb = 32, cd_recommended_gb = 64\<rparr>)))))"

section \<open>The network\<close>

text \<open>\<open>struct.pack('<L', n)\<close>: a number that does not fit raises \<open>struct.error\<close>, which nothing answers.\<close>

datatype gateway = Gateway string string | NoGateway | StructError

definition inet_ntoa :: "nat \<Rightarrow> string" where
  "inet_ntoa n = join_with CHR ''.'' [dec (n mod 256), dec (n div 256 mod 256), dec (n div 65536 mod 256), dec (n div 16777216)]"

fun gateway_lines :: "string list \<Rightarrow> gateway" where
  "gateway_lines [] = NoGateway"
| "gateway_lines (line # rest) =
     (let cols = split_ws line
      in if length cols \<ge> 4 \<and> cols ! 1 = ''00000000'' then
           (case int16 (cols ! 3) of None \<Rightarrow> NoGateway
            | Some flags \<Rightarrow> if flags div 2 mod 2 = 1 then
                (case int16 (cols ! 2) of None \<Rightarrow> NoGateway
                 | Some n \<Rightarrow> if 0 \<le> n \<and> n < 4294967296 then Gateway (inet_ntoa (nat n)) (cols ! 0) else StructError)
              else gateway_lines rest)
         else gateway_lines rest)"

definition default_gateway :: "string option \<Rightarrow> gateway" where
  "default_gateway proc_route = (case proc_route of None \<Rightarrow> NoGateway | Some t \<Rightarrow> gateway_lines (drop 1 (file_lines t)))"

definition channel_of :: "int \<Rightarrow> int option" where
  "channel_of freq =
     (if freq = 2484 then Some 14
      else if 2412 \<le> freq \<and> freq \<le> 2472 then Some ((freq - 2407) div 5)
      else if 5160 \<le> freq \<and> freq \<le> 5885 then Some ((freq - 5000) div 5)
      else if 5955 \<le> freq \<and> freq \<le> 7115 then Some ((freq - 5950) div 5)
      else None)"

record wifi_link =
  wl_connected :: bool
  wl_ssid :: "string option"
  wl_frequency :: "int option"
  wl_channel :: "int option"
  wl_signal :: "int option"
  wl_bitrate :: "string option"

definition no_link :: wifi_link where
  "no_link = \<lparr>wl_connected = False, wl_ssid = None, wl_frequency = None, wl_channel = None, wl_signal = None, wl_bitrate = None\<rparr>"

text \<open>\<open>int(float(s))\<close> of the plain decimals \<open>iw\<close> prints: digits, and a fraction that is cut off.\<close>

definition int_of_decimal :: "string \<Rightarrow> int option" where
  "int_of_decimal s = (case partition_at CHR ''.'' (strip s) of
       None \<Rightarrow> int10 s
     | Some (whole, frac) \<Rightarrow> if frac \<noteq> [] \<and> \<not> list_all is_digit frac then None else int10 whole)"

definition before_unit :: "string \<Rightarrow> string" where
  "before_unit v = (case re_search (lit '' MBit/s'') v of None \<Rightarrow> v | Some m \<Rightarrow> rev (drop 7 (p_read m)))"

definition link_line :: "wifi_link \<Rightarrow> string \<Rightarrow> wifi_link" where
  "link_line out line =
     (case (case partition_at CHR '':'' (strip line) of None \<Rightarrow> (strip line, []) | Some kv \<Rightarrow> kv) of (key, v) \<Rightarrow>
      let v = strip v
      in if key = ''SSID'' then out\<lparr>wl_ssid := Some v\<rparr>
         else if key = ''freq'' then (case int_of_decimal v of None \<Rightarrow> out
           | Some f \<Rightarrow> out\<lparr>wl_frequency := Some f, wl_channel := channel_of f\<rparr>)
         else if key = ''signal'' then (case split_ws v of [] \<Rightarrow> out
           | w # _ \<Rightarrow> (case int10 w of None \<Rightarrow> out | Some n \<Rightarrow> out\<lparr>wl_signal := Some n\<rparr>))
         else if key = ''tx bitrate'' then out\<lparr>wl_bitrate := Some
           (if re_search (lit ''MBit/s'') v \<noteq> None then before_unit v @ '' Mbit/s'' else v)\<rparr>
         else out)"

definition parse_iw_link :: "string \<Rightarrow> wifi_link" where
  "parse_iw_link t = (if t = [] \<or> startswith t ''Not connected'' then no_link
     else foldl link_line (no_link\<lparr>wl_connected := True\<rparr>) (splitlines t))"

text \<open>\<open>output_of\<close>: the output of \<open>iw dev wlan0 link\<close>, None when it fails.\<close>

definition wifi_link_of :: "bool \<Rightarrow> string option \<Rightarrow> wifi_link option" where
  "wifi_link_of interface output_of = (if interface then map_option parse_iw_link output_of else None)"

text \<open>Channels come from one to fourteen, 32 to 177, and 1 to 233 in the three bands.\<close>

lemma channel_range: "channel_of f = Some c \<Longrightarrow> 1 \<le> c \<and> c \<le> 233"
  by (auto simp: channel_of_def split: if_splits)

section \<open>The maintenance lock\<close>

text \<open>
  The lock file of DATA, the descriptors open on it, and which one holds its lock.  \<open>flock\<close> ends with the descriptor, so a
  process that dies releases it.
\<close>

record lock_file =
  lk_regular :: bool
  lk_links :: nat
  lk_open :: "nat list"
  lk_holder :: "nat option"
  lk_mode :: "nat option"
  lk_owner :: "(nat \<times> nat) option"

definition close_lock :: "nat \<Rightarrow> (lock_file, unit) act" where
  "close_lock fd = modify (\<lambda>l. l\<lparr>lk_open := removeAll fd (lk_open l),
     lk_holder := (if lk_holder l = Some fd then None else lk_holder l)\<rparr>)"

text \<open>\<open>opened\<close> is the descriptor \<open>os.open\<close> gives, None when it fails (a symbolic link, a directory).\<close>

definition acquire_lock :: "nat option \<Rightarrow> bool \<Rightarrow> (lock_file, nat) act" where
  "acquire_lock opened as_root = (case opened of
       None \<Rightarrow> raise (OSError ''cannot open the maintenance lock'')
     | Some fd \<Rightarrow>
         andthen (modify (lk_open_update ((#) fd)))
         (try_catch
           (bind get_state (\<lambda>l.
             if \<not> lk_regular l \<or> lk_links l \<noteq> 1
             then raise (MaintenanceError ''The maintenance lock must be a regular file with one link'')
             else if lk_holder l \<noteq> None
             then raise (MaintenanceError ''App maintenance is running. Wait for it to finish before installing an update.'')
             else andthen (modify (lk_holder_update (\<lambda>_. Some fd)))
               (andthen (if as_root then modify (lk_owner_update (\<lambda>_. Some (0, 1000))) else ret ())
               (andthen (modify (lk_mode_update (\<lambda>_. Some 432))) (ret fd)))))
           (\<lambda>e. Some (andthen (close_lock fd) (raise e)))))"

text \<open>A \<open>Lease\<close> is closed once; closing it again does nothing.\<close>

definition close_lease :: "nat option \<Rightarrow> (lock_file, nat option) act" where
  "close_lease fd = (case fd of None \<Rightarrow> ret None | Some n \<Rightarrow> andthen (close_lock n) (ret None))"

text \<open>
  A lease excludes every other: it is given only when nobody holds the lock, a refusal leaves the lock and the open
  descriptors as they were, and while one is held every attempt is refused.
\<close>

lemma acquire_excludes:
  assumes "fd \<notin> set (lk_open l)" and "lk_holder l \<noteq> Some fd"
  shows "case acquire_lock (Some fd) root l of
     (Inr n, l') \<Rightarrow> n = fd \<and> lk_holder l = None \<and> lk_holder l' = Some fd \<and> lk_open l' = fd # lk_open l
   | (Inl e, l') \<Rightarrow> l' = l"
  using assms by (auto simp: acquire_lock_def close_lock_def act_defs)

lemma acquire_refused: "lk_holder l \<noteq> None \<Longrightarrow> \<exists>e. fst (acquire_lock fd root l) = Inl e"
  by (auto simp: acquire_lock_def close_lock_def act_defs split: option.split)

end
