(* ===== verification/Epk_Release.thy ===== *)
theory Epk_Release
  imports Epk_Trust Epk_Wifi
begin

text \<open>
  The tools that publish: the OS packages (\<open>tools/os_release.py\<close>, \<open>tools/verify_os_release.py\<close>), the card images
  (\<open>tools/image_release_policy.py\<close>), the version of a build (\<open>tools/os_version.py\<close>) and the app's manifest
  (\<open>tools/sync_app_release.py\<close>).  Files and git are arguments; what a tool verifies it verifies with the box's own functions
  of \<open>epilykos_os_trust.py\<close>.
\<close>

type_synonym inputs = "string \<Rightarrow> string option"

definition ctx :: "inputs \<Rightarrow> string \<Rightarrow> string" where
  "ctx c k = (case c k of None \<Rightarrow> [] | Some v \<Rightarrow> v)"

text \<open>\<open>refs/tags/v[0-9]+\.[0-9]+\<close> and \<open>[1-9][0-9]{0,n}\<close>.\<close>

definition digits_only :: "string \<Rightarrow> bool" where
  "digits_only s \<longleftrightarrow> s \<noteq> [] \<and> list_all is_digit s"

definition version_digits :: "string \<Rightarrow> (string \<times> string) option" where
  "version_digits s = (case partition_at CHR ''.'' s of None \<Rightarrow> None
     | Some (a, b) \<Rightarrow> if digits_only a \<and> digits_only b then Some (a, b) else None)"

definition tag_ref :: "string \<Rightarrow> bool" where
  "tag_ref s \<longleftrightarrow> startswith s ''refs/tags/v'' \<and> version_digits (drop 11 s) \<noteq> None"

definition positive_number :: "nat \<Rightarrow> string \<Rightarrow> bool" where
  "positive_number n s \<longleftrightarrow> digits_only s \<and> hd s \<noteq> CHR ''0'' \<and> length s \<le> n + 1"

text \<open>A decision: whether to publish, and the names of the conditions that do not hold.\<close>

definition decision :: "(string \<times> bool) list \<Rightarrow> bool \<times> string list" where
  "decision conditions = (list_all snd conditions, map fst (filter (\<lambda>c. \<not> snd c) conditions))"

lemma decision_publish: "fst (decision cs) \<longleftrightarrow> snd (decision cs) = []"
  by (auto simp: decision_def list_all_iff filter_empty_conv)

section \<open>Publishing an OS package\<close>

definition os_authorized :: "inputs \<Rightarrow> bool" where
  "os_authorized c \<longleftrightarrow>
     (c ''channel'' = Some ''stable'' \<and>
        (c ''event'' \<in> {Some ''push'', Some ''workflow_dispatch''} \<and> ctx c ''ref'' = ''refs/heads/main'' \<and> c ''source_on_main'' = Some ''true''
         \<or> c ''event'' = Some ''release'' \<and> tag_ref (ctx c ''ref'')))
     \<or> c ''channel'' = Some ''dev'' \<and> c ''event'' = Some ''workflow_dispatch'' \<and> ctx c ''ref'' = ''refs/heads/dev''"

definition os_decide :: "inputs \<Rightarrow> bool \<times> string list" where
  "os_decide c = decision
     [(''protocol_2_image'', c ''boot_protocol'' = Some ''2''),
      (''maintainer_trust'', c ''trust_label'' = Some ''maintainer-trust''),
      (''authorized_source_for_channel'', os_authorized c),
      (''build_passed'', c ''build'' = Some ''success''),
      (''rootfs_uploaded'', c ''rootfs_uploaded'' = Some ''true''),
      (''sequence_assigned'', positive_number 18 (ctx c ''sequence'')),
      (''publication_enabled'', c ''publication_enabled'' = Some ''true''),
      (''not_a_retest'', ctx c ''image_from_run'' = [])]"

text \<open>The published pointer; \<open>None\<close> is a channel that has none.\<close>

definition pointer_entry :: "string \<Rightarrow> string \<Rightarrow> (ustr \<times> json) list result" where
  "pointer_entry raw channel = rbind (strict_json raw ENTRY_MAX) (\<lambda>v. case v of
       JObj ms \<Rightarrow> if field ms ''channel'' \<noteq> JStr (u channel) \<or> field ms ''board'' \<noteq> JStr (u ''raspberrypi3'')
         then Inl (ValueError ''the published pointer is for another channel or board'') else Inr ms
     | _ \<Rightarrow> Inl (ValueError ''the published pointer is for another channel or board''))"

definition sequence_field :: "(ustr \<times> json) list \<Rightarrow> json result" where
  "sequence_field ms = (case map_of ms (u ''sequence'') of None \<Rightarrow> Inl (KeyError ''sequence'') | Some v \<Rightarrow> Inr v)"

definition next_sequence :: "string option \<Rightarrow> string \<Rightarrow> int result" where
  "next_sequence current channel = (case current of None \<Rightarrow> Inr 1
     | Some raw \<Rightarrow> rbind (pointer_entry raw channel) (\<lambda>ms. rbind (sequence_field ms) (\<lambda>v. rbind (integer v 1) (\<lambda>n. Inr (n + 1)))))"

text \<open>A Python comparison with an integer: a bool is one, anything else that is no number raises \<open>TypeError\<close>.\<close>

definition number_of :: "json \<Rightarrow> int result" where
  "number_of v = (case v of JInt n \<Rightarrow> Inr n | JBool b \<Rightarrow> Inr (if b then 1 else 0) | _ \<Rightarrow> Inl (TypeError ''not supported between instances''))"

definition check_sequence :: "string option \<Rightarrow> string \<Rightarrow> int \<Rightarrow> unit result" where
  "check_sequence current channel n = (case current of None \<Rightarrow> Inr ()
     | Some raw \<Rightarrow> rbind (pointer_entry raw channel) (\<lambda>ms. rbind (sequence_field ms) (\<lambda>v. rbind (number_of v) (\<lambda>p.
         if n \<le> p then Inl (ValueError (''sequence '' @ write_int n @ '' is not above the published '' @ channel @ '' pointer''))
         else Inr ()))))"

text \<open>The files of a package, by name; the trust directory; what is uploaded.\<close>

type_synonym files = "(string \<times> string) list"







definition has_text :: "string \<Rightarrow> string \<Rightarrow> bool" where
  "has_text s t \<longleftrightarrow> re_search (lit t) s \<noteq> None"



definition compare_files :: "files \<Rightarrow> (string \<rightharpoonup> string) \<Rightarrow> string list result" where
  "compare_files expected downloaded =
     (case filter (\<lambda>n. downloaded n \<noteq> map_of expected n) (sort_texts (map fst expected)) of
        [] \<Rightarrow> Inr (sort_texts (map fst expected))
      | n # _ \<Rightarrow> Inl (ValueError (n @ '' did not read back unchanged'')))"

text \<open>\<open>tools/verify_os_release.py\<close>: the same checks for one platform, with a floor and a bundle when they are given.\<close>

definition verify_published ::
    "crypto \<Rightarrow> string \<Rightarrow> string \<Rightarrow> string \<Rightarrow> string \<Rightarrow> string \<Rightarrow> platform \<Rightarrow> string option \<Rightarrow> int option \<Rightarrow> (string \<times> int) option
     \<Rightarrow> (os_entry \<times> string option) result" where
  "verify_published c root policy_raw policy_sig entry_raw entry_sig platform bundle floor current =
     rbind (verify_policy c policy_raw policy_sig root f_board (f_channel platform) current) (\<lambda>pol.
     rbind (verify_os_release c entry_raw entry_sig platform pol) (\<lambda>entry.
     rbind (case floor of None \<Rightarrow> Inr entry | Some f \<Rightarrow> admissible entry platform f) (\<lambda>_.
     case bundle of None \<Rightarrow> Inr (entry, None)
       | Some b \<Rightarrow> rbind (check_bundle c b entry pol (keyring_pem pol)) (\<lambda>spki. Inr (entry, Some spki)))))"

section \<open>The card image, and the version of a build\<close>

definition image_protocol_ok :: "inputs \<Rightarrow> bool" where
  "image_protocol_ok c \<longleftrightarrow> ctx c ''boot_protocol'' \<in> {[], ''1''} \<or> ctx c ''boot_protocol'' = ''2'' \<and> c ''os_publish'' = Some ''true''"

definition image_decide :: "inputs \<Rightarrow> (bool \<times> string list) \<times> bool" where
  "image_decide c =
     (let validated = (c ''validation'' = Some ''success''); artifact = (c ''artifact'' = Some ''true'');
          previous = ctx c ''image_from_run''; retest = positive_number 19 previous
      in (decision
           [(''validation_passed'', validated),
            (''build_passed'', c ''build'' = Some ''success''),
            (''image_uploaded'', artifact),
            (''image_hash_recorded'', hex_of_length 64 (ctx c ''image_sha256'')),
            (''stable_channel'', c ''channel'' = Some ''stable''),
            (''source_on_main'', c ''source_on_main'' = Some ''true''),
            (''authorized_event'', c ''event'' \<in> {Some ''push'', Some ''workflow_dispatch''} \<and> ctx c ''ref'' = ''refs/heads/main''
               \<or> c ''event'' = Some ''release'' \<and> tag_ref (ctx c ''ref'')),
            (''new_or_explicit_release'', c ''new_version'' = Some ''true'' \<or> c ''event'' = Some ''release''),
            (''not_a_retest'', previous = []),
            (''releasable_protocol'', image_protocol_ok c)],
          validated \<and> (retest \<or> artifact) \<and> ctx c ''boot_protocol'' \<in> {[], ''1''}))"

text \<open>\<open>^v(\d+)\.(\d+)$\<close>\<close>

definition parse_tag :: "string option \<Rightarrow> (nat \<times> nat) option" where
  "parse_tag tag = (case tag of None \<Rightarrow> None
     | Some s \<Rightarrow>
         (let t = (if s \<noteq> [] \<and> last s = CHR 0x0A then butlast s else s)
          in if \<not> startswith t ''v'' then None
             else (case version_digits (drop 1 t) of None \<Rightarrow> None | Some (a, b) \<Rightarrow> Some (the (undec a), the (undec b)))))"

definition version_less :: "nat \<times> nat \<Rightarrow> nat \<times> nat \<Rightarrow> bool" where
  "version_less v w \<longleftrightarrow> fst v < fst w \<or> fst v = fst w \<and> snd v < snd w"

fun latest_tag :: "string list \<Rightarrow> string option" where
  "latest_tag [] = None"
| "latest_tag (t # ts) = (case parse_tag (Some t) of None \<Rightarrow> latest_tag ts
     | Some v \<Rightarrow> (case latest_tag ts of None \<Rightarrow> Some t
         | Some s \<Rightarrow> if version_less v (the (parse_tag (Some s))) then Some s else Some t))"

definition bump :: "string \<Rightarrow> string" where
  "bump tag = (case parse_tag (Some tag) of None \<Rightarrow> [] | Some (a, b) \<Rightarrow> dec a @ ''.'' @ dec (b + 1))"

record build_version =
  bv_version :: string
  bv_tag :: "string option"
  bv_new :: bool
  bv_previous :: "string option"

record git =
  g_tags :: "string list"
  g_head :: string
  g_tag_commit :: "string \<Rightarrow> string"
  g_changed_since :: "string \<Rightarrow> bool"

definition version_decide :: "string \<Rightarrow> string option \<Rightarrow> git \<Rightarrow> build_version result" where
  "version_decide mode arg repo =
     (let latest = latest_tag (g_tags repo)
      in if mode = ''release'' then
           (case parse_tag arg of None \<Rightarrow> Inl (ValueError ''release tag must look like v1.0'')
            | Some _ \<Rightarrow> Inr \<lparr>bv_version = drop 1 (the arg), bv_tag = arg, bv_new = False, bv_previous = latest\<rparr>)
         else if mode = ''dev'' then
           (let nxt = (case latest of None \<Rightarrow> ''0.1'' | Some t \<Rightarrow> bump t)
            in Inr \<lparr>bv_version = nxt @ ''-dev+'' @ take 7 (g_head repo), bv_tag = None, bv_new = False, bv_previous = latest\<rparr>)
         else if mode = ''main'' then
           (case latest of
              None \<Rightarrow> Inr \<lparr>bv_version = ''0.1'', bv_tag = Some ''v0.1'', bv_new = True, bv_previous = None\<rparr>
            | Some t \<Rightarrow>
                if g_tag_commit repo t = g_head repo \<or> \<not> g_changed_since repo t
                then Inr \<lparr>bv_version = drop 1 t, bv_tag = latest, bv_new = False, bv_previous = latest\<rparr>
                else Inr \<lparr>bv_version = bump t, bv_tag = Some (''v'' @ bump t), bv_new = True, bv_previous = latest\<rparr>)
         else Inl (ValueError ''usage: os_version.py main | dev | release <tag>''))"

section \<open>The app's manifest\<close>

text \<open>
  The payload is a JSON value whose objects have each key once.  A pattern matches texts only, and those the pattern
  accepts are ASCII.
\<close>

definition matches_text :: "(string \<Rightarrow> bool) \<Rightarrow> json \<Rightarrow> bool" where
  "matches_text P v = (case v of JStr t \<Rightarrow> list_all (\<lambda>c. c < 128) t \<and> ends_dollar P (ascii t) | _ \<Rightarrow> False)"

definition is_app_digest :: "string \<Rightarrow> bool" where
  "is_app_digest s \<longleftrightarrow> startswith s ''sha256:'' \<and> hex_of_length 64 (drop 7 s)"

definition is_commit :: "string \<Rightarrow> bool" where
  "is_commit s \<longleftrightarrow> 7 \<le> length s \<and> length s \<le> 40 \<and> list_all is_lower_hex s"

definition image_start :: "char \<Rightarrow> bool" where
  "image_start c \<longleftrightarrow> between CHR ''a'' CHR ''z'' c \<or> is_digit c"

definition is_image_name :: "string \<Rightarrow> bool" where
  "is_image_name s \<longleftrightarrow> (case s of [] \<Rightarrow> False
     | c # cs \<Rightarrow> image_start c \<and> length cs \<le> 200 \<and> list_all (\<lambda>d. image_start d \<or> d \<in> set ''._/-'') cs)"

definition is_app_version :: "string \<Rightarrow> bool" where
  "is_app_version s \<longleftrightarrow> 1 \<le> length s \<and> length s \<le> 40 \<and> list_all (\<lambda>c. is_alnum c \<or> c \<in> set ''.+-'') s"

definition SERVICE_MAP :: "string \<rightharpoonup> string" where
  "SERVICE_MAP = map_of [(''epilykos'', ''epilykos''), (''epilykos-bms'', ''bms-bridge'')]"

definition CHANNEL_FOR_REF :: "string \<rightharpoonup> string" where
  "CHANNEL_FOR_REF = map_of [(''dev'', ''dev''), (''main'', ''stable'')]"

text \<open>\<open>v in d\<close> for a dictionary of texts: the key found; a list or an object is not hashable.\<close>

definition key_in :: "(string \<rightharpoonup> string) \<Rightarrow> json \<Rightarrow> string option result" where
  "key_in d v = (case v of
       JStr t \<Rightarrow> Inr (if list_all (\<lambda>c. c < 128) t \<and> d (ascii t) \<noteq> None then Some (ascii t) else None)
     | JArr _ \<Rightarrow> Inl (TypeError ''unhashable type'') | JObj _ \<Rightarrow> Inl (TypeError ''unhashable type'')
     | _ \<Rightarrow> Inr None)"

type_synonym app_record = "(string \<times> json) list"

definition record_keys :: "string list" where
  "record_keys = [''service'', ''image'', ''digest'', ''tag'', ''commit'', ''ref'', ''version'']"

definition kept_fields :: "(ustr \<times> json) list \<Rightarrow> app_record" where
  "kept_fields ms = List.map_filter (\<lambda>k. case map_of ms (u k) of None \<Rightarrow> None | Some v \<Rightarrow> Some (k, v)) record_keys"

definition check_record :: "json \<Rightarrow> json \<Rightarrow> (string \<times> app_record) list \<Rightarrow> json \<Rightarrow> (string \<times> app_record) list result" where
  "check_record ref sha found v = (case v of
       JObj ms \<Rightarrow> rbind (key_in SERVICE_MAP (field ms ''service'')) (\<lambda>svc. case svc of
           None \<Rightarrow> Inl (PayloadError ''unknown service'')
         | Some s \<Rightarrow>
             if map_of found s \<noteq> None then Inl (PayloadError (''duplicate record for '' @ s))
             else if field ms ''ref'' \<noteq> ref \<or> field ms ''commit'' \<noteq> sha
               then Inl (PayloadError (s @ '': record ref/commit do not match the payload''))
             else if \<not> matches_text is_app_digest (field ms ''digest'') then Inl (PayloadError (s @ '': digest must be sha256:<64 hex>''))
             else if \<not> matches_text is_image_name (field ms ''image'') then Inl (PayloadError (s @ '': invalid image name''))
             else if \<not> matches_text is_app_version (field ms ''version'') then Inl (PayloadError (s @ '': invalid version''))
             else Inr (found @ [(s, kept_fields ms)]))
     | _ \<Rightarrow> Inl (PayloadError ''each record must be an object''))"

fun check_records :: "json \<Rightarrow> json \<Rightarrow> (string \<times> app_record) list \<Rightarrow> json list \<Rightarrow> (string \<times> app_record) list result" where
  "check_records ref sha found [] = Inr found"
| "check_records ref sha found (v # vs) = rbind (check_record ref sha found v) (\<lambda>f. check_records ref sha f vs)"

definition validate_payload :: "json \<Rightarrow> (string \<times> string \<times> (string \<times> app_record) list) result" where
  "validate_payload payload = (case payload of
       JObj ms \<Rightarrow> rbind (key_in CHANNEL_FOR_REF (field ms ''ref'')) (\<lambda>ref. case ref of
           None \<Rightarrow> Inl (PayloadError ''ref must be one of dev, main'')
         | Some r \<Rightarrow>
             if \<not> matches_text is_commit (field ms ''commit'') then Inl (PayloadError ''commit must be a hex sha'')
             else (case field ms ''records'' of
                 JArr (v # vs) \<Rightarrow> rbind (check_records (field ms ''ref'') (field ms ''commit'') [] (v # vs)) (\<lambda>found.
                     if map_of found ''epilykos'' = None then Inl (PayloadError ''records missing for: epilykos'')
                     else Inr (r, (case field ms ''commit'' of JStr t \<Rightarrow> ascii t | _ \<Rightarrow> []), found))
               | _ \<Rightarrow> Inl (PayloadError ''records must be a non-empty list'')))
     | _ \<Rightarrow> Inl (PayloadError ''payload must be an object''))"

definition text_of :: "json \<Rightarrow> string" where
  "text_of v = (case v of JStr t \<Rightarrow> ascii t | _ \<Rightarrow> [])"

definition rec_text :: "app_record \<Rightarrow> string \<Rightarrow> string" where
  "rec_text r k = (case map_of r k of None \<Rightarrow> [] | Some v \<Rightarrow> text_of v)"

text \<open>The records file as its lines' records: one is appended unless its digest and service are there.\<close>

definition record_key :: "app_record \<Rightarrow> string" where
  "record_key r = rec_text r ''digest'' @ ''|'' @ rec_text r ''service''"

definition append_records :: "(string \<times> app_record) list \<Rightarrow> app_record list \<Rightarrow> app_record list \<times> string list" where
  "append_records by_service existing =
     (let new = filter (\<lambda>r. record_key r \<notin> record_key ` set existing) (map snd by_service)
      in (existing @ new, map (\<lambda>r. rec_text r ''service'') new))"

type_synonym images = "(string \<times> string \<times> string) list"

record manifest =
  mf_release :: string
  mf_channel :: string
  mf_sequence :: int
  mf_images :: images

text \<open>The images of the manifest by the name of their service there: digest and source.\<close>

definition images_of :: "(string \<times> app_record) list \<Rightarrow> images" where
  "images_of by_service = List.map_filter (\<lambda>svc. case map_of by_service svc of None \<Rightarrow> None
     | Some r \<Rightarrow> Some (the (SERVICE_MAP svc), rec_text r ''digest'', rec_text r ''image'')) [''epilykos-bms'', ''epilykos'']"

text \<open>\<open>previous\<close> is the manifest as YAML reads it, None when there is no file.  Two dictionaries are equal whatever their order.\<close>

definition image_json :: "string \<times> string \<Rightarrow> json \<Rightarrow> bool" where
  "image_json i v = (case v of
       JObj ms \<Rightarrow> length ms = 2 \<and> map_of ms (u ''digest'') = Some (JStr (u (fst i))) \<and> map_of ms (u ''source'') = Some (JStr (u (snd i)))
     | _ \<Rightarrow> False)"

definition same_images :: "json option \<Rightarrow> images \<Rightarrow> bool" where
  "same_images v images = (case v of
       Some (JObj ms) \<Rightarrow> length ms = length images \<and>
         list_all (\<lambda>(name, i). case map_of ms (u name) of None \<Rightarrow> False | Some w \<Rightarrow> image_json i w) images
     | _ \<Rightarrow> False)"

definition truthy_json :: "json \<Rightarrow> bool" where
  "truthy_json v = (case v of JNull \<Rightarrow> False | JBool b \<Rightarrow> b | JInt n \<Rightarrow> n \<noteq> 0 | JStr t \<Rightarrow> t \<noteq> [] | JArr vs \<Rightarrow> vs \<noteq> [] | JObj ms \<Rightarrow> ms \<noteq> [])"

definition previous_sequence :: "json option \<Rightarrow> int result" where
  "previous_sequence previous = (case previous of
       Some (JObj ms) \<Rightarrow> (case map_of ms (u ''sequence'') of None \<Rightarrow> Inr 0
         | Some (JInt n) \<Rightarrow> Inr n | Some (JBool b) \<Rightarrow> Inr (if b then 1 else 0)
         | Some _ \<Rightarrow> Inl (PayloadError ''existing sequence is not an integer''))
     | _ \<Rightarrow> Inr 0)"

definition unchanged_images :: "json option \<Rightarrow> images \<Rightarrow> bool result" where
  "unchanged_images previous images = (case previous of
       None \<Rightarrow> Inr False
     | Some (JObj ms) \<Rightarrow> Inr (ms \<noteq> [] \<and> same_images (map_of ms (u ''images'')) images)
     | Some v \<Rightarrow> if truthy_json v then Inl (AttributeError ''get'') else Inr False)"

definition write_manifest :: "string \<Rightarrow> string \<Rightarrow> (string \<times> app_record) list \<Rightarrow> json option \<Rightarrow> (string \<times> int \<times> manifest option) result" where
  "write_manifest ref sha by_service previous =
     (let channel = the (CHANNEL_FOR_REF ref); images = images_of by_service;
          version = (case map_of by_service ''epilykos'' of None \<Rightarrow> [] | Some r \<Rightarrow> rec_text r ''version'')
      in rbind (previous_sequence previous) (\<lambda>prev_seq.
         rbind (unchanged_images previous images) (\<lambda>same.
           if same then Inr (channel, prev_seq, None)
           else Inr (channel, prev_seq + 1, Some
             \<lparr>mf_release = (if channel = ''stable'' \<or> has_text version ''-dev'' then version
                else version @ ''-dev+'' @ take 7 sha),
              mf_channel = channel, mf_sequence = prev_seq + 1, mf_images = images\<rparr>))))"

text \<open>The program: nothing is written for a payload it rejects.\<close>

definition sync_release :: "json \<Rightarrow> (string \<Rightarrow> app_record list) \<Rightarrow> (string \<Rightarrow> json option) \<Rightarrow>
    (app_record list \<times> string list \<times> string \<times> int \<times> manifest option) result" where
  "sync_release payload records previous =
     rbind (validate_payload payload) (\<lambda>(ref, sha, by_service).
       case append_records by_service (records ref) of (lines, added) \<Rightarrow>
         rbind (write_manifest ref sha by_service (previous ref)) (\<lambda>(channel, n, written). Inr (lines, added, channel, n, written)))"

section \<open>What the tools promise\<close>

text \<open>A changed app manifest takes the next sequence of its channel, an unchanged one keeps it.\<close>

lemma manifest_sequence:
  assumes "write_manifest ref sha by_service previous = Inr (channel, n, written)"
  obtains p where "previous_sequence previous = Inr p"
    and "case written of None \<Rightarrow> n = p | Some m \<Rightarrow> n = p + 1 \<and> mf_sequence m = n \<and> mf_channel m = channel \<and> mf_images m = images_of by_service"
  using assms by (auto simp: write_manifest_def Let_def rbind_Inr_iff split: if_splits)

text \<open>The next version of a tag is a tag again, one minor on, and greater.\<close>

lemma digits_dec: "digits_only (dec n)"
  using dec_digits [of n] by (simp add: digits_only_def)

lemma bump_next:
  assumes "parse_tag (Some t) = Some (a, b)"
  shows "parse_tag (Some (''v'' @ bump t)) = Some (a, b + 1)"
proof -
  have "is_digit (last (dec (b + 1)))" using dec_digits [of "b + 1"] by (simp add: list_all_iff)
  then have "last (dec (b + 1)) \<noteq> CHR 0x0A" by (auto simp: is_digit_def between_def)
  moreover have "CHR ''.'' \<notin> set (dec a)"
    using dec_digits [of a] by (auto simp: list_all_iff is_digit_def between_def)
  ultimately show ?thesis
    using assms by (simp add: parse_tag_def bump_def Let_def version_digits_def partition_at_append digits_dec)
qed

text \<open>
  Every publication of a channel takes a sequence above its pointer: the sequence the tool proposes passes its own check, and
  whatever passes it is above.
\<close>

lemma next_sequence_checked: "next_sequence current ch = Inr n \<Longrightarrow> check_sequence current ch n = Inr ()"
proof (cases current)
  case (Some raw)
  assume "next_sequence current ch = Inr n"
  with Some obtain ms v p where "pointer_entry raw ch = Inr ms" "sequence_field ms = Inr v" "v = JInt p" "n = p + 1"
    by (auto simp: next_sequence_def rbind_Inr_iff integer_Inr)
  with Some show ?thesis by (simp add: check_sequence_def number_of_def)
qed (simp add: check_sequence_def)

lemma check_sequence_above:
  assumes "check_sequence (Some raw) ch n = Inr ()" and "pointer_entry raw ch = Inr ms" and "field ms ''sequence'' = JInt p"
  shows "p < n"
  using assms by (auto simp: check_sequence_def rbind_Inr_iff sequence_field_def number_of_def field_def split: option.splits if_splits)






end
