(* ===== verification/Epk_Seed.thy ===== *)
theory Epk_Seed
  imports Epk_Samples Epk_Loader Epk_Text
begin

unbundle bit_operations_syntax

text \<open>
  The first-flash seed, \<open>tools/os_bootstrap.py\<close>: the environment a new card starts with, its two records and
  the budget of their space; and the bytes of a record as \<open>platform-env/epk_env.c\<close> reads them, which \<open>Epk_Env\<close>
  leaves out.  The lemmas tie the three together: the bytes of a record and its entries determine each
  other, the two CRC routines agree, a seeded card boots slot A with the policy and the floor it was given, and
  the environment fits whatever the box later stores in the reserve.
\<close>

section \<open>The bytes of a record\<close>

text \<open>\<open>native_crc\<close>, bit by bit, and \<open>zlib.crc32\<close>, by its table of one byte's rounds.\<close>

definition crc_round :: "32 word \<Rightarrow> 32 word" where
  "crc_round c = drop_bit 1 c XOR (0xedb88320 AND (0 - (c AND 1)))"

definition native_crc :: "string \<Rightarrow> 32 word" where
  "native_crc s = NOT (foldl (\<lambda>c b. (crc_round ^^ 8) (c XOR of_nat (of_char b))) (NOT 0) s)"

definition crc_table :: "32 word \<Rightarrow> 32 word" where
  "crc_table i = (crc_round ^^ 8) i"

definition zlib_crc32 :: "string \<Rightarrow> 32 word" where
  "zlib_crc32 s = NOT (foldl (\<lambda>c b. crc_table ((c XOR of_nat (of_char b)) AND 0xff) XOR drop_bit 8 c) (NOT 0) s)"

definition little_endian :: "32 word \<Rightarrow> string" where
  "little_endian w = map char_of [unat w, unat w div 256, unat w div 65536, unat w div 16777216]"

text \<open>\<open>crc_valid\<close> of a record of 5 bytes and its data.\<close>

definition crc_valid :: "string \<Rightarrow> bool" where
  "crc_valid record \<longleftrightarrow>
     of_nat (of_char (record ! 0) + of_char (record ! 1) * 256 + of_char (record ! 2) * 65536 + of_char (record ! 3) * 16777216)
       = native_crc (take data_size (drop 5 record))"

text \<open>
  The scan of \<open>parse\<close>.  \<open>slots\<close> counts the entries that still fit; the data that is left is a suffix of the record's
  data, so its end is the end of the record.
\<close>

fun scan :: "nat \<Rightarrow> string \<Rightarrow> entries \<Rightarrow> env_error + entries" where
  "scan slots [] seen = Inl EnvInvalid"
| "scan slots (c # cs) seen =
     (if c = CHR 0x00 then (if seen = [] then Inl EnvInvalid else Inr seen)
      else case partition_at CHR 0x00 (c # cs) of
        None \<Rightarrow> Inl EnvInvalid
      | Some (line, rest) \<Rightarrow>
        (case slots of
           0 \<Rightarrow> Inl EnvInvalid
         | Suc n \<Rightarrow>
           (case partition_at CHR ''='' line of
              None \<Rightarrow> Inl EnvInvalid
            | Some (name, v) \<Rightarrow>
              if name = [] \<or> \<not> list_all is_name_char name \<or> \<not> list_all printable v \<or> name \<in> fst ` set seen
              then Inl EnvInvalid else scan n rest (seen @ [(name, v)]))))"

text \<open>A record read back: torn, refused, or a flag with its entries.\<close>

definition load_copy :: "string \<Rightarrow> env_error + copy" where
  "load_copy record =
     (if \<not> crc_valid record then Inr Torn
      else case scan max_entries (take data_size (drop 5 record)) [] of
        Inl e \<Rightarrow> Inl e
      | Inr es \<Rightarrow> Inr (Copy (of_nat (of_char (record ! 4))) es))"

definition layout :: "entries \<Rightarrow> string" where
  "layout es = concat (map (\<lambda>(k, v). k @ ''='' @ v @ [CHR 0x00]) es)"

section \<open>The seed\<close>

definition SIZE :: nat where "SIZE = 16384"
definition PAYLOAD :: nat where "PAYLOAD = SIZE - 5"
definition HEADROOM :: nat where "HEADROOM = 2048"
definition RUNTIME_RESERVE :: nat where "RUNTIME_RESERVE = 4096"

text \<open>A dict of texts: the items in the order of insertion.\<close>

type_synonym dict = "(string \<times> string) list"

fun dict_put :: "string \<Rightarrow> string \<Rightarrow> dict \<Rightarrow> dict" where
  "dict_put k v [] = [(k, v)]"
| "dict_put k v ((k', v') # d) = (if k = k' then (k, v) # d else (k', v') # dict_put k v d)"

definition dict_update :: "dict \<Rightarrow> dict \<Rightarrow> dict" where
  "dict_update d new = foldl (\<lambda>d (k, v). dict_put k v d) d new"

definition default_name :: "string \<Rightarrow> bool" where
  "default_name n \<longleftrightarrow> n \<noteq> [] \<and> (is_alpha (hd n) \<or> hd n = CHR ''_'') \<and> list_all (\<lambda>c. is_alnum c \<or> c = CHR ''_'') n"

fun read_defaults :: "string list \<Rightarrow> dict \<Rightarrow> dict result" where
  "read_defaults [] d = Inr d"
| "read_defaults (line # ls) d = (case partition_at CHR ''='' line of
       None \<Rightarrow> Inl (ValueError ''malformed/blank default'')
     | Some (name, v) \<Rightarrow>
       if \<not> default_name name \<or> name \<in> fst ` set d \<or> startswith name ''epk_'' \<or> startswith name ''BOOT_''
       then Inl (ValueError ''duplicate/reserved/invalid default name'')
       else if \<not> list_all printable v then Inl (ValueError ''non-printable default'')
       else read_defaults ls (d @ [(name, v)]))"

definition parse_defaults :: "string \<Rightarrow> dict result" where
  "parse_defaults raw =
     (if \<not> (0 < length raw \<and> length raw \<le> PAYLOAD) \<or> \<not> endswith raw [CHR 0x0A]
      then Inl (ValueError ''expected generated u-boot-initial-env text'')
      else if \<not> list_all (\<lambda>c. (of_char c :: nat) < 128) raw then Inl (ValueError ''non-ASCII defaults'')
      else read_defaults (splitlines raw) [])"

fun insert_item :: "string \<times> string \<Rightarrow> dict \<Rightarrow> dict" where
  "insert_item e [] = [e]"
| "insert_item e (e' # d) = (if text_le (fst e) (fst e') then e # e' # d else e' # insert_item e d)"

definition sort_items :: "dict \<Rightarrow> dict" where
  "sort_items d = foldr insert_item d []"

definition payload :: "dict \<Rightarrow> string result" where
  "payload values =
     (if 256 < length values then Inl (ValueError ''environment entry count'')
      else let data = layout (sort_items values) @ [CHR 0x00]
           in if PAYLOAD - HEADROOM < length data then Inl (ValueError ''environment exceeds 16 KiB ABI / 2 KiB headroom'')
              else Inr data)"

definition record_of :: "dict \<Rightarrow> nat \<Rightarrow> string result" where
  "record_of values fl =
     rbind (payload values) (\<lambda>data.
       let full = data @ replicate (PAYLOAD - length data) CHR 0xFF
       in Inr (little_endian (zlib_crc32 full) @ [char_of fl] @ full))"

text \<open>What the seed sets over the defaults, and the largest values it will hold later.\<close>

definition seed_values :: "platform \<Rightarrow> policy \<Rightarrow> string \<Rightarrow> string \<Rightarrow> dict" where
  "seed_values pf pol policy_raw signature =
     [(''BOOT_ORDER'', ''A B''), (''BOOT_A_LEFT'', ''3''), (''BOOT_B_LEFT'', ''3''),
      (''epk_state_schema'', ''1''), (''epk_state_generation'', ''0''),
      (''epk_os_floor'', write_int (f_os_sequence pf)), (''epk_trust_epoch'', write_int (p_epoch pol)),
      (''epk_trust_policy'', b64encode policy_raw), (''epk_trust_policy_sig'', b64encode signature)]"

definition worst_values :: dict where
  "worst_values =
     [(''epk_state_generation'', write_int UINT64_MAX), (''epk_os_floor'', write_int UINT64_MAX),
      (''epk_trust_epoch'', write_int UINT64_MAX), (''epk_trust_policy'', replicate 8192 CHR ''A''),
      (''epk_trust_policy_sig'', replicate 86 CHR ''A'' @ ''=='')]"

definition budget_name :: string where
  "budget_name = ''epk_budget_runtime''"

definition budget :: "crypto \<Rightarrow> nat \<Rightarrow> nat \<Rightarrow> string \<Rightarrow> json \<Rightarrow> string \<Rightarrow> string \<Rightarrow> json" where
  "budget c used worst_used defaults pf policy_raw der =
     JObj [(u ''schema'', JInt 1), (u ''record_bytes'', JInt (int SIZE)), (u ''payload_bytes'', JInt (int PAYLOAD)),
       (u ''seed_used_bytes'', JInt (int used)), (u ''seed_free_bytes'', JInt (int PAYLOAD - int used)),
       (u ''worst_case_used_bytes'', JInt (int worst_used)), (u ''worst_case_free_bytes'', JInt (int PAYLOAD - int worst_used)),
       (u ''headroom_required_bytes'', JInt (int HEADROOM)), (u ''runtime_reserve_bytes'', JInt (int RUNTIME_RESERVE)),
       (u ''policy_max_decoded_bytes'', JInt (int POLICY_MAX)), (u ''runtime_reserve_entries'', JInt 64),
       (u ''defaults_sha256'', JStr (u (sha256 c defaults))), (u ''platform_sha256'', JStr (u (sha256 c (canonical pf)))),
       (u ''policy_sha256'', JStr (u (sha256 c policy_raw))), (u ''root_spki_sha256'', JStr (u (sha256 c der)))]"

definition openssl_public_der :: "crypto \<Rightarrow> string \<Rightarrow> string result" where
  "openssl_public_der c root_pubkey = (case pkey_der c root_pubkey of
       None \<Rightarrow> Inl (ValueError ''OpenSSL rejected public material or signature'')
     | Some der \<Rightarrow> Inr der)"

definition build_seed ::
    "crypto \<Rightarrow> string \<Rightarrow> json \<Rightarrow> string \<Rightarrow> string \<Rightarrow> string \<Rightarrow> (string \<times> string \<times> json) result" where
  "build_seed c defaults plat policy_raw signature root_pubkey =
     rbind (validate_platform plat) (\<lambda>pf.
     rbind (verify_policy c policy_raw signature root_pubkey f_board (f_channel pf) None) (\<lambda>pol.
     rbind (parse_defaults defaults) (\<lambda>base.
     let values = dict_update base (seed_values pf pol policy_raw signature);
         worst = dict_put budget_name (replicate (RUNTIME_RESERVE - length budget_name - 2) CHR ''x'')
                   (dict_update values worst_values)
     in if 256 < length values + 64 then Inl (ValueError ''default environment leaves insufficient future entry slots'')
        else rbind (payload values) (\<lambda>used.
        rbind (payload worst) (\<lambda>worst_used.
        rbind (openssl_public_der c root_pubkey) (\<lambda>der.
        rbind (record_of values 1) (\<lambda>a.
        rbind (record_of values 2) (\<lambda>b.
          Inr (a, b, budget c (length used) (length worst_used) defaults plat policy_raw der)))))))))"

text \<open>\<open>write_artifacts\<close>: the files of the new directory, which only appears whole and never replaces one.\<close>

definition write_artifacts ::
    "crypto \<Rightarrow> bool \<Rightarrow> string \<Rightarrow> json \<Rightarrow> string \<Rightarrow> string \<Rightarrow> string \<Rightarrow> ((string \<times> string) list \<times> json) result" where
  "write_artifacts c output_exists defaults plat policy_raw signature root =
     rbind (build_seed c defaults plat policy_raw signature root) (\<lambda>(a, b, bud).
       if output_exists then Inl (ValueError ''output already exists; refusing replacement'')
       else Inr ([(''env-a.bin'', a), (''env-b.bin'', b), (''budget.json'', canonical bud),
                  (''platform.json'', canonical plat), (''os-policy.json'', policy_raw),
                  (''os-policy.sig'', signature), (''os-index-root.pem'', root)], bud))"

definition read_bounded :: "string \<Rightarrow> nat \<Rightarrow> string result" where
  "read_bounded raw maximum =
     (if maximum < length (take (maximum + 1) raw) then Inl (ValueError ''input file size limit'')
      else Inr (take (maximum + 1) raw))"

section \<open>The two CRC routines\<close>

lemma crc_round_alt: "crc_round c = drop_bit 1 c XOR (if bit c 0 then 0xedb88320 else 0)"
proof -
  have "c AND 1 = of_bool (bit c 0)"
    by (simp add: and_one_eq bit_0 mod2_eq_if)
  then show ?thesis by (simp add: crc_round_def)
qed

lemma crc_round_xor: "crc_round (x XOR y) = crc_round x XOR crc_round y"
  by (cases "bit x 0"; cases "bit y 0") (simp_all add: crc_round_alt drop_bit_xor bit_xor_iff ac_simps)

lemma crc_rounds_xor: "(crc_round ^^ n) (x XOR y) = (crc_round ^^ n) x XOR (crc_round ^^ n) y"
  by (induction n) (simp_all add: crc_round_xor)

lemma crc_rounds_shift: "\<forall>i<n. \<not> bit x i \<Longrightarrow> (crc_round ^^ n) x = drop_bit n x"
proof (induction n arbitrary: x)
  case (Suc n)
  have "\<not> bit x 0" using Suc.prems by simp
  then have "crc_round x = drop_bit 1 x" by (simp add: crc_round_alt)
  moreover have "\<forall>i<n. \<not> bit (drop_bit 1 x) i" using Suc.prems by (simp add: bit_drop_bit_eq)
  ultimately show ?case using Suc.IH [of "drop_bit 1 x"] by (simp add: funpow_swap1 drop_bit_drop_bit)
qed simp

lemma crc_step: "(crc_round ^^ 8) x = crc_table (x AND 0xff) XOR drop_bit 8 x"
proof -
  have m: "(0xff :: 32 word) = mask 8" by (simp add: mask_eq_exp_minus_1)
  have "x = (x AND 0xff) XOR push_bit 8 (drop_bit 8 x)"
    by (rule bit_word_eqI) (auto simp: m bit_and_iff bit_xor_iff bit_push_bit_iff bit_drop_bit_eq bit_mask_iff)
  then have "(crc_round ^^ 8) x = (crc_round ^^ 8) (x AND 0xff) XOR (crc_round ^^ 8) (push_bit 8 (drop_bit 8 x))"
    using crc_rounds_xor by metis
  also have "(crc_round ^^ 8) (push_bit 8 (drop_bit 8 x)) = drop_bit 8 (push_bit 8 (drop_bit 8 x))"
    by (rule crc_rounds_shift) (simp add: bit_push_bit_iff)
  also have "drop_bit 8 (push_bit 8 (drop_bit 8 x)) = drop_bit 8 x"
    using bit_imp_le_length [of x] by (intro bit_word_eqI) (fastforce simp: bit_push_bit_iff bit_drop_bit_eq)
  finally show ?thesis by (simp add: crc_table_def)
qed

lemma drop_bit_byte [simp]: "drop_bit 8 (of_nat (of_char b) :: 32 word) = 0"
proof -
  have b: "(of_char b :: nat) < 256" by simp
  then have "(of_char b :: nat) < 4294967296" by linarith
  then have "unat (of_nat (of_char b) :: 32 word) = of_char b" by (simp add: unat_of_nat)
  with b have "unat (drop_bit 8 (of_nat (of_char b) :: 32 word)) = 0" unfolding unat_drop_bit_eq by (simp add: drop_bit_eq_div)
  then show ?thesis by (simp add: unat_eq_zero)
qed

lemma crc_agree: "zlib_crc32 s = native_crc s"
proof -
  have "foldl (\<lambda>c b. crc_table ((c XOR of_nat (of_char b)) AND 0xff) XOR drop_bit 8 c) a s =
    foldl (\<lambda>c b. (crc_round ^^ 8) (c XOR of_nat (of_char b))) a s" for a
    by (induction s arbitrary: a) (simp_all add: crc_step drop_bit_xor)
  then show ?thesis by (simp add: zlib_crc32_def native_crc_def)
qed

section \<open>Bytes and entries\<close>

lemma little_endian_read:
  "of_nat (of_char (little_endian w ! 0) + of_char (little_endian w ! 1) * 256 + of_char (little_endian w ! 2) * 65536 +
     of_char (little_endian w ! 3) * 16777216) = w"
proof -
  define n where "n = unat w"
  have "n < 2 ^ 32" unfolding n_def using unsigned_less [of w] by simp
  define a b d where "a = n div 256" and "b = a div 256" and "d = b div 256"
  have "d < 256" using \<open>n < 2 ^ 32\<close> by (simp add: a_def b_def d_def div_mult2_eq [symmetric] div_less_iff_less_mult)
  moreover have "n = a * 256 + n mod 256" "a = b * 256 + a mod 256" "b = d * 256 + b mod 256"
    unfolding a_def b_def d_def by simp_all
  moreover have "n div 65536 = b" "n div 16777216 = d"
    by (simp_all add: a_def b_def d_def div_mult2_eq [symmetric])
  ultimately have "n mod 256 + n div 256 mod 256 * 256 + n div 65536 mod 256 * 65536 + n div 16777216 mod 256 * 16777216 = n"
    by (simp add: a_def [symmetric])
  moreover have "n div 16777216 mod 256 = n div 16777216"
    using \<open>d < 256\<close> by (simp add: a_def b_def d_def div_mult2_eq [symmetric])
  ultimately have e: "of_char (little_endian w ! 0) + of_char (little_endian w ! 1) * 256 + of_char (little_endian w ! 2) * 65536 +
      of_char (little_endian w ! 3) * 16777216 = n"
    by (simp add: little_endian_def n_def [symmetric])
  show ?thesis unfolding e by (simp add: n_def)
qed

lemma length_little_endian [simp]: "length (little_endian w) = 4"
  by (simp add: little_endian_def)

lemma crc_valid_made:
  assumes "length d = data_size"
  shows "crc_valid (little_endian (zlib_crc32 d) @ fl # d)"
  using little_endian_read [of "zlib_crc32 d"] assms
  by (simp add: crc_valid_def nth_append crc_agree)

lemma layout_simps [simp]: "layout [] = []" "layout ((k, v) # es) = k @ ''='' @ v @ CHR 0x00 # layout es"
  by (simp_all add: layout_def)

lemma length_layout: "length (layout es) = entry_bytes es"
  by (induction es) (auto simp: entry_bytes_def)

lemma entry_ok_clean:
  assumes "entry_ok (k, v)"
  shows "k \<noteq> []" and "CHR ''='' \<notin> set k" and "CHR 0x00 \<notin> set k" and "CHR 0x00 \<notin> set v" and "hd (k @ r) \<noteq> CHR 0x00"
proof -
  from assms have k: "k \<noteq> []" "list_all is_name_char k" and v: "list_all printable v" by (simp_all add: entry_ok_def)
  have "\<not> is_name_char CHR ''=''" "\<not> is_name_char CHR 0x00" "\<not> printable CHR 0x00" by code_simp+
  with k v show "CHR ''='' \<notin> set k" "CHR 0x00 \<notin> set k" "CHR 0x00 \<notin> set v" by (auto simp: list_all_iff)
  then show "k \<noteq> []" "hd (k @ r) \<noteq> CHR 0x00" using k(1) by (cases k; auto)+
qed

text \<open>Reading what was laid out, whatever follows the final NUL.\<close>

lemma scan_layout:
  assumes "list_all entry_ok es" and "distinct (map fst (seen @ es))" and "length es \<le> slots" and "seen @ es \<noteq> []"
  shows "scan slots (layout es @ CHR 0x00 # pad) seen = Inr (seen @ es)"
  using assms
proof (induction es arbitrary: slots seen)
  case (Cons e es)
  obtain k v where e: "e = (k, v)" by (cases e)
  from Cons.prems e have ok: "entry_ok (k, v)" and fresh: "k \<notin> fst ` set seen" by auto
  from Cons.prems obtain n where n: "slots = Suc n" by (cases slots) auto
  note clean = entry_ok_clean [OF ok]
  have p: "partition_at CHR 0x00 (k @ ''='' @ v @ CHR 0x00 # layout es @ CHR 0x00 # pad) = Some (k @ ''='' @ v, layout es @ CHR 0x00 # pad)"
    using partition_at_append [of "CHR 0x00" "k @ ''='' @ v" "layout es @ CHR 0x00 # pad"] clean by simp
  have q: "partition_at CHR ''='' (k @ ''='' @ v) = Some (k, v)"
    using partition_at_append [of "CHR ''=''" k v] clean by simp
  obtain c cs where c: "k = c # cs" using clean(1) by (cases k) auto
  have "scan slots (layout (e # es) @ CHR 0x00 # pad) seen = scan n (layout es @ CHR 0x00 # pad) (seen @ [(k, v)])"
    using p q clean ok fresh c by (simp add: e n entry_ok_def)
  also have "\<dots> = Inr ((seen @ [(k, v)]) @ es)"
    using Cons.prems by (intro Cons.IH) (auto simp: e n)
  finally show ?case by (simp add: e)
qed simp

text \<open>And conversely: only laid out entries are read.\<close>

lemma scan_Inr:
  assumes "scan slots data seen = Inr es"
  shows "\<exists>new pad. es = seen @ new \<and> es \<noteq> [] \<and> data = layout new @ CHR 0x00 # pad \<and> length new \<le> slots \<and>
    list_all entry_ok new \<and> (distinct (map fst seen) \<longrightarrow> distinct (map fst es))"
  using assms
proof (induction slots data seen rule: scan.induct)
  case (2 slots c cs seen)
  show ?case
  proof (cases "c = CHR 0x00")
    case True
    with 2 show ?thesis by (intro exI [of _ "[]"] exI [of _ cs]) (auto split: if_splits)
  next
    case False
    with 2(2) obtain line rest n k v where p: "partition_at CHR 0x00 (c # cs) = Some (line, rest)"
      and n: "slots = Suc n" and q: "partition_at CHR ''='' line = Some (k, v)"
      and ok: "k \<noteq> []" "list_all is_name_char k" "list_all printable v" "k \<notin> fst ` set seen"
      and r: "scan n rest (seen @ [(k, v)]) = Inr es"
      by (auto split: option.splits nat.splits if_splits prod.splits)
    have "\<exists>new pad. es = (seen @ [(k, v)]) @ new \<and> es \<noteq> [] \<and> rest = layout new @ CHR 0x00 # pad \<and> length new \<le> n \<and>
      list_all entry_ok new \<and> (distinct (map fst (seen @ [(k, v)])) \<longrightarrow> distinct (map fst es))"
      by (rule 2(1) [OF False p refl n q refl]) (use ok r in simp_all)
    then obtain new pad where i: "es = (seen @ [(k, v)]) @ new" "rest = layout new @ CHR 0x00 # pad"
      "length new \<le> n" "list_all entry_ok new" "distinct (map fst (seen @ [(k, v)])) \<longrightarrow> distinct (map fst es)"
      by blast
    from partition_at_Some [OF p] partition_at_Some [OF q]
    have "c # cs = layout ((k, v) # new) @ CHR 0x00 # pad" by (simp add: i)
    moreover have "entry_ok (k, v)" using ok by (simp add: entry_ok_def)
    ultimately show ?thesis using i ok n
      by (intro exI [of _ "(k, v) # new"] exI [of _ pad]) auto
  qed
qed simp

section \<open>Dicts and their order\<close>

lemma mset_insert_item [simp]: "mset (insert_item e d) = add_mset e (mset d)"
  by (induction d) auto

lemma mset_sort_items [simp]: "mset (sort_items d) = mset d"
  by (induction d) (simp_all add: sort_items_def)

lemma set_sort_items [simp]: "set (sort_items d) = set d"
  using mset_sort_items mset_eq_setD by blast

lemma length_sort_items [simp]: "length (sort_items d) = length d"
  using mset_sort_items mset_eq_length by blast

lemma distinct_sort_items [simp]: "distinct (map fst (sort_items d)) = distinct (map fst d)"
  by (rule mset_eq_imp_distinct_iff) simp

lemma entry_bytes_sort_items [simp]: "entry_bytes (sort_items d) = entry_bytes d"
proof -
  have "sum_mset (image_mset f (mset (sort_items d))) = sum_mset (image_mset f (mset d))" for f :: "string \<times> string \<Rightarrow> nat"
    by simp
  then show ?thesis unfolding entry_bytes_def mset_map [symmetric] sum_mset_sum_list .
qed

lemma map_of_sort_items: "distinct (map fst d) \<Longrightarrow> map_of (sort_items d) = map_of d"
  by (subst map_of_inject_set) simp_all

lemma map_of_dict_put [simp]: "map_of (dict_put k v d) = (map_of d)(k \<mapsto> v)"
  by (induction d) auto

lemma keys_dict_put [simp]: "fst ` set (dict_put k v d) = insert k (fst ` set d)"
  by (induction k v d rule: dict_put.induct) (simp_all add: insert_commute)

lemma distinct_dict_put [simp]: "distinct (map fst d) \<Longrightarrow> distinct (map fst (dict_put k v d))"
proof (induction d)
  case (Cons e d)
  have "fst e \<notin> fst ` set (dict_put k v d)" if "k \<noteq> fst e" using that Cons.prems by simp
  with Cons show ?case by (cases e) (auto simp flip: set_map)
qed simp

lemma dict_update_simps [simp]:
  "dict_update d [] = d" "dict_update d ((k, v) # new) = dict_update (dict_put k v d) new"
  by (simp_all add: dict_update_def)

lemma distinct_dict_update [simp]: "distinct (map fst d) \<Longrightarrow> distinct (map fst (dict_update d new))"
  by (induction new arbitrary: d) auto

lemma dict_put_all: "list_all P d \<Longrightarrow> P (k, v) \<Longrightarrow> list_all P (dict_put k v d)"
  by (induction d) auto

lemma dict_update_all: "list_all P d \<Longrightarrow> list_all P new \<Longrightarrow> list_all P (dict_update d new)"
  by (induction new arbitrary: d) (auto simp: dict_put_all)

lemma dict_put_new: "k \<notin> fst ` set d \<Longrightarrow> dict_put k v d = d @ [(k, v)]"
  by (induction d) auto

lemma dict_update_new:
  "distinct (map fst new) \<Longrightarrow> fst ` set d \<inter> fst ` set new = {} \<Longrightarrow> dict_update d new = d @ new"
proof (induction new arbitrary: d)
  case (Cons e new)
  then show ?case by (cases e) (simp add: dict_put_new)
qed simp

section \<open>What the seed holds\<close>

definition plain_default :: "string \<times> string \<Rightarrow> bool" where
  "plain_default e \<longleftrightarrow> entry_ok e \<and> \<not> startswith (fst e) ''epk_'' \<and> \<not> startswith (fst e) ''BOOT_''"

lemma read_defaults_Inr:
  "read_defaults ls d = Inr d' \<Longrightarrow> list_all plain_default d \<Longrightarrow> distinct (map fst d) \<Longrightarrow>
   list_all plain_default d' \<and> distinct (map fst d')"
proof (induction ls d rule: read_defaults.induct)
  case (2 line ls d)
  then obtain n v where p: "partition_at CHR ''='' line = Some (n, v)" and n: "default_name n" "n \<notin> fst ` set d"
      "\<not> startswith n ''epk_''" "\<not> startswith n ''BOOT_''" "list_all printable v"
    and r: "read_defaults ls (d @ [(n, v)]) = Inr d'"
    by (auto split: option.splits prod.splits if_splits)
  from n(1) have "n \<noteq> [] \<and> list_all is_name_char n"
    by (auto simp: default_name_def is_name_char_def list_all_iff)
  with n have "plain_default (n, v)" by (simp add: plain_default_def entry_ok_def)
  with 2 p n r show ?case by (simp add: list_all_append)
qed simp

lemma parse_defaults_Inr: "parse_defaults raw = Inr d \<Longrightarrow> list_all plain_default d \<and> distinct (map fst d)"
  by (auto simp: parse_defaults_def read_defaults_Inr split: if_splits)

lemma validate_platform_Inr:
  "validate_platform v = Inr pf \<Longrightarrow> 1 \<le> f_os_sequence pf \<and> f_os_sequence pf \<le> UINT64_MAX \<and> f_channel pf \<in> {''dev'', ''stable''}"
  by (auto simp: validate_platform_def rbind_Inr_iff integer_Inr split: option.split_asm if_split_asm)

lemma record_of_Inr:
  assumes "record_of values fl = Inr r" and "fl < 256" and "list_all entry_ok values" and "distinct (map fst values)" and "values \<noteq> []"
  shows "load_copy r = Inr (Copy (of_nat fl) (sort_items values))"
    and "length values \<le> max_entries" and "entry_bytes values + 1 + env_headroom \<le> data_size" and "length r = SIZE"
proof -
  define data where "data = layout (sort_items values) @ [CHR 0x00]"
  define full where "full = data @ replicate (PAYLOAD - length data) CHR 0xFF"
  from assms(1) have n: "length values \<le> 256" and l: "length data \<le> PAYLOAD - HEADROOM"
    and r: "r = little_endian (zlib_crc32 full) @ char_of fl # full"
    by (auto simp: record_of_def payload_def rbind_Inr_iff data_def [symmetric] full_def [symmetric] Let_def split: if_split_asm)
  have full: "length full = data_size"
    using l by (simp add: full_def PAYLOAD_def SIZE_def HEADROOM_def data_size_def)
  have "sort_items values \<noteq> []" using assms(5) length_sort_items [of "values"] by fastforce
  then have "scan max_entries (layout (sort_items values) @ CHR 0x00 # fill) [] = Inr ([] @ sort_items values)" for fill
    using assms n by (intro scan_layout) (auto simp: list_all_iff max_entries_def)
  then have "scan max_entries full [] = Inr (sort_items values)"
    by (simp add: full_def data_def)
  with full assms(2) show "load_copy r = Inr (Copy (of_nat fl) (sort_items values))"
    by (simp add: load_copy_def r crc_valid_made nth_append)
  show "length values \<le> max_entries" using n by (simp add: max_entries_def)
  show "entry_bytes values + 1 + env_headroom \<le> data_size"
    using l by (simp add: data_def length_layout PAYLOAD_def SIZE_def HEADROOM_def data_size_def env_headroom_def)
  show "length r = SIZE" using full by (simp add: r data_size_def SIZE_def)
qed

lemma write_int_nat: "0 \<le> i \<Longrightarrow> write_int i = dec (nat i)"
  by (simp add: write_int_def)

lemma decimal_write_int: "1 \<le> i \<Longrightarrow> i \<le> UINT64_MAX \<Longrightarrow> decimal (Some (write_int i)) = Some (nat i)"
  by (simp add: write_int_nat decimal_dec uint64_max_def UINT64_MAX_def nat_le_iff)

lemma undec_write_int: "1 \<le> i \<Longrightarrow> undec (write_int i) = Some (nat i)"
  by (simp add: write_int_nat)

lemma plain_default_reserved:
  assumes "list_all plain_default d" and "startswith n ''epk_'' \<or> startswith n ''BOOT_''"
  shows "n \<notin> fst ` set d" and "map_of d n = None"
proof -
  show "n \<notin> fst ` set d" using assms by (auto simp: list_all_iff plain_default_def)
  then show "map_of d n = None" by (simp add: map_of_eq_None_iff)
qed

definition seed_names :: "string list" where
  "seed_names = [''BOOT_ORDER'', ''BOOT_A_LEFT'', ''BOOT_B_LEFT'', ''epk_state_schema'', ''epk_state_generation'',
     ''epk_os_floor'', ''epk_trust_epoch'', ''epk_trust_policy'', ''epk_trust_policy_sig'']"

lemma seed_names_ok: "distinct seed_names" "list_all (\<lambda>n. (startswith n ''epk_'' \<or> startswith n ''BOOT_'') \<and> n \<noteq> [] \<and> list_all is_name_char n) seed_names"
  by code_simp+

lemma map_fst_seed_values: "map fst (seed_values pf pol raw sig) = seed_names"
  by (simp add: seed_values_def seed_names_def)

lemma printable_b64encode: "list_all printable (b64encode raw)"
  using b64encode_text [of raw] b64_text_printable by (auto simp: list_all_iff)

lemma seed_values_ok:
  assumes "1 \<le> f_os_sequence pf" and "1 \<le> p_epoch pol"
  shows "list_all entry_ok (seed_values pf pol raw sig)"
proof -
  have "list_all (list_all printable) (map snd (seed_values pf pol raw sig))"
  proof -
    have "list_all printable ''A B''" "list_all printable ''3''" "list_all printable ''1''" "list_all printable ''0''" by code_simp+
    moreover have "list_all printable (dec n)" for n using dec_printable by (auto simp: list_all_iff)
    ultimately show ?thesis using assms printable_b64encode by (simp add: seed_values_def write_int_nat)
  qed
  moreover have "list_all (\<lambda>n. n \<noteq> [] \<and> list_all is_name_char n) (map fst (seed_values pf pol raw sig))"
    unfolding map_fst_seed_values using seed_names_ok(2) by (auto simp: list_all_iff)
  ultimately show ?thesis by (auto simp: list_all_iff entry_ok_def)
qed

text \<open>The values of a seed: the defaults, then the nine of the box.\<close>

lemma seed_dict:
  fixes raw sig :: string
  assumes "list_all plain_default base" and "distinct (map fst base)" and "1 \<le> f_os_sequence pf" and "1 \<le> p_epoch pol"
  defines "vs \<equiv> dict_update base (seed_values pf pol raw sig)"
  shows "vs = base @ seed_values pf pol raw sig" and "distinct (map fst vs)" and "list_all entry_ok vs" and "vs \<noteq> []"
    and "startswith n ''epk_'' \<or> startswith n ''BOOT_'' \<Longrightarrow> map_of vs n = map_of (seed_values pf pol raw sig) n"
proof -
  have "fst ` set (seed_values pf pol raw sig) = set seed_names"
    using map_fst_seed_values [of pf pol raw sig] by (metis set_map)
  moreover have "fst ` set base \<inter> set seed_names = {}"
    using seed_names_ok(2) plain_default_reserved(1) [OF assms(1)] by (auto simp: list_all_iff)
  ultimately show vs: "vs = base @ seed_values pf pol raw sig"
    unfolding vs_def by (intro dict_update_new) (simp_all add: map_fst_seed_values seed_names_ok)
  show "distinct (map fst vs)" using assms by (simp add: vs_def)
  show "list_all entry_ok vs" unfolding vs
    using assms(1) seed_values_ok [OF assms(3,4)] by (auto simp: plain_default_def list_all_iff)
  show "vs \<noteq> []" by (simp add: vs seed_values_def)
  show "map_of vs n = map_of (seed_values pf pol raw sig) n" if "startswith n ''epk_'' \<or> startswith n ''BOOT_''"
    using plain_default_reserved(2) [OF assms(1) that] by (simp add: vs map_add_def split: option.split)
qed

lemma build_seedE:
  assumes "build_seed c defaults plat raw sig root = Inr (a, b, bud)"
  obtains pf pol base used worst_used where "validate_platform plat = Inr pf"
    and "verify_policy c raw sig root f_board (f_channel pf) None = Inr pol" and "parse_defaults defaults = Inr base"
    and "record_of (dict_update base (seed_values pf pol raw sig)) 1 = Inr a"
    and "record_of (dict_update base (seed_values pf pol raw sig)) 2 = Inr b"
    and "length (dict_update base (seed_values pf pol raw sig)) + 64 \<le> 256"
    and "payload (dict_put budget_name (replicate (RUNTIME_RESERVE - length budget_name - 2) CHR ''x'')
        (dict_update (dict_update base (seed_values pf pol raw sig)) worst_values)) = Inr worst_used"
  using assms by (auto simp: build_seed_def rbind_Inr_iff Let_def split: if_split_asm)

lemma build_seedI:
  assumes "validate_platform plat = Inr pf"
    and "verify_policy c raw sig root f_board (f_channel pf) None = Inr pol" and "parse_defaults defaults = Inr base"
    and "length (dict_update base (seed_values pf pol raw sig)) + 64 \<le> 256"
    and "payload (dict_update base (seed_values pf pol raw sig)) = Inr used"
    and "payload (dict_put budget_name (replicate (RUNTIME_RESERVE - length budget_name - 2) CHR ''x'')
        (dict_update (dict_update base (seed_values pf pol raw sig)) worst_values)) = Inr worst_used"
    and "openssl_public_der c root = Inr der"
    and "record_of (dict_update base (seed_values pf pol raw sig)) 1 = Inr a"
    and "record_of (dict_update base (seed_values pf pol raw sig)) 2 = Inr b"
  shows "build_seed c defaults plat raw sig root = Inr (a, b, budget c (length used) (length worst_used) defaults plat raw der)"
  using assms by (simp add: build_seed_def Let_def)

text \<open>The seed as the guard parses it.\<close>

lemma seed_parses:
  assumes "validate_platform plat = Inr pf" and "verify_policy c raw sig root f_board (f_channel pf) None = Inr pol"
    and "parse_defaults defaults = Inr base"
  defines "vs \<equiv> dict_update base (seed_values pf pol raw sig)"
  assumes "length vs \<le> max_entries" and "entry_bytes vs + 1 + env_headroom \<le> data_size"
  shows "parse (sort_items vs) = Inr \<lparr>v_entries = sort_items vs, v_used = entry_bytes vs + 1, v_generation = 0,
      v_floor = nat (f_os_sequence pf), v_epoch = nat (p_epoch pol)\<rparr>"
proof -
  note pf = validate_platform_Inr [OF assms(1)]
  obtain ms where raw: "strict_json raw POLICY_MAX = Inr (JObj ms)" and wf: "policy_wf pol" and sig: "length sig = 64"
    using assms(2) by (rule verify_policy_Inr)
  note ep = wf [unfolded policy_wf_def]
  have base: "list_all plain_default base" "distinct (map fst base)" using parse_defaults_Inr [OF assms(3)] by simp_all
  have e1: "1 \<le> p_epoch pol" using ep by simp
  note d = seed_dict [OF base conjunct1 [OF pf] e1, where raw = raw and sig = sig, folded vs_def]
  have m: "map_of (sort_items vs) = map_of vs" using d(2) by (rule map_of_sort_items)
  have lk: "map_of vs ''epk_state_schema'' = Some ''1''" "map_of vs ''epk_state_generation'' = Some ''0''"
    "map_of vs ''epk_os_floor'' = Some (write_int (f_os_sequence pf))" "map_of vs ''epk_trust_epoch'' = Some (write_int (p_epoch pol))"
    "map_of vs ''epk_trust_policy'' = Some (b64encode raw)" "map_of vs ''epk_trust_policy_sig'' = Some (b64encode sig)"
    by (simp_all add: d(5) seed_values_def)
  have num: "decimal (Some ''0'') = Some 0" "decimal (Some (write_int (f_os_sequence pf))) = Some (nat (f_os_sequence pf))"
    "decimal (Some (write_int (p_epoch pol))) = Some (nat (p_epoch pol))"
    using pf ep decimal_dec [of 0] by (simp_all add: decimal_write_int)
  have sig_ne: "sig \<noteq> []" using sig by auto
  have b: "b64_size (Some (b64encode raw)) = length raw" "0 < length raw" "length raw \<le> 6144" "b64_size (Some (b64encode sig)) = 64"
    using strict_json_Inr(2,3) [OF raw] sig sig_ne b64_size_encode [of raw] b64_size_encode [of sig] by (auto simp: POLICY_MAX_def)
  have ne: "sort_items vs \<noteq> []" using d(4) length_sort_items [of vs] by fastforce
  have ok: "list_all entry_ok (sort_items vs)" using d(3) by (simp add: list_all_iff)
  show ?thesis
    using d(2) ne ok assms(5,6) num b unfolding parse_def m lk entry_bytes_sort_items by simp
qed

lemma pick_first: "var m ''BOOT_ORDER'' = ''A B'' \<Longrightarrow> var m ''BOOT_A_LEFT'' = ''3'' \<Longrightarrow> var m ''epk_os_pending'' = [] \<Longrightarrow> pick_slot m = Some ''A''"
proof -
  have "split_ws ''A B'' = [''A'', ''B'']" by code_simp
  then show "var m ''BOOT_ORDER'' = ''A B'' \<Longrightarrow> var m ''BOOT_A_LEFT'' = ''3'' \<Longrightarrow> var m ''epk_os_pending'' = [] \<Longrightarrow> pick_slot m = Some ''A''"
    by (simp add: pick_slot_def eligible_def)
qed

lemma select_pair:
  assumes "parse es = Inr v"
  shows "select \<lparr>copy_a = Copy 1 es, copy_b = Copy 2 es\<rparr> = Inr (Second, v)"
proof -
  have "v_entries v = es" "distinct (map fst es)" using assms by (rule parse_Inr)+
  then show ?thesis
    using assms same_critical_refl [of es] by (simp add: select_def choose_copy_def newer_flag_def)
qed

text \<open>The two records of a seed, read back.\<close>

lemma build_seed_records:
  assumes "build_seed c defaults plat raw sig root = Inr (a, b, bud)"
  obtains pf pol vs where "validate_platform plat = Inr pf" and "verify_policy c raw sig root f_board (f_channel pf) None = Inr pol"
    and "load_copy a = Inr (Copy 1 (sort_items vs))" and "load_copy b = Inr (Copy 2 (sort_items vs))" and "length a = SIZE" and "length b = SIZE"
    and "distinct (map fst vs)" and "parse (sort_items vs) = Inr \<lparr>v_entries = sort_items vs, v_used = entry_bytes vs + 1, v_generation = 0,
      v_floor = nat (f_os_sequence pf), v_epoch = nat (p_epoch pol)\<rparr>"
    and "entry_bytes vs + 1 + env_headroom \<le> data_size"
    and "\<And>n. startswith n ''epk_'' \<or> startswith n ''BOOT_'' \<Longrightarrow> map_of (sort_items vs) n = map_of (seed_values pf pol raw sig) n"
  using assms
proof (rule build_seedE)
  fix pf pol base used worst_used
  define vs where "vs = dict_update base (seed_values pf pol raw sig)"
  assume pf: "validate_platform plat = Inr pf" and pol: "verify_policy c raw sig root f_board (f_channel pf) None = Inr pol"
    and base: "parse_defaults defaults = Inr base" and ra: "record_of (dict_update base (seed_values pf pol raw sig)) 1 = Inr a"
    and rb: "record_of (dict_update base (seed_values pf pol raw sig)) 2 = Inr b"
  obtain ms where wf: "policy_wf pol" using pol by (rule verify_policy_Inr)
  then have ep: "1 \<le> p_epoch pol" by (simp add: policy_wf_def)
  note seq = validate_platform_Inr [OF pf] and pd = parse_defaults_Inr [OF base]
  note d = seed_dict [OF conjunct1 [OF pd] conjunct2 [OF pd] conjunct1 [OF seq] ep, where raw = raw and sig = sig, folded vs_def]
  note A = record_of_Inr [OF ra [folded vs_def] _ d(3,2,4)] and B = record_of_Inr [OF rb [folded vs_def] _ d(3,2,4)]
  have es: "map_of (sort_items vs) = map_of vs" using d(2) by (rule map_of_sort_items)
  have "parse (sort_items vs) = Inr \<lparr>v_entries = sort_items vs, v_used = entry_bytes vs + 1, v_generation = 0,
      v_floor = nat (f_os_sequence pf), v_epoch = nat (p_epoch pol)\<rparr>"
    using A unfolding vs_def by (intro seed_parses [OF pf pol base]) (simp_all add: vs_def)
  then show thesis using pf pol A B d(2,5) by (intro that [of pf pol vs]) (simp_all add: es)
qed

lemma build_seed_copies:
  assumes "build_seed c defaults plat raw sig root = Inr (a, b, bud)"
  shows "\<exists>es. load_copy a = Inr (Copy 1 es) \<and> load_copy b = Inr (Copy 2 es)" and "length a = SIZE" and "length b = SIZE"
  using assms by (auto elim: build_seed_records)

lemmas build_seed_lengths = build_seed_copies(2,3)

text \<open>
  C35. A card seeded by \<open>build_seed\<close> boots: both records read back as the bytes of one environment, which the
  guard selects with the floor of the platform, the epoch of the policy and generation 0; the boot state is
  consistent, slot A is picked, and the box reads its trust state from it: the policy the root signed.
\<close>

theorem seed_boots:
  assumes "build_seed c defaults plat raw sig root = Inr (a, b, bud)"
  shows "\<exists>pf pol es v. validate_platform plat = Inr pf \<and> verify_policy c raw sig root f_board (f_channel pf) None = Inr pol \<and>
     load_copy a = Inr (Copy 1 es) \<and> load_copy b = Inr (Copy 2 es) \<and> length a = SIZE \<and> length b = SIZE \<and>
     select \<lparr>copy_a = Copy 1 es, copy_b = Copy 2 es\<rparr> = Inr (Second, v) \<and>
     v_generation v = 0 \<and> int (v_floor v) = f_os_sequence pf \<and> int (v_epoch v) = p_epoch pol \<and>
     check_state (map_of es) = None \<and> pick_slot (map_of es) = Some ''A'' \<and>
     current_state c (Some root) pf (map_of es) =
       Inr \<lparr>t_policy = pol, t_raw = raw, t_signature = sig, t_epoch = p_epoch pol, t_floor = f_os_sequence pf\<rparr>"
  using assms
proof (rule build_seed_records)
  fix pf :: platform and pol :: policy and vs
  let ?v = "\<lparr>v_entries = sort_items vs, v_used = entry_bytes vs + 1, v_generation = 0, v_floor = nat (f_os_sequence pf), v_epoch = nat (p_epoch pol)\<rparr>"
  assume pf: "validate_platform plat = Inr pf" and pol: "verify_policy c raw sig root f_board (f_channel pf) None = Inr pol"
    and copies: "load_copy a = Inr (Copy 1 (sort_items vs))" "load_copy b = Inr (Copy 2 (sort_items vs))" "length a = SIZE" "length b = SIZE"
    and parsed: "parse (sort_items vs) = Inr ?v"
    and m: "\<And>n. startswith n ''epk_'' \<or> startswith n ''BOOT_'' \<Longrightarrow> map_of (sort_items vs) n = map_of (seed_values pf pol raw sig) n"
  obtain ms where wf: "policy_wf pol" using pol by (rule verify_policy_Inr)
  then have ep: "1 \<le> p_epoch pol" by (simp add: policy_wf_def)
  note seq = validate_platform_Inr [OF pf]
  have boot: "check_state (map_of (sort_items vs)) = None" "pick_slot (map_of (sort_items vs)) = Some ''A''"
    by (simp_all add: check_state_def var_def m seed_values_def pending_names_def counter_ok_def pick_first)
  have "current_state c (Some root) pf (map_of (sort_items vs)) =
       Inr \<lparr>t_policy = pol, t_raw = raw, t_signature = sig, t_epoch = p_epoch pol, t_floor = f_os_sequence pf\<rparr>"
    using pol seq ep by (simp add: current_state_def state_of_env_def m seed_values_def undec_write_int)
  then show ?thesis
    using pf pol copies boot seq ep select_pair [OF parsed]
    by (intro exI [of _ pf] exI [of _ pol] exI [of _ "sort_items vs"] exI [of _ ?v]) simp
qed

definition sample_defaults :: string where
  "sample_defaults = ''baudrate=115200'' @ [CHR 0x0A]"

lemma sample_platform_valid: "validate_platform (JObj sample_platform_fields) = Inr sample_platform"
proof -
  have "length sample_platform_raw \<le> 4096" using strict_json_Inr(3) [OF sample_platform_json] .
  then show ?thesis using sample_platform_loads by (simp add: load_platform_def sample_platform_json)
qed

lemma sample_defaults_parsed: "parse_defaults sample_defaults = Inr [(''baudrate'', ''115200'')]"
proof -
  have p: "list_all printable ''baudrate=115200''" "list_all printable ''115200''" by (simp_all add: printable_def)
  have s: "splitlines sample_defaults = [''baudrate=115200'']"
  proof -
    have "\<forall>l\<in>set [''baudrate=115200'']. \<forall>c\<in>set l. \<not> is_linebreak c" by (simp add: is_linebreak_def)
    from splitlines_unlines [OF this] show ?thesis by (simp add: sample_defaults_def)
  qed
  have n: "default_name ''baudrate''"
    by (simp add: default_name_def is_alpha_def is_alnum_def is_digit_def between_def)
  have r: "read_defaults [''baudrate=115200''] [] = Inr [(''baudrate'', ''115200'')]"
    by (simp add: n) (simp add: printable_def)
  have "endswith sample_defaults [CHR 0x0A]" "list_all (\<lambda>c. (of_char c :: nat) < 128) sample_defaults"
    "0 < length sample_defaults" "length sample_defaults \<le> PAYLOAD"
    by (simp_all add: sample_defaults_def endswith_def PAYLOAD_def SIZE_def)
  then show ?thesis by (simp only: parse_defaults_def s r) simp
qed

lemma payload_fits: "length d \<le> 256 \<Longrightarrow> entry_bytes d \<le> 14330 \<Longrightarrow> \<exists>x. payload d = Inr x"
  by (simp add: payload_def PAYLOAD_def SIZE_def HEADROOM_def length_layout)

lemma sample_seeded:
  obtains a b bud where "build_seed sample_crypto sample_defaults (JObj sample_platform_fields) sample_policy_raw
    (replicate 64 CHR ''s'') sample_root = Inr (a, b, bud)"
proof -
  let ?b = "[(''baudrate'', ''115200'')]" and ?s = "seed_values sample_platform sample_policy sample_policy_raw (replicate 64 CHR ''s'')"
  let ?vs = "dict_update ?b ?s"
  let ?w = "dict_put budget_name (replicate (RUNTIME_RESERVE - length budget_name - 2) CHR ''x'') (dict_update ?vs worst_values)"
  have pol: "verify_policy sample_crypto sample_policy_raw (replicate 64 CHR ''s'') sample_root f_board (f_channel sample_platform) None = Inr sample_policy"
  proof -
    have ch: "f_channel sample_platform = ''dev''" by (simp add: sample_platform_def)
    show ?thesis unfolding ch using sample_policy_verifies by (rule verify_policy_any_current)
  qed
  have l: "length (b64encode sample_policy_raw) \<le> 8192" using sample_raw_length by (simp add: b64encode_length)
  have n: "write_int 3 = ''3''" "write_int 2 = ''2''" "length (write_int UINT64_MAX) = 20"
    by (simp_all add: write_int_def UINT64_MAX_def dec.simps) code_simp+
  have v: "length ?vs = 10" "entry_bytes ?vs \<le> 14330"
    using l by (simp_all add: seed_values_def sample_platform_def sample_policy_def n entry_bytes_def b64encode_length)
  have w: "length ?w = 11" "entry_bytes ?w \<le> 14330"
    using l by (simp_all add: seed_values_def sample_platform_def sample_policy_def n entry_bytes_def b64encode_length
        worst_values_def budget_name_def RUNTIME_RESERVE_def)
  obtain x where x: "payload ?vs = Inr x" using payload_fits [of ?vs] v by auto
  obtain y where y: "payload ?w = Inr y" using payload_fits [of ?w] w by auto
  obtain a b where ab: "record_of ?vs 1 = Inr a" "record_of ?vs 2 = Inr b" using x by (simp add: record_of_def Let_def)
  obtain der where "openssl_public_der sample_crypto sample_root = Inr der"
    by (simp add: openssl_public_der_def sample_crypto_def)
  then obtain bud where "build_seed sample_crypto sample_defaults (JObj sample_platform_fields) sample_policy_raw
    (replicate 64 CHR ''s'') sample_root = Inr (a, b, bud)"
    using build_seedI [OF sample_platform_valid pol sample_defaults_parsed _ x y _ ab] v by auto
  then show ?thesis by (rule that)
qed

theorem seed_boots_witness:
  "\<exists>a b es v. load_copy a = Inr (Copy 1 es) \<and> load_copy b = Inr (Copy 2 es) \<and>
     select \<lparr>copy_a = Copy 1 es, copy_b = Copy 2 es\<rparr> = Inr (Second, v) \<and> pick_slot (map_of es) = Some ''A''"
proof -
  obtain a b bud where "build_seed sample_crypto sample_defaults (JObj sample_platform_fields) sample_policy_raw
    (replicate 64 CHR ''s'') sample_root = Inr (a, b, bud)" by (rule sample_seeded)
  from seed_boots [OF this] show ?thesis by blast
qed

section \<open>The budget\<close>

lemma entry_bytes_simps [simp]: "entry_bytes [] = 0" "entry_bytes ((n, v) # es) = length n + length v + 2 + entry_bytes es"
  "entry_bytes (xs @ ys) = entry_bytes xs + entry_bytes ys"
  by (simp_all add: entry_bytes_def)

lemma entry_bytes_remove1: "(n, v) \<in> set w \<Longrightarrow> entry_bytes w = length n + length v + 2 + entry_bytes (remove1 (n, v) w)"
  by (induction w) auto

lemma entry_bytes_filter: "entry_bytes es = entry_bytes (filter P es) + entry_bytes (filter (\<lambda>e. \<not> P e) es)"
  by (induction es) auto

text \<open>Entries with distinct names that each have a longer value in \<open>w\<close> fit where \<open>w\<close> fits.\<close>

lemma entry_bytes_dominated:
  "distinct (map fst es) \<Longrightarrow> \<forall>(n, t)\<in>set es. \<exists>s. (n, s) \<in> set w \<and> length t \<le> length s \<Longrightarrow>
   entry_bytes es \<le> entry_bytes w \<and> length es \<le> length w"
proof (induction es arbitrary: w)
  case (Cons e es)
  obtain n t where e: "e = (n, t)" by (cases e)
  with Cons.prems obtain s where s: "(n, s) \<in> set w" "length t \<le> length s" by auto
  have "\<exists>s'. (n', s') \<in> set (remove1 (n, s) w) \<and> length t' \<le> length s'" if "(n', t') \<in> set es" for n' t'
  proof -
    from that Cons.prems obtain s' where s': "(n', s') \<in> set w" "length t' \<le> length s'" by auto
    from that Cons.prems(1) have "n' \<noteq> n" by (force simp: e)
    with s' show ?thesis by (auto simp: in_set_remove1)
  qed
  with Cons have "entry_bytes es \<le> entry_bytes (remove1 (n, s) w) \<and> length es \<le> length (remove1 (n, s) w)" by auto
  moreover obtain m where "length w = Suc m" using s(1) by (cases w) auto
  ultimately show ?case using s entry_bytes_remove1 [OF s(1)] by (simp add: e length_remove1)
qed simp

text \<open>The longest value a name of the seed is budgeted for.\<close>

definition seed_room :: "string \<Rightarrow> string \<Rightarrow> nat" where
  "seed_room n v = (case map_of worst_values n of None \<Rightarrow> length v | Some s \<Rightarrow> length s)"

lemma map_of_dict_update: "distinct (map fst new) \<Longrightarrow> map_of (dict_update d new) = map_of d ++ map_of new"
proof (induction new arbitrary: d)
  case (Cons e new)
  obtain k v where e: "e = (k, v)" by (cases e)
  have "map_of new k = None" using Cons.prems by (simp add: e map_of_eq_None_iff)
  with Cons show ?case by (auto simp: e fun_eq_iff map_add_def split: option.split)
qed simp

lemma keys_dict_update: "fst ` set (dict_update d new) = fst ` set d \<union> fst ` set new"
proof (induction new arbitrary: d)
  case (Cons e new)
  then show ?case by (cases e) simp
qed simp

text \<open>
  C36. The budget of the seed is enough: whatever the box stores later, as long as the values of the seed's names
  keep to what is budgeted for them and the other entries are at most 64 with at most 4096 bytes, the
  guard never refuses it for space.
\<close>

theorem seed_reserve:
  assumes "build_seed c defaults plat raw sig root = Inr (a, b, bud)" and "load_copy a = Inr (Copy fl seed)"
    and "distinct (map fst es)" and "\<forall>(n, t)\<in>set es. \<forall>v. map_of seed n = Some v \<longrightarrow> length t \<le> seed_room n v"
    and "entry_bytes (filter (\<lambda>e. map_of seed (fst e) = None) es) \<le> RUNTIME_RESERVE"
    and "length (filter (\<lambda>e. map_of seed (fst e) = None) es) \<le> 64"
  shows "append_entries 0 es = Inr (entry_bytes es) \<and> parse es \<noteq> Inl EnvCapacity \<and>
    length es \<le> max_entries \<and> entry_bytes es + 1 + env_headroom \<le> data_size"
  using assms(1)
proof (rule build_seedE)
  fix pf pol base used worst_used
  define vs where "vs = dict_update base (seed_values pf pol raw sig)"
  define worst where "worst = dict_update vs worst_values"
  assume pf: "validate_platform plat = Inr pf" and pol: "verify_policy c raw sig root f_board (f_channel pf) None = Inr pol"
    and base: "parse_defaults defaults = Inr base" and ra: "record_of (dict_update base (seed_values pf pol raw sig)) 1 = Inr a"
    and n: "length (dict_update base (seed_values pf pol raw sig)) + 64 \<le> 256"
    and pw: "payload (dict_put budget_name (replicate (RUNTIME_RESERVE - length budget_name - 2) CHR ''x'')
        (dict_update (dict_update base (seed_values pf pol raw sig)) worst_values)) = Inr worst_used"
  obtain ms where "policy_wf pol" using pol by (rule verify_policy_Inr)
  then have ep: "1 \<le> p_epoch pol" by (simp add: policy_wf_def)
  note seq = validate_platform_Inr [OF pf] and pd = parse_defaults_Inr [OF base]
  note d = seed_dict [OF conjunct1 [OF pd] conjunct2 [OF pd] conjunct1 [OF seq] ep, where raw = raw and sig = sig, folded vs_def]
  note A = record_of_Inr [OF ra [folded vs_def] _ d(3,2,4)]
  have seed: "map_of seed = map_of vs" using A(1) assms(2) d(2) by (auto simp: map_of_sort_items)
  have dw: "distinct (map fst worst_values)" by (simp add: worst_values_def)
  have kw: "fst ` set worst_values \<subseteq> fst ` set (seed_values pf pol raw sig)" by (auto simp: worst_values_def seed_values_def)
  have keys: "fst ` set worst = fst ` set vs" using kw by (auto simp: worst_def keys_dict_update d(1))
  have dworst: "distinct (map fst worst)" using d(2) by (simp add: worst_def)
  have lworst: "length worst = length vs"
    using keys distinct_card [OF dworst] distinct_card [OF d(2)] by simp
  have "budget_name \<notin> fst ` set vs"
    using plain_default_reserved(1) [OF conjunct1 [OF pd], of budget_name] by (auto simp: d(1) seed_values_def budget_name_def)
  then have pw': "entry_bytes worst + RUNTIME_RESERVE + 1 \<le> PAYLOAD - HEADROOM"
    using pw [folded vs_def worst_def] by (simp add: dict_put_new keys payload_def Let_def length_layout budget_name_def RUNTIME_RESERVE_def split: if_split_asm)
  let ?known = "filter (\<lambda>e. map_of seed (fst e) \<noteq> None) es"
  have "\<exists>s. (k, s) \<in> set worst \<and> length t \<le> length s" if "(k, t) \<in> set ?known" for k t
  proof -
    from that obtain v where v: "map_of vs k = Some v" and kt: "(k, t) \<in> set es" by (auto simp: seed)
    with assms(4) have room: "length t \<le> seed_room k v" by (auto simp: seed)
    have "map_of worst k = (case map_of worst_values k of None \<Rightarrow> Some v | Some s \<Rightarrow> Some s)"
      by (simp add: worst_def map_of_dict_update [OF dw] map_add_def v split: option.split)
    with room show ?thesis by (auto simp: seed_room_def split: option.splits dest: map_of_SomeD)
  qed
  then have known: "entry_bytes ?known \<le> entry_bytes worst \<and> length ?known \<le> length worst"
    using assms(3) by (intro entry_bytes_dominated) (auto simp: distinct_map_filter)
  have len: "length es = length ?known + length (filter (\<lambda>e. map_of seed (fst e) = None) es)"
    using sum_length_filter_compl [of "\<lambda>e. map_of seed (fst e) \<noteq> None" es] by simp
  have bytes: "entry_bytes es = entry_bytes ?known + entry_bytes (filter (\<lambda>e. map_of seed (fst e) = None) es)"
    using entry_bytes_filter [of es "\<lambda>e. map_of seed (fst e) \<noteq> None"] by simp
  have fits: "entry_bytes es + 1 + env_headroom \<le> data_size"
    using bytes known assms(5) pw' by (simp add: PAYLOAD_def SIZE_def HEADROOM_def data_size_def env_headroom_def)
  moreover have "length es \<le> max_entries"
    using len known assms(6) lworst n [folded vs_def] by (simp add: max_entries_def)
  moreover have "append_entries 0 es = Inr (entry_bytes es)"
    using append_entries_fits [of 0 es] fits by simp
  moreover have "parse es \<noteq> Inl EnvCapacity"
  proof -
    have "\<not> data_size - (entry_bytes es + 1) < env_headroom" using fits by simp
    then show ?thesis unfolding parse_def Let_def by (simp only: if_False) (simp split: option.split)
  qed
  ultimately show ?thesis by blast
qed

lemma sample_seed_read:
  assumes "build_seed sample_crypto sample_defaults (JObj sample_platform_fields) sample_policy_raw (replicate 64 CHR ''s'') sample_root = Inr (a, b, bud)"
    and "load_copy a = Inr (Copy fl es)"
  shows "map_of es = map_of ((''baudrate'', ''115200'') # seed_values sample_platform sample_policy sample_policy_raw (replicate 64 CHR ''s''))"
  using assms(1)
proof (rule build_seedE)
  fix pf pol base
  assume a: "validate_platform (JObj sample_platform_fields) = Inr pf"
    and b: "verify_policy sample_crypto sample_policy_raw (replicate 64 CHR ''s'') sample_root f_board (f_channel pf) None = Inr pol"
    and p: "parse_defaults sample_defaults = Inr base"
    and r: "record_of (dict_update base (seed_values pf pol sample_policy_raw (replicate 64 CHR ''s''))) 1 = Inr a"
  have pf: "pf = sample_platform" using a by (simp add: sample_platform_valid)
  have ch: "f_channel sample_platform = ''dev''" by (simp add: sample_platform_def)
  have pol: "pol = sample_policy" using b verify_policy_any_current [OF sample_policy_verifies] by (simp only: pf ch) simp
  have base: "base = [(''baudrate'', ''115200'')]" using p by (simp add: sample_defaults_parsed)
  note pd = parse_defaults_Inr [OF p]
  have ep: "1 \<le> f_os_sequence pf" "1 \<le> p_epoch pol" by (simp_all add: pf pol sample_platform_def sample_policy_def)
  note d = seed_dict [OF conjunct1 [OF pd] conjunct2 [OF pd] ep, where raw = sample_policy_raw and sig = "replicate 64 CHR ''s''"]
  have "map_of es = map_of (dict_update base (seed_values pf pol sample_policy_raw (replicate 64 CHR ''s'')))"
    using record_of_Inr(1) [OF r _ d(3,2,4)] assms(2) d(2) by (auto simp: map_of_sort_items)
  then show ?thesis by (simp only: d(1)) (simp only: pf pol base append_Cons append_Nil)
qed

theorem seed_reserve_witness:
  "append_entries 0 ((''epb_slot'', ''A'') # admitted_entries) = Inr (entry_bytes ((''epb_slot'', ''A'') # admitted_entries))"
proof -
  obtain a b bud where s: "build_seed sample_crypto sample_defaults (JObj sample_platform_fields) sample_policy_raw
    (replicate 64 CHR ''s'') sample_root = Inr (a, b, bud)" by (rule sample_seeded)
  obtain es where l: "load_copy a = Inr (Copy 1 es)" using build_seed_copies [OF s] by blast
  have look: "map_of es = map_of [(''baudrate'', ''115200''), (''BOOT_ORDER'', ''A B''), (''BOOT_A_LEFT'', ''3''), (''BOOT_B_LEFT'', ''3''),
      (''epk_state_schema'', ''1''), (''epk_state_generation'', ''0''), (''epk_os_floor'', write_int 3), (''epk_trust_epoch'', write_int 2),
      (''epk_trust_policy'', b64encode sample_policy_raw), (''epk_trust_policy_sig'', b64encode (replicate 64 CHR ''s''))]"
    using sample_seed_read [OF s l] by (simp only: seed_values_def sample_platform_def sample_policy_def) simp
  have raw: "length (b64encode sample_policy_raw) \<le> 8192" "length (b64encode (replicate 64 CHR ''s'')) = 88"
    using sample_raw_length by (simp_all add: b64encode_length)
  have room: "seed_room ''BOOT_ORDER'' v = length v" "seed_room ''BOOT_A_LEFT'' v = length v" "seed_room ''BOOT_B_LEFT'' v = length v"
    "seed_room ''epk_state_schema'' v = length v" "seed_room ''epk_state_generation'' v = 20" "seed_room ''epk_os_floor'' v = 20"
    "seed_room ''epk_trust_epoch'' v = 20" "seed_room ''epk_trust_policy'' v = 8192" "seed_room ''epk_trust_policy_sig'' v = 88" for v
  proof -
    have "length (write_int UINT64_MAX) = 20" by (simp add: write_int_def UINT64_MAX_def dec.simps)
    then show "seed_room ''BOOT_ORDER'' v = length v" "seed_room ''BOOT_A_LEFT'' v = length v" "seed_room ''BOOT_B_LEFT'' v = length v"
      "seed_room ''epk_state_schema'' v = length v" "seed_room ''epk_state_generation'' v = 20" "seed_room ''epk_os_floor'' v = 20"
      "seed_room ''epk_trust_epoch'' v = 20" "seed_room ''epk_trust_policy'' v = 8192" "seed_room ''epk_trust_policy_sig'' v = 88"
      by (simp_all add: seed_room_def worst_values_def)
  qed
  have "filter (\<lambda>e. map_of es (fst e) = None) ((''epb_slot'', ''A'') # admitted_entries) = [(''epb_slot'', ''A'')]"
    by (simp add: look admitted_entries_def)
  moreover have "\<forall>(n, t)\<in>set ((''epb_slot'', ''A'') # admitted_entries). \<forall>v. map_of es n = Some v \<longrightarrow> length t \<le> seed_room n v"
    using raw by (simp add: look admitted_entries_def room)
  moreover have "distinct (map fst ((''epb_slot'', ''A'') # admitted_entries))" by (simp add: admitted_entries_def)
  ultimately show ?thesis
    using seed_reserve [OF s l, of "(''epb_slot'', ''A'') # admitted_entries"] by (simp only: RUNTIME_RESERVE_def) simp
qed

end
