(* ===== verification/Epk_Card.thy ===== *)
theory Epk_Card
  imports Epk_Seed
begin

text \<open>
  The check of a finished SD card image, \<open>tools/check_card_image.py\<close>: the partition table, the two copies of the environment, the
  start script and the trust root on BOOT, and the bytes of both slots.  The image is its bytes.  What mtools and the check of
  a root file system answer are arguments.
\<close>

section \<open>The partition table\<close>

definition MIB :: nat where "MIB = 1024 * 1024"
definition SECTOR :: nat where "SECTOR = 512"
definition DISK_SIGNATURE :: nat where "DISK_SIGNATURE = 0x45504C4B"
definition ENV_OFFSETS :: "nat list" where "ENV_OFFSETS = [0x400000, 0x404000]"
definition BOOT_START :: nat where "BOOT_START = 8 * MIB"
definition SLOT_BYTES :: nat where "SLOT_BYTES = 1536 * MIB"

definition byte_at :: "string \<Rightarrow> nat \<Rightarrow> nat" where
  "byte_at s i = of_char (s ! i)"

definition le32 :: "string \<Rightarrow> nat \<Rightarrow> nat" where
  "le32 s i = byte_at s i + 256 * byte_at s (i + 1) + 65536 * byte_at s (i + 2) + 16777216 * byte_at s (i + 3)"

definition be32 :: "string \<Rightarrow> nat \<Rightarrow> nat" where
  "be32 s i = 16777216 * byte_at s i + 65536 * byte_at s (i + 1) + 256 * byte_at s (i + 2) + byte_at s (i + 3)"

definition read_at :: "string \<Rightarrow> nat \<Rightarrow> nat \<Rightarrow> string result" where
  "read_at img offset n =
     (let data = take n (drop offset img)
      in if length data \<noteq> n then Inl (ValueError ''image is truncated'') else Inr data)"

record card_part =
  cp_kind :: nat
  cp_bootable :: bool
  cp_start :: nat
  cp_length :: nat

text \<open>The entries from \<open>index\<close> on; a type or a length of zero means there is none.\<close>

fun mbr_parts :: "string \<Rightarrow> nat list \<Rightarrow> card_part list result" where
  "mbr_parts mbr [] = Inr []"
| "mbr_parts mbr (index # rest) =
     (let e = 446 + 16 * index; kind = byte_at mbr (e + 4); sectors = le32 mbr (e + 12)
      in if kind = 0 \<or> sectors = 0 then Inl (ValueError (''partition '' @ dec (index + 1) @ '' missing''))
         else rbind (mbr_parts mbr rest) (\<lambda>ps. Inr (\<lparr>cp_kind = kind, cp_bootable = (byte_at mbr e = 0x80),
           cp_start = le32 mbr (e + 8) * SECTOR, cp_length = sectors * SECTOR\<rparr> # ps)))"

definition partitions :: "string \<Rightarrow> card_part list result" where
  "partitions img =
     rbind (read_at img 0 SECTOR) (\<lambda>mbr.
     if take 2 (drop 510 mbr) \<noteq> [CHR 0x55, CHR 0xAA] then Inl (ValueError ''no MBR boot signature'')
     else if le32 mbr 440 \<noteq> DISK_SIGNATURE then Inl (ValueError ''disk signature is not 0x45504c4b (PARTUUIDs 45504c4b-0N)'')
     else mbr_parts mbr [0, 1, 2, 3])"

definition part_end :: "card_part \<Rightarrow> nat" where
  "part_end p = cp_start p + cp_length p"

definition bad_root :: "card_part \<Rightarrow> bool" where
  "bad_root p \<longleftrightarrow> cp_kind p \<noteq> 0x83 \<or> cp_bootable p \<or> cp_length p \<noteq> SLOT_BYTES"

definition check_layout :: "string \<Rightarrow> card_part list \<Rightarrow> unit result" where
  "check_layout img parts = (case parts of
       [boot, root_a, root_b, data] \<Rightarrow>
         if cp_kind boot \<noteq> 0x0C \<or> \<not> cp_bootable boot \<or> cp_start boot \<noteq> BOOT_START
         then Inl (ValueError ''BOOT must be the bootable FAT32 LBA partition at 8 MiB'')
         else if bad_root root_a then Inl (ValueError ''ROOT-A must be a 1536 MiB Linux partition'')
         else if bad_root root_b then Inl (ValueError ''ROOT-B must be a 1536 MiB Linux partition'')
         else if cp_kind data \<noteq> 0x83 \<or> cp_bootable data then Inl (ValueError ''DATA must be a Linux partition'')
         else if (\<exists>i\<in>{0, 1, 2}. cp_start (parts ! (i + 1)) < part_end (parts ! i)) \<or> BOOT_START < ENV_OFFSETS ! 1 + SIZE
         then Inl (ValueError ''partitions overlap each other or the environment'')
         else if length img < part_end data then Inl (ValueError ''image ends before its last partition'')
         else Inr ()
     | _ \<Rightarrow> Inl (ValueError ''not enough values to unpack''))"

section \<open>The environment\<close>

text \<open>The entries of the data from a position on, and the position after the last; a decoder of ASCII reads them.\<close>

function env_items :: "nat \<Rightarrow> string \<Rightarrow> dict \<Rightarrow> (dict \<times> nat) result" where
  "env_items n [] d = Inl (IndexError ''index out of range'')"
| "env_items n (c # cs) d =
     (if c = CHR 0x00 then Inr (d, n + 1)
      else (case partition_at CHR 0x00 (c # cs) of
          None \<Rightarrow> Inl (ValueError ''subsection not found'')
        | Some (entry, rest) \<Rightarrow>
          if \<not> list_all (\<lambda>c. (of_char c :: nat) < 128) entry then Inl (ValueError ''ascii'')
          else (case partition_at CHR ''='' entry of
              None \<Rightarrow> Inl (ValueError ''malformed environment entry'')
            | Some (name, v) \<Rightarrow>
              if name \<in> fst ` set d then Inl (ValueError ''malformed environment entry'')
              else env_items (n + length entry + 1) rest (d @ [(name, v)]))))"
  by pat_completeness auto
termination
proof (relation "measure (\<lambda>(n, s, d). length s)", simp, goal_cases)
  case (1 n c cs d x entry rest)
  then show ?case using partition_at_Some [of "CHR 0x00" "c # cs" entry rest] by (cases entry) auto
qed

definition parse_env_copy :: "string \<Rightarrow> (nat \<times> dict \<times> nat) result" where
  "parse_env_copy rec =
     (if length rec < 5 then Inl (BadStruct ''unpack_from requires a buffer of at least 5 bytes'')
      else let data = drop 5 rec
        in if length rec \<noteq> SIZE \<or> zlib_crc32 data \<noteq> of_nat (le32 rec 0) then Inl (ValueError ''environment copy has a bad CRC'')
           else rbind (env_items 0 data []) (\<lambda>(d, used). Inr (byte_at rec 4, d, used)))"

definition TRANSACTION :: "string list" where
  "TRANSACTION = [''epk_os_pending'', ''epk_os_target'', ''epk_os_from'', ''epk_os_target_sequence'', ''epk_os_target_sha256'',
     ''epk_os_phase'', ''epk_os_trial_started'']"

definition expected_values :: "platform \<Rightarrow> dict" where
  "expected_values pf = [(''BOOT_ORDER'', ''A B''), (''BOOT_A_LEFT'', ''3''), (''BOOT_B_LEFT'', ''3''), (''epk_state_schema'', ''1''),
     (''epk_state_generation'', ''0''), (''epk_os_floor'', write_int (f_os_sequence pf))]"

record env_report =
  er_free :: int
  er_epoch :: int
  er_policy_sha :: string

text \<open>The policy and its signature, decoded; a missing name is a \<open>KeyError\<close>.\<close>

definition decoded :: "dict \<Rightarrow> string \<Rightarrow> string result" where
  "decoded env name = (case map_of env name of
       None \<Rightarrow> Inl (KeyError name)
     | Some t \<Rightarrow> (case b64decode t of None \<Rightarrow> Inl (ValueError ''base64'') | Some raw \<Rightarrow> Inr raw))"

definition check_policy :: "crypto \<Rightarrow> platform \<Rightarrow> string \<Rightarrow> dict \<Rightarrow> nat \<Rightarrow> env_report result" where
  "check_policy c pf root_pem env used =
     rbind (decoded env ''epk_trust_policy'') (\<lambda>policy_raw.
     rbind (decoded env ''epk_trust_policy_sig'') (\<lambda>signature.
     rbind (verify_policy c policy_raw signature root_pem f_board (f_channel pf) None) (\<lambda>policy.
     if map_of env ''epk_trust_epoch'' \<noteq> Some (write_int (p_epoch policy))
     then Inl (ValueError ''seeded trust epoch differs from the signed policy'')
     else Inr \<lparr>er_free = int PAYLOAD - int used, er_epoch = p_epoch policy, er_policy_sha = sha256 c policy_raw\<rparr>)))"

text \<open>\<open>seed\<close>: the two records the card was built from, when they are given.\<close>

definition check_env :: "crypto \<Rightarrow> string \<Rightarrow> (string \<times> string) option \<Rightarrow> platform \<Rightarrow> string \<Rightarrow> env_report result" where
  "check_env c img seed pf root_pem =
     rbind (read_at img (ENV_OFFSETS ! 0) SIZE) (\<lambda>a.
     rbind (read_at img (ENV_OFFSETS ! 1) SIZE) (\<lambda>b.
     if seed \<noteq> None \<and> fst (the seed) \<noteq> a then Inl (ValueError ''card environment differs from seeded env-a.bin'')
     else if seed \<noteq> None \<and> snd (the seed) \<noteq> b then Inl (ValueError ''card environment differs from seeded env-b.bin'')
     else
     rbind (parse_env_copy a) (\<lambda>(flag_a, env_a, used).
     rbind (parse_env_copy b) (\<lambda>(flag_b, env_b, _).
     if (flag_a, flag_b) \<noteq> (1, 2) \<or> set env_a \<noteq> set env_b
     then Inl (ValueError ''environment copies must hold the same state (flags 1 and 2)'')
     else if int PAYLOAD - int used < int HEADROOM then Inl (ValueError ''environment leaves less than 2 KiB free'')
     else case find (\<lambda>(name, v). map_of env_a name \<noteq> Some v) (expected_values pf) of
         Some (name, v) \<Rightarrow> Inl (ValueError (''seeded '' @ name @ '' must be '' @ v))
       | None \<Rightarrow>
         if list_ex (\<lambda>name. map_of env_a name \<noteq> None) TRANSACTION then Inl (ValueError ''a fresh card carries no update transaction'')
         else check_policy c pf root_pem env_a used))))"

section \<open>BOOT\<close>

definition BOOT_REQUIRED :: "string list" where
  "BOOT_REQUIRED = [''bootcode.bin'', ''start.elf'', ''fixup.dat'', ''config.txt'', ''u-boot.bin'', ''boot.scr'', ''os-index-root.pem'']"

definition BOOT_FORBIDDEN :: "string list" where
  "BOOT_FORBIDDEN = [''Image'']"

text \<open>\<open>boot\<close> is what \<open>mtype\<close> prints of a file of BOOT, None when it fails; \<open>listed\<close> whether \<open>mdir\<close> finds one.\<close>

definition boot_file :: "(string \<Rightarrow> string option) \<Rightarrow> string \<Rightarrow> string result" where
  "boot_file boot name = (case boot name of None \<Rightarrow> Inl (ValueError (''BOOT is missing '' @ name)) | Some s \<Rightarrow> Inr s)"

definition script_payload :: "string \<Rightarrow> string result" where
  "script_payload uimage =
     (if length uimage < 32 then Inl (BadStruct ''unpack_from requires a buffer of at least 32 bytes'')
      else let magic = be32 uimage 0; header_crc = be32 uimage 4; size = be32 uimage 12; data_crc = be32 uimage 24; kind = byte_at uimage 30;
               header = take 4 (take 64 uimage) @ replicate 4 CHR 0x00 @ drop 8 (take 64 uimage);
               data = take size (drop 64 uimage)
        in if magic \<noteq> 0x27051956 \<or> kind \<noteq> 6 \<or> zlib_crc32 header \<noteq> of_nat header_crc
           then Inl (ValueError ''boot.scr is not a U-Boot script image'')
           else if length data \<noteq> size \<or> zlib_crc32 data \<noteq> of_nat data_crc then Inl (ValueError ''boot.scr data is truncated or corrupt'')
           else if length data < 8 then Inl (BadStruct ''unpack_from requires a buffer of at least 8 bytes'')
           else if be32 data 4 \<noteq> 0 \<or> size < 8 + be32 data 0 then Inl (ValueError ''boot.scr script length is invalid'')
           else Inr (take (be32 data 0) (drop 8 data)))"

text \<open>\<open>splitlines\<close> of bytes: a line ends at a line feed, a carriage return, or the two in this order.\<close>

fun byte_lines :: "string \<Rightarrow> string \<Rightarrow> string list" where
  "byte_lines line [] = (if line = [] then [] else [line])"
| "byte_lines line (c # cs) =
     (if c = CHR 0x0D \<and> cs \<noteq> [] \<and> hd cs = CHR 0x0A then line # byte_lines [] (tl cs)
      else if c = CHR 0x0A \<or> c = CHR 0x0D then line # byte_lines [] cs
      else byte_lines (line @ [c]) cs)"

fun all_present :: "(string \<Rightarrow> string option) \<Rightarrow> string list \<Rightarrow> unit result" where
  "all_present boot [] = Inr ()"
| "all_present boot (name # rest) = rbind (boot_file boot name) (\<lambda>_. all_present boot rest)"

definition check_boot :: "(string \<Rightarrow> string option) \<Rightarrow> (string \<Rightarrow> bool) \<Rightarrow> string \<Rightarrow> string \<Rightarrow> unit result" where
  "check_boot boot listed script root_pem =
     rbind (all_present boot BOOT_REQUIRED) (\<lambda>_.
     case find listed BOOT_FORBIDDEN of
       Some name \<Rightarrow> Inl (ValueError (''BOOT must not carry a shared Linux '' @ name))
     | None \<Rightarrow>
       rbind (rbind (boot_file boot ''boot.scr'') script_payload) (\<lambda>s.
       if s \<noteq> script then Inl (ValueError ''boot.scr is not the protocol-2 slot script'')
       else rbind (boot_file boot ''os-index-root.pem'') (\<lambda>root.
       if root \<noteq> root_pem then Inl (ValueError ''BOOT trust root differs from the seeded root'')
       else rbind (boot_file boot ''config.txt'') (\<lambda>config.
       if ''arm_64bit=1'' \<notin> set (byte_lines [] config) then Inl (ValueError ''config.txt is not 64-bit'') else Inr ()))))"

section \<open>The slots and the card\<close>

definition same_bytes :: "string \<Rightarrow> nat \<Rightarrow> string \<Rightarrow> bool" where
  "same_bytes img offset source \<longleftrightarrow> take (length source) (drop offset img) = source"

definition check_slot :: "(string \<Rightarrow> 'i result) \<Rightarrow> string \<Rightarrow> string \<Rightarrow> card_part \<Rightarrow> string \<Rightarrow> 'i result" where
  "check_slot check_rootfs img name p rootfs =
     (if cp_length p < length rootfs \<or> \<not> same_bytes img (cp_start p) rootfs
      then Inl (ValueError (name @ '' on the card differs from its root file system'')) else check_rootfs rootfs)"

definition check_slots :: "(string \<Rightarrow> 'i result) \<Rightarrow> string \<Rightarrow> card_part list \<Rightarrow> string \<Rightarrow> string \<Rightarrow> 'i result" where
  "check_slots check_rootfs img parts rootfs_a rootfs_b =
     rbind (check_slot check_rootfs img ''ROOT-A'' (parts ! 1) rootfs_a) (\<lambda>i.
     rbind (check_slot check_rootfs img ''ROOT-B'' (parts ! 2) rootfs_b) (\<lambda>j.
     if i \<noteq> j then Inl (ValueError ''ROOT-A and ROOT-B carry different Linux'') else Inr i))"

record card_seed =
  se_env :: "string \<times> string"
  se_root :: string
  se_platform :: string

text \<open>
  \<open>platform_file\<close> is what \<open>debugfs\<close> prints of the platform of ROOT-A, at most 4097 bytes.  The check of the root file system has
  validated that file.
\<close>

definition check_card :: "crypto \<Rightarrow> (string \<Rightarrow> 'i result) \<Rightarrow> string \<Rightarrow> string \<Rightarrow> string \<Rightarrow> (string \<Rightarrow> string option) \<Rightarrow> (string \<Rightarrow> bool) \<Rightarrow>
    string \<Rightarrow> string \<Rightarrow> card_seed option \<Rightarrow> (platform \<times> 'i \<times> env_report) result" where
  "check_card c check_rootfs img rootfs_a rootfs_b boot listed script platform_file seed =
     rbind (partitions img) (\<lambda>parts.
     rbind (check_layout img parts) (\<lambda>_.
     rbind (boot_file boot ''os-index-root.pem'') (\<lambda>root_pem.
     if seed \<noteq> None \<and> se_root (the seed) \<noteq> root_pem then Inl (ValueError ''BOOT trust root differs from the seed'')
     else
     rbind (check_slots check_rootfs img parts rootfs_a rootfs_b) (\<lambda>slot.
     rbind (strict_json platform_file 4096) (\<lambda>plat.
     if seed \<noteq> None \<and> canonical plat \<noteq> se_platform (the seed) then Inl (ValueError ''seeded platform differs from the slots'')
     else
     rbind (validate_platform plat) (\<lambda>pf.
     rbind (check_env c img (map_option se_env seed) pf root_pem) (\<lambda>env.
     rbind (check_boot boot listed script root_pem) (\<lambda>_. Inr (pf, slot, env)))))))))"

section \<open>The card's reader and the box's\<close>

lemma env_items_layout:
  assumes "list_all entry_ok es" and "distinct (map fst (d @ es))"
  shows "env_items n (layout es @ CHR 0x00 # pad) d = Inr (d @ es, n + length (layout es) + 1)"
  using assms
proof (induction es arbitrary: n d)
  case (Cons e es)
  obtain k v where e: "e = (k, v)" by (cases e)
  from Cons.prems e have ok: "entry_ok (k, v)" and fresh: "k \<notin> fst ` set d" by auto
  note clean = entry_ok_clean [OF ok]
  have p: "partition_at CHR 0x00 (k @ ''='' @ v @ CHR 0x00 # layout es @ CHR 0x00 # pad) = Some (k @ ''='' @ v, layout es @ CHR 0x00 # pad)"
    using partition_at_append [of "CHR 0x00" "k @ ''='' @ v" "layout es @ CHR 0x00 # pad"] clean by simp
  have q: "partition_at CHR ''='' (k @ ''='' @ v) = Some (k, v)"
    using partition_at_append [of "CHR ''=''" k v] clean by simp
  have "is_name_char c \<Longrightarrow> (of_char c :: nat) < 128" "printable c \<Longrightarrow> (of_char c :: nat) < 128" for c
    by (auto simp: is_name_char_def is_alnum_def is_alpha_def is_digit_def between_def printable_def)
  then have t: "list_all (\<lambda>c. (of_char c :: nat) < 128) (k @ ''='' @ v)"
    using ok by (auto simp: entry_ok_def list_all_iff)
  obtain c cs where c: "k = c # cs" using clean(1) by (cases k) auto
  have "env_items n (layout (e # es) @ CHR 0x00 # pad) d = env_items (n + length (k @ ''='' @ v) + 1) (layout es @ CHR 0x00 # pad) (d @ [(k, v)])"
    using p q t clean fresh c by (simp add: e)
  also have "\<dots> = Inr ((d @ [(k, v)]) @ es, n + length (k @ ''='' @ v) + 1 + length (layout es) + 1)"
    using Cons.prems by (intro Cons.IH) (auto simp: e)
  finally show ?case by (simp add: e)
qed simp

text \<open>A record that the guard reads is read alike by the check.\<close>

lemma parse_env_agrees:
  assumes "load_copy rec = Inr (Copy fl es)" and "length rec = SIZE"
  shows "parse_env_copy rec = Inr (unat fl, es, entry_bytes es + 1)" and "list_all entry_ok es" and "distinct (map fst es)"
proof -
  from assms(1) have crc: "crc_valid rec" and sc: "scan max_entries (take data_size (drop 5 rec)) [] = Inr es"
    and fl: "fl = of_nat (of_char (rec ! 4))"
    by (auto simp: load_copy_def split: if_splits sum.splits)
  have all: "take data_size (drop 5 rec) = drop 5 rec" using assms(2) by (simp add: SIZE_def data_size_def)
  from scan_Inr [OF sc] obtain pad where d: "drop 5 rec = layout es @ CHR 0x00 # pad" and ok: "list_all entry_ok es" "distinct (map fst es)"
    using all by auto
  have "zlib_crc32 (drop 5 rec) = of_nat (le32 rec 0)"
    using crc by (simp add: crc_valid_def all crc_agree le32_def byte_at_def algebra_simps numeral_2_eq_2)
  moreover have "unat fl = byte_at rec 4"
    by (simp add: fl byte_at_def unat_of_nat take_bit_nat_def)
  moreover have "env_items 0 (drop 5 rec) [] = Inr (es, entry_bytes es + 1)"
    using env_items_layout [of es "[]" 0 pad] ok by (simp add: d length_layout)
  ultimately show "parse_env_copy rec = Inr (unat fl, es, entry_bytes es + 1)"
    using assms(2) by (simp add: parse_env_copy_def Let_def SIZE_def)
qed (use assms scan_Inr in \<open>auto simp: load_copy_def split: if_splits sum.splits dest!: scan_Inr\<close>)

section \<open>The layout\<close>




section \<open>The environment of a card\<close>




text \<open>The records of a seed pass the check of the environment.\<close>

lemma seed_env_passes:
  assumes "build_seed c defaults plat raw sig root = Inr (a, b, bud)" and "validate_platform plat = Inr pf"
    and "read_at img (ENV_OFFSETS ! 0) SIZE = Inr a" and "read_at img (ENV_OFFSETS ! 1) SIZE = Inr b"
  shows "\<exists>pol r. verify_policy c raw sig root f_board (f_channel pf) None = Inr pol \<and> check_env c img (Some (a, b)) pf root = Inr r \<and>
    er_epoch r = p_epoch pol \<and> er_policy_sha r = sha256 c raw \<and> int HEADROOM \<le> er_free r"
  using assms(1)
proof (rule build_seed_records)
  fix pf' pol vs
  assume pf': "validate_platform plat = Inr pf'" and pol': "verify_policy c raw sig root f_board (f_channel pf') None = Inr pol"
    and A: "load_copy a = Inr (Copy 1 (sort_items vs))" and B: "load_copy b = Inr (Copy 2 (sort_items vs))"
    and l: "length a = SIZE" "length b = SIZE" and fits: "entry_bytes vs + 1 + env_headroom \<le> data_size"
    and m': "\<And>n. startswith n ''epk_'' \<or> startswith n ''BOOT_'' \<Longrightarrow> map_of (sort_items vs) n = map_of (seed_values pf' pol raw sig) n"
  have same: "pf' = pf" using pf' assms(2) by simp
  note pol = pol' [unfolded same] and m = m' [unfolded same]
  have pa: "parse_env_copy a = Inr (1, sort_items vs, entry_bytes vs + 1)"
    using parse_env_agrees(1) [OF A l(1)] by simp
  have pb: "parse_env_copy b = Inr (2, sort_items vs, entry_bytes vs + 1)"
    using parse_env_agrees(1) [OF B l(2)] by simp
  have room: "\<not> int PAYLOAD - int (entry_bytes vs + 1) < int HEADROOM"
    using fits by (simp add: PAYLOAD_def SIZE_def HEADROOM_def env_headroom_def data_size_def)
  have expected: "find (\<lambda>(name, v). map_of (sort_items vs) name \<noteq> Some v) (expected_values pf) = None"
    by (simp add: expected_values_def m seed_values_def)
  have fresh: "\<not> list_ex (\<lambda>name. map_of (sort_items vs) name \<noteq> None) TRANSACTION"
    by (simp add: TRANSACTION_def m seed_values_def)
  have "check_policy c pf root (sort_items vs) (entry_bytes vs + 1) =
      Inr \<lparr>er_free = int PAYLOAD - int (entry_bytes vs + 1), er_epoch = p_epoch pol, er_policy_sha = sha256 c raw\<rparr>"
    by (simp add: check_policy_def decoded_def m seed_values_def pol)
  then have "check_env c img (Some (a, b)) pf root =
      Inr \<lparr>er_free = int PAYLOAD - int (entry_bytes vs + 1), er_epoch = p_epoch pol, er_policy_sha = sha256 c raw\<rparr>"
    by (simp only: check_env_def assms(3,4) pa pb rbind_simps expected fresh room option.sel fst_conv snd_conv prod.case) simp
  then show ?thesis using pol room by auto
qed

lemma seed_accepted:
  assumes "build_seed c defaults plat raw sig root = Inr (a, b, bud)"
    and "read_at img (ENV_OFFSETS ! 0) SIZE = Inr a" and "read_at img (ENV_OFFSETS ! 1) SIZE = Inr b"
    and "partitions img = Inr parts" and "check_layout img parts = Inr ()" and "check_slots check_rootfs img parts rootfs_a rootfs_b = Inr slot"
    and "strict_json platform_file 4096 = Inr plat" and "boot ''os-index-root.pem'' = Some root" and "check_boot boot listed script root = Inr ()"
  shows "\<exists>pf pol env. verify_policy c raw sig root f_board (f_channel pf) None = Inr pol \<and>
    check_card c check_rootfs img rootfs_a rootfs_b boot listed script platform_file
      (Some \<lparr>se_env = (a, b), se_root = root, se_platform = canonical plat\<rparr>) = Inr (pf, slot, env) \<and> er_epoch env = p_epoch pol"
proof -
  obtain pf where pf: "validate_platform plat = Inr pf" using assms(1) by (rule build_seedE)
  obtain pol env where "verify_policy c raw sig root f_board (f_channel pf) None = Inr pol"
    "check_env c img (Some (a, b)) pf root = Inr env" "er_epoch env = p_epoch pol"
    using seed_env_passes [OF assms(1) pf assms(2,3)] by blast
  then show ?thesis using assms(4-9) pf by (auto simp: check_card_def boot_file_def)
qed

text \<open>
  C38. A card built of a seed passes the check: where the layout, the slots and BOOT are what they should be, the records
  that \<open>build_seed\<close> made, written at their offsets, are accepted with the epoch of the signed policy.
\<close>

theorem seed_passes_check:
  assumes "build_seed c defaults plat raw sig root = Inr (a, b, bud)"
    and "read_at img (ENV_OFFSETS ! 0) SIZE = Inr a" and "read_at img (ENV_OFFSETS ! 1) SIZE = Inr b"
    and "partitions img = Inr parts" and "check_layout img parts = Inr ()" and "check_slots check_rootfs img parts rootfs_a rootfs_b = Inr slot"
    and "strict_json platform_file 4096 = Inr plat" and "boot ''os-index-root.pem'' = Some root" and "check_boot boot listed script root = Inr ()"
  shows "\<exists>pf pol env. verify_policy c raw sig root f_board (f_channel pf) None = Inr pol \<and>
    check_card c check_rootfs img rootfs_a rootfs_b boot listed script platform_file
      (Some \<lparr>se_env = (a, b), se_root = root, se_platform = canonical plat\<rparr>) = Inr (pf, slot, env) \<and> er_epoch env = p_epoch pol"
  by (rule seed_accepted [OF assms])

section \<open>A card\<close>

definition sample_mbr :: string where
  "sample_mbr = replicate 440 CHR 0x00 @ [CHR 0x4B, CHR 0x4C, CHR 0x50, CHR 0x45, CHR 0x00, CHR 0x00] @
     [CHR 0x80, CHR 0x00, CHR 0x00, CHR 0x00, CHR 0x0C, CHR 0x00, CHR 0x00, CHR 0x00,
      CHR 0x00, CHR 0x40, CHR 0x00, CHR 0x00, CHR 0x01, CHR 0x00, CHR 0x00, CHR 0x00] @
     [CHR 0x00, CHR 0x00, CHR 0x00, CHR 0x00, CHR 0x83, CHR 0x00, CHR 0x00, CHR 0x00,
      CHR 0x01, CHR 0x40, CHR 0x00, CHR 0x00, CHR 0x00, CHR 0x00, CHR 0x30, CHR 0x00] @
     [CHR 0x00, CHR 0x00, CHR 0x00, CHR 0x00, CHR 0x83, CHR 0x00, CHR 0x00, CHR 0x00,
      CHR 0x01, CHR 0x40, CHR 0x30, CHR 0x00, CHR 0x00, CHR 0x00, CHR 0x30, CHR 0x00] @
     [CHR 0x00, CHR 0x00, CHR 0x00, CHR 0x00, CHR 0x83, CHR 0x00, CHR 0x00, CHR 0x00,
      CHR 0x01, CHR 0x40, CHR 0x60, CHR 0x00, CHR 0x01, CHR 0x00, CHR 0x00, CHR 0x00] @ [CHR 0x55, CHR 0xAA]"

definition sample_parts :: "card_part list" where
  "sample_parts = [\<lparr>cp_kind = 12, cp_bootable = True, cp_start = 8388608, cp_length = 512\<rparr>,
     \<lparr>cp_kind = 131, cp_bootable = False, cp_start = 8389120, cp_length = 1610612736\<rparr>,
     \<lparr>cp_kind = 131, cp_bootable = False, cp_start = 1619001856, cp_length = 1610612736\<rparr>,
     \<lparr>cp_kind = 131, cp_bootable = False, cp_start = 3229614592, cp_length = 512\<rparr>]"

text \<open>A start script of one character in the wrapper of \<open>mkimage\<close>, with the CRCs as they are.\<close>

definition scr_data :: string where
  "scr_data = [CHR 0x00, CHR 0x00, CHR 0x00, CHR 0x01, CHR 0x00, CHR 0x00, CHR 0x00, CHR 0x00, CHR ''#'']"

definition scr_rest :: string where
  "scr_rest = [CHR 0x00, CHR 0x00, CHR 0x00, CHR 0x00, CHR 0x00, CHR 0x00, CHR 0x00, CHR 0x09,
     CHR 0x00, CHR 0x00, CHR 0x00, CHR 0x00, CHR 0x00, CHR 0x00, CHR 0x00, CHR 0x00] @ rev (little_endian (zlib_crc32 scr_data)) @
     [CHR 0x05, CHR 0x16, CHR 0x06, CHR 0x00] @ replicate 32 CHR 0x00"

definition sample_scr :: string where
  "sample_scr = [CHR 0x27, CHR 0x05, CHR 0x19, CHR 0x56] @
     rev (little_endian (zlib_crc32 ([CHR 0x27, CHR 0x05, CHR 0x19, CHR 0x56] @ replicate 4 CHR 0x00 @ scr_rest))) @ scr_rest @ scr_data"

definition sample_boot :: "string \<Rightarrow> string option" where
  "sample_boot name = Some (if name = ''boot.scr'' then sample_scr else if name = ''os-index-root.pem'' then sample_root
     else if name = ''config.txt'' then ''arm_64bit=1'' @ [CHR 0x0A] else [])"

lemma sample_mbr_read:
  "length sample_mbr = 512" "take 2 (drop 510 sample_mbr) = [CHR 0x55, CHR 0xAA]" "le32 sample_mbr 440 = DISK_SIGNATURE"
  "mbr_parts sample_mbr [0, 1, 2, 3] = Inr sample_parts"
  by (simp_all add: le32_def byte_at_def sample_mbr_def nth_append DISK_SIGNATURE_def Let_def sample_parts_def SECTOR_def)

lemma be32_crc: "length xs = i \<Longrightarrow> of_nat (be32 (xs @ rev (little_endian w) @ ys) i) = w"
  using little_endian_read [of w] by (auto simp: be32_def byte_at_def nth_append rev_nth algebra_simps)

lemma sample_script: "script_payload sample_scr = Inr ''#''"
proof -
  let ?m = "[CHR 0x27, CHR 0x05, CHR 0x19, CHR 0x56]"
  have l: "length scr_rest = 56" "length sample_scr = 73" by (simp_all add: scr_rest_def sample_scr_def scr_data_def)
  have f: "be32 sample_scr 0 = 0x27051956" "be32 sample_scr 12 = 9" "byte_at sample_scr 30 = 6"
    "be32 scr_data 0 = 1" "be32 scr_data 4 = 0"
    by (simp_all add: be32_def byte_at_def sample_scr_def scr_rest_def scr_data_def nth_append)
  have h: "take 4 (take 64 sample_scr) @ replicate 4 CHR 0x00 @ drop 8 (take 64 sample_scr) = ?m @ replicate 4 CHR 0x00 @ scr_rest"
    using l by (simp add: sample_scr_def)
  have d: "take 9 (drop 64 sample_scr) = scr_data" using l by (simp add: sample_scr_def scr_data_def)
  have c: "of_nat (be32 sample_scr 4) = zlib_crc32 (?m @ replicate 4 CHR 0x00 @ scr_rest)"
    unfolding sample_scr_def by (rule be32_crc) simp
  have e: "of_nat (be32 sample_scr 24) = zlib_crc32 scr_data"
    using be32_crc [of "?m @ rev (little_endian (zlib_crc32 (?m @ replicate 4 CHR 0x00 @ scr_rest))) @
        [CHR 0x00, CHR 0x00, CHR 0x00, CHR 0x00, CHR 0x00, CHR 0x00, CHR 0x00, CHR 0x09,
         CHR 0x00, CHR 0x00, CHR 0x00, CHR 0x00, CHR 0x00, CHR 0x00, CHR 0x00, CHR 0x00]" 24 "zlib_crc32 scr_data"
       "[CHR 0x05, CHR 0x16, CHR 0x06, CHR 0x00] @ replicate 32 CHR 0x00 @ scr_data"]
    by (simp add: sample_scr_def scr_rest_def)
  have "length scr_data = 9" "take 1 (drop 8 scr_data) = ''#''" by (simp_all add: scr_data_def)
  then show ?thesis
    using l by (simp add: script_payload_def Let_def f h d c e del: take_take drop_take)
qed

lemma sample_boot_ok: "check_boot sample_boot (\<lambda>_. False) ''#'' sample_root = Inr ()"
  by (simp add: check_boot_def boot_file_def sample_boot_def BOOT_REQUIRED_def BOOT_FORBIDDEN_def sample_script)

lemma read_at_append: "length xs = offset \<Longrightarrow> length d = n \<Longrightarrow> read_at (xs @ d @ ys) offset n = Inr d"
  by (auto simp: read_at_def)

lemma same_bytes_append: "length xs = offset \<Longrightarrow> same_bytes (xs @ d @ ys) offset d"
  by (auto simp: same_bytes_def)

text \<open>A card of the sample seed.\<close>

lemma sample_card:
  assumes "length a = SIZE" and "length b = SIZE"
  obtains img where "read_at img (ENV_OFFSETS ! 0) SIZE = Inr a" and "read_at img (ENV_OFFSETS ! 1) SIZE = Inr b"
    and "partitions img = Inr sample_parts" and "check_layout img sample_parts = Inr ()"
    and "check_slots (\<lambda>r. Inr (length r)) img sample_parts ''ROOT'' ''ROOT'' = Inr 4"
proof -
  obtain p q r s :: string where l: "length p = 4193792" "length q = 4162048" "length r = 1610612732" "length s = 1610613244"
    by (meson Ex_list_of_length)
  define img where "img = sample_mbr @ p @ a @ b @ q @ ''ROOT'' @ r @ ''ROOT'' @ s"
  note len = l assms [unfolded SIZE_def] sample_mbr_read(1)
  have size: "length img = 3229615104" by (simp add: img_def len)
  have A: "read_at img (ENV_OFFSETS ! 0) SIZE = Inr a"
    using read_at_append [of "sample_mbr @ p" "ENV_OFFSETS ! 0" a SIZE] len by (simp add: img_def ENV_OFFSETS_def SIZE_def)
  have B: "read_at img (ENV_OFFSETS ! 1) SIZE = Inr b"
    using read_at_append [of "sample_mbr @ p @ a" "ENV_OFFSETS ! 1" b SIZE] len by (simp add: img_def ENV_OFFSETS_def SIZE_def)
  have "read_at img 0 SECTOR = Inr sample_mbr"
    using read_at_append [of "[]" 0 sample_mbr SECTOR] len by (simp add: img_def SECTOR_def)
  then have P: "partitions img = Inr sample_parts" by (simp only: partitions_def rbind_simps sample_mbr_read) simp
  have L: "check_layout img sample_parts = Inr ()"
    by (simp add: check_layout_def sample_parts_def size part_end_def bad_root_def BOOT_START_def SLOT_BYTES_def MIB_def ENV_OFFSETS_def SIZE_def)
  have RA: "same_bytes img 8389120 ''ROOT''"
    using same_bytes_append [of "sample_mbr @ p @ a @ b @ q" 8389120 "''ROOT''"] len by (simp add: img_def)
  have RB: "same_bytes img 1619001856 ''ROOT''"
    using same_bytes_append [of "sample_mbr @ p @ a @ b @ q @ ''ROOT'' @ r" 1619001856 "''ROOT''"] len by (simp add: img_def)
  have "check_slots (\<lambda>r. Inr (length r)) img sample_parts ''ROOT'' ''ROOT'' = Inr 4"
    using RA RB by (simp add: check_slots_def check_slot_def sample_parts_def)
  with A B P L show ?thesis by (rule that)
qed

theorem seed_passes_check_witness:
  "\<exists>img a b pf pol env. verify_policy sample_crypto sample_policy_raw (replicate 64 CHR ''s'') sample_root f_board (f_channel pf) None = Inr pol \<and>
    check_card sample_crypto (\<lambda>r. Inr (length r)) img ''ROOT'' ''ROOT'' sample_boot (\<lambda>_. False) ''#'' sample_platform_raw
      (Some \<lparr>se_env = (a, b), se_root = sample_root, se_platform = canonical (JObj sample_platform_fields)\<rparr>) = Inr (pf, 4, env) \<and>
    er_epoch env = p_epoch pol"
proof -
  obtain a b bud where s: "build_seed sample_crypto sample_defaults (JObj sample_platform_fields) sample_policy_raw
    (replicate 64 CHR ''s'') sample_root = Inr (a, b, bud)" by (rule sample_seeded)
  obtain img where i: "read_at img (ENV_OFFSETS ! 0) SIZE = Inr a" "read_at img (ENV_OFFSETS ! 1) SIZE = Inr b"
    "partitions img = Inr sample_parts" "check_layout img sample_parts = Inr ()"
    "check_slots (\<lambda>r. Inr (length r)) img sample_parts ''ROOT'' ''ROOT'' = Inr 4"
    using build_seed_lengths [OF s] by (rule sample_card)
  have "sample_boot ''os-index-root.pem'' = Some sample_root" by (simp add: sample_boot_def)
  from seed_passes_check [OF s i sample_platform_json this sample_boot_ok] show ?thesis by blast
qed




end
