(* ===== verification/Epk_Adopt.thy ===== *)
theory Epk_Adopt
  imports Epk_Trust Epk_Text
begin

text \<open>
  The adoption of a box of the first boot protocol, \<open>tools/bootstrap_export.py\<close>: the source's state read
  under the maintenance lease, its export over a pinned session, and the plan that admits a new baseline.  Files
  are nodes that are absent, unsafe (a link, a FIFO, an unreadable file) or regular; every failure is a
  \<open>ValueError\<close>, as the code makes it.  \<open>json.loads\<close> is the argument \<open>loads\<close>, which keeps the pairs of an object as
  they come.  The lemmas show that no plan lowers the app's floor.
\<close>

section \<open>Scalars and metadata\<close>

definition MAXIMUM :: nat where "MAXIMUM = 65536"

definition ascii_text :: "string \<Rightarrow> string result" where
  "ascii_text raw = (if list_all (\<lambda>c. (of_char c :: nat) < 128) raw then Inr raw else Inl (ValueError ''ascii codec''))"

definition positive :: "json \<Rightarrow> int result" where
  "positive v = (case v of
       JInt i \<Rightarrow> if 1 \<le> i \<and> i \<le> 2 ^ 64 - 1 then Inr i else Inl (ValueError ''invalid positive sequence'')
     | _ \<Rightarrow> Inl (ValueError ''invalid positive sequence''))"

definition without_newline :: "string \<Rightarrow> string" where
  "without_newline s = (if endswith s [CHR 0x0A] then butlast s else s)"

definition floor_text :: "string \<Rightarrow> int result" where
  "floor_text raw =
     rbind (ascii_text raw) (\<lambda>t. let v = without_newline t in
       if v = [] \<or> 20 < length v \<or> hd v = CHR ''0'' \<or> \<not> list_all is_digit v
       then Inl (ValueError ''missing/malformed sequence floor'')
       else case undec v of None \<Rightarrow> Inl (ValueError ''missing/malformed sequence floor'') | Some n \<Rightarrow> positive (JInt (int n)))"

definition env_key :: "string \<Rightarrow> bool" where
  "env_key k \<longleftrightarrow> k \<noteq> [] \<and> list_all (\<lambda>c. between CHR ''A'' CHR ''Z'' c \<or> c = CHR ''_'') k"

fun metadata_items :: "string list \<Rightarrow> (string \<times> string) list \<Rightarrow> (string \<times> string) list result" where
  "metadata_items [] d = Inr d"
| "metadata_items (line # ls) d =
     (if line = [] \<or> startswith line ''#'' then metadata_items ls d
      else if CHR ''='' \<notin> set line \<or> \<not> list_all printable line then Inl (ValueError ''malformed image/state metadata'')
      else case partition_at CHR ''='' line of
        None \<Rightarrow> Inl (ValueError ''malformed image/state metadata'')
      | Some (k, v) \<Rightarrow>
        if \<not> env_key k \<or> k \<in> fst ` set d then Inl (ValueError ''duplicate/invalid metadata key'')
        else metadata_items ls (d @ [(k, v)]))"

definition metadata_values :: "string \<Rightarrow> (string \<times> string) list result" where
  "metadata_values raw = rbind (ascii_text raw) (\<lambda>t. metadata_items (splitlines t) [])"

section \<open>The identity of an app\<close>

record app_identity =
  i_channel :: string
  i_sequence :: int
  i_digest :: string
  i_image :: string
  i_release :: string

definition is_release :: "string \<Rightarrow> bool" where
  "is_release s \<longleftrightarrow> 1 \<le> length s \<and> length s \<le> 64 \<and> list_all (\<lambda>c. is_alnum c \<or> c \<in> {CHR ''.'', CHR ''+'', CHR ''_'', CHR ''-''}) s"

definition is_digest :: "string \<Rightarrow> bool" where
  "is_digest s \<longleftrightarrow> startswith s ''sha256:'' \<and> hex_of_length 64 (drop 7 s)"

text \<open>\<open>isinstance(v, str) and re.fullmatch(pattern, v)\<close>, for patterns of ASCII characters.\<close>

definition text_field :: "(string \<Rightarrow> bool) \<Rightarrow> json \<Rightarrow> string option" where
  "text_field ok v = (case matching ok [] v of Inl _ \<Rightarrow> None | Inr s \<Rightarrow> Some s)"

definition identity_of :: "json \<Rightarrow> app_identity result" where
  "identity_of value = (case value of
       JObj ms \<Rightarrow>
         (case text_field (\<lambda>s. s \<in> {''dev'', ''stable''}) (field ms ''channel'') of
            None \<Rightarrow> Inl (ValueError ''app identity channel'')
          | Some chan \<Rightarrow>
            rbind (positive (field ms ''sequence'')) (\<lambda>seq.
            case text_field is_digest (field ms ''digest'') of
              None \<Rightarrow> Inl (ValueError ''app identity digest'')
            | Some digest \<Rightarrow>
              (case text_field (hex_of_length 64) (field ms ''image_id'') of
                 None \<Rightarrow> Inl (ValueError ''app identity image_id'')
               | Some img \<Rightarrow>
                 (case text_field is_release (field ms ''release'') of
                    None \<Rightarrow> Inl (ValueError ''app release identity'')
                  | Some rel \<Rightarrow> Inr \<lparr>i_channel = chan, i_sequence = seq, i_digest = digest, i_image = img, i_release = rel\<rparr>))))
     | _ \<Rightarrow> Inl (ValueError ''app identity channel''))"

text \<open>The reference of a pinned image; the dot of \<open>docker.io\<close> in the pattern stands for any character.\<close>

definition name_char :: "char \<Rightarrow> bool" where
  "name_char c \<longleftrightarrow> between CHR ''a'' CHR ''z'' c \<or> is_digit c"

definition pinned_ref :: "string \<Rightarrow> string option" where
  "pinned_ref ref =
     (let body = drop 10 ref; name = take (length body - 72) body; tail = drop (length body - 72) body
      in if take 6 ref = ''docker'' \<and> 7 \<le> length ref \<and> ref ! 6 \<noteq> CHR 0x0A \<and> take 3 (drop 7 ref) = ''io/'' \<and>
            name \<noteq> [] \<and> length name \<le> 128 \<and> name_char (hd name) \<and>
            list_all (\<lambda>c. name_char c \<or> c \<in> {CHR ''.'', CHR ''_'', CHR ''/'', CHR ''-''}) name \<and>
            startswith tail ''@'' \<and> is_digest (tl tail)
         then Some (tl tail) else None)"

definition json_text :: "string option \<Rightarrow> json" where
  "json_text v = (case v of None \<Rightarrow> JNull | Some s \<Rightarrow> JStr (u s))"

definition parse_baseline :: "string \<Rightarrow> app_identity result" where
  "parse_baseline raw =
     rbind (metadata_values raw) (\<lambda>values.
     let get = map_of values in
     case pinned_ref (case get ''EPILYKOS_IMAGE_REF'' of None \<Rightarrow> [] | Some s \<Rightarrow> s) of
       None \<Rightarrow> Inl (ValueError ''immutable baseline must use a pinned Docker image'')
     | Some digest \<Rightarrow>
       rbind (floor_text (case get ''EPILYKOS_SEQUENCE'' of None \<Rightarrow> [] | Some s \<Rightarrow> s)) (\<lambda>seq.
         identity_of (JObj [(u ''channel'', json_text (get ''EPILYKOS_CHANNEL'')), (u ''sequence'', JInt seq),
           (u ''release'', json_text (get ''EPILYKOS_RELEASE'')), (u ''digest'', JStr (u digest)),
           (u ''image_id'', json_text (get ''EPILYKOS_IMAGE_ID''))])))"

section \<open>The state of the source\<close>

datatype node = Absent | Unsafe | Regular string

definition read_state :: "node \<Rightarrow> nat \<Rightarrow> string result" where
  "read_state n maximum = (case n of
       Absent \<Rightarrow> Inl (ValueError ''source state missing/unsafe'')
     | Unsafe \<Rightarrow> Inl (ValueError ''source state missing/unsafe'')
     | Regular raw \<Rightarrow> if maximum < length raw then Inl (ValueError ''source state size limit'') else Inr raw)"

definition present :: "node \<Rightarrow> bool" where
  "present n \<longleftrightarrow> n \<noteq> Absent"

text \<open>\<open>json_state\<close>: no key twice, at any depth.\<close>

definition json_state :: "(string \<Rightarrow> json option) \<Rightarrow> string \<Rightarrow> json result" where
  "json_state loads raw = (case loads raw of
       None \<Rightarrow> Inl (ValueError ''JSON'')
     | Some v \<Rightarrow> if unique_keys v then Inr v else Inl (ValueError ''duplicate source JSON key''))"

record source_files =
  sf_image_env :: node
  sf_platform :: node
  sf_updater_dir :: "bool option"
  sf_job :: node
  sf_current :: node
  sf_floor :: node
  sf_active :: node
  sf_previous :: node

record source =
  so_channel :: string
  so_app :: app_identity
  so_app_floor :: int
  so_os_version :: string

text \<open>\<open>v?0\.[0-6](?:[.+-][A-Za-z0-9.+_-]+)?\<close>.\<close>

definition legacy_version :: "string \<Rightarrow> bool" where
  "legacy_version s =
     (let t = (if startswith s ''v'' then tl s else s); rest = drop 3 t
      in length t \<ge> 3 \<and> take 2 t = ''0.'' \<and> between CHR ''0'' CHR ''6'' (t ! 2) \<and>
         (rest = [] \<or> hd rest \<in> {CHR ''.'', CHR ''+'', CHR ''-''} \<and> tl rest \<noteq> [] \<and>
           list_all (\<lambda>c. is_alnum c \<or> c \<in> {CHR ''.'', CHR ''+'', CHR ''_'', CHR ''-''}) (tl rest)))"

definition check_active :: "node \<Rightarrow> app_identity \<Rightarrow> app_identity \<Rightarrow> unit result" where
  "check_active active promoted base =
     (if present active then
        rbind (read_state active 8192) (\<lambda>raw.
        rbind (metadata_values raw) (\<lambda>values.
        if map_of values ''EPILYKOS_ACTIVE_IMAGE_ID'' \<noteq> Some (i_image promoted)
        then Inl (ValueError ''active app differs from promoted identity'')
        else rbind (floor_text (case map_of values ''EPILYKOS_ACTIVE_SEQUENCE'' of None \<Rightarrow> [] | Some s \<Rightarrow> s)) (\<lambda>seq.
          if seq \<noteq> i_sequence promoted \<or> map_of values ''EPILYKOS_ACTIVE_RELEASE'' \<noteq> Some (i_release promoted)
          then Inl (ValueError ''active app differs from promoted identity'') else Inr ())))
      else if i_sequence base \<le> i_sequence promoted then Inl (ValueError ''missing promoted active identity'') else Inr ())"

definition promoted_identity :: "(string \<Rightarrow> json option) \<Rightarrow> source_files \<Rightarrow> app_identity result" where
  "promoted_identity loads fs = rbind (read_state (sf_current fs) MAXIMUM) (\<lambda>raw. rbind (json_state loads raw) identity_of)"

text \<open>The app and the floor of the source: the promoted ones when they are newer than the baseline.\<close>

definition collect_app :: "(string \<Rightarrow> json option) \<Rightarrow> source_files \<Rightarrow> app_identity \<Rightarrow> (app_identity \<times> int) result" where
  "collect_app loads fs base =
     (if \<not> present (sf_current fs) then
        (if present (sf_floor fs) \<or> present (sf_active fs) \<or> present (sf_previous fs)
         then Inl (ValueError ''missing promoted identity with surviving updater state'')
         else Inr (base, i_sequence base))
      else rbind (promoted_identity loads fs) (\<lambda>promoted.
        rbind (read_state (sf_floor fs) 32) (\<lambda>fl.
        rbind (floor_text fl) (\<lambda>stored.
        if i_channel promoted \<noteq> i_channel base \<or> stored \<noteq> i_sequence promoted
        then Inl (ValueError ''promoted app floor/channel conflict'')
        else rbind (check_active (sf_active fs) promoted base) (\<lambda>_.
          Inr (if i_sequence base \<le> i_sequence promoted then promoted else base, max (i_sequence base) stored))))))"

definition collect_source :: "(string \<Rightarrow> json option) \<Rightarrow> source_files \<Rightarrow> bool \<Rightarrow> source result" where
  "collect_source loads fs allow_legacy =
     rbind (read_state (sf_image_env fs) 8192) (\<lambda>raw.
     rbind (metadata_values raw) (\<lambda>values.
     rbind (parse_baseline raw) (\<lambda>base.
     let version = (case map_of values ''EPILYKOS_OS_VERSION'' of None \<Rightarrow> [] | Some s \<Rightarrow> s)
     in if \<not> allow_legacy \<or> present (sf_platform fs) \<or> \<not> legacy_version version
        then Inl (ValueError ''only explicitly authorized pre-0.7 protocol-1 sources are supported'')
        else if sf_updater_dir fs = Some False then Inl (ValueError ''unsafe updater directory'')
        else if present (sf_job fs) then Inl (ValueError ''application update in progress/unreconciled'')
        else rbind (collect_app loads fs base) (\<lambda>(app, fl).
          Inr \<lparr>so_channel = i_channel base, so_app = app, so_app_floor = fl, so_os_version = version\<rparr>))))"

section \<open>The plan\<close>

definition identity_json :: "app_identity \<Rightarrow> json" where
  "identity_json i = JObj [(u ''channel'', JStr (u (i_channel i))), (u ''sequence'', JInt (i_sequence i)),
     (u ''digest'', JStr (u (i_digest i))), (u ''image_id'', JStr (u (i_image i))), (u ''release'', JStr (u (i_release i)))]"

definition source_json :: "source \<Rightarrow> json" where
  "source_json s = JObj [(u ''schema'', JInt 1), (u ''boot_protocol'', JInt 1), (u ''channel'', JStr (u (so_channel s))),
     (u ''app'', identity_json (so_app s)), (u ''app_floor'', JInt (so_app_floor s)), (u ''os_floor'', JNull),
     (u ''trust_epoch'', JNull), (u ''source_os_version'', JStr (u (so_os_version s)))]"

record plan =
  pl_channel :: string
  pl_floor :: int
  pl_source :: app_identity
  pl_target :: app_identity

text \<open>\<open>value == 1\<close>, which also holds of \<open>true\<close>.\<close>

definition is_one :: "json \<Rightarrow> bool" where
  "is_one v \<longleftrightarrow> v = JInt 1 \<or> v = JBool True"

definition adoption_plan :: "json \<Rightarrow> json \<Rightarrow> plan result" where
  "adoption_plan src target_baseline = (case src of
       JObj ms \<Rightarrow>
         if \<not> is_one (field ms ''schema'') \<or> \<not> is_one (field ms ''boot_protocol'') \<or> field ms ''os_floor'' \<noteq> JNull \<or>
            field ms ''trust_epoch'' \<noteq> JNull
         then Inl (ValueError ''not a supported authenticated source state'')
         else rbind (identity_of (field ms ''app'')) (\<lambda>app.
           rbind (identity_of target_baseline) (\<lambda>target.
           rbind (positive (field ms ''app_floor'')) (\<lambda>fl.
           if field ms ''channel'' \<noteq> JStr (u (i_channel app)) \<or> fl \<noteq> i_sequence app
           then Inl (ValueError ''invalid source floor/identity'')
           else if i_channel target \<noteq> i_channel app \<or> i_sequence target < fl
           then Inl (ValueError ''new same-channel baseline must meet the existing app floor'')
           else if i_sequence target = i_sequence app \<and> target \<noteq> app
           then Inl (ValueError ''same app sequence has conflicting identity'')
           else Inr \<lparr>pl_channel = i_channel app, pl_floor = fl, pl_source = app, pl_target = target\<rparr>)))
     | _ \<Rightarrow> Inl (ValueError ''not a supported authenticated source state''))"

section \<open>The session\<close>

text \<open>\<open>bounded_line\<close>: \<open>reads\<close> are what \<open>os.read\<close> returned before the deadline, [] when the other end closed.\<close>

fun bounded_line :: "nat \<Rightarrow> string list \<Rightarrow> string \<Rightarrow> string result" where
  "bounded_line maximum reads data = (case partition_at CHR 0x0A data of
       Some (line, remainder) \<Rightarrow>
         if remainder \<noteq> [] then Inl (ValueError ''unexpected source export output'') else Inr line
     | None \<Rightarrow>
       (case reads of
          [] \<Rightarrow> Inl (ValueError ''source export timed out'')
        | chunk # reads' \<Rightarrow>
          if chunk = [] then Inl (ValueError ''source export connection closed'')
          else if maximum < length (data @ chunk) then Inl (ValueError ''source export size limit'')
          else bounded_line maximum reads' (data @ chunk)))"

declare bounded_line.simps [simp del]

text \<open>\<open>serve\<close>: what it prints, and how it ends; the lease is held until then.\<close>

definition serve :: "(string \<Rightarrow> json option) \<Rightarrow> string \<Rightarrow> bool \<Rightarrow> bool \<Rightarrow> source_files \<Rightarrow> string list \<Rightarrow> (string \<times> source) option \<times> unit result" where
  "serve loads nonce allow_legacy lease fs reads =
     (if \<not> hex_of_length 64 nonce then (None, Inl (ValueError ''invalid session nonce''))
      else if \<not> lease then (None, Inl (ValueError ''source maintenance busy/unavailable''))
      else case collect_source loads fs allow_legacy of
        Inl e \<Rightarrow> (None, Inl e)
      | Inr s \<Rightarrow> (Some (nonce, s),
          rbind (bounded_line 65 reads []) (\<lambda>line.
            if line \<noteq> nonce then Inl (ValueError ''export session ended before receipt acknowledgement'') else Inr ())))"

text \<open>The client: the line the source printed, and the receipt with its plan, before the acknowledgement is sent.\<close>

definition receive_line :: "(string \<Rightarrow> json option) \<Rightarrow> string list \<Rightarrow> json result" where
  "receive_line loads reads = rbind (bounded_line MAXIMUM reads []) (json_state loads)"

definition receipt :: "(string \<Rightarrow> json option) \<Rightarrow> string \<Rightarrow> string list \<Rightarrow> json option \<Rightarrow> (json \<times> plan option) result" where
  "receipt loads nonce reads target_baseline =
     rbind (receive_line loads reads) (\<lambda>response. case response of
       JObj ms \<Rightarrow>
         if field ms ''nonce'' \<noteq> JStr (u nonce) then Inl (ValueError ''source session nonce mismatch'')
         else (case map_of ms (u ''source'') of
           None \<Rightarrow> Inl (KeyError ''source'')
         | Some src \<Rightarrow>
           (case target_baseline of
              None \<Rightarrow> Inr (src, None)
            | Some t \<Rightarrow> rbind (adoption_plan src t) (\<lambda>p. Inr (src, Some p))))
     | _ \<Rightarrow> Inl (AttributeError ''get''))"

section \<open>Identities\<close>

definition good_identity :: "app_identity \<Rightarrow> bool" where
  "good_identity i \<longleftrightarrow> i_channel i \<in> {''dev'', ''stable''} \<and> 1 \<le> i_sequence i \<and> i_sequence i \<le> 2 ^ 64 - 1 \<and>
     is_digest (i_digest i) \<and> hex_of_length 64 (i_image i) \<and> is_release (i_release i)"

lemma text_field_Some: "text_field ok v = Some s \<longleftrightarrow> v = JStr (u s) \<and> ok s \<and> list_all (\<lambda>c. c < 128) (u s)"
  using matching_Inr [of ok "[]" v s] by (auto simp: text_field_def split: sum.split)

lemma positive_Inr: "positive v = Inr i \<longleftrightarrow> v = JInt i \<and> 1 \<le> i \<and> i \<le> 2 ^ 64 - 1"
  by (cases v) (auto simp: positive_def)

lemma identity_of_Inr: "identity_of v = Inr i \<Longrightarrow> good_identity i"
  by (cases v) (auto simp: identity_of_def good_identity_def text_field_Some positive_Inr rbind_Inr_iff case_option_Inr)

lemma alnum_ascii: "is_alnum c \<Longrightarrow> (of_char c :: nat) < 128"
  by (auto simp: is_alnum_def is_alpha_def is_digit_def between_def)

lemma hex_ascii: "hex_of_length n s \<Longrightarrow> list_all (\<lambda>c. c < 128) (u s)"
  by (auto simp: hex_of_length_def is_lower_hex_def is_digit_def between_def u_def list_all_iff dest!: bspec)

lemma digest_ascii: "is_digest s \<Longrightarrow> list_all (\<lambda>c. c < 128) (u s)"
proof -
  assume d: "is_digest s"
  have l: "length ''sha256:'' = 7" by simp
  have s: "take 7 s = ''sha256:''" using d unfolding is_digest_def startswith_def l by simp
  have "s = take 7 s @ drop 7 s" by simp
  then obtain r where r: "s = ''sha256:'' @ r" "hex_of_length 64 r" using d unfolding s is_digest_def by simp
  show ?thesis using hex_ascii [OF r(2)] by (simp add: r u_def)
qed

lemma release_ascii: "is_release s \<Longrightarrow> list_all (\<lambda>c. c < 128) (u s)"
  by (auto simp: is_release_def u_def list_all_iff alnum_ascii dest!: bspec)

text \<open>A good identity reads back.\<close>

lemma identity_fields:
  assumes "good_identity i"
  shows "text_field (\<lambda>s. s \<in> {''dev'', ''stable''}) (JStr (u (i_channel i))) = Some (i_channel i)"
    and "text_field is_digest (JStr (u (i_digest i))) = Some (i_digest i)"
    and "text_field (hex_of_length 64) (JStr (u (i_image i))) = Some (i_image i)"
    and "text_field is_release (JStr (u (i_release i))) = Some (i_release i)"
  using assms digest_ascii hex_ascii release_ascii
  by (auto simp: text_field_Some good_identity_def) (auto simp: u_def)

lemma identity_round_trip: "identity_of (identity_json i) = Inr i \<longleftrightarrow> good_identity i"
proof
  assume g: "good_identity i"
  note f = identity_fields [OF g]
  have p: "positive (JInt (i_sequence i)) = Inr (i_sequence i)" using g by (simp add: positive_Inr good_identity_def)
  have l: "field [(u ''channel'', a), (u ''sequence'', b), (u ''digest'', c), (u ''image_id'', d), (u ''release'', e)] ''channel'' = a"
    "field [(u ''channel'', a), (u ''sequence'', b), (u ''digest'', c), (u ''image_id'', d), (u ''release'', e)] ''sequence'' = b"
    "field [(u ''channel'', a), (u ''sequence'', b), (u ''digest'', c), (u ''image_id'', d), (u ''release'', e)] ''digest'' = c"
    "field [(u ''channel'', a), (u ''sequence'', b), (u ''digest'', c), (u ''image_id'', d), (u ''release'', e)] ''image_id'' = d"
    "field [(u ''channel'', a), (u ''sequence'', b), (u ''digest'', c), (u ''image_id'', d), (u ''release'', e)] ''release'' = e"
    for a b c d e by (simp_all add: field_def)
  show "identity_of (identity_json i) = Inr i"
    unfolding identity_of_def identity_json_def json.case l f p by simp
qed (rule identity_of_Inr)

section \<open>What is collected and what is planned\<close>

lemma parse_baseline_good: "parse_baseline raw = Inr base \<Longrightarrow> good_identity base"
  by (auto simp: parse_baseline_def rbind_Inr_iff Let_def case_option_Inr intro: identity_of_Inr)

lemma collect_sourceE:
  assumes "collect_source loads fs allow = Inr s"
  obtains raw base where "sf_image_env fs = Regular raw" and "parse_baseline raw = Inr base" and "allow"
    and "so_channel s = i_channel base" and "good_identity (so_app s)" and "i_channel (so_app s) = i_channel base"
    and "so_app_floor s = i_sequence (so_app s)" and "i_sequence base \<le> so_app_floor s"
    and "\<not> present (sf_current fs) \<longrightarrow> so_app s = base"
    and "present (sf_current fs) \<longrightarrow> (\<exists>pr. promoted_identity loads fs = Inr pr \<and> i_sequence pr \<le> so_app_floor s \<and>
       (so_app s = pr \<or> so_app s = base))"
proof -
  from assms obtain raw base where raw: "read_state (sf_image_env fs) 8192 = Inr raw" and b: "parse_baseline raw = Inr base"
    and rest: "collect_app loads fs base = Inr (so_app s, so_app_floor s)" and so: "so_channel s = i_channel base" and allow
    by (auto simp: collect_source_def rbind_Inr_iff Let_def split: if_split_asm)
  have r: "sf_image_env fs = Regular raw" using raw by (auto simp: read_state_def split: node.split_asm if_split_asm)
  have g: "good_identity pr" if "promoted_identity loads fs = Inr pr" for pr
    using that by (auto simp: promoted_identity_def rbind_Inr_iff intro: identity_of_Inr)
  show ?thesis
    using rest g parse_baseline_good [OF b]
    by (intro that [OF r b \<open>allow\<close> so]) (auto simp: collect_app_def rbind_Inr_iff max_def split: if_split_asm)
qed

text \<open>
  C40. Adopting a box never lowers its app: a plan for the state collected from a source has the source's floor, which is
  at least the sequence of the shipped baseline and of the promoted release, and its target is a
  release of the same channel at or above it.  The source's own app can always be adopted again.
\<close>

theorem adoption_keeps_floor:
  assumes "collect_source loads fs allow = Inr s"
  shows "(\<exists>p. adoption_plan (source_json s) (identity_json (so_app s)) = Inr p) \<and>
    (case adoption_plan (source_json s) target of
       Inl e \<Rightarrow> True
     | Inr p \<Rightarrow> pl_source p = so_app s \<and> pl_floor p = so_app_floor s \<and> pl_channel p = so_channel s \<and>
         identity_of target = Inr (pl_target p) \<and> i_channel (pl_target p) = so_channel s \<and>
         so_app_floor s \<le> i_sequence (pl_target p) \<and>
         (\<exists>raw base. sf_image_env fs = Regular raw \<and> parse_baseline raw = Inr base \<and> i_sequence base \<le> pl_floor p) \<and>
         (if present (sf_current fs)
          then \<exists>pr. promoted_identity loads fs = Inr pr \<and> i_sequence pr \<le> pl_floor p
          else pl_floor p = i_sequence (so_app s)))"
  using assms
proof (rule collect_sourceE)
  fix raw base
  assume r: "sf_image_env fs = Regular raw" "parse_baseline raw = Inr base" and ch: "so_channel s = i_channel base"
    and g: "good_identity (so_app s)" and ca: "i_channel (so_app s) = i_channel base" and fl: "so_app_floor s = i_sequence (so_app s)"
    and le: "i_sequence base \<le> so_app_floor s"
    and pr: "present (sf_current fs) \<longrightarrow> (\<exists>pr. promoted_identity loads fs = Inr pr \<and> i_sequence pr \<le> so_app_floor s \<and>
       (so_app s = pr \<or> so_app s = base))"
  let ?ms = "[(u ''schema'', JInt 1), (u ''boot_protocol'', JInt 1), (u ''channel'', JStr (u (so_channel s))),
     (u ''app'', identity_json (so_app s)), (u ''app_floor'', JInt (so_app_floor s)), (u ''os_floor'', JNull),
     (u ''trust_epoch'', JNull), (u ''source_os_version'', JStr (u (so_os_version s)))]"
  have l: "field ?ms ''schema'' = JInt 1" "field ?ms ''boot_protocol'' = JInt 1" "field ?ms ''os_floor'' = JNull"
    "field ?ms ''trust_epoch'' = JNull" "field ?ms ''app'' = identity_json (so_app s)"
    "field ?ms ''app_floor'' = JInt (so_app_floor s)" "field ?ms ''channel'' = JStr (u (so_channel s))"
    by (simp_all add: field_def)
  have i: "identity_of (identity_json (so_app s)) = Inr (so_app s)" using g by (simp add: identity_round_trip)
  have f: "positive (JInt (so_app_floor s)) = Inr (so_app_floor s)" using g fl by (simp add: positive_Inr good_identity_def)
  have plan: "adoption_plan (source_json s) t = rbind (identity_of t) (\<lambda>target.
      if i_channel target \<noteq> i_channel (so_app s) \<or> i_sequence target < so_app_floor s
      then Inl (ValueError ''new same-channel baseline must meet the existing app floor'')
      else if i_sequence target = i_sequence (so_app s) \<and> target \<noteq> so_app s
      then Inl (ValueError ''same app sequence has conflicting identity'')
      else Inr \<lparr>pl_channel = i_channel (so_app s), pl_floor = so_app_floor s, pl_source = so_app s, pl_target = target\<rparr>)" for t
    unfolding adoption_plan_def source_json_def json.case l i f by (simp add: is_one_def ch ca fl cong: if_cong)
  show ?thesis
    using r ch ca fl le pr i by (auto simp: plan rbind_Inr_iff split: sum.split if_split_asm)
qed

text \<open>A line is taken whole: what was read is the line and its newline, within the limit.\<close>

lemma bounded_line_exact:
  "bounded_line n reads data = Inr line \<Longrightarrow> length data \<le> n \<Longrightarrow>
   \<exists>k. data @ concat (take k reads) = line @ [CHR 0x0A] \<and> CHR 0x0A \<notin> set line \<and> length line < n"
proof (induction n reads data rule: bounded_line.induct)
  case (1 n reads data)
  show ?case
  proof (cases "partition_at CHR 0x0A data")
    case None
    with "1.prems"(1) obtain chunk reads' where r: "reads = chunk # reads'" "chunk \<noteq> []" "\<not> n < length (data @ chunk)"
      and b: "bounded_line n reads' (data @ chunk) = Inr line"
      by (subst (asm) bounded_line.simps) (auto split: list.split_asm if_split_asm)
    from "1.IH" [OF None r(1) r(2) r(3) b] r(3) obtain k where "(data @ chunk) @ concat (take k reads') = line @ [CHR 0x0A]"
      "CHR 0x0A \<notin> set line" "length line < n" by auto
    then show ?thesis by (intro exI [of _ "Suc k"]) (simp add: r)
  next
    case (Some p)
    with "1.prems"(1) have p: "p = (line, [])" by (subst (asm) bounded_line.simps) (auto split: prod.split_asm if_split_asm)
    from partition_at_Some [OF Some [unfolded p]] "1.prems"(2) show ?thesis by (intro exI [of _ 0]) auto
  qed
qed


text \<open>The metadata of an image of a version; a pristine box of version 0.6.\<close>

definition sample_items :: "string \<Rightarrow> (string \<times> string) list" where
  "sample_items version = [(''EPILYKOS_IMAGE_REF'', ''docker.io/e@sha256:'' @ replicate 64 CHR ''a''), (''EPILYKOS_IMAGE_ID'', replicate 64 CHR ''b''),
     (''EPILYKOS_RELEASE'', ''1.0''), (''EPILYKOS_CHANNEL'', ''dev''), (''EPILYKOS_SEQUENCE'', ''7''), (''EPILYKOS_OS_VERSION'', version)]"

definition sample_image_env :: "string \<Rightarrow> string" where
  "sample_image_env version = concat (map (\<lambda>l. l @ [CHR 0x0A]) (map (\<lambda>(k, v). k @ ''='' @ v) (sample_items version)))"

definition sample_identity :: app_identity where
  "sample_identity = \<lparr>i_channel = ''dev'', i_sequence = 7, i_digest = ''sha256:'' @ replicate 64 CHR ''a'',
    i_image = replicate 64 CHR ''b'', i_release = ''1.0''\<rparr>"

definition sample_source :: source_files where
  "sample_source = \<lparr>sf_image_env = Regular (sample_image_env ''0.6''), sf_platform = Absent, sf_updater_dir = None, sf_job = Absent,
     sf_current = Absent, sf_floor = Absent, sf_active = Absent, sf_previous = Absent\<rparr>"

lemma metadata_items_read:
  "list_all (\<lambda>(k, v). env_key k \<and> list_all printable v) items \<Longrightarrow> distinct (map fst (d @ items)) \<Longrightarrow>
   metadata_items (map (\<lambda>(k, v). k @ ''='' @ v) items) d = Inr (d @ items)"
proof (induction items arbitrary: d)
  case (Cons e items)
  obtain k v where e: "e = (k, v)" by (cases e)
  with Cons.prems have k: "env_key k" "list_all printable v" "k \<notin> fst ` set d" by auto
  then obtain c cs where c: "k = c # cs" by (cases k) (auto simp: env_key_def)
  have cc: "between CHR ''A'' CHR ''Z'' x \<or> x = CHR ''_''" if "x \<in> set k" for x
    using k(1) that by (auto simp: env_key_def list_all_iff)
  have "CHR ''='' \<notin> set k" using cc [of "CHR ''=''"] by (auto simp: between_def)
  moreover have "c \<noteq> CHR ''#''" using cc [of c] c by (auto simp: between_def)
  moreover have "printable x" if "x \<in> set k" for x using cc [OF that] by (auto simp: between_def printable_def)
  then have "list_all printable k" by (simp add: list_all_iff)
  ultimately have "metadata_items (map (\<lambda>(k, v). k @ ''='' @ v) (e # items)) d = metadata_items (map (\<lambda>(k, v). k @ ''='' @ v) items) (d @ [(k, v)])"
    using k partition_at_append [of "CHR ''=''" k v] by (simp add: e c printable_def)
  also have "\<dots> = Inr ((d @ [(k, v)]) @ items)" using Cons.prems by (intro Cons.IH) (auto simp: e)
  finally show ?case by (simp add: e)
qed simp

lemma sample_baseline:
  assumes "version \<in> {''0.6'', ''1.0''}"
  shows "splitlines (sample_image_env version) = map (\<lambda>(k, v). k @ ''='' @ v) (sample_items version)"
    and "metadata_values (sample_image_env version) = Inr (sample_items version)"
    and "parse_baseline (sample_image_env version) = Inr sample_identity" and "length (sample_image_env version) \<le> 8192"
proof -
  have ok: "list_all (\<lambda>(k, v). env_key k \<and> list_all printable v) (sample_items version)"
    using assms by (auto simp: sample_items_def env_key_def between_def) (simp_all add: printable_def list_all_iff)
  have ascii: "list_all (\<lambda>c. (of_char c :: nat) < 128) (sample_image_env version)"
    using assms by (auto simp: sample_image_env_def sample_items_def list_all_iff)
  have br: "\<forall>l\<in>set (map (\<lambda>(k, v). k @ ''='' @ v) (sample_items version)). \<forall>c\<in>set l. \<not> is_linebreak c"
    using assms by (auto simp: sample_items_def is_linebreak_def)
  have d: "distinct (map fst ([] @ sample_items version))" by (simp add: sample_items_def)
  show lines: "splitlines (sample_image_env version) = map (\<lambda>(k, v). k @ ''='' @ v) (sample_items version)"
    unfolding sample_image_env_def by (rule splitlines_unlines [OF br])
  show vals: "metadata_values (sample_image_env version) = Inr (sample_items version)"
    using metadata_items_read [OF ok d] ascii by (simp add: metadata_values_def ascii_text_def lines)
  show "length (sample_image_env version) \<le> 8192" using assms by (auto simp: sample_image_env_def sample_items_def)
  have hex: "hex_of_length 64 (replicate 64 CHR ''a'')" "hex_of_length 64 (replicate 64 CHR ''b'')"
    by (simp_all add: hex_of_length_def list_all_iff is_lower_hex_def between_def)
  define i where "i = sample_identity"
  have g: "good_identity i"
    using hex by (simp add: good_identity_def i_def sample_identity_def is_digest_def is_release_def is_alnum_def is_digit_def between_def)
  have ref: "pinned_ref (''docker.io/e@sha256:'' @ replicate 64 CHR ''a'') = Some (''sha256:'' @ replicate 64 CHR ''a'')"
    using hex by (simp add: pinned_ref_def Let_def is_digest_def name_char_def between_def)
  have seq: "floor_text ''7'' = Inr 7"
    by (simp add: floor_text_def ascii_text_def without_newline_def endswith_def is_digit_def between_def undec_def digit_value_def positive_def)
  have f: "text_field (\<lambda>s. s \<in> {''dev'', ''stable''}) (JStr (u (i_channel i))) = Some (i_channel i)"
    "text_field is_digest (JStr (u (i_digest i))) = Some (i_digest i)"
    "text_field (hex_of_length 64) (JStr (u (i_image i))) = Some (i_image i)"
    "text_field is_release (JStr (u (i_release i))) = Some (i_release i)"
    using identity_fields [OF g] by auto
  have "identity_of (JObj [(u ''channel'', JStr (u (i_channel i))), (u ''sequence'', JInt (i_sequence i)),
      (u ''release'', JStr (u (i_release i))), (u ''digest'', JStr (u (i_digest i))), (u ''image_id'', JStr (u (i_image i)))]) = Inr i"
    using g f by (simp add: identity_of_def field_def positive_def good_identity_def)
  moreover have look: "map_of (sample_items version) ''EPILYKOS_IMAGE_REF'' = Some (''docker.io/e@sha256:'' @ replicate 64 CHR ''a'')"
    "map_of (sample_items version) ''EPILYKOS_SEQUENCE'' = Some ''7''" "map_of (sample_items version) ''EPILYKOS_CHANNEL'' = Some (i_channel i)"
    "map_of (sample_items version) ''EPILYKOS_RELEASE'' = Some (i_release i)" "map_of (sample_items version) ''EPILYKOS_IMAGE_ID'' = Some (i_image i)"
    by (simp_all add: sample_items_def i_def sample_identity_def)
  moreover have "i_digest i = ''sha256:'' @ replicate 64 CHR ''a''" "i_sequence i = 7" by (simp_all add: i_def sample_identity_def)
  ultimately show "parse_baseline (sample_image_env version) = Inr sample_identity"
    unfolding parse_baseline_def vals rbind_simps Let_def look option.case ref seq json_text_def by (simp add: i_def)
qed

lemma sample_collected: "\<exists>s. collect_source loads sample_source True = Inr s"
proof -
  have "(''0.6'' :: string) \<in> {''0.6'', ''1.0''}" by simp
  note b = sample_baseline(2-4) [OF this]
  have v: "map_of (sample_items ''0.6'') ''EPILYKOS_OS_VERSION'' = Some ''0.6''" by (simp add: sample_items_def)
  have "read_state (Regular (sample_image_env ''0.6'')) 8192 = Inr (sample_image_env ''0.6'')" using b(3) by (simp add: read_state_def)
  moreover have "legacy_version ''0.6''" by (simp add: legacy_version_def between_def)
  ultimately show ?thesis
    by (simp add: collect_source_def sample_source_def b(1,2) v present_def collect_app_def)
qed

theorem adoption_keeps_floor_witness:
  "\<exists>s p. collect_source (\<lambda>_. None) sample_source True = Inr s \<and>
     adoption_plan (source_json s) (identity_json (so_app s)) = Inr p"
proof -
  obtain s where s: "collect_source (\<lambda>_. None) sample_source True = Inr s" using sample_collected by blast
  from adoption_keeps_floor [OF s] s show ?thesis by blast
qed

end
