(* ===== verification/Epk_Slot.thy ===== *)
theory Epk_Slot
  imports Epk_Card Epk_Adopt
begin

text \<open>
  The Linux of a slot, \<open>tools/slot_linux.py\<close>: the checks of its kernel, device tree and modules, the manifest that names
  them, staging it into a root file system and checking a staged one.  A root file system is the list of its nodes by
  path; how the links among its directories lead is the argument \<open>links\<close>.  The theorem shows that what was staged
  is accepted as staged.
\<close>

section \<open>Bytes\<close>

definition le16 :: "string \<Rightarrow> nat \<Rightarrow> nat" where
  "le16 s i = byte_at s i + 256 * byte_at s (i + 1)"

definition le64 :: "string \<Rightarrow> nat \<Rightarrow> nat" where
  "le64 s i = le32 s i + 4294967296 * le32 s (i + 4)"

text \<open>\<open>s.find(0, start, end)\<close>.\<close>

definition find_nul :: "string \<Rightarrow> nat \<Rightarrow> nat \<Rightarrow> nat option" where
  "find_nul s start stop =
     (let t = take (stop - start) (drop start s); n = length (takeWhile (\<lambda>c. c \<noteq> CHR 0x00) t)
      in if n < length t then Some (start + n) else None)"

fun has_bytes :: "string \<Rightarrow> string \<Rightarrow> bool" where
  "has_bytes t [] = (t = [])"
| "has_bytes t (c # cs) = (startswith (c # cs) t \<or> has_bytes t cs)"

definition bytes_from :: "string \<Rightarrow> nat \<Rightarrow> nat \<Rightarrow> string" where
  "bytes_from s start n = take n (drop start s)"

section \<open>The kernel and the device tree\<close>

definition check_image :: "string \<Rightarrow> string \<Rightarrow> unit result" where
  "check_image raw release =
     (if length raw < 64 \<or> bytes_from raw 56 4 \<noteq> ''ARM'' @ [CHR 0x64] \<or> \<not> has_bytes (''Linux version '' @ release @ '' '') raw
      then Inl (ValueError ''Image is not the expected uncompressed AArch64 kernel release'') else Inr ())"

lemma find_nul_bounds: "find_nul s start stop = Some i \<Longrightarrow> start \<le> i \<and> i < stop"
  by (auto simp: find_nul_def Let_def split: if_splits)

text \<open>The tokens from \<open>offset\<close> to \<open>stop\<close>: the strings of \<open>compatible\<close> of the root, and whether the tree was terminated there.\<close>

function dtb_tokens :: "string \<Rightarrow> string \<Rightarrow> nat \<Rightarrow> nat \<Rightarrow> nat \<Rightarrow> nat \<Rightarrow> string list option \<Rightarrow> (string list option \<times> bool) result" where
  "dtb_tokens raw names stop offset depth roots compatible =
     (if stop < offset + 4 then Inr (compatible, False)
      else let token = be32 raw offset; p = offset + 4
        in if token = 1 then
             (if depth = 0 \<and> roots + 1 \<noteq> 1 then Inl (ValueError ''multiple DTB roots'')
              else case find_nul raw p stop of
                  None \<Rightarrow> Inl (ValueError ''invalid DTB node'')
                | Some nul \<Rightarrow>
                  if depth = 0 \<and> bytes_from raw p (nul - p) \<noteq> [] then Inl (ValueError ''invalid DTB node'')
                  else dtb_tokens raw names stop ((nul + 4) div 4 * 4) (depth + 1) (if depth = 0 then roots + 1 else roots) compatible)
           else if token = 2 then
             (if depth = 0 then Inl (ValueError ''invalid DTB nesting'') else dtb_tokens raw names stop p (depth - 1) roots compatible)
           else if token = 3 then
             (if depth < 1 \<or> stop < p + 8 then Inl (ValueError ''invalid DTB property'')
              else let n = be32 raw p; name = be32 raw (p + 4); v = p + 8
                in case find_nul names name (length names) of
                    None \<Rightarrow> Inl (ValueError ''invalid DTB property bounds'')
                  | Some nul \<Rightarrow>
                    if length names \<le> name \<or> stop < v + n then Inl (ValueError ''invalid DTB property bounds'')
                    else if depth = 1 \<and> bytes_from names name (nul - name) = ''compatible'' then
                      (if compatible \<noteq> None then Inl (ValueError ''duplicate DTB compatible'')
                       else dtb_tokens raw names stop ((v + n + 3) div 4 * 4) depth roots (Some (split_on CHR 0x00 (bytes_from raw v n))))
                    else dtb_tokens raw names stop ((v + n + 3) div 4 * 4) depth roots compatible)
           else if token = 4 then dtb_tokens raw names stop p depth roots compatible
           else if token = 9 then Inr (compatible, depth = 0 \<and> p = stop)
           else Inl (ValueError ''invalid DTB token''))"
  by pat_completeness auto
termination
  by (relation "measure (\<lambda>(raw, names, stop, offset, depth, roots, compatible). stop - offset)")
    (auto dest!: find_nul_bounds)

declare dtb_tokens.simps [simp del]

definition check_dtb :: "string \<Rightarrow> unit result" where
  "check_dtb raw =
     (if length raw < 56 then Inl (ValueError ''truncated DTB'')
      else let magic = be32 raw 0; total = be32 raw 4; offset = be32 raw 8; strings = be32 raw 12; reserve = be32 raw 16;
               version = be32 raw 20; last_version = be32 raw 24; strings_size = be32 raw 32; structure_size = be32 raw 36
        in if magic \<noteq> 0xd00dfeed \<or> total \<noteq> length raw \<or> version \<noteq> 17 \<or> 17 < last_version \<or>
              offset < 40 \<or> offset mod 4 \<noteq> 0 \<or> reserve < 40 \<or> total < reserve + 16 \<or>
              strings < 40 \<or> total < strings + strings_size \<or> total < offset + structure_size
           then Inl (ValueError ''invalid DTB header'')
           else rbind (dtb_tokens raw (bytes_from raw strings strings_size) (offset + structure_size) offset 0 0 None) (\<lambda>(compatible, terminated).
             case compatible of
               None \<Rightarrow> Inl (ValueError ''DTB is not a complete Pi3 Model B tree'')
             | Some names \<Rightarrow>
               if \<not> terminated \<or> ''raspberrypi,3-model-b'' \<notin> set names \<or> ''brcm,bcm2837'' \<notin> set names
               then Inl (ValueError ''DTB is not a complete Pi3 Model B tree'') else Inr ()))"

section \<open>A module\<close>

definition elf_head :: string where
  "elf_head = [CHR 0x7F, CHR ''E'', CHR ''L'', CHR ''F'', CHR 0x02, CHR 0x01, CHR 0x01]"

definition section_data :: "string \<Rightarrow> nat \<Rightarrow> string result" where
  "section_data raw hdr =
     (let start = le64 raw (hdr + 24); n = le64 raw (hdr + 32)
      in if length raw < start + n then Inl (ValueError ''module section outside file'') else Inr (bytes_from raw start n))"

text \<open>The contents of the sections called \<open>.modinfo\<close> among those whose headers are at these offsets.\<close>

fun modinfo_sections :: "string \<Rightarrow> string \<Rightarrow> nat list \<Rightarrow> string list result" where
  "modinfo_sections raw names [] = Inr []"
| "modinfo_sections raw names (hdr # hdrs) =
     (let name = le32 raw hdr
      in case find_nul names name (length names) of
          None \<Rightarrow> Inl (ValueError ''module section name'')
        | Some nul \<Rightarrow>
          if length names \<le> name then Inl (ValueError ''module section name'')
          else if bytes_from names name (nul - name) = ''.modinfo''
          then rbind (section_data raw hdr) (\<lambda>d. rbind (modinfo_sections raw names hdrs) (\<lambda>ds. Inr (d # ds)))
          else modinfo_sections raw names hdrs)"

definition check_module :: "string \<Rightarrow> string \<Rightarrow> unit result" where
  "check_module raw release =
     (if length raw < 64 \<or> bytes_from raw 0 7 \<noteq> elf_head \<or> le16 raw 16 \<noteq> 1 \<or> le16 raw 18 \<noteq> 183
      then Inl (ValueError ''module must be AArch64 ELF64 ET_REL'')
      else let offset = le64 raw 40; entry_size = le16 raw 58; count = le16 raw 60; strings_index = le16 raw 62
        in if entry_size \<noteq> 64 \<or> \<not> (1 \<le> count \<and> count \<le> 4096) \<or> count \<le> strings_index \<or> length raw < offset + count * 64
           then Inl (ValueError ''module ELF section bounds'')
           else rbind (section_data raw (offset + strings_index * 64)) (\<lambda>names.
             rbind (modinfo_sections raw names (map (\<lambda>i. offset + i * 64) [0..<count])) (\<lambda>info.
             case info of
               [d] \<Rightarrow>
                 if \<not> endswith d [CHR 0x00] then Inl (ValueError ''module .modinfo missing/ambiguous'')
                 else (case map (drop 9) (filter (\<lambda>v. startswith v ''vermagic='') (split_on CHR 0x00 d)) of
                     [v] \<Rightarrow> if startswith v (release @ '' '') then Inr () else Inl (ValueError ''module vermagic does not match slot kernel'')
                   | _ \<Rightarrow> Inl (ValueError ''module vermagic does not match slot kernel''))
             | _ \<Rightarrow> Inl (ValueError ''module .modinfo missing/ambiguous''))))"

section \<open>The tree of a root file system\<close>

datatype tree_node = TFile string | TDir | TLink | TOther

type_synonym tree = "(string \<times> tree_node) list"

text \<open>
  Paths are relative to the root.  \<open>place\<close> follows the links among the directories of a path, \<open>target\<close> those at its end as well;
  None says that this leaves the root.  The links lead to what exists.
\<close>

record links =
  place :: "string \<Rightarrow> string"
  target :: "string \<Rightarrow> string option"

definition put :: "string \<Rightarrow> tree_node \<Rightarrow> tree \<Rightarrow> tree" where
  "put k n t = (k, n) # filter (\<lambda>e. fst e \<noteq> k) t"

definition slot_child :: "links \<Rightarrow> string \<Rightarrow> string result" where
  "slot_child lk p = (case target lk p of None \<Rightarrow> Inl (ValueError ''slot path escapes root'') | Some _ \<Rightarrow> Inr (place lk p))"

definition regular_node :: "tree_node option \<Rightarrow> nat \<Rightarrow> string result" where
  "regular_node n maximum = (case n of Some (TFile raw) \<Rightarrow> read_bounded raw maximum | _ \<Rightarrow> Inl (ValueError ''missing/non-regular slot input''))"

text \<open>\<open>regular(child(root, p), maximum)\<close>.\<close>

definition regular_child :: "links \<Rightarrow> tree \<Rightarrow> string \<Rightarrow> nat \<Rightarrow> string result" where
  "regular_child lk t p maximum = rbind (slot_child lk p) (\<lambda>q. regular_node (map_of t q) maximum)"

text \<open>What is below a directory, by its path from there, and the names in it.\<close>

definition below_dir :: "string \<Rightarrow> tree \<Rightarrow> tree" where
  "below_dir d t = map (\<lambda>(k, n). (drop (length d + 1) k, n)) (filter (\<lambda>e. startswith (fst e) (d @ ''/'')) t)"

definition names_in :: "string \<Rightarrow> tree \<Rightarrow> string list" where
  "names_in d t = filter (\<lambda>k. CHR ''/'' \<notin> set k) (map fst (below_dir d t))"

text \<open>The order of paths: by their parts.\<close>

fun parts_le :: "string list \<Rightarrow> string list \<Rightarrow> bool" where
  "parts_le [] qs = True"
| "parts_le (p # ps) [] = False"
| "parts_le (p # ps) (q # qs) = (if p = q then parts_le ps qs else text_le p q)"

fun insert_path :: "string \<times> tree_node \<Rightarrow> tree \<Rightarrow> tree" where
  "insert_path e [] = [e]"
| "insert_path e (e' # t) =
     (if parts_le (split_on CHR ''/'' (fst e)) (split_on CHR ''/'' (fst e')) then e # e' # t else e' # insert_path e t)"

definition walk :: "string \<Rightarrow> tree \<Rightarrow> tree" where
  "walk d t = foldr insert_path (below_dir d t) []"

section \<open>The identity of a slot\<close>

definition BOOT :: string where "BOOT = ''usr/lib/epilykos/boot''"
definition PLATFORM :: string where "PLATFORM = ''usr/lib/epilykos/platform.json''"
definition DTB :: string where "DTB = ''bcm2837-rpi-3-b.dtb''"
definition IMAGE_MAX :: nat where "IMAGE_MAX = 67108864"

definition kernel_char :: "char \<Rightarrow> bool" where
  "kernel_char c \<longleftrightarrow> is_alnum c \<or> c \<in> {CHR ''.'', CHR ''_'', CHR ''+'', CHR ''-''}"

definition module_path :: "string \<Rightarrow> bool" where
  "module_path p \<longleftrightarrow> 1 \<le> length p \<and> length p \<le> 512 \<and> list_all (\<lambda>c. kernel_char c \<or> c = CHR ''/'') p"

definition file_name :: "string \<Rightarrow> string" where
  "file_name p = last (split_on CHR ''/'' p)"

text \<open>One file of the module tree; whether it is a module.\<close>

definition module_file :: "string \<Rightarrow> string \<Rightarrow> string \<Rightarrow> nat \<Rightarrow> nat result" where
  "module_file release p raw seen =
     (if \<not> module_path p \<or> 32768 \<le> seen then Inl (ValueError ''module tree entry budget/name'')
      else if endswith (file_name p) ''.ko'' \<and> 3 < length (file_name p) then rbind (check_module raw release) (\<lambda>_. Inr 1)
      else if list_ex (endswith (file_name p)) [''.ko.gz'', ''.ko.xz'', ''.ko.zst'']
      then Inl (ValueError ''compressed modules require an explicit supported profile'') else Inr 0)"

fun module_entries :: "crypto \<Rightarrow> string \<Rightarrow> tree \<Rightarrow> (string \<times> string) list \<Rightarrow> nat \<Rightarrow> ((string \<times> string) list \<times> nat) result" where
  "module_entries c release [] entries n = Inr (entries, n)"
| "module_entries c release ((p, x) # items) entries n =
     (if x = TLink then Inl (ValueError ''module tree has_bytes a symlink'')
      else if x = TDir then module_entries c release items entries n
      else rbind (regular_node (Some x) IMAGE_MAX) (\<lambda>raw.
        rbind (module_file release p raw (length entries)) (\<lambda>k.
          module_entries c release items (entries @ [(p, sha256 c raw)]) (n + k))))"

record module_id =
  mo_directory :: string
  mo_tree :: string
  mo_count :: nat
  mo_files :: nat

definition entries_json :: "(string \<times> string) list \<Rightarrow> json" where
  "entries_json es = JArr (map (\<lambda>(p, d). JObj [(u ''path'', JStr (u p)), (u ''sha256'', JStr (u d))]) es)"

definition module_identity :: "crypto \<Rightarrow> links \<Rightarrow> tree \<Rightarrow> string \<Rightarrow> module_id result" where
  "module_identity c lk t release = (case target lk ''lib/modules'' of
       None \<Rightarrow> Inl (ValueError ''slot path escapes root'')
     | Some directory \<Rightarrow>
       if map_of t directory \<noteq> Some TDir \<or> names_in directory t \<noteq> [release]
       then Inl (ValueError ''missing or stale module release directories'')
       else (case target lk (''lib/modules/'' @ release) of
           None \<Rightarrow> Inl (ValueError ''slot path escapes root'')
         | Some path \<Rightarrow>
           rbind (module_entries c release (walk path t) [] 0) (\<lambda>(entries, n).
             if n = 0 then Inl (ValueError ''slot has no verifiable loadable modules'')
             else Inr \<lparr>mo_directory = path, mo_tree = sha256 c (canonical (entries_json entries)), mo_count = n, mo_files = length entries\<rparr>)))"

text \<open>The last of two lines with one name counts.\<close>

definition env_lines :: "string \<Rightarrow> (string \<times> string) list" where
  "env_lines raw = List.map_filter (\<lambda>l. if startswith l ''#'' then None else partition_at CHR ''='' l) (rev (splitlines raw))"

definition manifest_json :: "crypto \<Rightarrow> string \<Rightarrow> string \<Rightarrow> string \<Rightarrow> json \<Rightarrow> string \<Rightarrow> module_id \<Rightarrow> json" where
  "manifest_json c release img dtb plat base_raw mods = JObj
     [(u ''dtb_bytes'', JInt (int (length dtb))), (u ''dtb_sha256'', JStr (u (sha256 c dtb))),
      (u ''image_bytes'', JInt (int (length img))), (u ''image_env_sha256'', JStr (u (sha256 c base_raw))),
      (u ''image_sha256'', JStr (u (sha256 c img))), (u ''kernel'', JStr (u release)),
      (u ''module_count'', JInt (int (mo_count mods))), (u ''module_directory'', JStr (u (mo_directory mods))),
      (u ''module_file_count'', JInt (int (mo_files mods))), (u ''modules_tree_sha256'', JStr (u (mo_tree mods))),
      (u ''platform_sha256'', JStr (u (sha256 c (canonical plat)))), (u ''schema'', JInt 1)]"

definition inventory :: "crypto \<Rightarrow> links \<Rightarrow> tree \<Rightarrow> string \<Rightarrow> string \<Rightarrow> json \<Rightarrow> json result" where
  "inventory c lk t img dtb plat =
     rbind (validate_platform plat) (\<lambda>pf.
     let release = f_kernel pf
     in if \<not> (1 \<le> length release \<and> length release \<le> 128 \<and> list_all kernel_char release) then Inl (ValueError ''invalid kernel release'')
        else
        rbind (regular_child lk t ''usr/lib/epilykos/image.env'' 8192) (\<lambda>base_raw.
        rbind (parse_baseline base_raw) (\<lambda>base.
        if i_channel base \<noteq> f_channel pf \<or> i_release base \<noteq> f_app_release pf \<or>
           map_of (env_lines base_raw) ''EPILYKOS_OS_VERSION'' \<noteq> Some (f_os_version pf)
        then Inl (ValueError ''platform/app baseline identity mismatch'')
        else
        rbind (check_image img release) (\<lambda>_.
        rbind (check_dtb dtb) (\<lambda>_.
        rbind (module_identity c lk t release) (\<lambda>mods.
          Inr (manifest_json c release img dtb plat base_raw mods)))))))"

section \<open>Staging and checking\<close>

definition ancestors :: "string \<Rightarrow> string list" where
  "ancestors p = (let ps = split_on CHR ''/'' p in map (\<lambda>i. join_with CHR ''/'' (take i ps)) [1..<length ps + 1])"

fun make_dirs :: "string list \<Rightarrow> (tree, unit) act" where
  "make_dirs [] t = (Inr (), t)"
| "make_dirs (d # ds) t = (case map_of t d of
       None \<Rightarrow> make_dirs ds (put d TDir t)
     | Some n \<Rightarrow> if n = TDir then make_dirs ds t else (Inl (OSError ''File exists''), t))"

text \<open>A file is replaced through a new one beside it, which stays behind when that fails.\<close>

definition replace_file :: "string \<Rightarrow> string \<Rightarrow> (tree, unit) act" where
  "replace_file p raw = (\<lambda>t.
     let parent = join_with CHR ''/'' (butlast (split_on CHR ''/'' p)); temporary = p @ ''.new''
     in if map_of t p = Some TLink then (Inl (ValueError ''refusing slot artifact symlink''), t)
        else if map_of t parent \<noteq> Some TDir then (Inl (OSError ''No such file or directory''), t)
        else if map_of t temporary \<noteq> None then (Inl (OSError ''File exists''), t)
        else if map_of t p = Some TDir then (Inl (OSError ''Is a directory''), put temporary (TFile raw) t)
        else (Inr (), put p (TFile raw) t))"

fun replace_files :: "links \<Rightarrow> (string \<times> string) list \<Rightarrow> (tree, unit) act" where
  "replace_files lk [] = ret ()"
| "replace_files lk ((p, raw) # fs) = bind (lift (slot_child lk p)) (\<lambda>q. andthen (replace_file q raw) (replace_files lk fs))"

definition put_slot :: "links \<Rightarrow> string \<Rightarrow> string \<Rightarrow> json \<Rightarrow> json \<Rightarrow> (tree, unit) act" where
  "put_slot lk img dtb manifest plat =
     andthen (case target lk BOOT of None \<Rightarrow> raise (ValueError ''slot path escapes root'') | Some boot \<Rightarrow> make_dirs (ancestors boot))
       (replace_files lk [(BOOT @ ''/Image'', img), (BOOT @ ''/'' @ DTB, dtb), (BOOT @ ''/manifest.json'', canonical manifest),
         (PLATFORM, canonical plat)])"

definition stage :: "crypto \<Rightarrow> links \<Rightarrow> tree_node option \<Rightarrow> tree_node option \<Rightarrow> json \<Rightarrow> (tree, json) act" where
  "stage c lk image_node dtb_node plat =
     bind (lift (regular_node image_node IMAGE_MAX)) (\<lambda>img.
     bind (lift (regular_node dtb_node 1048576)) (\<lambda>dtb.
     bind get_state (\<lambda>t.
     bind (lift (inventory c lk t img dtb plat)) (\<lambda>manifest.
     andthen (put_slot lk img dtb manifest plat) (ret manifest)))))"

text \<open>The comparison of two objects of numbers and texts in Python, where \<open>True\<close> equals 1; the manifest read has no key twice.\<close>

definition same_value :: "json \<Rightarrow> json \<Rightarrow> bool" where
  "same_value v w \<longleftrightarrow> v = w \<or> v = JInt 1 \<and> w = JBool True \<or> v = JInt 0 \<and> w = JBool False"

definition same_object :: "json \<Rightarrow> json \<Rightarrow> bool" where
  "same_object v w = (case (v, w) of
       (JObj ms, JObj ms') \<Rightarrow> length ms = length ms' \<and>
         list_all (\<lambda>(k, x). case map_of ms' k of None \<Rightarrow> False | Some y \<Rightarrow> same_value x y) ms
     | _ \<Rightarrow> False)"

definition verify_tree :: "crypto \<Rightarrow> links \<Rightarrow> tree \<Rightarrow> json result" where
  "verify_tree c lk t =
     rbind (rbind (regular_child lk t PLATFORM 4096) (\<lambda>raw. strict_json raw 4096)) (\<lambda>plat.
     rbind (rbind (regular_child lk t (BOOT @ ''/manifest.json'') 4096) (\<lambda>raw. strict_json raw 4096)) (\<lambda>expected.
     rbind (regular_child lk t (BOOT @ ''/Image'') IMAGE_MAX) (\<lambda>img.
     rbind (regular_child lk t (BOOT @ ''/'' @ DTB) 1048576) (\<lambda>dtb.
     rbind (inventory c lk t img dtb plat) (\<lambda>actual.
     if \<not> same_object actual expected then Inl (ValueError ''staged slot identity/content changed'') else Inr actual)))))"

section \<open>What staging changes\<close>

text \<open>Two trees differ at most at the paths \<open>ks\<close>.\<close>

definition same_but :: "string set \<Rightarrow> tree \<Rightarrow> tree \<Rightarrow> bool" where
  "same_but ks t t' \<longleftrightarrow> (\<forall>k. k \<notin> ks \<longrightarrow> map_of t' k = map_of t k) \<and>
     (\<forall>d. (\<forall>k\<in>ks. \<not> startswith k (d @ ''/'')) \<longrightarrow> below_dir d t' = below_dir d t)"

lemma map_of_put [simp]: "map_of (put k n t) = (map_of t)(k \<mapsto> n)"
proof -
  have "map_of (filter (\<lambda>e. fst e \<noteq> k) t) j = map_of t j" if "j \<noteq> k" for j
    using that by (induction t) auto
  then show ?thesis by (auto simp: put_def)
qed

lemma below_put: "\<not> startswith k (d @ ''/'') \<Longrightarrow> below_dir d (put k n t) = below_dir d t"
  by (auto simp: below_dir_def put_def intro!: arg_cong [where f = "map _"] filter_cong)

lemma same_but_refl [intro]: "same_but ks t t"
  by (simp add: same_but_def)

lemma same_but_put: "same_but ks t t' \<Longrightarrow> same_but (insert k ks) t (put k n t')"
  by (simp add: same_but_def below_put)

lemma same_but_put1: "same_but {k} t (put k n t)"
  using same_but_put [OF same_but_refl] by blast

lemma same_but_trans: "same_but ks t t' \<Longrightarrow> same_but ks' t' t'' \<Longrightarrow> same_but (ks \<union> ks') t t''"
  by (simp add: same_but_def)

lemma make_dirs_frame: "make_dirs ds t = (Inr (), t') \<Longrightarrow> same_but (set ds) t t'"
proof (induction ds arbitrary: t)
  case (Cons d ds)
  show ?case
  proof (cases "map_of t d")
    case None
    with Cons.prems have "same_but (set ds) (put d TDir t) t'" by (intro Cons.IH) simp
    with same_but_trans [OF same_but_put1] show ?thesis by simp
  next
    case (Some n)
    with Cons.prems have "same_but (set ds) t t'" by (intro Cons.IH) (simp split: if_splits)
    then show ?thesis by (simp add: same_but_def)
  qed
qed auto

lemma replace_file_Inr: "replace_file p raw t = (Inr x, t') \<Longrightarrow> t' = put p (TFile raw) t"
  by (auto simp: replace_file_def Let_def split: if_splits)

lemma replace_files_frame:
  assumes "replace_files lk fs t = (Inr (), t')" and "list_all (\<lambda>(p, raw). place lk p = p) fs" and "distinct (map fst fs)"
  shows "same_but (fst ` set fs) t t' \<and> (\<forall>(p, raw)\<in>set fs. map_of t' p = Some (TFile raw) \<and> slot_child lk p = Inr p)"
  using assms
proof (induction fs arbitrary: t)
  case (Cons f fs)
  obtain q r where f: "f = (q, r)" by (cases f)
  have c: "slot_child lk q = Inr q" and rest: "replace_files lk fs (put q (TFile r) t) = (Inr (), t')"
    using Cons.prems f by (auto simp: act_simps slot_child_def dest!: replace_file_Inr split: prod.splits sum.splits option.splits)
  have ind: "same_but (fst ` set fs) (put q (TFile r) t) t'" and files: "\<forall>(p, raw)\<in>set fs. map_of t' p = Some (TFile raw) \<and> slot_child lk p = Inr p"
    using Cons.IH [OF rest] Cons.prems by (auto simp: f)
  have "q \<notin> fst ` set fs" using Cons.prems by (auto simp: f)
  then have "map_of t' q = Some (TFile r)" using ind by (simp add: same_but_def)
  with files c same_but_trans [OF same_but_put1 ind] show ?case by (auto simp: f)
qed (simp add: act_simps same_but_refl)

lemma read_bounded_Inr: "read_bounded raw n = Inr s \<longleftrightarrow> s = raw \<and> length raw \<le> n"
  by (auto simp: read_bounded_def min_def split: if_splits)

lemma regular_node_Inr: "regular_node n m = Inr s \<longleftrightarrow> n = Some (TFile s) \<and> length s \<le> m"
  by (auto simp: regular_node_def read_bounded_Inr split: option.split tree_node.split)

text \<open>
  The links of a root file system: none in the directories of the host's files, and \<open>/lib\<close> is a directory or leads to \<open>/usr/lib\<close>.
\<close>

definition slot_files :: "string list" where
  "slot_files = [BOOT @ ''/Image'', BOOT @ ''/'' @ DTB, BOOT @ ''/manifest.json'', PLATFORM, ''usr/lib/epilykos/image.env'']"

definition slot_links :: "links \<Rightarrow> string \<Rightarrow> bool" where
  "slot_links lk release \<longleftrightarrow> list_all (\<lambda>p. place lk p = p) slot_files \<and> target lk BOOT = Some BOOT \<and>
     (\<exists>m\<in>{''lib/modules'', ''usr/lib/modules''}. target lk ''lib/modules'' = Some m \<and>
        target lk (''lib/modules/'' @ release) = Some (m @ ''/'' @ release))"

definition staged_paths :: "string list" where
  "staged_paths = ancestors BOOT @ [BOOT @ ''/Image'', BOOT @ ''/'' @ DTB, BOOT @ ''/manifest.json'', PLATFORM]"

lemma startswith_append:
  assumes "startswith s (p @ q)"
  shows "startswith s p"
proof -
  have "s = p @ q @ drop (length (p @ q)) s"
    using assms by (metis append_assoc append_take_drop_id startswith_def)
  then show ?thesis by (metis append_eq_conv_conj startswith_def)
qed

lemma staged_paths_apart:
  "m \<in> {''lib/modules'', ''usr/lib/modules''} \<Longrightarrow> m \<notin> set staged_paths \<and> (\<forall>k\<in>set staged_paths. \<not> startswith k (m @ ''/''))"
  "''usr/lib/epilykos/image.env'' \<notin> set staged_paths"
  by (simp_all add: staged_paths_def ancestors_def BOOT_def PLATFORM_def DTB_def upt_rec) auto

lemma inventory_frame:
  assumes "same_but (set staged_paths) t t'" and "slot_links lk (f_kernel pf)" and "validate_platform plat = Inr pf"
  shows "inventory c lk t' img dtb plat = inventory c lk t img dtb plat"
proof -
  obtain m where m: "m \<in> {''lib/modules'', ''usr/lib/modules''}" and l: "target lk ''lib/modules'' = Some m"
    "target lk (''lib/modules/'' @ f_kernel pf) = Some (m @ ''/'' @ f_kernel pf)"
    using assms(2) unfolding slot_links_def by blast
  note apart = staged_paths_apart(1) [OF m]
  have d: "map_of t' m = map_of t m" "below_dir m t' = below_dir m t" using assms(1) apart unfolding same_but_def by blast+
  have "\<not> startswith k ((m @ ''/'' @ f_kernel pf) @ ''/'')" if "k \<in> set staged_paths" for k
    using that apart startswith_append [of k "m @ ''/''" "f_kernel pf @ ''/''"] by (metis append_assoc)
  then have w: "below_dir (m @ ''/'' @ f_kernel pf) t' = below_dir (m @ ''/'' @ f_kernel pf) t"
    using assms(1) unfolding same_but_def by blast
  have mods: "module_identity c lk t' (f_kernel pf) = module_identity c lk t (f_kernel pf)"
    unfolding module_identity_def l option.case d names_in_def walk_def w by (rule refl)
  have "place lk ''usr/lib/epilykos/image.env'' = ''usr/lib/epilykos/image.env''"
    using assms(2) by (simp add: slot_links_def slot_files_def)
  then have env: "regular_child lk t' ''usr/lib/epilykos/image.env'' 8192 = regular_child lk t ''usr/lib/epilykos/image.env'' 8192"
    using assms(1) staged_paths_apart(2) by (simp add: regular_child_def slot_child_def same_but_def split: option.split)
  show ?thesis unfolding inventory_def assms(3) rbind_simps Let_def mods env by (rule refl)
qed

section \<open>The manifest fits\<close>

definition unescaped_char :: "char \<Rightarrow> bool" where
  "unescaped_char c \<longleftrightarrow> printable c \<and> c \<notin> {CHR 0x22, CHR 0x5C}"

lemma write_plain: "list_all unescaped_char s \<Longrightarrow> length (write_str (u s)) = length s + 2"
proof (induction s)
  case (Cons c s)
  then have "length (write_point (of_char c)) = 1"
    by (cases c) (auto simp: write_point_def unescaped_char_def printable_def)
  with Cons show ?case by (simp add: write_str_def u_def)
qed (simp add: write_str_def u_def)

lemma dec_short: "n < 10 ^ k \<Longrightarrow> 0 < k \<Longrightarrow> length (dec n) \<le> k"
proof (induction k arbitrary: n)
  case (Suc k)
  show ?case
  proof (cases "n < 10")
    case False
    then have "0 < k" using Suc.prems(1) by (cases k) auto
    moreover have "n div 10 < 10 ^ k" using Suc.prems(1) by (simp add: div_less_iff_less_mult)
    ultimately have "length (dec (n div 10)) \<le> k" by (rule Suc.IH [rotated])
    then show ?thesis using False by (simp add: dec.simps [of n])
  qed (simp add: dec.simps)
qed simp

lemma module_entries_bound:
  "module_entries c release items entries n = Inr (es, m) \<Longrightarrow> n \<le> length entries \<Longrightarrow> length entries \<le> 32768 \<Longrightarrow>
    m \<le> length es \<and> length es \<le> 32768"
proof (induction items arbitrary: entries n)
  case (Cons e items)
  obtain p x where e: "e = (p, x)" by (cases e)
  show ?case
  proof (cases "x = TDir")
    case True
    with Cons show ?thesis by (simp add: e)
  next
    case False
    with Cons.prems(1) obtain raw k where k: "module_file release p raw (length entries) = Inr k"
      and r: "module_entries c release items (entries @ [(p, sha256 c raw)]) (n + k) = Inr (es, m)"
      by (auto simp: e rbind_Inr_iff split: if_splits)
    have "k \<le> 1" "length entries < 32768" using k by (auto simp: module_file_def rbind_Inr_iff split: if_splits)
    with Cons.IH [OF r] Cons.prems(2) show ?thesis by simp
  qed
qed auto

lemma release_plain: "list_all kernel_char s \<Longrightarrow> list_all unescaped_char s"
  by (auto simp: list_all_iff kernel_char_def unescaped_char_def printable_def is_alnum_def is_alpha_def is_digit_def between_def)

lemma digest_plain: "hex_of_length 64 s \<Longrightarrow> list_all unescaped_char s \<and> length s = 64"
  by (auto simp: hex_of_length_def list_all_iff is_lower_hex_def is_digit_def between_def unescaped_char_def printable_def)

lemma manifest_reads:
  assumes "\<And>s. hex_of_length 64 (sha256 c s)" and "list_all kernel_char release" and "length release \<le> 128"
    and "length img \<le> IMAGE_MAX" and "length dtb \<le> 1048576" and "list_all unescaped_char (mo_directory mods)" and "length (mo_directory mods) \<le> 256"
    and "mo_count mods \<le> 32768" and "mo_files mods \<le> 32768" and "hex_of_length 64 (mo_tree mods)"
  shows "strict_json (canonical (manifest_json c release img dtb plat base_raw mods)) 4096 = Inr (manifest_json c release img dtb plat base_raw mods)"
proof (rule strict_json_wf)
  show "wf_json (manifest_json c release img dtb plat base_raw mods)"
    by (simp add: manifest_json_def) (simp add: u_def)
  have h: "length (write_str (u (sha256 c s))) = 66" for s
    using write_plain digest_plain [OF assms(1)] by simp
  have t: "length (write_str (u (mo_tree mods))) = 66"
    using write_plain digest_plain [OF assms(10)] by simp
  have k: "length (write_str (u release)) \<le> 130" "length (write_str (u (mo_directory mods))) \<le> 258"
    using write_plain release_plain assms(2,3,6,7) by simp_all
  have n: "length (write_int (int (length img))) \<le> 8" "length (write_int (int (length dtb))) \<le> 8"
    "length (write_int (int (mo_count mods))) \<le> 8" "length (write_int (int (mo_files mods))) \<le> 8" "length (write_int 1) \<le> 8"
    using assms(4,5,8,9) by (auto simp: write_int_def IMAGE_MAX_def intro!: dec_short)
  have keys: "list_all (\<lambda>k. length (write_str (u k)) \<le> 21) [''dtb_bytes'', ''dtb_sha256'', ''image_bytes'', ''image_env_sha256'', ''image_sha256'',
      ''kernel'', ''module_count'', ''module_directory'', ''module_file_count'', ''modules_tree_sha256'', ''platform_sha256'', ''schema'']"
    by (simp add: write_plain unescaped_char_def printable_def)
  show "length (canonical (manifest_json c release img dtb plat base_raw mods)) \<le> 4096"
    unfolding canonical_def manifest_json_def
    by (rule order_trans [OF write_obj_length]) (use h t k n keys in simp)
qed

section \<open>What was staged is accepted\<close>

lemma stageE:
  assumes "stage c lk image_node dtb_node plat t = (Inr manifest, t'')"
  obtains img dtb boot t' where "image_node = Some (TFile img)" and "length img \<le> IMAGE_MAX" and "dtb_node = Some (TFile dtb)" and "length dtb \<le> 1048576"
    and "inventory c lk t img dtb plat = Inr manifest" and "target lk BOOT = Some boot" and "make_dirs (ancestors boot) t = (Inr (), t')"
    and "replace_files lk [(BOOT @ ''/Image'', img), (BOOT @ ''/'' @ DTB, dtb), (BOOT @ ''/manifest.json'', canonical manifest),
         (PLATFORM, canonical plat)] t' = (Inr (), t'')"
proof -
  from assms obtain img dtb where i: "regular_node image_node IMAGE_MAX = Inr img" "regular_node dtb_node 1048576 = Inr dtb"
    "inventory c lk t img dtb plat = Inr manifest" and w: "put_slot lk img dtb manifest plat t = (Inr (), t'')"
    unfolding stage_def by (auto simp: run_prims andthen_def elim!: bind_InrE)
  from w obtain boot t' where "target lk BOOT = Some boot" "make_dirs (ancestors boot) t = (Inr (), t')"
    "replace_files lk [(BOOT @ ''/Image'', img), (BOOT @ ''/'' @ DTB, dtb), (BOOT @ ''/manifest.json'', canonical manifest),
         (PLATFORM, canonical plat)] t' = (Inr (), t'')"
    unfolding put_slot_def andthen_def by (elim bind_InrE) (auto simp: raise_def split: option.split_asm)
  with i show thesis by (intro that [of img dtb boot t']) (simp_all add: regular_node_Inr)
qed

lemma inventory_Inr:
  assumes "inventory c lk t img dtb plat = Inr manifest" and "validate_platform plat = Inr pf"
  obtains base_raw mods where "list_all kernel_char (f_kernel pf)" and "length (f_kernel pf) \<le> 128"
    and "module_identity c lk t (f_kernel pf) = Inr mods" and "manifest = manifest_json c (f_kernel pf) img dtb plat base_raw mods"
  using assms by (auto simp: inventory_def rbind_Inr_iff Let_def)

lemma module_identity_Inr:
  assumes "module_identity c lk t release = Inr mods"
  shows "target lk (''lib/modules/'' @ release) = Some (mo_directory mods)" and "mo_count mods \<le> 32768" and "mo_files mods \<le> 32768"
    and "\<exists>s. mo_tree mods = sha256 c s"
proof -
  from assms obtain es where e: "module_entries c release (walk (mo_directory mods) t) [] 0 = Inr (es, mo_count mods)"
    and p: "target lk (''lib/modules/'' @ release) = Some (mo_directory mods)" "mo_files mods = length es"
    "mo_tree mods = sha256 c (canonical (entries_json es))"
    unfolding module_identity_def by (fastforce simp: rbind_Inr_iff split: option.split_asm if_split_asm)
  show "target lk (''lib/modules/'' @ release) = Some (mo_directory mods)" by (rule p)
  show "mo_count mods \<le> 32768" "mo_files mods \<le> 32768" using module_entries_bound [OF e] p by simp_all
  show "\<exists>s. mo_tree mods = sha256 c s" using p by blast
qed

lemma same_object_refl:
  assumes "distinct (map fst ms)"
  shows "same_object (JObj ms) (JObj ms)"
proof -
  have "map_of ms k = Some v" if "(k, v) \<in> set ms" for k v using assms that by simp
  then show ?thesis by (auto simp: same_object_def same_value_def list_all_iff)
qed

text \<open>
  C39. What \<open>stage\<close> puts into a root file system is what \<open>verify_tree\<close> accepts there: the staged kernel, device tree,
  modules, platform and app baseline read back with the manifest that was staged.  The digests are 64 hexadecimal
  digits, and the links of the file system are those of a root with or without a merged \<open>/usr\<close>.
\<close>

theorem stage_verifies:
  assumes "stage c lk image_node dtb_node plat t = (Inr manifest, t'')" and "strict_json raw 4096 = Inr plat"
    and "validate_platform plat = Inr pf" and "slot_links lk (f_kernel pf)" and "\<forall>s. hex_of_length 64 (sha256 c s)"
  shows "verify_tree c lk t'' = Inr manifest"
  using assms(1)
proof (rule stageE)
  fix img dtb boot t'
  assume sizes: "length img \<le> IMAGE_MAX" "length dtb \<le> 1048576" and inv: "inventory c lk t img dtb plat = Inr manifest"
    and boot: "target lk BOOT = Some boot" and dirs: "make_dirs (ancestors boot) t = (Inr (), t')"
    and files: "replace_files lk [(BOOT @ ''/Image'', img), (BOOT @ ''/'' @ DTB, dtb), (BOOT @ ''/manifest.json'', canonical manifest),
         (PLATFORM, canonical plat)] t' = (Inr (), t'')"
  let ?fs = "[(BOOT @ ''/Image'', img), (BOOT @ ''/'' @ DTB, dtb), (BOOT @ ''/manifest.json'', canonical manifest), (PLATFORM, canonical plat)]"
  have places: "list_all (\<lambda>(p, raw). place lk p = p) ?fs" using assms(4) by (simp add: slot_links_def slot_files_def)
  have apart: "distinct (map fst ?fs)" by (simp add: BOOT_def DTB_def PLATFORM_def)
  note put = replace_files_frame [OF files places apart]
  have "boot = BOOT" using boot assms(4) by (simp add: slot_links_def)
  then have "same_but (set (ancestors BOOT) \<union> fst ` set ?fs) t t''"
    using same_but_trans [OF make_dirs_frame [OF dirs] conjunct1 [OF put]] by simp
  moreover have "set (ancestors BOOT) \<union> fst ` set ?fs = set staged_paths" by (simp add: staged_paths_def)
  ultimately have frame: "same_but (set staged_paths) t t''" by metis
  have again: "inventory c lk t'' img dtb plat = Inr manifest"
    using inventory_frame [OF frame assms(4,3)] inv by simp
  obtain base_raw mods where rel: "list_all kernel_char (f_kernel pf)" "length (f_kernel pf) \<le> 128"
    and mods: "module_identity c lk t (f_kernel pf) = Inr mods" and m: "manifest = manifest_json c (f_kernel pf) img dtb plat base_raw mods"
    using inv assms(3) by (rule inventory_Inr)
  note mi = module_identity_Inr [OF mods]
  obtain d where d: "d \<in> {''lib/modules'', ''usr/lib/modules''}" and l: "target lk (''lib/modules/'' @ f_kernel pf) = Some (d @ ''/'' @ f_kernel pf)"
    using assms(4) unfolding slot_links_def by blast
  then have d2: "mo_directory mods = d @ ''/'' @ f_kernel pf" using mi(1) by (metis option.inject)
  have "list_all unescaped_char (mo_directory mods)" "length (mo_directory mods) \<le> 256"
    using d d2 rel release_plain by (auto simp: unescaped_char_def printable_def)
  then have reads: "strict_json (canonical manifest) 4096 = Inr manifest"
    unfolding m using assms(5) rel sizes mi(2-4) by (intro manifest_reads) auto
  have plat: "strict_json (canonical plat) 4096 = Inr plat" using strict_json_Inr(1) [OF assms(2)] assms(2) by simp
  have "same_object manifest manifest"
    unfolding m manifest_json_def by (rule same_object_refl) simp
  moreover have "regular_child lk t'' PLATFORM 4096 = Inr (canonical plat)" "regular_child lk t'' (BOOT @ ''/manifest.json'') 4096 = Inr (canonical manifest)"
    "regular_child lk t'' (BOOT @ ''/Image'') IMAGE_MAX = Inr img" "regular_child lk t'' (BOOT @ ''/'' @ DTB) 1048576 = Inr dtb"
    using put sizes strict_json_Inr(3) [OF plat] strict_json_Inr(3) [OF reads] by (simp_all add: regular_child_def regular_node_Inr)
  ultimately show ?thesis
    by (simp add: verify_tree_def plat reads again)
qed

section \<open>A slot\<close>

definition sample_kernel :: string where
  "sample_kernel = replicate 56 CHR 0x00 @ ''ARMd'' @ replicate 4 CHR 0x00 @ ''Linux version 6.6 x''"

definition sample_dtb :: string where
  "sample_dtb = [CHR 0xD0] @ [CHR 0x0D] @ [CHR 0xFE] @ [CHR 0xED] @ [CHR 0x00, CHR 0x00, CHR 0x00] @ [CHR 0x83] @ 
     [CHR 0x00, CHR 0x00, CHR 0x00] @ ''8'' @ [CHR 0x00, CHR 0x00, CHR 0x00] @ ''x'' @ [CHR 0x00, CHR 0x00, CHR 0x00] @ ''('' @ 
     [CHR 0x00, CHR 0x00, CHR 0x00] @ [CHR 0x11] @ [CHR 0x00, CHR 0x00, CHR 0x00] @ [CHR 0x10] @ replicate 7 CHR 0x00 @ [CHR 0x0B] @ 
     [CHR 0x00, CHR 0x00, CHR 0x00] @ ''@'' @ replicate 19 CHR 0x00 @ [CHR 0x01] @ replicate 7 CHR 0x00 @ [CHR 0x03] @ 
     [CHR 0x00, CHR 0x00, CHR 0x00] @ ''#'' @ replicate 4 CHR 0x00 @ ''raspberrypi,3-model-b'' @ [CHR 0x00] @ ''brcm,bcm2837'' @ 
     replicate 5 CHR 0x00 @ [CHR 0x02] @ [CHR 0x00, CHR 0x00, CHR 0x00] @ [CHR 0x09] @ ''compatible'' @ [CHR 0x00]"

definition sample_module :: string where
  "sample_module = [CHR 0x7F] @ ''ELF'' @ [CHR 0x02] @ [CHR 0x01] @ [CHR 0x01] @ replicate 9 CHR 0x00 @ [CHR 0x01] @ [CHR 0x00] @ [CHR 0xB7] @ 
     replicate 21 CHR 0x00 @ ''@'' @ replicate 17 CHR 0x00 @ ''@'' @ [CHR 0x00] @ [CHR 0x02] @ replicate 27 CHR 0x00 @ [CHR 0xC0] @ 
     replicate 7 CHR 0x00 @ [CHR 0x0A] @ replicate 31 CHR 0x00 @ [CHR 0x01] @ replicate 23 CHR 0x00 @ [CHR 0xCA] @ 
     replicate 7 CHR 0x00 @ [CHR 0x0F] @ replicate 32 CHR 0x00 @ ''.modinfo'' @ [CHR 0x00] @ ''vermagic=6.6 x'' @ [CHR 0x00]"

definition sample_tree :: tree where
  "sample_tree = [(''usr'', TDir), (''usr/lib'', TDir), (''usr/lib/epilykos'', TDir),
     (''usr/lib/epilykos/image.env'', TFile (sample_image_env ''1.0'')), (''usr/lib/modules'', TDir), (''usr/lib/modules/6.6'', TDir),
     (''usr/lib/modules/6.6/x.ko'', TFile sample_module), (''lib'', TLink)]"

text \<open>A merged \<open>/usr\<close>: \<open>/lib\<close> leads to \<open>/usr/lib\<close>.\<close>

definition merged_links :: links where
  "merged_links = (let f = \<lambda>p. if startswith p ''lib/'' then ''usr/'' @ p else p in \<lparr>place = f, target = (\<lambda>p. Some (f p))\<rparr>)"

lemma sample_dtb_ok: "check_dtb sample_dtb = Inr ()"
proof -
  have b: "be32 sample_dtb 0 = 0xd00dfeed" "be32 sample_dtb 4 = 131" "be32 sample_dtb 8 = 56" "be32 sample_dtb 12 = 120" "be32 sample_dtb 16 = 40"
    "be32 sample_dtb 20 = 17" "be32 sample_dtb 24 = 16" "be32 sample_dtb 32 = 11" "be32 sample_dtb 36 = 64"
    "be32 sample_dtb 56 = 1" "be32 sample_dtb 64 = 3" "be32 sample_dtb 68 = 35" "be32 sample_dtb 72 = 0" "be32 sample_dtb 112 = 2" "be32 sample_dtb 116 = 9"
    by (simp_all add: be32_def byte_at_def sample_dtb_def nth_append)
  have n: "bytes_from sample_dtb 120 11 = ''compatible'' @ [CHR 0x00]" by (simp add: bytes_from_def sample_dtb_def)
  have f: "find_nul sample_dtb 60 120 = Some 60" "find_nul (''compatible'' @ [CHR 0x00]) 0 (length (''compatible'' @ [CHR 0x00])) = Some 10"
    by (simp_all add: find_nul_def sample_dtb_def Let_def)
  have v: "bytes_from sample_dtb 76 35 = ''raspberrypi,3-model-b'' @ CHR 0x00 # ''brcm,bcm2837'' @ [CHR 0x00]"
    "bytes_from (''compatible'' @ [CHR 0x00]) 0 10 = ''compatible''" "bytes_from sample_dtb 60 0 = []"
    by (simp_all add: bytes_from_def sample_dtb_def)
  have sp: "split_on CHR 0x00 (''raspberrypi,3-model-b'' @ CHR 0x00 # ''brcm,bcm2837'' @ [CHR 0x00]) = [''raspberrypi,3-model-b'', ''brcm,bcm2837'', []]"
    by simp
  have len: "length sample_dtb = 131" by (simp add: sample_dtb_def)
  let ?ns = "''compatible'' @ [CHR 0x00]" and ?c = "[''raspberrypi,3-model-b'', ''brcm,bcm2837'', []]"
  have t5: "dtb_tokens sample_dtb ?ns 120 116 0 1 (Some ?c) = Inr (Some ?c, True)"
    by (subst dtb_tokens.simps) (simp add: b)
  have t4: "dtb_tokens sample_dtb ?ns 120 112 1 1 (Some ?c) = Inr (Some ?c, True)"
    by (subst dtb_tokens.simps) (use t5 in \<open>simp add: b\<close>)
  have t3: "dtb_tokens sample_dtb ?ns 120 64 1 1 None = Inr (Some ?c, True)"
    by (subst dtb_tokens.simps) (use t4 f(2) v(1,2) sp in \<open>simp add: b\<close>)
  have t1: "dtb_tokens sample_dtb ?ns 120 56 0 0 None = Inr (Some ?c, True)"
    by (subst dtb_tokens.simps) (use t3 f(1) v(3) in \<open>simp add: b\<close>)
  show ?thesis
    unfolding check_dtb_def Let_def b n len using t1 by simp
qed

lemma sample_module_ok: "check_module sample_module ''6.6'' = Inr ()"
proof -
  have b: "le16 sample_module 16 = 1" "le16 sample_module 18 = 183" "le64 sample_module 40 = 64" "le16 sample_module 58 = 64"
    "le16 sample_module 60 = 2" "le16 sample_module 62 = 0" "le64 sample_module 88 = 192" "le64 sample_module 96 = 10"
    "le64 sample_module 152 = 202" "le64 sample_module 160 = 15" "le32 sample_module 64 = 0" "le32 sample_module 128 = 1"
    by (simp_all add: le16_def le64_def le32_def byte_at_def sample_module_def nth_append)
  have l: "length sample_module = 217" "bytes_from sample_module 0 7 = elf_head" by (simp_all add: sample_module_def bytes_from_def elf_head_def)
  let ?n = "CHR 0x00 # ''.modinfo'' @ [CHR 0x00]" and ?d = "''vermagic=6.6 x'' @ [CHR 0x00]"
  have d: "section_data sample_module 64 = Inr ?n" "section_data sample_module 128 = Inr ?d"
    by (simp_all add: section_data_def Let_def b l) (simp_all add: bytes_from_def sample_module_def)
  have f: "find_nul ?n 0 (length ?n) = Some 0" "find_nul ?n 1 (length ?n) = Some 9" "bytes_from ?n 0 0 = []" "bytes_from ?n 1 8 = ''.modinfo''"
    by (simp_all add: find_nul_def Let_def bytes_from_def)
  have "modinfo_sections sample_module ?n [64, 128] = Inr [?d]"
    using d f by (simp add: b)
  moreover have "map (\<lambda>i. 64 + i * 64) [0..<2] = [64, 128::nat]" by (simp add: upt_rec)
  ultimately show ?thesis
    unfolding check_module_def Let_def b l using d by (simp add: endswith_def)
qed

lemma sample_inventory: "\<exists>m. inventory sample_crypto merged_links sample_tree sample_kernel sample_dtb (JObj sample_platform_fields) = Inr m"
proof -
  have "(''1.0'' :: string) \<in> {''0.6'', ''1.0''}" by simp
  note base = sample_baseline [OF this]
  have pf: "f_kernel sample_platform = ''6.6''" "f_channel sample_platform = ''dev''" "f_os_version sample_platform = ''1.0''"
    "f_app_release sample_platform = ''1.0''"
    by (simp_all add: sample_platform_def)
  have rel: "1 \<le> length ''6.6'' \<and> length ''6.6'' \<le> 128 \<and> list_all kernel_char ''6.6''"
    by (simp add: kernel_char_def is_alnum_def is_digit_def between_def)
  have env: "regular_child merged_links sample_tree ''usr/lib/epilykos/image.env'' 8192 = Inr (sample_image_env ''1.0'')"
    using base(4) by (simp add: regular_child_def slot_child_def merged_links_def Let_def sample_tree_def regular_node_Inr)
  have ver: "map_of (env_lines (sample_image_env ''1.0'')) ''EPILYKOS_OS_VERSION'' = Some ''1.0''"
    by (simp add: env_lines_def base(1)) (simp add: sample_items_def map_filter_simps)
  have id: "i_channel sample_identity = ''dev''" "i_release sample_identity = ''1.0''" by (simp_all add: sample_identity_def)
  have img: "check_image sample_kernel ''6.6'' = Inr ()"
    by (simp add: check_image_def bytes_from_def sample_kernel_def numeral_eq_Suc)
  have mods: "module_identity sample_crypto merged_links sample_tree ''6.6'' =
      Inr \<lparr>mo_directory = ''usr/lib/modules/6.6'', mo_tree = replicate 64 CHR ''a'', mo_count = 1, mo_files = 1\<rparr>"
  proof -
    have l: "target merged_links ''lib/modules'' = Some ''usr/lib/modules''" "target merged_links (''lib/modules/'' @ ''6.6'') = Some ''usr/lib/modules/6.6''"
      by (simp_all add: merged_links_def Let_def)
    have d: "map_of sample_tree ''usr/lib/modules'' = Some TDir" "names_in ''usr/lib/modules'' sample_tree = [''6.6'']"
      by (simp_all add: sample_tree_def names_in_def below_dir_def)
    have w: "walk ''usr/lib/modules/6.6'' sample_tree = [(''x.ko'', TFile sample_module)]"
      by (simp add: sample_tree_def walk_def below_dir_def)
    have "length sample_module \<le> IMAGE_MAX" by (simp add: sample_module_def IMAGE_MAX_def)
    then have r: "regular_node (Some (TFile sample_module)) IMAGE_MAX = Inr sample_module" by (simp add: regular_node_Inr)
    have f: "module_file ''6.6'' ''x.ko'' sample_module 0 = Inr 1"
      by (simp add: module_file_def module_path_def kernel_char_def is_alnum_def is_alpha_def between_def file_name_def endswith_def sample_module_ok)
    have e: "module_entries sample_crypto ''6.6'' [(''x.ko'', TFile sample_module)] [] 0 = Inr ([(''x.ko'', replicate 64 CHR ''a'')], 1)"
      by (simp add: r f) (simp add: sample_crypto_def)
    have s: "sha256 sample_crypto x = replicate 64 CHR ''a''" for x by (simp add: sample_crypto_def)
    show ?thesis unfolding module_identity_def l option.case d w e rbind_simps s by simp
  qed
  show ?thesis
    unfolding inventory_def sample_platform_valid rbind_simps Let_def pf env base(3) id ver img sample_dtb_ok mods using rel by simp
qed

theorem stage_verifies_witness:
  "\<exists>m t. stage sample_crypto merged_links (Some (TFile sample_kernel)) (Some (TFile sample_dtb)) (JObj sample_platform_fields) sample_tree = (Inr m, t) \<and>
     verify_tree sample_crypto merged_links t = Inr m"
proof -
  obtain m where inv: "inventory sample_crypto merged_links sample_tree sample_kernel sample_dtb (JObj sample_platform_fields) = Inr m"
    using sample_inventory by blast
  have n: "regular_node (Some (TFile sample_kernel)) IMAGE_MAX = Inr sample_kernel" "regular_node (Some (TFile sample_dtb)) 1048576 = Inr sample_dtb"
    by (simp_all add: regular_node_Inr sample_kernel_def sample_dtb_def IMAGE_MAX_def)
  have boot: "target merged_links BOOT = Some BOOT" by (simp add: merged_links_def Let_def BOOT_def)
  have dirs: "make_dirs (ancestors BOOT) sample_tree = (Inr (), put BOOT TDir sample_tree)"
    by (simp add: ancestors_def BOOT_def sample_tree_def)
  have places: "slot_child merged_links (BOOT @ ''/Image'') = Inr (BOOT @ ''/Image'')" "slot_child merged_links (BOOT @ ''/'' @ DTB) = Inr (BOOT @ ''/'' @ DTB)"
    "slot_child merged_links (BOOT @ ''/manifest.json'') = Inr (BOOT @ ''/manifest.json'')" "slot_child merged_links PLATFORM = Inr PLATFORM"
    by (simp_all add: slot_child_def merged_links_def Let_def BOOT_def DTB_def PLATFORM_def)
  obtain t where "replace_files merged_links [(BOOT @ ''/Image'', sample_kernel), (BOOT @ ''/'' @ DTB, sample_dtb), (BOOT @ ''/manifest.json'', canonical m),
         (PLATFORM, canonical (JObj sample_platform_fields))] (put BOOT TDir sample_tree) = (Inr (), t)"
    using places by (simp add: run_simps replace_file_def Let_def BOOT_def DTB_def PLATFORM_def sample_tree_def)
  then have st: "stage sample_crypto merged_links (Some (TFile sample_kernel)) (Some (TFile sample_dtb)) (JObj sample_platform_fields) sample_tree = (Inr m, t)"
    by (simp add: stage_def put_slot_def run_simps n inv boot dirs)
  have "slot_links merged_links (f_kernel sample_platform)"
    by (simp add: slot_links_def slot_files_def merged_links_def Let_def BOOT_def DTB_def PLATFORM_def sample_platform_def)
  moreover have "\<forall>s. hex_of_length 64 (sha256 sample_crypto s)"
    by (simp add: sample_crypto_def hex_of_length_def list_all_iff is_lower_hex_def between_def)
  ultimately show ?thesis
    using stage_verifies [OF st sample_platform_json sample_platform_valid] st by blast
qed

end
