(* ===== verification/Epk_Hostd.thy ===== *)
theory Epk_Hostd
  imports Epk_Bluetooth Epk_Box Epk_Ssh Epk_AppUpdate Epk_Trial
begin

text \<open>
  The host service, \<open>epilykos-hostd\<close>: the one socket through which the app reaches the host.  Every line is a request, and
  every action of the components is reached from here, so this is where they meet: the state is the whole box, an action
  changes its own part of it, and \<open>handle\<close> dispatches the request as the code does.  Requests are taken one after another;
  the time of an action, the answers of the host and of the commands it runs are the parameter \<open>service\<close> of each request.
\<close>

section \<open>Requests\<close>

text \<open>
  A value of a request: \<open>json.loads\<close> reads one.  A fraction is given by its whole seconds towards zero and whether a
  fraction follows, None when it is no finite number; \<open>VData\<close> is a list or an object, with its truth.  Both carry their \<open>str\<close>.
\<close>

datatype argument =
    VNull | VBool bool | VInt int | VFloat "(int \<times> bool) option" string | VText string | VData bool string

type_synonym request = "string \<rightharpoonup> argument"

datatype line = Oversized | NotJson | NotObject | Object request

definition asks :: "request \<Rightarrow> string \<Rightarrow> bool" where
  "asks req a \<longleftrightarrow> req ''action'' = Some (VText a)"

definition text_arg :: "argument option \<Rightarrow> string option" where
  "text_arg v = (case v of Some (VText s) \<Rightarrow> Some s | _ \<Rightarrow> None)"

text \<open>\<open>bool(req.get(name, default))\<close>\<close>

fun truth :: "argument \<Rightarrow> bool" where
  "truth VNull = False" | "truth (VBool b) = b" | "truth (VInt n) = (n \<noteq> 0)"
| "truth (VFloat v s) = (v \<noteq> Some (0, False))" | "truth (VText s) = (s \<noteq> [])" | "truth (VData b s) = b"

definition truth_or :: "bool \<Rightarrow> argument option \<Rightarrow> bool" where
  "truth_or absent v = (case v of None \<Rightarrow> absent | Some a \<Rightarrow> truth a)"

text \<open>\<open>str(req.get(name, default))\<close>\<close>

fun str_of :: "argument \<Rightarrow> string" where
  "str_of VNull = ''None''" | "str_of (VBool b) = (if b then ''True'' else ''False'')" | "str_of (VInt n) = write_int n"
| "str_of (VFloat v s) = s" | "str_of (VText s) = s" | "str_of (VData b s) = s"

definition str_or :: "string \<Rightarrow> argument option \<Rightarrow> string" where
  "str_or absent v = (case v of None \<Rightarrow> absent | Some a \<Rightarrow> str_of a)"

text \<open>The whole number a value equals, and the numbers \<open>set_clock\<close> takes.\<close>

definition whole_of :: "argument option \<Rightarrow> int option" where
  "whole_of v = (case v of Some (VInt n) \<Rightarrow> Some n | Some (VBool b) \<Rightarrow> Some (if b then 1 else 0)
     | Some (VFloat (Some (n, False)) s) \<Rightarrow> Some n | _ \<Rightarrow> None)"

definition epoch_arg :: "argument option \<Rightarrow> (int \<times> bool) option" where
  "epoch_arg v = (case v of Some (VInt n) \<Rightarrow> Some (n, False) | Some (VFloat e s) \<Rightarrow> e | _ \<Rightarrow> None)"

definition port_arg :: "argument option \<Rightarrow> port_value" where
  "port_arg v = (case v of Some (VBool b) \<Rightarrow> PBool | Some (VInt n) \<Rightarrow> PInt n | Some (VText s) \<Rightarrow> PStr s | _ \<Rightarrow> POther)"

text \<open>\<open>(line or '').strip()\<close>: what is not false must be a text.\<close>

definition key_arg :: "argument option \<Rightarrow> string option result" where
  "key_arg v = (case v of Some (VText s) \<Rightarrow> Inr (Some s) | _ \<Rightarrow> if truth_or False v then Inl (AttributeError ''strip'') else Inr None)"

text \<open>\<open>reason not in RECOVER_REASONS\<close>: a list or an object has no hash.\<close>

definition reason_arg :: "argument option \<Rightarrow> string result" where
  "reason_arg v = (case v of Some (VText s) \<Rightarrow> Inr s | Some (VData b s) \<Rightarrow> Inl (TypeError ''unhashable'') | _ \<Rightarrow> Inr [])"

section \<open>The box\<close>

record 'x appliance =
  bx_world :: "'x world"
  bx_running :: bool
  bx_threads :: "(candidate \<times> app_job) list"
  bx_ssh :: ssh_files
  bx_port :: "string option"
  bx_clock :: clock_state
  bx_reset :: reset_files
  bx_wifi :: wifi_files
  bx_setup :: "int option"
  bx_recover :: "int option"
  bx_calls :: "string list list"
  bx_timers :: "(nat \<times> string list) list"

text \<open>
  What an action meets: the host of OS and app updates, the SHA-256 of keys, libcrypt and its random salt, zoneinfo, the commands that
  set the country and the date, the sockets of a port, whether files can be written, BOOT remounted, the Bluetooth loop
  (None before it runs; its answer to an action is None when it does not come within 12 s), the network page and the card.
\<close>

record 'x service =
  sv_host :: "'x host"
  sv_sha :: "string \<Rightarrow> string"
  sv_found :: "string option"
  sv_load :: "string \<Rightarrow> crypt option"
  sv_choices :: "nat list"
  sv_zone_file :: "string \<Rightarrow> bool"
  sv_zone_tab :: "string option"
  sv_runs :: "string list \<Rightarrow> bool"
  sv_sets :: bool
  sv_port_bound :: "bool \<Rightarrow> int \<Rightarrow> bind_outcome option"
  sv_port_writable :: bool
  sv_run_writable :: bool
  sv_remounts :: bool
  sv_when :: string
  sv_now_ms :: int
  sv_bluetooth :: "(string \<Rightarrow> request \<Rightarrow> bt_status result option) option"
  sv_route :: "string option"
  sv_interface :: bool
  sv_iw :: "string option"
  sv_sys :: "string \<Rightarrow> block_device option"
  sv_source :: "string option"

text \<open>\<open>status\<close> of \<open>epilykos_netinfo.py\<close>; what raises there leaves hostd's status without a network.\<close>

record net_status =
  ns_gateway :: "(string \<times> string) option"
  ns_wifi :: "wifi_link option"
  ns_country :: string
  ns_country_source :: string

record box_status =
  bs_version :: string
  bs_setup_until :: int
  bs_ssh :: ssh_status
  bs_port :: int
  bs_clock :: "int \<times> bool \<times> string"
  bs_card :: "card option"
  bs_network :: "net_status option"

datatype reply =
    ErrorReply string | OkReply | StatusReply box_status | ZoneReply string bool | ClockReply "int \<times> bool \<times> string"
  | SetupReply int | SshReply ssh_status | PortReply int | BluetoothReply "bt_status option" | RecoverReply recovery
  | OsReply view_result | OfferReply view_result "offer option"
  | AppReply app_view string view_result | ApplyReply apply_result

type_synonym ('x, 'a) boxed = "('x appliance, 'a) act"

text \<open>An action of a component, on its part of the box.\<close>

definition within :: "('s \<Rightarrow> 'w) \<Rightarrow> (('w \<Rightarrow> 'w) \<Rightarrow> 's \<Rightarrow> 's) \<Rightarrow> ('w, 'a) act \<Rightarrow> ('s, 'a) act" where
  "within part put m = (\<lambda>s. case m (part s) of (r, p) \<Rightarrow> (r, put (\<lambda>_. p) s))"

definition in_world :: "('x, 'a) run \<Rightarrow> ('x, 'a) boxed" where
  "in_world = within bx_world bx_world_update"

definition in_ssh :: "(ssh_files, 'a) act \<Rightarrow> ('x, 'a) boxed" where
  "in_ssh = within bx_ssh bx_ssh_update"

definition in_port :: "(string option, 'a) act \<Rightarrow> ('x, 'a) boxed" where
  "in_port = within bx_port bx_port_update"

definition in_clock :: "(clock_state, 'a) act \<Rightarrow> ('x, 'a) boxed" where
  "in_clock = within bx_clock bx_clock_update"

definition in_reset :: "(reset_files, 'a) act \<Rightarrow> ('x, 'a) boxed" where
  "in_reset = within bx_reset bx_reset_update"

text \<open>A command run at once, and one that a timer runs after the reply.\<close>

definition calls :: "string list list \<Rightarrow> ('x, unit) boxed" where
  "calls cs = modify (bx_calls_update (\<lambda>old. old @ cs))"

definition systemctl :: "string list \<Rightarrow> string list" where
  "systemctl args = ''systemctl'' # ''--no-block'' # args"

definition later_command :: "nat \<Rightarrow> string list \<Rightarrow> ('x, unit) boxed" where
  "later_command delay args = modify (bx_timers_update (\<lambda>old. old @ [(delay, systemctl args)]))"

section \<open>The actions\<close>

definition bluetooth_action :: "(string \<Rightarrow> request \<Rightarrow> bt_status result option) option \<Rightarrow> string \<Rightarrow> request \<Rightarrow> bt_status option result" where
  "bluetooth_action manager name req = (case manager of
       None \<Rightarrow> if name = ''bluetooth_status'' then Inr None else Inl (PairingError ''Bluetooth is not ready; try again shortly'')
     | Some dispatch \<Rightarrow> (case dispatch name req of
         None \<Rightarrow> Inl (PairingError ''Bluetooth did not answer in time'')
       | Some (Inr out) \<Rightarrow> Inr (Some out)
       | Some (Inl (TimeoutExpired _)) \<Rightarrow> Inl (PairingError ''Bluetooth did not answer in time'')
       | Some (Inl (DBusError n)) \<Rightarrow> Inl (PairingError (''Bluetooth refused the action ('' @ n @ '')''))
       | Some (Inl e) \<Rightarrow> Inl e))"

definition BLUETOOTH_ACTIONS :: "string list" where
  "BLUETOOTH_ACTIONS = [''bluetooth_status'', ''bluetooth_open'', ''bluetooth_close'', ''bluetooth_pair'', ''bluetooth_reply'',
     ''bluetooth_remove'']"

definition do_bluetooth :: "'x service \<Rightarrow> request \<Rightarrow> ('x, reply) boxed" where
  "do_bluetooth sv req =
     bind (lift (bluetooth_action (sv_bluetooth sv) (str_or [] (req ''action'')) req)) (\<lambda>out. ret (BluetoothReply out))"

definition do_recover :: "'x service \<Rightarrow> request \<Rightarrow> ('x, reply) boxed" where
  "do_recover sv req =
     bind (lift (reason_arg (req ''reason''))) (\<lambda>reason.
     bind (within bx_recover bx_recover_update (bluetooth_recover reason (sv_now_ms sv))) (\<lambda>r.
     andthen (if r = Restarted then calls [systemctl [''restart'', ''bluetooth.service'']] else ret ()) (ret (RecoverReply r))))"

definition WIFI_SETUP_S :: int where
  "WIFI_SETUP_S = 15 * 60"

definition wifi_setup_until :: "'x appliance \<Rightarrow> int" where
  "wifi_setup_until s = (case bx_setup s of None \<Rightarrow> 0 | Some t \<Rightarrow> if t > ck_epoch (bx_clock s) then t else 0)"

text \<open>The first assignment of the version in \<open>image.env\<close>.\<close>

definition os_version :: "string option \<Rightarrow> string" where
  "os_version file = (case file of None \<Rightarrow> []
     | Some t \<Rightarrow> (case filter (\<lambda>l. startswith l ''EPILYKOS_OS_VERSION='') (file_lines t) of [] \<Rightarrow> [] | l # _ \<Rightarrow> strip (drop 20 l)))"

definition net_status_of :: "'x service \<Rightarrow> string \<Rightarrow> wifi_files \<Rightarrow> net_status option" where
  "net_status_of sv zone d =
     (let (country, source) = (if zone \<noteq> [] then effective_country zone (sv_zone_tab sv) d else (load_country d, ''Wi-Fi settings''));
          answer = (\<lambda>g. Some \<lparr>ns_gateway = g, ns_wifi = wifi_link_of (sv_interface sv) (sv_iw sv), ns_country = country, ns_country_source = source\<rparr>)
      in case default_gateway (sv_route sv) of NoGateway \<Rightarrow> answer None | Gateway a i \<Rightarrow> answer (Some (a, i)) | StructError \<Rightarrow> None)"

definition do_status :: "'x service \<Rightarrow> ('x, reply) boxed" where
  "do_status sv =
     bind get_state (\<lambda>s.
     bind (lift (read_port (bx_port s))) (\<lambda>p.
     ret (StatusReply \<lparr>bs_version = os_version (h_image_env (sv_host sv)), bs_setup_until = wifi_setup_until s, bs_ssh = ssh_status_of (sv_sha sv) (bx_ssh s),
       bs_port = p, bs_clock = clock_of (sv_zone_file sv) (bx_clock s), bs_card = card_of (sv_sys sv) (sv_source sv),
       bs_network = net_status_of sv (timezone (sv_zone_file sv) (bx_clock s)) (bx_wifi s)\<rparr>)))"

definition RESTART_APP :: "string list" where
  "RESTART_APP = [''restart'', ''epilykos.service'']"

definition zone_changed :: "'x service \<Rightarrow> request \<Rightarrow> string \<Rightarrow> ('x, unit) boxed" where
  "zone_changed sv req zone =
     bind get_state (\<lambda>s.
     andthen (calls (snd (apply_country zone (sv_zone_tab sv) (sv_runs sv) (bx_wifi s))))
       (if truth_or True (req ''restart'') then later_command 3 RESTART_APP else ret ()))"

definition do_timezone :: "'x service \<Rightarrow> request \<Rightarrow> ('x, reply) boxed" where
  "do_timezone sv req =
     bind (lift (validate_zone (sv_zone_file sv) (text_arg (req ''timezone'')))) (\<lambda>wanted.
     bind get_state (\<lambda>s.
     let changed = (wanted \<noteq> timezone (sv_zone_file sv) (bx_clock s)) in
     bind (in_clock (set_timezone (sv_zone_file sv) (text_arg (req ''timezone'')))) (\<lambda>zone.
     andthen (in_clock (write_clock (sv_zone_file sv)))
    (andthen (if changed then zone_changed sv req zone else ret ())
       (ret (ZoneReply zone changed))))))"

definition do_install :: "'x service \<Rightarrow> request \<Rightarrow> ('x, reply) boxed" where
  "do_install sv req = bind (in_world
     (case (req ''sequence'', text_arg (req ''sha256''), text_arg (req ''request_id'')) of
        (Some (VInt n), Some sha, Some i) \<Rightarrow> Epk_Update.install (sv_host sv) n sha i
      | _ \<Rightarrow> raise (OsUpdateError ''Check for OS updates again, then install''))) (\<lambda>v. ret (OsReply v))"

definition do_job :: "(string \<Rightarrow> ('x, view_result) run) \<Rightarrow> request \<Rightarrow> ('x, reply) boxed" where
  "do_job act req = bind (in_world (act (str_or [] (req ''job'')))) (\<lambda>v. ret (OsReply v))"

definition do_reset :: "'x service \<Rightarrow> request \<Rightarrow> ('x, reply) boxed" where
  "do_reset sv req =
     andthen (lift (check_confirm (text_arg (req ''confirm''))))
    (andthen (in_reset (request_reset (sv_remounts sv) ''Epilykos settings'' (sv_when sv)))
    (andthen (later_command 2 [''reboot'']) (ret OkReply)))"

definition do_setup :: "'x service \<Rightarrow> ('x, reply) boxed" where
  "do_setup sv =
     bind get_state (\<lambda>s.
     let t = ck_epoch (bx_clock s) + WIFI_SETUP_S in
     if sv_run_writable sv then andthen (modify (bx_setup_update (\<lambda>_. Some t))) (ret (SetupReply t))
     else raise (OSError ''cannot write''))"

text \<open>The SSH actions end with its status.\<close>

definition ssh_answer :: "'x service \<Rightarrow> ('x, reply) boxed" where
  "ssh_answer sv = bind get_state (\<lambda>s. ret (SshReply (ssh_status_of (sv_sha sv) (bx_ssh s))))"

definition do_ssh_switch :: "'x service \<Rightarrow> bool \<Rightarrow> ('x, reply) boxed" where
  "do_ssh_switch sv on =
     andthen (in_ssh (set_enabled on))
    (andthen (calls [systemctl [if on then ''start'' else ''stop'', ''epilykos-sshd.service'']]) (ssh_answer sv))"

definition do_ssh_password :: "'x service \<Rightarrow> request \<Rightarrow> ('x, reply) boxed" where
  "do_ssh_password sv req =
     bind (lift (hash_password (sv_found sv) (sv_load sv) (sv_choices sv) (text_arg (req ''password'')))) (\<lambda>h.
     andthen (in_ssh (set_password_hash (Some h)))
    (andthen (in_ssh write_shadow) (ssh_answer sv)))"

definition do_ssh_clear :: "'x service \<Rightarrow> ('x, reply) boxed" where
  "do_ssh_clear sv = andthen (in_ssh clear_password) (andthen (in_ssh write_shadow) (ssh_answer sv))"

definition do_ssh_add :: "'x service \<Rightarrow> request \<Rightarrow> ('x, reply) boxed" where
  "do_ssh_add sv req =
     bind (lift (key_arg (req ''key''))) (\<lambda>k. andthen (in_ssh (add_key (sv_sha sv) k)) (ssh_answer sv))"

definition do_ssh_remove :: "'x service \<Rightarrow> request \<Rightarrow> ('x, reply) boxed" where
  "do_ssh_remove sv req =
     andthen (in_ssh (remove_key (sv_sha sv) (str_or [] (req ''fingerprint'')))) (ssh_answer sv)"

definition do_port :: "'x service \<Rightarrow> request \<Rightarrow> ('x, reply) boxed" where
  "do_port sv req =
     bind (lift (validate_port (port_arg (req ''port'')))) (\<lambda>new.
     bind get_state (\<lambda>s.
     bind (lift (read_port (bx_port s))) (\<lambda>old.
     if new = old then ret (PortReply new)
     else if in_use (sv_port_bound sv) new then raise (PortError (''port '' @ dec (nat new) @ '' is already in use on the box''))
     else bind (in_port (write_port (sv_port_writable sv) (PInt new))) (\<lambda>_.
       andthen (later_command 1 RESTART_APP) (ret (PortReply new))))))"

definition with_os :: "'x service \<Rightarrow> ('x, app_view \<times> string) run \<Rightarrow> ('x, reply) boxed" where
  "with_os sv m = bind (in_world m) (\<lambda>(v, os_version). bind (in_world (view (sv_host sv) True)) (\<lambda>os. ret (AppReply v os_version os)))"

text \<open>An update that is applied runs in a thread of its own, \<open>run_update\<close>.\<close>

definition do_apply :: "'x service \<Rightarrow> request \<Rightarrow> ('x, reply) boxed" where
  "do_apply sv req =
     bind get_state (\<lambda>s.
     bind (in_world (apply_update (sv_host sv) (bx_running s) (str_or ''app'' (req ''target''))
         (req ''automatic'' = Some (VBool True)) (whole_of (req ''sequence'')) (text_arg (req ''digest'')))) (\<lambda>r.
     andthen (case r of
         Applying c job \<Rightarrow> modify (\<lambda>s. s\<lparr>bx_running := True, bx_threads := bx_threads s @ [(c, job)]\<rparr>)
       | _ \<Rightarrow> ret ()) (ret (ApplyReply r))))"

section \<open>The dispatch\<close>

text \<open>Maintenance that conflicts with an OS update.\<close>

definition refused_if :: "'x service \<Rightarrow> gstate set \<Rightarrow> string \<Rightarrow> ('x, unit) boxed" where
  "refused_if sv states name = bind get_state (\<lambda>s. lift (refuse_if (sv_host sv) states name (bx_world s)))"

definition refusals :: "'x service \<Rightarrow> request \<Rightarrow> ('x, unit) boxed" where
  "refusals sv req =
     andthen (if asks req ''restart'' \<or> asks req ''shutdown''
              then bind get_state (\<lambda>s. lift (refuse_reboot (sv_host sv) (bx_world s))) else ret ())
    (andthen (if asks req ''factory_reset'' then refused_if sv {Active, NeedsCheck} ''A factory reset'' else ret ())
    (andthen (if asks req ''set_port'' \<or> asks req ''set_timezone'' \<and> truth_or True (req ''restart'')
              then refused_if sv {Active, NeedsCheck} ''Restarting the app'' else ret ())
       (if asks req ''update_apply'' then refused_if sv {Active, Pending, NeedsCheck} ''An app update'' else ret ())))"

text \<open>The actions after the refusals.\<close>

definition do_maintenance :: "'x service \<Rightarrow> request \<Rightarrow> ('x, reply) boxed" where
  "do_maintenance sv req =
     (if asks req ''set_clock''
      then bind (in_clock (set_clock (sv_zone_file sv) (sv_sets sv) (epoch_arg (req ''epoch'')))) (\<lambda>c. ret (ClockReply c))
      else if asks req ''restart'' then andthen (later_command 1 [''reboot'']) (ret OkReply)
      else if asks req ''shutdown'' then andthen (later_command 1 [''poweroff'']) (ret OkReply)
      else if asks req ''factory_reset'' then do_reset sv req
      else if asks req ''wifi_setup'' then do_setup sv
      else if asks req ''ssh_enable'' then do_ssh_switch sv True
      else if asks req ''ssh_disable'' then do_ssh_switch sv False
      else if asks req ''ssh_set_password'' then do_ssh_password sv req
      else if asks req ''ssh_clear_password'' then do_ssh_clear sv
      else if asks req ''ssh_add_key'' then do_ssh_add sv req
      else if asks req ''ssh_remove_key'' then do_ssh_remove sv req
      else if asks req ''set_port'' then do_port sv req
      else if asks req ''update_status'' then with_os sv (Epk_AppUpdate.status (sv_host sv))
      else if asks req ''update_check'' then with_os sv (check_app_update (sv_host sv))
      else if asks req ''update_apply'' then do_apply sv req
      else ret (ErrorReply ''unknown action''))"

definition handle :: "'x service \<Rightarrow> request \<Rightarrow> ('x, reply) boxed" where
  "handle sv req =
     (if asks req ''bluetooth_recover'' then do_recover sv req
      else if list_ex (asks req) BLUETOOTH_ACTIONS then do_bluetooth sv req
      else if asks req ''status'' then do_status sv
      else if asks req ''set_timezone'' then do_timezone sv req
      else if asks req ''os_status'' then bind (in_world (view (sv_host sv) True)) (\<lambda>v. ret (OsReply v))
      else if asks req ''os_check'' then bind (in_world (Epk_Update.check (sv_host sv))) (\<lambda>(v, f). ret (OfferReply v f))
      else if asks req ''os_install'' then do_install sv req
      else if asks req ''os_cancel'' then do_job (Epk_Update.cancel (sv_host sv)) req
      else if asks req ''os_dismiss'' then do_job (Epk_Update.dismiss (sv_host sv)) req
      else if asks req ''os_restart'' then do_job (Epk_Activate.restart (sv_host sv)) req
      else if asks req ''os_discard'' then do_job (Epk_Activate.discard (sv_host sv)) req
      else andthen (refusals sv req) (do_maintenance sv req))"

section \<open>The connection\<close>

text \<open>
  The refusals of the components reach the app as they are, any other \<open>ValueError\<close> as a malformed request, and every other
  exception without its words.  Only the end of the box leaves a request unanswered.
\<close>

fun answer_of :: "exn \<Rightarrow> reply option" where
  "answer_of (SshError m) = Some (ErrorReply m)"
| "answer_of (PortError m) = Some (ErrorReply m)"
| "answer_of (UpdateError m) = Some (ErrorReply m)"
| "answer_of (SystemError m) = Some (ErrorReply m)"
| "answer_of (PairingError m) = Some (ErrorReply m)"
| "answer_of (ResetError m) = Some (ErrorReply m)"
| "answer_of (OsUpdateError m) = Some (ErrorReply m)"
| "answer_of (TrustError m) = Some (ErrorReply m)"
| "answer_of (StorageError m) = Some (ErrorReply m)"
| "answer_of (ValueError m) = Some (ErrorReply ''malformed request'')"
| "answer_of (CompatibilityError m) = Some (ErrorReply ''malformed request'')"
| "answer_of (PasswordError m) = Some (ErrorReply ''malformed request'')"
| "answer_of (WifiError m) = Some (ErrorReply ''malformed request'')"
| "answer_of (PayloadError m) = Some (ErrorReply ''malformed request'')"
| "answer_of PowerCut = None"
| "answer_of e = Some (ErrorReply ''the host could not do that'')"

definition serve_line :: "'x service \<Rightarrow> line \<Rightarrow> 'x appliance \<Rightarrow> reply option \<times> 'x appliance" where
  "serve_line sv l s = (case l of
       Oversized \<Rightarrow> (Some (ErrorReply ''request too large''), s)
     | NotJson \<Rightarrow> (Some (ErrorReply ''malformed request''), s)
     | NotObject \<Rightarrow> (Some (ErrorReply ''malformed request''), s)
     | Object req \<Rightarrow> (case handle sv req s of
         (Inr r, s') \<Rightarrow> (Some r, s') | (Inl e, s') \<Rightarrow> (answer_of e, s')))"

section \<open>The start of the service\<close>

definition reconcile_os_update :: "'x host \<Rightarrow> ('x, unit) run" where
  "reconcile_os_update h =
     try_catch (bind (lift (platform_of h)) (\<lambda>p. case p of
         Some plat \<Rightarrow> andthen (reconcile_boot h) (ret ())
       | None \<Rightarrow> set_guard Idle None))
       (\<lambda>e. case e of OSError m \<Rightarrow> Some (ret ()) | OsUpdateError m \<Rightarrow> Some (ret ()) | TrustError m \<Rightarrow> Some (ret ()) | _ \<Rightarrow> None)"

text \<open>\<open>main\<close> until it listens: the app's update, the OS update, the clock the container reads.\<close>

definition start_up :: "'x service \<Rightarrow> ('x, unit) boxed" where
  "start_up sv =
     andthen (try_catch (in_world (recover (sv_host sv))) (\<lambda>e. case e of OSError m \<Rightarrow> Some (ret ()) | _ \<Rightarrow> None))
    (andthen (in_world (reconcile_os_update (sv_host sv))) (in_clock (write_clock (sv_zone_file sv))))"

end
