(* ===== verification/Epk_Service.thy ===== *)
theory Epk_Service
  imports Epk_Hostd
begin

text \<open>
  What the host service promises of the whole box: what every request keeps of the state of updates, which requests an OS update
  excludes, and what a start of the service restores.
\<close>

section \<open>Rules\<close>

text \<open>
  A part beside the state of updates: changing it disturbs neither the world of updates nor what takes the box or the app down.
\<close>

definition undisturbed :: "'x appliance \<Rightarrow> 'x appliance \<Rightarrow> bool" where
  "undisturbed s0 s \<longleftrightarrow> bx_timers s = bx_timers s0 \<and> bx_threads s = bx_threads s0 \<and> bx_reset s = bx_reset s0 \<and> bx_port s = bx_port s0"

lemma undisturbed_refl [simp]: "undisturbed s s"
  by (simp add: undisturbed_def)

abbreviation of_world :: "('x world \<Rightarrow> bool) \<Rightarrow> 'x appliance \<Rightarrow> bool" where
  "of_world I s \<equiv> I (bx_world s)"

lemma wp_within [wp_simps]:
  "wp (within part put m) Q E s = wp m (\<lambda>r p. Q r (put (\<lambda>_. p) s)) (\<lambda>e p. E e (put (\<lambda>_. p) s)) (part s)"
  by (simp add: wp_def within_def split: prod.split sum.split)

lemma wp_total: "wp m (\<lambda>_ _. True) (\<lambda>_ _. True) w"
  by (simp add: wp_def split: prod.split sum.split)

locale box_part =
  fixes part :: "'x appliance \<Rightarrow> 'w" and put :: "('w \<Rightarrow> 'w) \<Rightarrow> 'x appliance \<Rightarrow> 'x appliance"
  assumes threads: "bx_threads (put f s) = bx_threads s"
begin

lemma keeps_threads: "keeps (\<lambda>s. bx_threads s = T) (within part put m)"
  by (rule keepsI) (unfold wp_within, rule wp_use [OF wp_total], simp_all add: threads)

end

locale side_part = box_part +
  assumes world: "bx_world (put f s) = bx_world s"
    and undisturbing: "undisturbed s0 s \<Longrightarrow> undisturbed s0 (put f s)"
begin

lemma keeps_world: "keeps (of_world I) (within part put m)"
  by (rule keepsI) (unfold wp_within, rule wp_use [OF wp_total], simp_all add: world)

lemma keeps_undisturbed: "keeps (undisturbed s0) (within part put m)"
  by (rule keepsI) (unfold wp_within, rule wp_use [OF wp_total], simp_all add: undisturbing)

end

interpretation world_part: box_part bx_world bx_world_update
  by unfold_locales simp

interpretation port_part: box_part bx_port bx_port_update
  by unfold_locales simp

interpretation reset_part: box_part bx_reset bx_reset_update
  by unfold_locales simp

interpretation ssh_part: side_part bx_ssh bx_ssh_update
  by unfold_locales (simp_all add: undisturbed_def)

interpretation clock_part: side_part bx_clock bx_clock_update
  by unfold_locales (simp_all add: undisturbed_def)

interpretation recover_part: side_part bx_recover bx_recover_update
  by unfold_locales (simp_all add: undisturbed_def)

lemmas part_threads [keeps_rules] =
  world_part.keeps_threads [folded in_world_def] port_part.keeps_threads [folded in_port_def]
  reset_part.keeps_threads [folded in_reset_def] ssh_part.keeps_threads [folded in_ssh_def]
  clock_part.keeps_threads [folded in_clock_def] recover_part.keeps_threads

lemmas side_world [keeps_rules] =
  ssh_part.keeps_world [folded in_ssh_def] clock_part.keeps_world [folded in_clock_def] recover_part.keeps_world

lemmas side_undisturbed [keeps_rules] =
  ssh_part.keeps_undisturbed [folded in_ssh_def] clock_part.keeps_undisturbed [folded in_clock_def] recover_part.keeps_undisturbed

lemma world_keeps [keeps_rules]:
  assumes "keeps I m"
  shows "keeps (of_world I) (in_world m)"
  unfolding in_world_def
  by (rule keepsI) (unfold wp_within, rule wp_use [OF keepsD [OF assms]], simp_all)

lemma world_undisturbed [keeps_rules]: "keeps (undisturbed s0) (in_world m)"
  unfolding in_world_def
  by (rule keepsI) (unfold wp_within, rule wp_use [OF wp_total], simp_all add: undisturbed_def)

lemma other_parts [keeps_rules]: "keeps (of_world I) (in_port m)" "keeps (of_world I) (in_reset m2)"
  unfolding in_port_def in_reset_def
  by (rule keepsI, unfold wp_within, rule wp_use [OF wp_total], simp_all)+

lemma call_keeps [keeps_rules]: "keeps (of_world I) (calls cs)" "keeps (of_world I) (later_command n a)" "keeps (undisturbed s0) (calls cs)"
  "keeps (\<lambda>s. bx_threads s = T) (calls cs)" "keeps (\<lambda>s. bx_threads s = T) (later_command n a)"
  unfolding calls_def later_command_def by (rule keeps_modify, simp add: undisturbed_def)+

section \<open>The guard through every request\<close>

lemma finish_kept [keeps_rules]: "s \<in> TERMINAL \<Longrightarrow> keeps guard_kept (finish s err)"
  by (rule keepsI, rule wp_use [OF guard_worker.finish_F]) auto

lemma write_app_kept [keeps_rules]: "keeps guard_kept (write_app f)"
  unfolding write_app_def by (rule keeps_durable) (simp_all add: guard_kept_def guard_of_def quiet_def)

lemma guard_kept_env [keeps_rules]: "keeps guard_kept (target_bad h t)"
  unfolding target_bad_def by (intro keeps_rules)

lemma busy_kept: "keeps busy m \<Longrightarrow> busy w \<Longrightarrow> wp m (\<lambda>_. guard_kept) (\<lambda>_. guard_kept) w"
  by (drule (1) keepsD, erule wp_use) (auto simp: busy_def guard_kept_def)

lemma busy_view [keeps_rules]: "keeps busy (view h False)"
  unfolding view_def by (intro keeps_rules) (auto intro: keeps_rules split: exn.split_asm)

lemma busy_worker [keeps_rules]: "keeps busy (worker_active h)" "keeps busy (start_worker h)"
  unfolding worker_active_def start_worker_def by (intro keeps_rules)+

lemma restart_kept: "keeps guard_kept (Epk_Activate.restart h i)"
proof (rule keepsI)
  fix w :: "'a world" assume w: "guard_kept w"
  have go: "keeps busy (bind (worker_active h) (\<lambda>active.
       if active then raise e
       else andthen (load_job j)
           (andthen (in_memory k) (andthen save (andthen (start_worker h) (view h False))))))" for e j k
    unfolding load_job_def by (intro keeps_rules)
  have b: "busy w" if "w_journal w = Journal j" "j_state j = Ready" for j
    using w that by (simp add: guard_kept_def quiet_def busy_def TERMINAL_def WORKING_def)
  show "wp (Epk_Activate.restart h i) (\<lambda>_. guard_kept) (\<lambda>_. guard_kept) w"
    unfolding Epk_Activate.restart_def journal_def journal_of_def wp_bind [of "bind _ _"]
    using busy_kept [OF go] b w by (auto simp: wp_bind wp_get_state wp_lift wp_raise split: journal_file.split)
qed

lemma discard_kept: "keeps guard_kept (Epk_Activate.discard h i)"
  unfolding Epk_Activate.discard_def load_job_def by (intro keeps_rules) (simp add: TERMINAL_def)

lemma check_kept: "keeps guard_kept (Epk_Update.check h)"
  unfolding Epk_Update.check_def fetch_release_def fetch_text_def by (intro keeps_rules)

lemma app_kept: "keeps guard_kept (Epk_AppUpdate.status h)" "keeps guard_kept (check_app_update h)"
  unfolding Epk_AppUpdate.status_def check_app_update_def fetch_latest_def fetch_app_def
  by (intro keeps_rules; auto intro!: keeps_rules split: exn.split_asm simp: Let_def)+

lemma attempted_keeps [keeps_rules]: "keeps I m \<Longrightarrow> keeps I (attempted m)"
  unfolding attempted_def by (auto intro!: keeps_rules split: if_split_asm)

lemma finally_keeps [keeps_rules]:
  assumes "keeps I m" and "keeps I f"
  shows "keeps I (try_finally m f)"
proof (rule keepsI)
  fix w assume "I w"
  from keepsD [OF assms(1) this] have "I (snd (m w))" by (simp add: wp_state)
  from keepsD [OF assms(2) this] have "I (snd (f (snd (m w))))" by (simp add: wp_state)
  then show "wp (try_finally m f) (\<lambda>_. I) (\<lambda>_. I) w"
    by (auto simp: wp_state try_finally_def split: prod.split sum.split)
qed

lemma app_files_kept [keeps_rules]: "keeps guard_kept (inspect_app h k r)" "keeps guard_kept (set_active rel)"
  "keeps guard_kept (restart_app h)"
  unfolding inspect_app_def set_active_def restart_app_def by (auto intro!: keeps_rules split: answer.split)

lemma start_update_kept [keeps_rules]: "keeps guard_kept (start_update h c automatic)"
  unfolding start_update_def by (auto intro!: keeps_rules split: if_split_asm)

lemma apply_kept: "keeps guard_kept (apply_update h running target automatic n d)"
  unfolding apply_update_def admit_candidate_def fetch_latest_def fetch_app_def by (intro keeps_rules; auto intro!: keeps_rules)

lemma run_update_kept: "keeps guard_kept (run_update h c job)"
proof -
  have p: "keeps guard_kept (prepare h c job)"
    unfolding prepare_def by (auto intro!: keeps_rules split: answer.split)
  have s: "keeps guard_kept (start_and_promote h m before)" for m before
    unfolding start_and_promote_def
    by (intro keeps_rules) (auto intro!: keeps_rules split: answer.split release.split exn.split_asm option.split)
  have r: "keeps guard_kept (roll_back h c before started e)" for before started e
    unfolding roll_back_def by (intro keeps_rules)
  show ?thesis
    unfolding run_update_def Let_def by (auto intro!: keeps_rules p s r split: sum.split)
qed

lemma recover_kept: "keeps guard_kept (recover h)"
  unfolding recover_def by (intro keeps_rules)

text \<open>The update actions of hostd, then every request.\<close>

lemmas update_kept = install_kept cancel_kept dismiss_kept restart_kept discard_kept check_kept app_kept apply_kept guard_kept_view

lemma do_job_kept: "(\<And>i. keeps guard_kept (act i)) \<Longrightarrow> keeps (of_world guard_kept) (do_job act req)"
  unfolding do_job_def by (intro keeps_rules)

lemma do_install_kept: "keeps (of_world guard_kept) (do_install sv req)"
  unfolding do_install_def by (auto intro!: keeps_rules install_kept split: option.split argument.split prod.split)

lemma box_keeps_modify: "(\<And>s. bx_world (f s) = bx_world s) \<Longrightarrow> keeps (of_world I) (modify f)"
  by (rule keeps_modify) simp

lemma do_apply_kept: "keeps (of_world guard_kept) (do_apply sv req)"
  unfolding do_apply_def
  by (intro keeps_rules apply_kept) (auto intro!: keeps_rules box_keeps_modify split: apply_result.split)

lemma with_os_kept: "keeps guard_kept m \<Longrightarrow> keeps (of_world guard_kept) (with_os sv m)"
  unfolding with_os_def by (intro keeps_rules)

lemma side_actions_world [keeps_rules]:
  "keeps (of_world I) (do_recover sv req)" "keeps (of_world I) (do_bluetooth sv req)" "keeps (of_world I) (do_status sv)"
  "keeps (of_world I) (do_timezone sv req)" "keeps (of_world I) (refusals sv req)" "keeps (of_world I) (do_reset sv req)"
  "keeps (of_world I) (do_setup sv)" "keeps (of_world I) (do_ssh_switch sv b)" "keeps (of_world I) (do_ssh_password sv req)"
  "keeps (of_world I) (do_ssh_clear sv)" "keeps (of_world I) (do_ssh_add sv req)" "keeps (of_world I) (do_ssh_remove sv req)"
  "keeps (of_world I) (do_port sv req)"
  unfolding do_recover_def do_bluetooth_def do_status_def do_timezone_def zone_changed_def refusals_def refused_if_def do_reset_def
    do_setup_def do_ssh_switch_def do_ssh_password_def do_ssh_clear_def do_ssh_add_def do_ssh_remove_def do_port_def ssh_answer_def Let_def
  by (intro keeps_rules box_keeps_modify; simp)+

lemma handle_kept: "keeps (of_world guard_kept) (handle sv req)"
  unfolding handle_def do_maintenance_def
  by (intro keeps_rules do_job_kept do_install_kept do_apply_kept with_os_kept update_kept)

section \<open>What is refused during an OS update\<close>

lemma setup_keeps [keeps_rules]: "keeps (undisturbed s0) (do_setup sv)" "keeps (\<lambda>s. bx_threads s = T) (do_setup sv)"
  unfolding do_setup_def Let_def by (intro keeps_rules keeps_modify; simp add: undisturbed_def)+

lemma side_actions [keeps_rules]:
  "keeps (undisturbed s0) (do_recover sv req)" "keeps (undisturbed s0) (do_bluetooth sv req)" "keeps (undisturbed s0) (do_status sv)"
  "keeps (undisturbed s0) (do_install sv req)" "keeps (undisturbed s0) (do_job act req)" "keeps (undisturbed s0) (with_os sv m)"
  "keeps (undisturbed s0) (do_ssh_switch sv b)" "keeps (undisturbed s0) (do_ssh_password sv req)"
  "keeps (undisturbed s0) (do_ssh_clear sv)" "keeps (undisturbed s0) (do_ssh_add sv req)" "keeps (undisturbed s0) (do_ssh_remove sv req)"
  unfolding do_recover_def do_bluetooth_def do_status_def do_install_def do_job_def with_os_def
    do_ssh_switch_def do_ssh_password_def do_ssh_clear_def do_ssh_add_def do_ssh_remove_def ssh_answer_def
  by (intro keeps_rules)+

lemma actions_threads [keeps_rules]:
  "keeps (\<lambda>s. bx_threads s = T) (do_recover sv req)" "keeps (\<lambda>s. bx_threads s = T) (do_bluetooth sv req)" "keeps (\<lambda>s. bx_threads s = T) (do_status sv)"
  "keeps (\<lambda>s. bx_threads s = T) (do_install sv req)" "keeps (\<lambda>s. bx_threads s = T) (do_job act req)" "keeps (\<lambda>s. bx_threads s = T) (with_os sv m)"
  "keeps (\<lambda>s. bx_threads s = T) (do_ssh_switch sv b)" "keeps (\<lambda>s. bx_threads s = T) (do_ssh_password sv req)"
  "keeps (\<lambda>s. bx_threads s = T) (do_ssh_clear sv)" "keeps (\<lambda>s. bx_threads s = T) (do_ssh_add sv req)" "keeps (\<lambda>s. bx_threads s = T) (do_ssh_remove sv req)"
  "keeps (\<lambda>s. bx_threads s = T) (do_timezone sv req)" "keeps (\<lambda>s. bx_threads s = T) (do_reset sv req)" "keeps (\<lambda>s. bx_threads s = T) (do_port sv req)"
  "keeps (\<lambda>s. bx_threads s = T) (refusals sv req)"
  unfolding do_recover_def do_bluetooth_def do_status_def do_install_def do_job_def with_os_def do_timezone_def zone_changed_def do_reset_def
    do_port_def refusals_def refused_if_def
    do_ssh_switch_def do_ssh_password_def do_ssh_clear_def do_ssh_add_def do_ssh_remove_def ssh_answer_def Let_def
  by (intro keeps_rules)+

lemma asks_one: "asks req a \<Longrightarrow> asks req b \<longleftrightarrow> a = b"
  by (auto simp: asks_def)

text \<open>The actions that restart the box or the app, and how their refusal names them.\<close>

definition DISRUPTIVE :: "(string \<times> string) list" where
  "DISRUPTIVE = [(''restart'', ''Restarting or shutting down''), (''shutdown'', ''Restarting or shutting down''),
     (''factory_reset'', ''A factory reset''), (''set_port'', ''Restarting the app''), (''update_apply'', ''An app update'')]"

definition refusal_text :: "string \<Rightarrow> gstate \<Rightarrow> string" where
  "refusal_text name g = name @ '' is not possible while '' @
     (case g of Active \<Rightarrow> ''an OS update is being installed'' | Pending \<Rightarrow> ''an OS update is ready to finish''
        | _ \<Rightarrow> ''an OS update needs checking'') @ ''. Use Settings > Updates.''"

lemma refuse_if_refuses: "blocking h w = g \<Longrightarrow> g \<in> states \<Longrightarrow> refuse_if h states name w = Inl (OsUpdateError (refusal_text name g))"
  by (simp add: refuse_if_def refusal_text_def Let_def)

lemma handle_late:
  assumes "map_of DISRUPTIVE a = Some name" and "asks req a"
  shows "handle sv req = andthen (refusals sv req) (do_maintenance sv req)"
  using assms by (auto simp: handle_def asks_one [OF assms(2)] BLUETOOTH_ACTIONS_def DISRUPTIVE_def split: if_splits)

lemma refusals_refuse:
  assumes d: "map_of DISRUPTIVE a = Some name" and a: "asks req a" and b: "blocking (sv_host sv) (bx_world s) = g"
    and g: "g \<in> {Active, NeedsCheck} \<or> g = Pending \<and> a = ''update_apply''"
  shows "refusals sv req s = (Inl (OsUpdateError (refusal_text name g)), s)"
  using d g refuse_if_refuses [OF b]
  by (auto simp: refusals_def refused_if_def refuse_reboot_def act_defs asks_one [OF a] DISRUPTIVE_def split: if_splits)

lemma handle_refused:
  assumes "map_of DISRUPTIVE a = Some name" and "asks req a" and "blocking (sv_host sv) (bx_world s) = g"
    and "g \<in> {Active, NeedsCheck} \<or> g = Pending \<and> a = ''update_apply''"
  shows "handle sv req s = (Inl (OsUpdateError (refusal_text name g)), s)"
  unfolding handle_late [OF assms(1,2)] by (simp add: andthen_def bind_def refusals_refuse [OF assms])

lemma refusals_undisturbed [keeps_rules]: "keeps (undisturbed s0) (refusals sv req)"
  unfolding refusals_def refused_if_def by (intro keeps_rules)

lemma handle_undisturbed:
  assumes "\<And>a. a \<in> insert ''set_timezone'' (fst ` set DISRUPTIVE) \<Longrightarrow> \<not> asks req a"
  shows "keeps (undisturbed s0) (handle sv req)"
proof -
  have "\<not> asks req ''set_timezone''" "\<not> asks req ''restart''" "\<not> asks req ''shutdown''" "\<not> asks req ''factory_reset''"
    "\<not> asks req ''set_port''" "\<not> asks req ''update_apply''"
    by (rule assms; simp add: DISRUPTIVE_def)+
  then show ?thesis
    unfolding handle_def do_maintenance_def by (simp only: if_False) (intro keeps_rules)
qed

lemma handle_threads:
  assumes "\<not> asks req ''update_apply''"
  shows "keeps (\<lambda>s. bx_threads s = T) (handle sv req)"
  using assms unfolding handle_def do_maintenance_def by (simp only: if_False) (intro keeps_rules)

lemma serve_line_state: "snd (serve_line sv (Object req) s) = snd (handle sv req s)"
  by (simp add: serve_line_def split: prod.split sum.split)

lemma undisturbed_when_busy:
  assumes b: "blocking (sv_host sv) (bx_world s) \<in> {Active, NeedsCheck}" and t: "\<not> asks req ''set_timezone''"
  shows "undisturbed s (snd (handle sv req s))"
proof (cases "\<exists>a\<in>fst ` set DISRUPTIVE. asks req a")
  case True
  then obtain a where a: "asks req a" "a \<in> fst ` set DISRUPTIVE" by blast
  then obtain name where "map_of DISRUPTIVE a = Some name" by (metis domD dom_map_of_conv_image_fst)
  from handle_refused [OF this a(1) refl, of sv s] b show ?thesis by auto
next
  case False
  with t have "\<And>a. a \<in> insert ''set_timezone'' (fst ` set DISRUPTIVE) \<Longrightarrow> \<not> asks req a" by blast
  from keepsD [OF handle_undisturbed [OF this] undisturbed_refl] show ?thesis by (simp add: wp_state)
qed

lemma threads_when_busy:
  assumes "blocking (sv_host sv) (bx_world s) \<noteq> Idle"
  shows "bx_threads (snd (handle sv req s)) = bx_threads s"
proof (cases "asks req ''update_apply''")
  case True
  have "map_of DISRUPTIVE ''update_apply'' = Some ''An app update''" by (simp add: DISRUPTIVE_def)
  from handle_refused [OF this True refl, of sv s] assms show ?thesis
    by (cases "blocking (sv_host sv) (bx_world s)") auto
next
  case False
  from keepsD [OF handle_threads [OF False], of s] show ?thesis by (simp add: wp_state)
qed

section \<open>A box that runs\<close>

text \<open>
  From the moment hostd listens: requests, runs of the OS update's worker, updates of the app in the thread a request
  started, timers and time, and any change outside.  Each is whole, cut anywhere; they come in any order.
\<close>

inductive uptime :: "'x host \<Rightarrow> 'x appliance \<Rightarrow> 'x appliance \<Rightarrow> bool" for h s0 where
  up: "uptime h s0 s0"
| request: "uptime h s0 s \<Longrightarrow> sv_host sv = h \<Longrightarrow> uptime h s0 (snd (serve_line sv l s))"
| worker: "uptime h s0 s \<Longrightarrow> uptime h s0 (s\<lparr>bx_world := snd (run_worker h answers polls (activate h) (bx_world s))\<rparr>)"
| app: "uptime h s0 s \<Longrightarrow> (c, job) \<in> set (bx_threads s) \<Longrightarrow>
    uptime h s0 (s\<lparr>bx_world := snd (run_update h c job (bx_world s)), bx_running := False, bx_threads := remove1 (c, job) (bx_threads s)\<rparr>)"
| outside: "uptime h s0 s \<Longrightarrow> uptime h s0 (s\<lparr>bx_world := (bx_world s)\<lparr>w_ext := x, w_plan := p\<rparr>, bx_timers := t,
    bx_clock := (bx_clock s)\<lparr>ck_epoch := now, ck_synchronized := b\<rparr>\<rparr>)"

lemma uptime_keeps:
  assumes "uptime h s0 s" and "I (bx_world s0)"
    and "\<And>sv req. sv_host sv = h \<Longrightarrow> keeps (of_world I) (handle sv req)"
    and "\<And>answers polls w. I w \<Longrightarrow> I (snd (run_worker h answers polls (activate h) w))"
    and "\<And>c job. keeps I (run_update h c job)" and "\<And>w x p. I w \<Longrightarrow> I (w\<lparr>w_ext := x, w_plan := p\<rparr>)"
  shows "I (bx_world s)"
  using assms(1)
proof induction
  case (request s sv l)
  show ?case
  proof (cases l)
    case (Object req)
    with keepsD [OF assms(3), of sv s req] request show ?thesis by (simp add: serve_line_state wp_state)
  qed (simp_all add: serve_line_def request)
next
  case (app s c job)
  with keepsD [OF assms(5), of "bx_world s" c job] show ?case by (simp add: wp_state)
qed (simp_all add: assms)

lemma uptime_guard:
  assumes "uptime h s0 s" and "guard_kept (bx_world s0)"
  shows "guard_kept (bx_world s)"
  by (rule uptime_keeps [where I = guard_kept, OF assms])
    (auto intro: handle_kept worker_keeps_guard run_update_kept simp: guard_kept_changes)

section \<open>A sample box\<close>

definition sample_service :: "'x host \<Rightarrow> 'x service" where
  "sample_service h = \<lparr>sv_host = h, sv_sha = (\<lambda>s. s), sv_found = None, sv_load = (\<lambda>_. None), sv_choices = [], sv_zone_file = (\<lambda>_. True),
     sv_zone_tab = None, sv_runs = (\<lambda>_. True), sv_sets = True, sv_port_bound = (\<lambda>_ _. None), sv_port_writable = True,
     sv_run_writable = True, sv_remounts = True, sv_when = [], sv_now_ms = 0, sv_bluetooth = None, sv_route = None, sv_interface = False, sv_iw = None,
     sv_sys = (\<lambda>_. None), sv_source = None\<rparr>"

definition sample_box :: "'x world \<Rightarrow> 'x appliance" where
  "sample_box w = \<lparr>bx_world = w, bx_running = False, bx_threads = [],
     bx_ssh = \<lparr>f_enabled = False, f_hash = None, f_keys = None, f_shadow_base = None, f_shadow = [], f_writable = True\<rparr>, bx_port = None,
     bx_clock = \<lparr>ck_zone_file = None, ck_synchronized = False, ck_epoch = 0, ck_stamp = None, ck_json = None\<rparr>,
     bx_reset = \<lparr>rf_request = None, rf_done = False, rf_writable = False\<rparr>,
     bx_wifi = \<lparr>d_iwd = [], d_writable = True, d_country = None\<rparr>, bx_setup = None, bx_recover = None, bx_calls = [], bx_timers = []\<rparr>"

definition plain_request :: "string \<Rightarrow> request" where
  "plain_request a = [''action'' \<mapsto> VText a]"

lemma plain_asks: "asks (plain_request a) b \<longleftrightarrow> a = b"
  by (simp add: asks_def plain_request_def)

lemma sample_fields: "sv_host (sample_service h) = h" "bx_world (sample_box w) = w" "bx_timers (sample_box w) = []"
  by (simp_all add: sample_service_def sample_box_def)

lemma sample_blocking: "blocking sample_host sample_world = Active"
  by (simp add: blocking_def sample_platform_of guard_of_def sample_world_def)

lemma sample_kept: "guard_kept sample_world"
  by (simp add: guard_kept_def guard_of_def sample_world_def)

section \<open>What the service promises\<close>

text \<open>The actions that the service documents.\<close>

definition ACTIONS :: "string list" where
  "ACTIONS = [''status'', ''restart'', ''shutdown'', ''factory_reset'', ''wifi_setup'', ''ssh_enable'', ''ssh_disable'', ''ssh_set_password'',
     ''ssh_clear_password'', ''ssh_add_key'', ''ssh_remove_key'', ''set_port'', ''set_timezone'', ''set_clock'', ''bluetooth_status'',
     ''bluetooth_open'', ''bluetooth_close'', ''bluetooth_pair'', ''bluetooth_reply'', ''bluetooth_remove'', ''bluetooth_recover'',
     ''update_status'', ''update_check'', ''update_apply'', ''os_status'', ''os_check'', ''os_install'', ''os_cancel'', ''os_restart'',
     ''os_discard'', ''os_dismiss'']"

text \<open>
  Only the documented actions exist: a line that is too long, is no JSON or no object, and a request whose action is not on
  the list, is answered with an error and changes nothing on the box.
\<close>

theorem only_listed_actions:
  assumes "case l of Object req \<Rightarrow> \<forall>a\<in>set ACTIONS. \<not> asks req a | _ \<Rightarrow> True"
  shows "\<exists>m. serve_line sv l s = (Some (ErrorReply m), s)"
proof (cases l)
  case (Object req)
  with assms have "\<And>a. a \<in> set ACTIONS \<Longrightarrow> \<not> asks req a" by simp
  then show ?thesis
    unfolding Object by (simp add: serve_line_def handle_def do_maintenance_def refusals_def BLUETOOTH_ACTIONS_def ACTIONS_def act_defs)
qed (simp_all add: serve_line_def)

theorem only_listed_actions_witness:
  "\<exists>m. serve_line (sample_service sample_host) (Object (plain_request ''os_erase'')) (sample_box sample_world) =
     (Some (ErrorReply m), sample_box sample_world)"
  by (rule only_listed_actions) (simp add: plain_asks ACTIONS_def)



text \<open>
  C14. No request disturbs an OS update, but a change of the time zone: while one is being installed or needs checking, no
  request sets a timer that restarts the box or the app, starts an update of the app, asks for a factory reset or changes the
  port; and while one waits for its restart no update of the app starts.
\<close>

theorem requests_respect_updates:
  assumes "\<not> asks req ''set_timezone''"
  shows "(blocking (sv_host sv) (bx_world s) \<in> {Active, NeedsCheck} \<longrightarrow> undisturbed s (snd (serve_line sv (Object req) s))) \<and>
    (blocking (sv_host sv) (bx_world s) \<noteq> Idle \<longrightarrow> bx_threads (snd (serve_line sv (Object req) s)) = bx_threads s)"
  using undisturbed_when_busy [of sv s req] threads_when_busy [of sv s req] assms by (simp add: serve_line_state)

theorem requests_respect_updates_witness:
  "undisturbed (sample_box sample_world)
     (snd (serve_line (sample_service sample_host) (Object (plain_request ''os_cancel'')) (sample_box sample_world)))"
  using requests_respect_updates [of "plain_request ''os_cancel''" "sample_service sample_host" "sample_box sample_world"]
  by (simp add: plain_asks sample_fields sample_blocking)




text \<open>
  C15. An update of the app never starts beside an OS update: in every state that a running box reaches, a request
  starts one only on a card without OS updates, or when no job is recorded or the recorded one has ended.
\<close>

theorem app_update_excluded:
  assumes "uptime h s0 s" and "guard_kept (bx_world s0)" and "sv_host sv = h"
  shows "bx_threads (snd (serve_line sv l s)) = bx_threads s \<or> platform_of h = Inr None \<or> w_journal (bx_world s) = NoJournal \<or>
    (\<exists>j. w_journal (bx_world s) = Journal j \<and> j_state j \<in> TERMINAL)"
proof (cases "blocking h (bx_world s) = Idle")
  case True
  then have "refuse_if h {Active, Pending, NeedsCheck} [] (bx_world s) = Inr ()" by (simp add: refuse_if_def)
  from maintenance_excluded [OF uptime_guard [OF assms(1,2)] this] show ?thesis by blast
next
  case False
  then show ?thesis
    using threads_when_busy [of sv s] assms(3) by (cases l) (simp_all add: serve_line_state, simp_all add: serve_line_def)
qed

theorem app_update_excluded_witness:
  "bx_threads (snd (serve_line (sample_service sample_host) (Object (plain_request ''update_apply'')) (sample_box sample_world))) = []"
  using app_update_excluded [OF uptime.up, of "sample_box sample_world" "sample_service sample_host" sample_host
      "Object (plain_request ''update_apply'')"]
  by (simp add: sample_fields sample_kept sample_platform_of) (simp add: sample_box_def sample_world_def sample_job_def TERMINAL_def)

section \<open>The start of the service\<close>












text \<open>The journal holds the job in memory.\<close>

definition in_journal :: "'x world \<Rightarrow> bool" where
  "in_journal w \<longleftrightarrow> w_journal w = Journal (w_job w)"

lemma in_journal_outside [keeps_rules]: "keeps in_journal (outside f)"
  by (rule keepsI) (auto simp: wp_simps in_journal_def split: list.split outcome.split)

lemma in_journal_command [keeps_rules]: "keeps in_journal (run_command name f)"
  unfolding run_command_def by (intro keeps_rules)




lemma clear_kept [keeps_rules]: "keeps guard_kept (clear_pending h)"
  unfolding clear_pending_def set_env_def by (intro keeps_rules)



















section \<open>Well-formed files\<close>






















end
