(* ===== verification/Spec2Isabelle.thy ===== *)
theory Spec2Isabelle
  imports Epk_Text Epk_Env Epk_Loader Epk_Storage Epk_Trust Epk_Compat Epk_Worker Epk_Trial Epk_Health Epk_AppUpdate Epk_Ssh Epk_Wifi Epk_Bluetooth Epk_Box Epk_Release Epk_Seed Epk_Card Epk_Slot Epk_Adopt Epk_Service
begin

text \<open>
  EpilykosOS: the host side of a two-slot appliance on a Raspberry Pi 3.  This development models the programs that
  decide what the box boots, installs, trusts and stores, and proves what makes them correct.

  \<^bold>\<open>The program.\<close>  The card holds two system slots A and B, a DATA partition and two copies of the U-Boot environment.
  The slot loader (\<open>boot-slot.cmd\<close>) picks a slot from that environment and spends one of its attempts.  The
  environment is only written through a guard in C (\<open>platform-env/epk_env.c\<close>) which U-Boot and \<open>fw_setenv\<close> share.
  hostd, the service the app's container talks to, admits OS updates (\<open>epilykos_os_update.py\<close>); a worker downloads, verifies
  and installs the package into the other slot; Restart activates it for one trial
  (\<open>epilykos_os_activate.py\<close>); the health supervisor of the next boot (\<open>epilykos_boot_health.py\<close>) confirms the trial or resets the
  box, and the loader falls back.  What may be installed is decided by the shared trust (\<open>epilykos_os_trust.py\<close>): a
  policy signed by an offline root, entries signed by the keys the policy lists, bundles signed by the leaves
  it lists, a floor and an epoch in the environment that only rise.  The app is updated the same way from signed manifests
  (\<open>epilykos_update.py\<close>).  Around them are the settings of the box (SSH, Wi-Fi, Bluetooth, port, password, time,
  reset) and the tools that publish packages, make the first card and adopt an old one (\<open>tools/\<close>).
  Library files named here without a path are under
  \<open>os/board/epilykos/raspberrypi3/rootfs-overlay/usr/lib/epilykos/python\<close>.

  \<^bold>\<open>The theories.\<close>  Each models one part; a definition has the name of the function or type it translates, but where
  that name is taken.

  \<^item> \<open>Epk_Prelude\<close>: exceptions as values, actions (state passing with exceptions) with their weakest preconditions, and
    the text operations all parts use.  \<open>Epk_Text\<close>: further operations of \<open>str\<close> and a matcher for the regular
    expressions of \<open>re\<close>, with its order of alternatives.
  \<^item> \<open>Epk_Env\<close>: the guard, \<open>epk_env.c\<close>: parsing a record, selecting a copy, building the next record, the two
    writes of a commit with every outcome of each, the commit of a snapshot.  Its contract is the locale \<open>env_store\<close>.
    \<open>Epk_Loader\<close>: \<open>boot-slot.cmd\<close>, proved over that locale.  \<open>Epk_Seed\<close>: the bytes and the CRC of a record, and
    \<open>tools/os_bootstrap.py\<close>, which makes the first two.
  \<^item> \<open>Epk_Json\<close>, \<open>Epk_Base64\<close>, \<open>Epk_Manifest\<close>, \<open>Epk_Trust\<close>: canonical JSON, strict base64, the
    manifest reader and the rest of \<open>epilykos_os_trust.py\<close>.  \<open>Epk_Compat\<close>: \<open>epilykos_app_compat.py\<close>.
    \<open>Epk_Storage\<close>: \<open>epilykos_storage.py\<close>.
  \<^item> \<open>Epk_World\<close>, \<open>Epk_Update\<close>, \<open>Epk_Worker\<close>: \<open>epilykos_os_update.py\<close>: the state on DATA and its durable writes, the
    actions of hostd and the worker, and what they keep (locale \<open>worker_contract\<close>).
    \<open>Epk_Activate\<close>, \<open>Epk_Finish\<close>, \<open>Epk_Trial\<close>: \<open>epilykos_os_activate.py\<close> and the promises of finishing an update (locale
    \<open>rauc_host\<close>).  \<open>Epk_Health\<close>: \<open>epilykos_boot_health.py\<close>.
    \<open>Epk_AppFiles\<close>, \<open>Epk_AppUpdate\<close>: \<open>epilykos_update.py\<close>.  \<open>Epk_Samples\<close>: one concrete box for the witnesses.
  \<^item> \<open>Epk_Ssh\<close>, \<open>Epk_Wifi\<close>, \<open>Epk_Bluetooth\<close>, \<open>Epk_Settings\<close>, \<open>Epk_Box\<close>: \<open>epilykos_ssh.py\<close>, \<open>epilykos_wifi.py\<close>,
    \<open>epilykos_bluetooth.py\<close>, the port, the password, the reset, the clock, the card, the network page and the maintenance lock.
  \<^item> \<open>Epk_Hostd\<close>: \<open>usr/bin/epilykos-hostd\<close>, the composition of the parts above: the state of the whole box, every request of the
    socket with the refusals during an OS update and the errors it answers, and the start of the service.  \<open>Epk_Service\<close>: what
    holds of a box that runs (the relation \<open>uptime\<close>), with the parts of the box as the locales \<open>box_part\<close> and \<open>side_part\<close>.
  \<^item> \<open>Epk_Release\<close>: \<open>tools/os_release.py\<close>, \<open>verify_os_release.py\<close>, \<open>image_release_policy.py\<close>, \<open>os_version.py\<close> and
    \<open>sync_app_release.py\<close>.  \<open>Epk_Card\<close>: \<open>tools/check_card_image.py\<close>, over the bytes of the image.  \<open>Epk_Slot\<close>: \<open>tools/slot_linux.py\<close>, over the tree of a
    root file system, with the readers of device trees and of ELF modules.  \<open>Epk_Adopt\<close>: \<open>tools/bootstrap_export.py\<close>.

  \<^bold>\<open>How state and effects are modelled.\<close>  A function that changes state is an action of type \<open>('w, 'a) act\<close>: it gives
  an exception or a value, and the next state, which keeps what was written before a raise.  The state of OS and app
  updates is the record \<open>world\<close>: the journal with its job, the guard file, the cancel request, the staged package, the
  files of app updates, and the host's own state, an argument.  Each durable write takes one outcome from a plan:
  done, refused with an \<open>OSError\<close>, or the power fails and the run ends; a theorem for every plan is a theorem for every
  power cut.  A record transfer of the environment is written, untouched, torn or unacknowledged.
  OpenSSL, RAUC, systemd, Podman, the network, libcrypt, scrypt, git, BlueZ and the clock are functions in a record or arguments, and nothing is
  assumed of them but what a named hypothesis states: \<open>rauc_host\<close> (RAUC changes only the boot order and the attempts, and the
  environment keeps the contract of the guard), \<open>steady_clock\<close> (time passes and a command's start is bounded).
  Coroutines are trees that the scheduler of \<open>Epk_Bluetooth\<close> interleaves at every await.

  \<^bold>\<open>What is proved.\<close>
  \<^item> The environment: a commit is atomic wherever it is cut, reads back, and never lowers the floor or the epoch (C1,
    C2, and \<open>floor_never_lowered\<close> for any sequence of batches); the bytes of a record and its entries determine each other, the C and the Python CRC agree, and a
    seeded card boots slot A with its policy and floor and has room for everything the box stores later (C35, C36).
  \<^item> The loader: each boot spends one attempt, marks a trial before it starts, and ends within seven runs (C3 to C5).
  \<^item> Trust: canonical JSON and base64 have one form, no policy, entry or bundle is accepted without its signature, epochs and
    policies only move forward (C6 to C10), and RAUC gets the keyring of a verified policy only (\<open>keyring_only_verified\<close>).
  \<^item> Space and cooperation: the space floor survives each admitted job (\<open>admit_keeps_floor\<close>); the app is asked in exactly the stated case (\<open>os_update_guard_iff\<close>).
  \<^item> OS updates: a job is ready only with the verified image in an unbootable slot (C11), and only the checked package is admitted (C12);
    activation, trial, confirmation and
    its resumption, the floor rising by confirmation only (C19 to C23); the supervisor concludes once and in time (C24, C25).
  \<^item> The box as a whole: from the start of the service, over any history of requests, workers and app updates cut anywhere, the guard
    tells the truth (C13; \<open>hostd_keeps_guard\<close>, \<open>worker_keeps_guard\<close> and \<open>boot_settles\<close> are its parts); no request disturbs an OS
    update, each refusal says why and changes nothing, no app update starts beside one (C14 to C16), with the one exception that
    a change of the time zone restarts the app (C17); the settings files stay well formed (C18).
  \<^item> App updates: admission, the end of every run, the floor, recovery after a cut (C26 to C29).
  \<^item> Settings: the SSH keys refine a set by fingerprint (C30); a failed Wi-Fi attempt is undone and a boot file
    cannot write outside its own network (C31, C32); a pairing answer is only ever one that was given for the device selected (C33).
  \<^item> Tools: what \<open>os_release\<close> publishes the box accepts (C34); a card that passes its check has disjoint regions and boots slot A
    with the floor and the trust it carries, a seed passes it, and a staged slot verifies as staged (C37 to C39); adoption never lowers the app's floor (C40).

  Lemmas named after a behaviour that the code should not have state it as it is: \<open>Epk_AppUpdate.cleanup_timeout_splits\<close> and
  \<open>cut_before_floor\<close>, \<open>Epk_Wifi.lone_backslash\<close>, \<open>Epk_Bluetooth.two_pairings_race\<close> and \<open>display_reply_unchecked\<close>,
  \<open>Epk_Settings.superscript_port\<close>.

  \<^bold>\<open>Bounds and fuel.\<close>  The JSON reader has fuel of twice the text's length, which the round trip shows to be enough; a
  repetition of a regular expression is bounded by the length of its text, as an empty step ends it; a quoted YAML scalar takes
  one unit of fuel for each character; the boot loop ends within 7 runs, as two slots have three attempts each (C5); the supervisor is decided
  within 802 ticks of two seconds: its deadline of 1200 seconds and what its reboot may take (C25).  Integers of the environment are natural numbers
  with the tests of the C code against \<open>2 ^ 64 - 1\<close>; the active flag is an 8-bit word and the CRC a 32-bit word, both
  of which wrap.

  \<^bold>\<open>Limits.\<close>  Texts are lists of 8-bit characters: bytes, ASCII, or Latin-1 in the settings parsers; decoding errors of other bytes are
  left out.  Log lines, times in records, file modes and the creation of directories have no part in the model.
  A file replaced through a temporary file is replaced whole or not at all.

  \<^bold>\<open>Not modelled.\<close>  The socket server itself with the interleaving of concurrent requests inside an action, and the command lines around
  the modelled functions (I/O); Improv
  provisioning (a GATT service); the reading of boot files by \<open>epilykos-wifi-import\<close>, the TOML preseed; the thread that connects to
  D-Bus; the build-time checks that only call external tools, bundle and policy building and the test fixtures (calls of
  external tools); the registry of contracts (a lint); the lab driver; the shell scripts of the boot and the image build; the
  MMC glue of the environment in U-Boot.
\<close>

end
